(* ===== verification/Prelude.thy ===== *)
theory Prelude
  imports Complex_Main
begin

section \<open>Shared types, error values and generic lemmas\<close>

text \<open>
  What every component of the model uses: Go's error values, the result type of a fallible
  function, fixed-width integers (kept as \<open>int\<close>, with the wrap-around written out where the
  code computes), and the generic lemmas on lists that the tables of the services share.
\<close>

named_theorems wire \<open>equations that evaluate the encoding and decoding of wire values\<close>
named_theorems inv_intros \<open>an operation keeps a component's invariant\<close>

subsection \<open>Errors\<close>

text \<open>
  \<open>ErrText\<close> is an error the repository's own code makes (\<open>errors.New\<close>, \<open>fmt.Errorf\<close>) or a
  sentinel value, told apart by its text; \<open>ErrExt\<close> is an error of a library or of a remote
  service, with the text it reports; \<open>ErrWrap\<close> is \<open>fmt.Errorf\<close> with a text and a wrapped error.
  The other three come from \<open>encoding/json\<close>: a body that is not JSON, a member whose value does
  not fit the Go field, and a member that is not the text of a time; their texts depend on the
  library's version and are a parameter where the code shows them.
\<close>

datatype go_error =
    ErrText string
  | ErrExt string
  | ErrSyntax
  | ErrType string
  | ErrTime string
  | ErrWrap string go_error

type_synonym 'a res = "go_error + 'a"

text \<open>\<open>err.Error()\<close>; the texts \<open>encoding/json\<close> builds are the parameter \<open>lib\<close>.\<close>

fun error_text :: "(go_error \<Rightarrow> string) \<Rightarrow> go_error \<Rightarrow> string" where
  "error_text lib (ErrText s) = s"
| "error_text lib (ErrExt s) = s"
| "error_text lib (ErrWrap s e) = s @ error_text lib e"
| "error_text lib e = lib e"

abbreviation err_no_rows :: go_error where
  "err_no_rows \<equiv> ErrText ''sql: no rows in result set''"

fun is_ok :: "'a res \<Rightarrow> bool" where
  "is_ok (Inl _) = False"
| "is_ok (Inr _) = True"

lemma is_ok_iff: "is_ok r \<longleftrightarrow> (\<exists>x. r = Inr x)"
  by (cases r) auto

text \<open>\<open>for rows.Next() { if err := rows.Scan(...); err != nil { return nil, err } ... }\<close>\<close>

fun scan_all :: "('a \<Rightarrow> 'b res) \<Rightarrow> 'a list \<Rightarrow> 'b list res" where
  "scan_all f [] = Inr []"
| "scan_all f (x # xs) =
     (case f x of
        Inl e \<Rightarrow> Inl e
      | Inr y \<Rightarrow> (case scan_all f xs of Inl e \<Rightarrow> Inl e | Inr ys \<Rightarrow> Inr (y # ys)))"

lemma scan_all_total: "(\<And>x. x \<in> set xs \<Longrightarrow> f x = Inr (g x)) \<Longrightarrow> scan_all f xs = Inr (map g xs)"
  by (induction xs) auto

lemma scan_all_ok_iff: "is_ok (scan_all f xs) \<longleftrightarrow> (\<forall>x \<in> set xs. is_ok (f x))"
  by (induction xs) (auto split: sum.splits)

lemma scan_all_Inr: "scan_all f xs = Inr ys \<Longrightarrow> list_all2 (\<lambda>x y. f x = Inr y) xs ys"
  by (induction xs arbitrary: ys) (auto split: sum.splits)

lemma scan_all_Inl: "scan_all f xs = Inl e \<Longrightarrow> \<exists>x \<in> set xs. f x = Inl e"
  by (induction xs) (auto split: sum.splits)

subsection \<open>Fixed-width integers\<close>

definition in_int64 :: "int \<Rightarrow> bool" where
  "in_int64 i \<longleftrightarrow> - (2 ^ 63) \<le> i \<and> i < 2 ^ 63"

definition in_int32 :: "int \<Rightarrow> bool" where
  "in_int32 i \<longleftrightarrow> - (2 ^ 31) \<le> i \<and> i < 2 ^ 31"

text \<open>The result of an \<open>int64\<close> operation: Go's integers wrap around.\<close>

definition wrap64 :: "int \<Rightarrow> int" where
  "wrap64 i = (i + 2 ^ 63) mod 2 ^ 64 - 2 ^ 63"

lemma wrap64_range: "in_int64 (wrap64 i)"
proof -
  have "0 \<le> (i + 2 ^ 63) mod 2 ^ 64" and "(i + 2 ^ 63) mod 2 ^ 64 < (2 ^ 64 :: int)"
    by simp_all
  then show ?thesis by (simp add: in_int64_def wrap64_def)
qed

lemma wrap64_id [simp]: "in_int64 i \<Longrightarrow> wrap64 i = i"
  by (simp add: in_int64_def wrap64_def)

lemma in_int32_int64: "in_int32 i \<Longrightarrow> in_int64 i"
  by (simp add: in_int32_def in_int64_def)

text \<open>The difference of two values of the width overflows exactly when it leaves the range.\<close>

lemma wrap64_diff_big:
  assumes "in_int64 a" and "in_int64 b" and "2 ^ 63 \<le> a - b"
  shows "wrap64 (a - b) = a - b - 2 ^ 64"
proof -
  have lo: "2 ^ 64 \<le> a - b + 2 ^ 63" and hi: "a - b + 2 ^ 63 < 2 * 2 ^ 64"
    using assms by (simp_all add: in_int64_def)
  then have "(a - b + 2 ^ 63 - 2 ^ 64) mod 2 ^ 64 = a - b + 2 ^ 63 - 2 ^ 64"
    by (intro mod_pos_pos_trivial) simp_all
  then have "(a - b + 2 ^ 63) mod 2 ^ 64 = a - b + 2 ^ 63 - 2 ^ 64"
    by (simp only: minus_mod_self2)
  then show ?thesis by (simp add: wrap64_def)
qed

lemma wrap64_diff_pos:
  assumes "in_int64 a" and "in_int64 b" and "b < a"
  shows "0 < wrap64 (a - b) \<longleftrightarrow> a - b < 2 ^ 63"
proof (cases "a - b < 2 ^ 63")
  case True
  with assms have "in_int64 (a - b)" by (simp add: in_int64_def)
  with True assms(3) show ?thesis by simp
next
  case False
  with assms wrap64_diff_big [OF assms(1,2)] show ?thesis by (simp add: in_int64_def)
qed

subsection \<open>Descending order with a limit\<close>

text \<open>
  \<open>ORDER BY k DESC LIMIT n\<close>. SQL leaves the order of equal keys open; the model keeps the
  physical order of the rows, and since every statement below holds for any physical order of
  the table, none depends on that choice.
\<close>

definition order_desc_limit :: "('r \<Rightarrow> int) \<Rightarrow> nat \<Rightarrow> 'r list \<Rightarrow> 'r list" where
  "order_desc_limit k n rs = take n (sort_key (\<lambda>r. - k r) rs)"

lemma set_order_desc_limit: "set (order_desc_limit k n rs) \<subseteq> set rs"
  by (auto simp: order_desc_limit_def dest: in_set_takeD)

lemma length_order_desc_limit: "length (order_desc_limit k n rs) = min n (length rs)"
  by (simp add: order_desc_limit_def min.commute)

lemma sorted_order_desc_limit: "sorted_wrt (\<lambda>a b. k b \<le> k a) (order_desc_limit k n rs)"
proof -
  have "sorted (map (\<lambda>r. - k r) (sort_key (\<lambda>r. - k r) rs))" by (rule sorted_sort_key)
  then have "sorted_wrt (\<lambda>a b. k b \<le> k a) (sort_key (\<lambda>r. - k r) rs)"
    by (simp add: sorted_wrt_map)
  then show ?thesis by (simp add: order_desc_limit_def sorted_wrt_take)
qed

lemma order_desc_limit_all: "length rs \<le> n \<Longrightarrow> set (order_desc_limit k n rs) = set rs"
  by (simp add: order_desc_limit_def)

text \<open>A row that the limit cut off is no newer than any row that was returned.\<close>

lemma order_desc_limit_newest:
  assumes "r \<in> set rs" and "r \<notin> set (order_desc_limit k n rs)"
    and "s \<in> set (order_desc_limit k n rs)"
  shows "k r \<le> k s"
proof -
  let ?ys = "sort_key (\<lambda>r. - k r) rs"
  have "r \<in> set ?ys" using assms(1) by simp
  then have r: "r \<in> set (drop n ?ys)"
    using assms(2) by (metis Un_iff append_take_drop_id order_desc_limit_def set_append)
  have "sorted_wrt (\<lambda>a b. - k a \<le> - k b) (take n ?ys @ drop n ?ys)"
    using sorted_sort_key [of "\<lambda>r. - k r" rs] by (simp add: sorted_wrt_map)
  then have "\<forall>a \<in> set (take n ?ys). \<forall>b \<in> set (drop n ?ys). - k a \<le> - k b"
    unfolding sorted_wrt_append by blast
  with r assms(3) show ?thesis by (force simp: order_desc_limit_def)
qed

end
