(* ===== verification/GoStrings.thy ===== *)
theory GoStrings
  imports Prelude
begin

section \<open>The string functions the code uses\<close>

text \<open>
  A Go string is a sequence of bytes, here a \<open>string\<close> (a \<open>char\<close> is a byte). This theory holds
  the functions of \<open>strings\<close> and \<open>strconv\<close> that the services call: \<open>TrimSpace\<close> (with all of
  Unicode's white space in UTF-8), \<open>TrimRight\<close>, \<open>HasPrefix\<close>, \<open>SplitN\<close>, \<open>Split\<close>, \<open>EqualFold\<close>
  on ASCII patterns, \<open>ToLower\<close> and \<open>ToUpper\<close> (the case tables of non-ASCII letters are a
  parameter), \<open>FormatInt\<close> and \<open>ParseInt\<close>.
\<close>

subsection \<open>White space\<close>

text \<open>The UTF-8 encodings of the runes for which \<open>unicode.IsSpace\<close> holds.\<close>

definition space_runes :: "string list" where
  "space_runes =
    [[CHR 0x09], [CHR 0x0A], [CHR 0x0B], [CHR 0x0C], [CHR 0x0D], [CHR 0x20],
     [CHR 0xC2, CHR 0x85], [CHR 0xC2, CHR 0xA0], [CHR 0xE1, CHR 0x9A, CHR 0x80],
     [CHR 0xE2, CHR 0x80, CHR 0x80], [CHR 0xE2, CHR 0x80, CHR 0x81],
     [CHR 0xE2, CHR 0x80, CHR 0x82], [CHR 0xE2, CHR 0x80, CHR 0x83],
     [CHR 0xE2, CHR 0x80, CHR 0x84], [CHR 0xE2, CHR 0x80, CHR 0x85],
     [CHR 0xE2, CHR 0x80, CHR 0x86], [CHR 0xE2, CHR 0x80, CHR 0x87],
     [CHR 0xE2, CHR 0x80, CHR 0x88], [CHR 0xE2, CHR 0x80, CHR 0x89],
     [CHR 0xE2, CHR 0x80, CHR 0x8A], [CHR 0xE2, CHR 0x80, CHR 0xA8],
     [CHR 0xE2, CHR 0x80, CHR 0xA9], [CHR 0xE2, CHR 0x80, CHR 0xAF],
     [CHR 0xE2, CHR 0x81, CHR 0x9F], [CHR 0xE3, CHR 0x80, CHR 0x80]]"

fun has_prefix :: "string \<Rightarrow> string \<Rightarrow> bool" where
  "has_prefix s [] = True"
| "has_prefix [] (p # ps) = False"
| "has_prefix (c # s) (p # ps) = (c = p \<and> has_prefix s ps)"

lemma has_prefix_iff: "has_prefix s p \<longleftrightarrow> (\<exists>t. s = p @ t)"
  by (induction s p rule: has_prefix.induct) auto

text \<open>
  Remove leading occurrences of the given non-empty byte strings, as often as one matches; the
  fuel is the length of the string, and each round removes at least one byte.
\<close>

fun strip_fuel :: "nat \<Rightarrow> string list \<Rightarrow> string \<Rightarrow> string" where
  "strip_fuel 0 ws s = s"
| "strip_fuel (Suc n) ws s =
     (case find (\<lambda>w. has_prefix s w) ws of
        None \<Rightarrow> s
      | Some w \<Rightarrow> strip_fuel n ws (drop (length w) s))"

definition trim_left_space :: "string \<Rightarrow> string" where
  "trim_left_space s = strip_fuel (length s) space_runes s"

definition trim_right_space :: "string \<Rightarrow> string" where
  "trim_right_space s = rev (strip_fuel (length s) (map rev space_runes) (rev s))"

definition trim_space :: "string \<Rightarrow> string" where
  "trim_space s = trim_right_space (trim_left_space s)"

lemma trim_space_Nil [simp]: "trim_space [] = []"
  by (simp add: trim_space_def trim_left_space_def trim_right_space_def)

lemma length_strip_fuel: "length (strip_fuel n ws s) \<le> length s"
proof (induction n arbitrary: s)
  case (Suc n)
  show ?case
  proof (cases "find (\<lambda>w. has_prefix s w) ws")
    case (Some w)
    have "length (strip_fuel n ws (drop (length w) s)) \<le> length (drop (length w) s)"
      by (rule Suc.IH)
    with Some show ?thesis by simp
  qed simp
qed simp

lemma length_trim_space: "length (trim_space s) \<le> length s"
proof -
  have "length (trim_right_space t) \<le> length t" for t
    using length_strip_fuel [of "length t" "map rev space_runes" "rev t"]
    by (simp add: trim_right_space_def)
  then show ?thesis
    using length_strip_fuel [of "length s" space_runes s]
    by (metis le_trans trim_left_space_def trim_space_def)
qed

text \<open>The fuel is enough: no listed string is a prefix of what is left.\<close>

lemma strip_fuel_done:
  assumes "\<And>w. w \<in> set ws \<Longrightarrow> w \<noteq> []" and "length s \<le> n" and "w \<in> set ws"
  shows "\<not> has_prefix (strip_fuel n ws s) w"
  using assms(2)
proof (induction n arbitrary: s)
  case 0
  with assms(1) [OF assms(3)] show ?case by (cases w) auto
next
  case (Suc n)
  show ?case
  proof (cases "find (\<lambda>w. has_prefix s w) ws")
    case None
    with assms(3) have "\<not> has_prefix s w" by (auto simp: find_None_iff)
    with None show ?thesis by simp
  next
    case (Some v)
    then have v: "v \<in> set ws" "has_prefix s v" by (auto simp: find_Some_iff)
    with assms(1) have "v \<noteq> []" by blast
    moreover have "length v \<le> length s" using v(2) by (auto simp: has_prefix_iff)
    ultimately have "length (drop (length v) s) \<le> n" using Suc.prems by (cases v) auto
    then show ?thesis using Some Suc.IH by simp
  qed
qed

lemma strip_fuel_id: "(\<And>w. w \<in> set ws \<Longrightarrow> \<not> has_prefix s w) \<Longrightarrow> strip_fuel n ws s = s"
  by (cases n) (auto split: option.splits simp: find_Some_iff dest: nth_mem)

subsection \<open>Case\<close>

definition is_ascii :: "string \<Rightarrow> bool" where
  "is_ascii s \<longleftrightarrow> list_all (\<lambda>c. of_char c < (128 :: nat)) s"

definition lower_char :: "char \<Rightarrow> char" where
  "lower_char c = (let n = of_char c :: nat in if 65 \<le> n \<and> n \<le> 90 then char_of (n + 32) else c)"

definition upper_char :: "char \<Rightarrow> char" where
  "upper_char c = (let n = of_char c :: nat in if 97 \<le> n \<and> n \<le> 122 then char_of (n - 32) else c)"

text \<open>
  \<open>strings.ToLower\<close> and \<open>strings.ToUpper\<close>: exact on ASCII strings; on a string with another
  byte they consult Unicode's case tables, the parameter \<open>uni\<close>.
\<close>

definition to_lower :: "(string \<Rightarrow> string) \<Rightarrow> string \<Rightarrow> string" where
  "to_lower uni s = (if is_ascii s then map lower_char s else uni s)"

definition to_upper :: "(string \<Rightarrow> string) \<Rightarrow> string \<Rightarrow> string" where
  "to_upper uni s = (if is_ascii s then map upper_char s else uni s)"

lemma lower_char_code: "of_char (lower_char c) =
    (let n = of_char c :: nat in if 65 \<le> n \<and> n \<le> 90 then n + 32 else n)"
  by (auto simp: lower_char_def Let_def)

lemma lower_char_idem [simp]: "lower_char (lower_char c) = lower_char c"
  by (auto simp: lower_char_def Let_def)

lemma is_ascii_lower: "is_ascii s \<Longrightarrow> is_ascii (map lower_char s)"
  by (auto simp: is_ascii_def list_all_iff lower_char_def Let_def)

lemma to_lower_idem_ascii: "is_ascii s \<Longrightarrow> to_lower uni (to_lower uni s) = to_lower uni s"
  by (simp add: to_lower_def is_ascii_lower)

text \<open>
  \<open>strings.EqualFold s p\<close> for a lower-case ASCII pattern \<open>p\<close>: the two runes outside ASCII that
  fold to an ASCII letter are the long s (U+017F) and the Kelvin sign (U+212A).
\<close>

fun fold_ascii :: "string \<Rightarrow> string" where
  "fold_ascii [] = []"
| "fold_ascii (c # d # e # s) =
     (if c = CHR 0xC5 \<and> d = CHR 0xBF then CHR ''s'' # fold_ascii (e # s)
      else if c = CHR 0xE2 \<and> d = CHR 0x84 \<and> e = CHR 0xAA then CHR ''k'' # fold_ascii s
      else lower_char c # fold_ascii (d # e # s))"
| "fold_ascii (c # d # s) =
     (if c = CHR 0xC5 \<and> d = CHR 0xBF then CHR ''s'' # fold_ascii s
      else lower_char c # fold_ascii (d # s))"
| "fold_ascii (c # s) = lower_char c # fold_ascii s"

definition equal_fold :: "string \<Rightarrow> string \<Rightarrow> bool" where
  "equal_fold s p \<longleftrightarrow> fold_ascii s = fold_ascii p"

lemma fold_ascii_plain:
  "(\<And>c. c \<in> set s \<Longrightarrow> c \<noteq> CHR 0xC5 \<and> c \<noteq> CHR 0xE2) \<Longrightarrow> fold_ascii s = map lower_char s"
proof (induction s rule: fold_ascii.induct)
  case (2 c d e s)
  from "2.prems" [of c] have "c \<noteq> CHR 0xC5" and "c \<noteq> CHR 0xE2" by auto
  with "2.IH"(3) "2.prems" show ?case by simp
next
  case (3 c d)
  from "3.prems" [of c] have "c \<noteq> CHR 0xC5" by auto
  with "3.IH"(2) "3.prems" show ?case by simp
qed simp_all

lemma fold_ascii_map:
  assumes "is_ascii s" shows "fold_ascii s = map lower_char s"
proof (rule fold_ascii_plain)
  fix c assume "c \<in> set s"
  with assms have "of_char c < (128 :: nat)" unfolding is_ascii_def list_all_iff by blast
  moreover have "\<not> of_char (CHR 0xC5) < (128 :: nat)" "\<not> of_char (CHR 0xE2) < (128 :: nat)"
    by simp_all
  ultimately show "c \<noteq> CHR 0xC5 \<and> c \<noteq> CHR 0xE2" by metis
qed

subsection \<open>Splitting and trimming\<close>

text \<open>\<open>strings.SplitN(s, sep, 2)\<close> for a one-byte separator.\<close>

fun split2 :: "char \<Rightarrow> string \<Rightarrow> string list" where
  "split2 sep [] = [[]]"
| "split2 sep (c # s) =
     (if c = sep then [[], s]
      else (case split2 sep s of [] \<Rightarrow> [[c]] | p # ps \<Rightarrow> (c # p) # ps))"

text \<open>\<open>strings.Split(s, sep)\<close> for a one-byte separator.\<close>

fun split_all :: "char \<Rightarrow> string \<Rightarrow> string list" where
  "split_all sep [] = [[]]"
| "split_all sep (c # s) =
     (if c = sep then [] # split_all sep s
      else (case split_all sep s of [] \<Rightarrow> [[c]] | p # ps \<Rightarrow> (c # p) # ps))"

lemma split2_no_sep: "sep \<notin> set s \<Longrightarrow> split2 sep s = [s]"
  by (induction s) auto

lemma split2_app: "sep \<notin> set a \<Longrightarrow> split2 sep (a @ sep # b) = [a, b]"
  by (induction a) auto

lemma split2_cases:
  "(sep \<notin> set s \<and> split2 sep s = [s]) \<or>
   (\<exists>a b. s = a @ sep # b \<and> sep \<notin> set a \<and> split2 sep s = [a, b])"
proof (cases "sep \<in> set s")
  case True
  then obtain a b where "s = a @ sep # b" "sep \<notin> set a" by (meson split_list_first)
  then show ?thesis using split2_app by blast
qed (simp add: split2_no_sep)

text \<open>\<open>strings.TrimRight(s, c)\<close> and \<open>strings.Trim(s, c)\<close> for a one-byte cut set.\<close>

definition trim_right_char :: "char \<Rightarrow> string \<Rightarrow> string" where
  "trim_right_char c s = rev (dropWhile (\<lambda>d. d = c) (rev s))"

definition trim_char :: "char \<Rightarrow> string \<Rightarrow> string" where
  "trim_char c s = trim_right_char c (dropWhile (\<lambda>d. d = c) s)"

lemma trim_right_char_last:
  assumes "trim_right_char c s \<noteq> []" shows "last (trim_right_char c s) \<noteq> c"
proof -
  have "dropWhile (\<lambda>d. d = c) (rev s) \<noteq> []" using assms by (simp add: trim_right_char_def)
  then have "\<not> (\<lambda>d. d = c) (hd (dropWhile (\<lambda>d. d = c) (rev s)))" by (rule hd_dropWhile)
  then show ?thesis by (simp add: trim_right_char_def last_rev)
qed

lemma trim_right_char_idem [simp]: "trim_right_char c (trim_right_char c s) = trim_right_char c s"
  unfolding trim_right_char_def rev_rev_ident by (rule arg_cong [OF dropWhile_idem])

subsection \<open>Decimal integers\<close>

definition digit_char :: "nat \<Rightarrow> char" where
  "digit_char d = char_of (48 + d)"

definition digit_val :: "char \<Rightarrow> nat option" where
  "digit_val c =
     (let n = of_char c :: nat in if 48 \<le> n \<and> n \<le> 57 then Some (n - 48) else None)"

lemma digit_val_digit_char [simp]: "d < 10 \<Longrightarrow> digit_val (digit_char d) = Some d"
  by (simp add: digit_val_def digit_char_def)

fun format_nat :: "nat \<Rightarrow> string" where
  "format_nat n = (if n < 10 then [digit_char n] else format_nat (n div 10) @ [digit_char (n mod 10)])"

declare format_nat.simps [simp del]

definition format_int :: "int \<Rightarrow> string" where
  "format_int i = (if i < 0 then CHR ''-'' # format_nat (nat (- i)) else format_nat (nat i))"

fun parse_digits :: "nat \<Rightarrow> string \<Rightarrow> nat option" where
  "parse_digits acc [] = Some acc"
| "parse_digits acc (c # s) =
     (case digit_val c of None \<Rightarrow> None | Some d \<Rightarrow> parse_digits (10 * acc + d) s)"

definition parse_nat :: "string \<Rightarrow> nat option" where
  "parse_nat s = (if s = [] then None else parse_digits 0 s)"

text \<open>\<open>strconv.ParseInt(s, 10, 64)\<close>: an optional sign, digits, and the range of the width.\<close>

definition parse_int :: "string \<Rightarrow> int option" where
  "parse_int s =
     (let (neg, t) = (case s of
            [] \<Rightarrow> (False, [])
          | c # r \<Rightarrow> if c = CHR ''-'' then (True, r) else if c = CHR ''+'' then (False, r) else (False, s))
      in (case parse_nat t of
            None \<Rightarrow> None
          | Some n \<Rightarrow> (let i = (if neg then - int n else int n) in if in_int64 i then Some i else None)))"

lemma parse_digits_append:
  "parse_digits a (s @ t) = (case parse_digits a s of None \<Rightarrow> None | Some b \<Rightarrow> parse_digits b t)"
  by (induction s arbitrary: a) (auto split: option.splits)

lemma format_nat_not_Nil [simp]: "format_nat n \<noteq> []"
  by (subst format_nat.simps) simp

lemma parse_digits_format_nat: "parse_digits 0 (format_nat n) = Some n"
proof (induction n rule: format_nat.induct)
  case (1 n)
  show ?case
  proof (cases "n < 10")
    case True
    then show ?thesis by (subst format_nat.simps) simp
  next
    case False
    with "1.IH" show ?thesis by (subst format_nat.simps) (simp add: parse_digits_append)
  qed
qed

lemma parse_nat_format_nat [simp]: "parse_nat (format_nat n) = Some n"
  by (simp add: parse_nat_def parse_digits_format_nat)

lemma format_nat_digits: "c \<in> set (format_nat n) \<Longrightarrow> digit_val c \<noteq> None"
proof (induction n rule: format_nat.induct)
  case (1 n)
  show ?case
  proof (cases "n < 10")
    case True
    with "1.prems" show ?thesis by (subst (asm) format_nat.simps) simp
  next
    case False
    with "1.prems" have "c \<in> set (format_nat (n div 10)) \<or> c = digit_char (n mod 10)"
      by (subst (asm) format_nat.simps) auto
    with "1.IH" [OF False] show ?thesis by auto
  qed
qed

lemma digit_not_sign: "digit_val c \<noteq> None \<Longrightarrow> c \<noteq> CHR ''-'' \<and> c \<noteq> CHR ''+'' \<and> c \<noteq> CHR ''/''"
  by (auto simp: digit_val_def)

text \<open>A number that is formatted and parsed again is unchanged.\<close>

lemma parse_int_format_int:
  assumes "in_int64 i" shows "parse_int (format_int i) = Some i"
proof (cases "i < 0")
  case True
  with assms show ?thesis by (simp add: format_int_def parse_int_def)
next
  case False
  obtain c r where cr: "format_nat (nat i) = c # r"
    by (cases "format_nat (nat i)") auto
  then have "digit_val c \<noteq> None" by (intro format_nat_digits [of c "nat i"]) simp
  then have "c \<noteq> CHR ''-''" "c \<noteq> CHR ''+''" using digit_not_sign by blast+
  moreover have "parse_nat (c # r) = Some (nat i)"
    by (metis cr parse_nat_format_nat)
  ultimately show ?thesis
    using False assms cr by (simp add: format_int_def parse_int_def)
qed

lemma parse_int_range: "parse_int s = Some i \<Longrightarrow> in_int64 i"
  by (auto simp: parse_int_def Let_def split: option.splits if_splits prod.splits)

lemma parse_int_Nil [simp]: "parse_int [] = None"
  by (simp add: parse_int_def parse_nat_def)

lemma format_int_not_Nil [simp]: "format_int i \<noteq> []"
  by (simp add: format_int_def)

end
