(* ===== verification/GoFloat.thy ===== *)
theory GoFloat
  imports Prelude
begin

section \<open>Go's float64\<close>

text \<open>
  Energies, prices and amounts are \<open>float64\<close> in every service. A finite value is kept as the
  rational number it denotes; an operation computes the exact rational result and rounds it to
  the nearest double, ties to even, with gradual underflow and overflow to infinity, as IEEE 754
  and the Go specification require. The sign of zero is not kept: no comparison the code makes
  can tell the two zeros apart.
\<close>

datatype f64 = Fin rat | PInf | NInf | NaN

subsection \<open>Binary exponent\<close>

text \<open>On \<open>int\<close>, so that it computes on binary numerals.\<close>

function log2_floor :: "int \<Rightarrow> int" where
  "log2_floor n = (if n < 2 then 0 else 1 + log2_floor (n div 2))"
  by pat_completeness auto
termination
  by (relation "measure nat") auto

declare log2_floor.simps [simp del]

lemma log2_floor_nonneg: "0 \<le> log2_floor n"
  by (induction n rule: log2_floor.induct) (simp add: log2_floor.simps)

lemma log2_floor_bounds:
  "0 < n \<Longrightarrow> 2 ^ nat (log2_floor n) \<le> n \<and> n < 2 ^ Suc (nat (log2_floor n))"
proof (induction n rule: log2_floor.induct)
  case (1 n)
  show ?case
  proof (cases "n < 2")
    case True
    with "1.prems" show ?thesis by (simp add: log2_floor.simps [of n])
  next
    case False
    define k :: int where "k = 2 ^ nat (log2_floor (n div 2))"
    from False "1.IH" have "k \<le> n div 2 \<and> n div 2 < 2 * k" by (simp add: k_def)
    then have "2 * k \<le> n \<and> n < 4 * k" by arith
    with False log2_floor_nonneg [of "n div 2"] show ?thesis
      by (simp add: log2_floor.simps [of n] k_def nat_add_distrib)
  qed
qed

text \<open>The exponent \<open>e\<close> with \<open>2 ^ e \<le> q < 2 ^ (e + 1)\<close>, for a positive \<open>q\<close>.\<close>

definition ilog2 :: "rat \<Rightarrow> int" where
  "ilog2 q =
     (let (n, d) = quotient_of q; e = log2_floor n - log2_floor d
      in if q < 2 powi e then e - 1 else e)"

lemma powi2_pos [simp]: "0 < (2 :: rat) powi e"
  by (rule zero_less_power_int) simp

lemma powi2_le_iff: "(2 :: rat) powi a \<le> 2 powi b \<longleftrightarrow> a \<le> b"
  using power_int_increasing [of a b "2 :: rat"] power_int_strict_increasing [of b a "2 :: rat"]
  by fastforce

lemma powi2_less_iff: "(2 :: rat) powi a < 2 powi b \<longleftrightarrow> a < b"
  using powi2_le_iff [of b a] by linarith

lemma powi2_succ: "(2 :: rat) powi (e + 1) = 2 * 2 powi e"
  by (simp add: power_int_add_1 mult.commute)

lemma powi2_add: "(2 :: rat) powi (a + b) = 2 powi a * 2 powi b"
  by (simp add: power_int_add)

lemma powi2_int: "0 \<le> e \<Longrightarrow> (2 :: rat) powi e = of_int (2 ^ nat e)"
  by (simp add: power_int_nonneg_exp)

lemma ilog2_bounds:
  assumes "0 < q" shows "2 powi ilog2 q \<le> q" and "q < 2 powi (ilog2 q + 1)"
proof -
  obtain n d where nd: "quotient_of q = (n, d)" by (cases "quotient_of q")
  then have d: "0 < d" and q: "q = of_int n / of_int d"
    by (auto dest: quotient_of_denom_pos quotient_of_div)
  with assms have n: "0 < n" by (simp add: zero_less_divide_iff)
  define a b where "a = log2_floor n" and "b = log2_floor d"
  have "(of_int (2 ^ nat (log2_floor n)) :: rat) \<le> of_int n \<and>
      (of_int n :: rat) < of_int (2 ^ Suc (nat (log2_floor n)))"
    using log2_floor_bounds [OF n] by (simp only: of_int_le_iff of_int_less_iff)
  then have na: "2 powi a \<le> (of_int n :: rat)" "(of_int n :: rat) < 2 powi (a + 1)"
    by (simp_all add: a_def powi2_succ power_int_nonneg_exp log2_floor_nonneg)
  have "(of_int (2 ^ nat (log2_floor d)) :: rat) \<le> of_int d \<and>
      (of_int d :: rat) < of_int (2 ^ Suc (nat (log2_floor d)))"
    using log2_floor_bounds [OF d] by (simp only: of_int_le_iff of_int_less_iff)
  then have db: "2 powi b \<le> (of_int d :: rat)" "(of_int d :: rat) < 2 powi (b + 1)"
    by (simp_all add: b_def powi2_succ power_int_nonneg_exp log2_floor_nonneg)
  have "2 powi (a - b - 1) * (of_int d :: rat) \<le> 2 powi (a - b - 1) * 2 powi (b + 1)"
    using db(2) by (intro mult_left_mono) simp_all
  also have "\<dots> = 2 powi a" using powi2_add [of "a - b - 1" "b + 1"] by simp
  finally have lo: "2 powi (a - b - 1) \<le> q"
    using na(1) d by (simp add: q le_divide_eq)
  have "(2 :: rat) powi (a + 1) = 2 powi (a - b + 1) * 2 powi b"
    using powi2_add [of "a - b + 1" b] by (simp add: algebra_simps)
  also have "\<dots> \<le> 2 powi (a - b + 1) * of_int d"
    using db(1) by (intro mult_left_mono) simp_all
  finally have hi: "q < 2 powi (a - b + 1)"
    using na(2) d by (simp add: q divide_less_eq)
  have "ilog2 q = (if q < 2 powi (a - b) then a - b - 1 else a - b)"
    by (simp add: ilog2_def nd a_def b_def)
  with lo hi show "2 powi ilog2 q \<le> q" and "q < 2 powi (ilog2 q + 1)" by auto
qed

lemma ilog2_mono: "0 < p \<Longrightarrow> p \<le> q \<Longrightarrow> ilog2 p \<le> ilog2 q"
proof -
  assume "0 < p" "p \<le> q"
  then have "(2 :: rat) powi ilog2 p < 2 powi (ilog2 q + 1)"
    using ilog2_bounds(1) [of p] ilog2_bounds(2) [of q] by linarith
  then show ?thesis by (simp add: powi2_less_iff)
qed

lemma ilog2_less: "0 < q \<Longrightarrow> q < 2 powi e \<Longrightarrow> ilog2 q < e"
  using ilog2_bounds(1) [of q] powi2_less_iff [of "ilog2 q" e] by linarith

lemma ilog2_ge: "0 < q \<Longrightarrow> 2 powi e \<le> q \<Longrightarrow> e \<le> ilog2 q"
  using ilog2_bounds(2) [of q] powi2_less_iff [of e "ilog2 q + 1"] by linarith

subsection \<open>Rounding to an integer, ties to even\<close>

definition round_even :: "rat \<Rightarrow> int" where
  "round_even q =
     (let f = \<lfloor>q\<rfloor>; r = q - of_int f
      in if r < 1 / 2 then f else if 1 / 2 < r then f + 1 else if even f then f else f + 1)"

lemma round_even_of_int [simp]: "round_even (of_int i) = i"
  by (simp add: round_even_def)

lemma round_even_error: "\<bar>of_int (round_even q) - q\<bar> \<le> 1 / 2"
proof -
  have "of_int \<lfloor>q\<rfloor> \<le> q" "q < of_int \<lfloor>q\<rfloor> + 1" by linarith+
  then show ?thesis by (auto simp: round_even_def Let_def abs_le_iff)
qed

lemma round_even_mono:
  assumes "p \<le> q" shows "round_even p \<le> round_even q"
proof (cases "\<lfloor>p\<rfloor> = \<lfloor>q\<rfloor>")
  case True
  with assms show ?thesis by (auto simp: round_even_def Let_def)
next
  case False
  with assms have "\<lfloor>p\<rfloor> + 1 \<le> \<lfloor>q\<rfloor>" using floor_mono [OF assms] by linarith
  moreover have "round_even p \<le> \<lfloor>p\<rfloor> + 1" "\<lfloor>q\<rfloor> \<le> round_even q"
    by (simp_all add: round_even_def Let_def)
  ultimately show ?thesis by linarith
qed

subsection \<open>Rounding to a double\<close>

definition ulp_exp :: "rat \<Rightarrow> int" where
  "ulp_exp q = max (ilog2 q - 52) (- 1074)"

definition round_pos :: "rat \<Rightarrow> rat" where
  "round_pos q = of_int (round_even (q / 2 powi ulp_exp q)) * 2 powi ulp_exp q"

definition round_f64 :: "rat \<Rightarrow> f64" where
  "round_f64 q =
     (if q = 0 then Fin 0
      else let v = round_pos \<bar>q\<bar>
           in if 2 ^ 1024 \<le> v then (if q < 0 then NInf else PInf)
              else Fin (if q < 0 then - v else v))"

lemma round_pos_exact:
  assumes "q = of_int i * 2 powi ulp_exp q" shows "round_pos q = q"
proof -
  have "q / 2 powi ulp_exp q = of_int i" using assms by (simp add: divide_eq_eq)
  then show ?thesis using assms by (simp add: round_pos_def)
qed

lemma round_pos_nonneg:
  assumes "0 < q" shows "0 \<le> round_pos q"
proof -
  have "0 \<le> round_even (q / 2 powi ulp_exp q)"
    using round_even_mono [of 0 "q / 2 powi ulp_exp q"] round_even_of_int [of 0] assms by simp
  then show ?thesis by (simp add: round_pos_def)
qed

text \<open>A power of two between the exponents of two numbers separates their roundings.\<close>

lemma round_pos_le_powi:
  assumes "0 < p" and "p \<le> 2 powi e" and "ulp_exp p \<le> e" shows "round_pos p \<le> 2 powi e"
proof -
  have e: "(2 :: rat) powi e = of_int (2 ^ nat (e - ulp_exp p)) * 2 powi ulp_exp p"
    using powi2_int [of "e - ulp_exp p"] powi2_add [of "e - ulp_exp p" "ulp_exp p"] assms(3) by simp
  have "p / 2 powi ulp_exp p \<le> of_int (2 ^ nat (e - ulp_exp p))"
    using assms(2) by (simp add: e divide_le_eq)
  then have "round_even (p / 2 powi ulp_exp p) \<le> 2 ^ nat (e - ulp_exp p)"
    using round_even_mono round_even_of_int by metis
  then have "of_int (round_even (p / 2 powi ulp_exp p)) \<le> (of_int (2 ^ nat (e - ulp_exp p)) :: rat)"
    by (simp only: of_int_le_iff)
  then show ?thesis unfolding round_pos_def e by (intro mult_right_mono) simp_all
qed

lemma round_pos_ge_powi:
  assumes "2 powi e \<le> p" and "ulp_exp p \<le> e" shows "2 powi e \<le> round_pos p"
proof -
  have e: "(2 :: rat) powi e = of_int (2 ^ nat (e - ulp_exp p)) * 2 powi ulp_exp p"
    using powi2_int [of "e - ulp_exp p"] powi2_add [of "e - ulp_exp p" "ulp_exp p"] assms(2) by simp
  have "of_int (2 ^ nat (e - ulp_exp p)) \<le> p / 2 powi ulp_exp p"
    using assms(1) by (simp add: e le_divide_eq)
  then have "2 ^ nat (e - ulp_exp p) \<le> round_even (p / 2 powi ulp_exp p)"
    using round_even_mono round_even_of_int by metis
  then have "(of_int (2 ^ nat (e - ulp_exp p)) :: rat) \<le> of_int (round_even (p / 2 powi ulp_exp p))"
    by (simp only: of_int_le_iff)
  then show ?thesis unfolding round_pos_def e by (intro mult_right_mono) simp_all
qed

lemma round_pos_mono:
  assumes "0 < p" and "p \<le> q" shows "round_pos p \<le> round_pos q"
proof (cases "ulp_exp p = ulp_exp q")
  case True
  have "p / 2 powi ulp_exp q \<le> q / 2 powi ulp_exp q"
    using assms(2) by (intro divide_right_mono) simp_all
  then have "round_even (p / 2 powi ulp_exp q) \<le> round_even (q / 2 powi ulp_exp q)"
    by (rule round_even_mono)
  with True show ?thesis by (simp add: round_pos_def)
next
  case False
  have le: "ilog2 p \<le> ilog2 q" using assms by (rule ilog2_mono)
  with False have lt: "ilog2 p < ilog2 q" and u: "ulp_exp q = ilog2 q - 52" "ulp_exp p \<le> ulp_exp q"
    by (auto simp: ulp_exp_def max_def split: if_splits)
  have "p \<le> 2 powi ilog2 q"
    using ilog2_bounds(2) [OF assms(1)] lt powi2_le_iff [of "ilog2 p + 1" "ilog2 q"] by linarith
  then have "round_pos p \<le> 2 powi ilog2 q" using assms(1) u by (intro round_pos_le_powi) simp_all
  also have "2 powi ilog2 q \<le> round_pos q"
    using ilog2_bounds(1) [of q] assms u by (intro round_pos_ge_powi) simp_all
  finally show ?thesis .
qed

text \<open>Integers of at most 53 bits are doubles.\<close>

lemma round_pos_int:
  assumes "0 < i" and "i < 2 ^ 53" shows "round_pos (of_int i) = of_int i"
proof -
  have "(of_int i :: rat) < of_int (2 ^ 53)" using assms(2) by (simp only: of_int_less_iff)
  then have "(of_int i :: rat) < 2 powi 53" by simp
  then have "ilog2 (of_int i) < 53" using assms(1) by (intro ilog2_less) simp_all
  moreover have "0 \<le> ilog2 (of_int i)" using assms(1) by (intro ilog2_ge) simp_all
  ultimately have k: "ulp_exp (of_int i) \<le> 0" "- 1074 \<le> ulp_exp (of_int i)"
    by (simp_all add: ulp_exp_def)
  let ?k = "ulp_exp (of_int i)"
  have "(2 :: rat) powi (- ?k) = of_int (2 ^ nat (- ?k))" using k by (intro powi2_int) simp
  moreover have "(2 :: rat) powi (- ?k) * 2 powi ?k = 1" using powi2_add [of "- ?k" ?k] by simp
  ultimately have "(of_int i :: rat) = of_int (i * 2 ^ nat (- ?k)) * 2 powi ?k"
    by (simp add: mult.assoc)
  then show ?thesis by (rule round_pos_exact)
qed

text \<open>So is every integer of at most 53 bits scaled by a power of two of the exponent range.\<close>

lemma round_pos_dyadic:
  assumes "0 < m" and "m < 2 ^ 53" and "- 1074 \<le> j" and q: "q = of_int m * 2 powi j"
  shows "round_pos q = q"
proof -
  have "(of_int m :: rat) < of_int (2 ^ 53)" using assms(2) by (simp only: of_int_less_iff)
  then have "(of_int m :: rat) < 2 powi 53" by simp
  then have "q < 2 powi 53 * 2 powi j" unfolding q by (intro mult_strict_right_mono) simp_all
  then have "q < 2 powi (53 + j)" using powi2_add [of 53 j] by simp
  moreover have pos: "0 < q" using assms by simp
  ultimately have "ilog2 q < 53 + j" by (intro ilog2_less)
  with assms(3) have u: "ulp_exp q \<le> j" by (simp add: ulp_exp_def)
  have "(2 :: rat) powi j = of_int (2 ^ nat (j - ulp_exp q)) * 2 powi ulp_exp q"
    using u powi2_int [of "j - ulp_exp q"] powi2_add [of "j - ulp_exp q" "ulp_exp q"] by simp
  then have "q = of_int (m * 2 ^ nat (j - ulp_exp q)) * 2 powi ulp_exp q" by (simp add: q)
  then show ?thesis by (rule round_pos_exact)
qed

text \<open>The relative error of a rounding in the normal range is at most \<open>2 ^ -53\<close>.\<close>

lemma round_pos_error:
  assumes "0 < q" and "2 powi (- 1022) \<le> q" shows "\<bar>round_pos q - q\<bar> \<le> q / 2 ^ 53"
proof -
  have "- 1022 \<le> ilog2 q" using assms by (rule ilog2_ge)
  then have k: "ulp_exp q = ilog2 q - 52" by (simp add: ulp_exp_def)
  let ?u = "2 powi ulp_exp q :: rat"
  have "round_pos q - q = (of_int (round_even (q / ?u)) - q / ?u) * ?u"
    by (simp add: round_pos_def left_diff_distrib)
  then have "\<bar>round_pos q - q\<bar> = \<bar>of_int (round_even (q / ?u)) - q / ?u\<bar> * ?u"
    by (simp add: abs_mult)
  also have "\<dots> \<le> 1 / 2 * ?u" by (intro mult_right_mono round_even_error) simp
  also have "\<dots> = 2 powi ilog2 q / 2 ^ 53"
    by (simp add: k power_int_diff)
  also have "\<dots> \<le> q / 2 ^ 53" using ilog2_bounds(1) [OF assms(1)] by (intro divide_right_mono) simp_all
  finally show ?thesis .
qed

subsection \<open>Values and operations\<close>

fun finite64 :: "f64 \<Rightarrow> bool" where
  "finite64 (Fin _) = True"
| "finite64 _ = False"

text \<open>Comparisons: false when an operand is not a number.\<close>

fun le64 :: "f64 \<Rightarrow> f64 \<Rightarrow> bool" where
  "le64 NaN y = False"
| "le64 x NaN = False"
| "le64 NInf y = True"
| "le64 x PInf = True"
| "le64 (Fin a) (Fin b) = (a \<le> b)"
| "le64 x y = False"

fun lt64 :: "f64 \<Rightarrow> f64 \<Rightarrow> bool" where
  "lt64 NaN y = False"
| "lt64 x NaN = False"
| "lt64 x NInf = False"
| "lt64 NInf y = True"
| "lt64 PInf y = False"
| "lt64 x PInf = True"
| "lt64 (Fin a) (Fin b) = (a < b)"

definition inf_sgn :: "rat \<Rightarrow> f64" where
  "inf_sgn s = (if s = 0 then NaN else if s < 0 then NInf else PInf)"

fun sgn64 :: "f64 \<Rightarrow> rat" where
  "sgn64 (Fin a) = sgn a"
| "sgn64 PInf = 1"
| "sgn64 NInf = - 1"
| "sgn64 NaN = 0"

definition mul64 :: "f64 \<Rightarrow> f64 \<Rightarrow> f64" where
  "mul64 x y =
     (case (x, y) of
        (Fin a, Fin b) \<Rightarrow> round_f64 (a * b)
      | _ \<Rightarrow> if x = NaN \<or> y = NaN then NaN else inf_sgn (sgn64 x * sgn64 y))"

text \<open>Division by a finite non-zero constant, the only division in the code.\<close>

definition div64 :: "f64 \<Rightarrow> rat \<Rightarrow> f64" where
  "div64 x d =
     (case x of
        Fin a \<Rightarrow> round_f64 (a / d)
      | NaN \<Rightarrow> NaN
      | _ \<Rightarrow> inf_sgn (sgn64 x * sgn d))"

definition sub64 :: "f64 \<Rightarrow> f64 \<Rightarrow> f64" where
  "sub64 x y =
     (case (x, y) of
        (Fin a, Fin b) \<Rightarrow> round_f64 (a - b)
      | (NaN, _) \<Rightarrow> NaN
      | (_, NaN) \<Rightarrow> NaN
      | (PInf, PInf) \<Rightarrow> NaN
      | (NInf, NInf) \<Rightarrow> NaN
      | (PInf, _) \<Rightarrow> PInf
      | (NInf, _) \<Rightarrow> NInf
      | (_, PInf) \<Rightarrow> NInf
      | (_, NInf) \<Rightarrow> PInf)"

definition of_int64 :: "int \<Rightarrow> f64" where
  "of_int64 i = round_f64 (of_int i)"

text \<open>
  The conversion \<open>int64(v)\<close> of a float: truncation towards zero; for a value outside the range
  Go leaves the result to the implementation, and amd64 gives the least integer.
\<close>

definition to_int64 :: "f64 \<Rightarrow> int" where
  "to_int64 x =
     (case x of
        Fin a \<Rightarrow> (let t = (if a < 0 then \<lceil>a\<rceil> else \<lfloor>a\<rfloor>) in if in_int64 t then t else - (2 ^ 63))
      | _ \<Rightarrow> - (2 ^ 63))"

lemma round_f64_0 [simp]: "round_f64 0 = Fin 0"
  by (simp add: round_f64_def)

lemma round_f64_not_NaN: "round_f64 q \<noteq> NaN"
  by (simp add: round_f64_def Let_def)

lemma round_f64_nonneg:
  assumes "0 \<le> q" shows "le64 (Fin 0) (round_f64 q)"
  using assms round_pos_nonneg [of q] by (auto simp: round_f64_def Let_def)

lemma round_f64_nonpos:
  assumes "q \<le> 0" shows "le64 (round_f64 q) (Fin 0)"
  using assms round_pos_nonneg [of "- q"] by (auto simp: round_f64_def Let_def)

lemma round_f64_mono_nonneg:
  assumes "0 \<le> p" and "p \<le> q" shows "le64 (round_f64 p) (round_f64 q)"
proof (cases "p = 0")
  case True
  with assms show ?thesis using round_f64_nonneg [of q] by simp
next
  case False
  with assms have "round_pos p \<le> round_pos q" by (intro round_pos_mono) simp_all
  with False assms show ?thesis by (auto simp: round_f64_def Let_def)
qed

lemma round_f64_int:
  assumes "\<bar>i\<bar> < 2 ^ 53" shows "round_f64 (of_int i) = Fin (of_int i)"
proof (cases "i = 0")
  case False
  have r: "round_pos \<bar>of_int i\<bar> = \<bar>of_int i :: rat\<bar>"
    using round_pos_int [of "\<bar>i\<bar>"] False assms by simp
  have "(of_int \<bar>i\<bar> :: rat) < of_int (2 ^ 53)" using assms by (simp only: of_int_less_iff)
  then have "\<bar>of_int i :: rat\<bar> < 2 ^ 53" by simp
  also have "(2 :: rat) ^ 53 \<le> 2 ^ 1024" by (rule power_increasing) simp_all
  finally have "\<not> 2 ^ 1024 \<le> \<bar>of_int i :: rat\<bar>" by (simp only: not_le)
  with False show ?thesis by (simp add: round_f64_def r Let_def del: power_numeral)
qed simp

lemma round_f64_dyadic:
  assumes "0 < m" and "m < 2 ^ 53" and "- 1074 \<le> j" and "j \<le> 900"
  shows "round_f64 (of_int m * 2 powi j) = Fin (of_int m * 2 powi j)"
proof -
  let ?q = "of_int m * 2 powi j :: rat"
  have "(of_int m :: rat) < of_int (2 ^ 53)" using assms(2) by (simp only: of_int_less_iff)
  then have "(of_int m :: rat) < 2 powi 53" by simp
  then have "?q < 2 powi 53 * 2 powi j" by (intro mult_strict_right_mono) simp_all
  also have "\<dots> = 2 powi (53 + j)" by (simp only: powi2_add)
  also have "\<dots> \<le> 2 powi (int 1024)" unfolding powi2_le_iff using assms(4) by simp
  also have "\<dots> = 2 ^ 1024" by (rule power_int_of_nat)
  finally have "\<not> 2 ^ 1024 \<le> ?q" by (simp only: not_le)
  moreover have "0 < ?q" using assms(1) by simp
  moreover have "round_pos ?q = ?q" using assms(1,2,3) by (rule round_pos_dyadic) (rule refl)
  ultimately show ?thesis by (simp add: round_f64_def Let_def del: power_numeral)
qed

lemma of_int64_exact: "\<bar>i\<bar> < 2 ^ 53 \<Longrightarrow> of_int64 i = Fin (of_int i)"
  by (simp add: of_int64_def round_f64_int)

lemma to_int64_of_int64:
  assumes "\<bar>i\<bar> < 2 ^ 53" shows "to_int64 (of_int64 i) = i"
proof -
  have "in_int64 i" using assms by (auto simp: in_int64_def abs_less_iff)
  then show ?thesis using assms by (simp add: of_int64_exact to_int64_def)
qed

lemma of_int64_nonneg: "0 \<le> i \<Longrightarrow> le64 (Fin 0) (of_int64 i)"
  by (simp add: of_int64_def round_f64_nonneg)

lemma of_int64_mono: "0 \<le> i \<Longrightarrow> i \<le> j \<Longrightarrow> le64 (of_int64 i) (of_int64 j)"
  by (simp add: of_int64_def round_f64_mono_nonneg)

lemma le64_trans: "le64 x y \<Longrightarrow> le64 y z \<Longrightarrow> le64 x z"
  by (cases x; cases y; cases z) auto

lemma le64_refl: "finite64 x \<Longrightarrow> le64 x x"
  by (cases x) auto

lemma le64_total: "finite64 x \<Longrightarrow> finite64 y \<Longrightarrow> le64 x y \<or> le64 y x"
  by (cases x; cases y) auto

lemma le64_antisym: "le64 x y \<Longrightarrow> le64 y x \<Longrightarrow> x = y"
  by (cases x; cases y) auto

lemma le64_0_cases: "le64 (Fin 0) x \<longleftrightarrow> x = PInf \<or> (\<exists>a. x = Fin a \<and> 0 \<le> a)"
  by (cases x) auto

lemma div64_nonneg: "le64 (Fin 0) x \<Longrightarrow> 0 < d \<Longrightarrow> le64 (Fin 0) (div64 x d)"
  by (auto simp: le64_0_cases [of x] div64_def inf_sgn_def round_f64_nonneg)

lemma div64_mono:
  assumes "le64 (Fin 0) x" and "le64 x y" and "0 < d" shows "le64 (div64 x d) (div64 y d)"
proof (cases y)
  case (Fin b)
  with assms obtain a where a: "x = Fin a" "0 \<le> a" "a \<le> b" by (cases x) auto
  then have "0 \<le> a / d" "a / d \<le> b / d" using assms(3) by (auto intro: divide_right_mono)
  then show ?thesis by (simp add: Fin a div64_def round_f64_mono_nonneg)
next
  case PInf
  then have "div64 y d = PInf" using assms(3) by (simp add: div64_def inf_sgn_def)
  moreover have "div64 x d \<noteq> NaN"
    using assms div64_nonneg [OF assms(1,3)] by (cases "div64 x d") auto
  ultimately show ?thesis by (cases "div64 x d") auto
qed (use assms in \<open>cases x; auto\<close>)+

lemma mul64_nonneg:
  assumes "le64 (Fin 0) x" and "0 < p" shows "le64 (Fin 0) (mul64 x (Fin p))"
  using assms
  by (auto simp: le64_0_cases [of x] mul64_def inf_sgn_def round_f64_nonneg)

lemma mul64_mono:
  assumes "le64 (Fin 0) x" and "le64 x y" and "0 < p"
  shows "le64 (mul64 x (Fin p)) (mul64 y (Fin p))"
proof (cases y)
  case (Fin b)
  with assms obtain a where a: "x = Fin a" "0 \<le> a" "a \<le> b" by (cases x) auto
  then have "0 \<le> a * p" "a * p \<le> b * p" using assms(3) by (auto intro: mult_right_mono)
  then show ?thesis by (simp add: Fin a mul64_def round_f64_mono_nonneg)
next
  case PInf
  then have "mul64 y (Fin p) = PInf" using assms(3) by (simp add: mul64_def inf_sgn_def)
  moreover have "mul64 x (Fin p) \<noteq> NaN"
    using mul64_nonneg [OF assms(1,3)] by (cases "mul64 x (Fin p)") auto
  ultimately show ?thesis by (cases "mul64 x (Fin p)") auto
qed (use assms in \<open>cases x; auto\<close>)+

text \<open>In the normal range a product or quotient is off by a factor of at most \<open>1 + 2 ^ -53\<close>.\<close>

lemma round_f64_error:
  assumes "0 < q" and "2 powi (- 1022) \<le> q" and "round_f64 q = Fin v"
  shows "\<bar>v - q\<bar> \<le> q / 2 ^ 53"
  using assms round_pos_error [OF assms(1,2)]
  by (simp add: round_f64_def Let_def split: if_splits)

subsection \<open>Rounded values are doubles\<close>

text \<open>The rational under a finite \<open>float64\<close> is one that rounding leaves alone.\<close>

fun valid64 :: "f64 \<Rightarrow> bool" where
  "valid64 (Fin q) = (round_f64 q = Fin q)"
| "valid64 _ = True"

lemma round_pos_scaled:
  assumes "0 < q" and "round_pos q \<noteq> 0"
  shows "\<exists>m j. 0 < m \<and> m < 2 ^ 53 \<and> - 1074 \<le> j \<and> round_pos q = of_int m * 2 powi j"
proof -
  define k where "k = ulp_exp q"
  define m where "m = round_even (q / 2 powi k)"
  have v: "round_pos q = of_int m * 2 powi k" by (simp add: round_pos_def m_def k_def)
  have k: "- 1074 \<le> k" by (simp add: k_def ulp_exp_def)
  have "0 \<le> of_int m * (2 :: rat) powi k" using round_pos_nonneg [OF assms(1)] by (simp add: v)
  then have "0 \<le> m" by (simp add: zero_le_mult_iff) (use powi2_pos [of k] in linarith)
  then have m0: "0 < m" using assms(2) v by (cases "m = 0") simp_all
  have "ilog2 q + 1 \<le> 53 + k" by (simp add: k_def ulp_exp_def)
  then have "q < 2 powi (53 + k)"
    using ilog2_bounds(2) [OF assms(1)] powi2_le_iff [of "ilog2 q + 1" "53 + k"] by linarith
  then have "q / 2 powi k \<le> of_int (2 ^ 53)" by (simp add: powi2_add divide_le_eq)
  then have m1: "m \<le> 2 ^ 53" using round_even_mono round_even_of_int unfolding m_def by metis
  show ?thesis
  proof (cases "m = 2 ^ 53")
    case True
    then have "round_pos q = of_int 1 * 2 powi (53 + k)" by (simp add: v powi2_add)
    with k show ?thesis by (intro exI [of _ 1] exI [of _ "53 + k"]) simp
  next
    case False
    with m0 m1 v k show ?thesis by (intro exI [of _ m] exI [of _ k]) simp
  qed
qed

lemma round_pos_idem:
  assumes "0 < q" shows "round_pos q = 0 \<or> (0 < round_pos q \<and> round_pos (round_pos q) = round_pos q)"
proof (cases "round_pos q = 0")
  case False
  with round_pos_scaled [OF assms] obtain m j
    where "0 < m" "m < 2 ^ 53" "- 1074 \<le> j" and v: "round_pos q = of_int m * 2 powi j" by blast
  then have "round_pos (round_pos q) = round_pos q" by (intro round_pos_dyadic [OF _ _ _ v])
  moreover have "0 < round_pos q" using False round_pos_nonneg [OF assms] by simp
  ultimately show ?thesis by blast
qed simp

lemma round_f64_valid: "valid64 (round_f64 q)"
proof (cases "q = 0")
  case False
  then have "0 < \<bar>q\<bar>" by simp
  from round_pos_idem [OF this] show ?thesis
    using False by (auto simp: round_f64_def Let_def)
qed simp

lemma valid64_ops:
  "valid64 (mul64 x y)" "valid64 (div64 x d)" "valid64 (sub64 x y)" "valid64 (of_int64 i)"
  by (auto simp: mul64_def div64_def sub64_def of_int64_def inf_sgn_def round_f64_valid
      split: f64.splits)

subsection \<open>Rounding between powers of two\<close>

lemma round_pos_powi: "- 1074 \<le> e \<Longrightarrow> round_pos (2 powi e) = 2 powi e"
  using round_pos_dyadic [of 1 e "2 powi e"] by simp

lemma round_pos_between:
  assumes "- 1074 \<le> a" and "2 powi a \<le> q" and "q \<le> 2 powi b"
  shows "2 powi a \<le> round_pos q" and "round_pos q \<le> 2 powi b"
proof -
  have "0 < (2 :: rat) powi a" by simp
  with assms have q: "0 < q" and "a \<le> b" using powi2_le_iff [of a b] by linarith+
  then show "2 powi a \<le> round_pos q" "round_pos q \<le> 2 powi b"
    using round_pos_mono [of "2 powi a" q] round_pos_mono [of q "2 powi b"] assms
    by (simp_all add: round_pos_powi)
qed

lemma round_f64_between:
  assumes "- 1074 \<le> a" and "2 powi a \<le> q" and "q \<le> 2 powi b" and "b \<le> 1023"
  obtains v where "round_f64 q = Fin v" and "round_f64 (- q) = Fin (- v)"
    and "2 powi a \<le> v" and "v \<le> 2 powi b"
proof -
  note r = round_pos_between [OF assms(1-3)]
  have "0 < (2 :: rat) powi a" by simp
  with assms have q: "0 < q" by linarith
  have "(2 :: rat) powi b < 2 powi (int 1024)" unfolding powi2_less_iff using assms(4) by simp
  also have "\<dots> = 2 ^ 1024" by (rule power_int_of_nat)
  finally have "\<not> 2 ^ 1024 \<le> round_pos q" using r(2) by linarith
  with q r show thesis
    by (intro that [of "round_pos q"]) (simp_all add: round_f64_def Let_def del: power_numeral)
qed

end
