(* ===== verification/ConfigLib.thy ===== *)
theory ConfigLib
  imports GoStrings GoFloat
begin

section \<open>Configuration\<close>

text \<open>
  \<open>libs/config\<close>: a configuration struct as the tree that reflection sees, filled from an optional
  YAML file and then from environment variables. Reading the file and decoding YAML are parameters,
  the record \<open>sys\<close>; so is \<open>strconv.ParseFloat\<close>, which no service's configuration reaches, and the
  upper-case table outside ASCII. \<open>int\<close> has 64 bits.
\<close>

subsection \<open>Structs as trees\<close>

text \<open>
  A field has its name, its \<open>env\<close> tag (empty when absent), whether it is embedded, whether it can be
  set, and its value. \<open>GInt w\<close> and \<open>GUint w\<close> are the integer kinds of width \<open>w\<close>, \<open>GOther\<close> a value of
  an unsupported kind with the name of its type.
\<close>

datatype gvalue =
    GString string
  | GBool bool
  | GInt nat int
  | GUint nat nat
  | GFloat nat f64
  | GOther string
  | GStruct "gfield list"
and gfield = Field string string bool bool gvalue

record sys =
  sy_env :: "string \<rightharpoonup> string"
  sy_read_file :: "string \<Rightarrow> string res"
  sy_yaml :: "string \<Rightarrow> gfield list \<Rightarrow> gfield list res"
  sy_float :: "nat \<Rightarrow> string \<Rightarrow> f64 res"
  sy_uni :: "string \<Rightarrow> string"

subsection \<open>Values from text\<close>

definition parse_bool :: "string \<Rightarrow> bool option" where
  "parse_bool s =
     (if s \<in> {''1'', ''t'', ''T'', ''TRUE'', ''true'', ''True''} then Some True
      else if s \<in> {''0'', ''f'', ''F'', ''FALSE'', ''false'', ''False''} then Some False
      else None)"

text \<open>\<open>strconv.ParseInt(s, 10, w)\<close> and \<open>strconv.ParseUint(s, 10, w)\<close>\<close>

definition parse_int_width :: "nat \<Rightarrow> string \<Rightarrow> int option" where
  "parse_int_width w s =
     (case parse_int s of
        None \<Rightarrow> None
      | Some i \<Rightarrow> if - (2 ^ (w - 1)) \<le> i \<and> i < 2 ^ (w - 1) then Some i else None)"

definition parse_uint_width :: "nat \<Rightarrow> string \<Rightarrow> nat option" where
  "parse_uint_width w s =
     (case parse_nat s of None \<Rightarrow> None | Some n \<Rightarrow> if n < 2 ^ w then Some n else None)"

definition parse_error :: "string \<Rightarrow> string \<Rightarrow> go_error" where
  "parse_error fn s = ErrExt (''strconv.'' @ fn @ '': parsing '' @ s)"

fun assign :: "sys \<Rightarrow> gvalue \<Rightarrow> string \<Rightarrow> gvalue res" where
  "assign y (GString _) s = Inr (GString s)"
| "assign y (GBool _) s =
     (case parse_bool s of None \<Rightarrow> Inl (parse_error ''ParseBool'' s) | Some b \<Rightarrow> Inr (GBool b))"
| "assign y (GInt w _) s =
     (case parse_int_width w s of None \<Rightarrow> Inl (parse_error ''ParseInt'' s) | Some i \<Rightarrow> Inr (GInt w i))"
| "assign y (GUint w _) s =
     (case parse_uint_width w s of None \<Rightarrow> Inl (parse_error ''ParseUint'' s) | Some n \<Rightarrow> Inr (GUint w n))"
| "assign y (GFloat w _) s =
     (case sy_float y w s of Inl err \<Rightarrow> Inl err | Inr x \<Rightarrow> Inr (GFloat w x))"
| "assign y (GOther t) s = Inl (ErrText (''unsupported field type '' @ t))"
| "assign y (GStruct fs) s = Inl (ErrText ''unsupported field type struct'')"

subsection \<open>From the environment\<close>

definition normalize_key :: "(string \<Rightarrow> string) \<Rightarrow> string \<Rightarrow> string \<Rightarrow> string" where
  "normalize_key uni prefix key0 =
     (let key = to_upper uni (map (\<lambda>c. if c = CHR ''-'' then CHR ''_'' else c) key0)
      in if prefix = [] then key else prefix @ ''_'' @ key)"

definition field_key :: "sys \<Rightarrow> string \<Rightarrow> string \<Rightarrow> string \<Rightarrow> string" where
  "field_key y prefix name tag =
     (if tag \<noteq> [] then normalize_key (sy_uni y) [] tag else normalize_key (sy_uni y) prefix name)"

definition set_from_env :: "sys \<Rightarrow> string \<Rightarrow> gvalue \<Rightarrow> gvalue res" where
  "set_from_env y key v =
     (case sy_env y key of
        None \<Rightarrow> Inr v
      | Some s \<Rightarrow>
          (case assign y v s of
             Inl err \<Rightarrow> Inl (ErrWrap (''config: parse '' @ key @ '': '') err)
           | Inr v' \<Rightarrow> Inr v'))"

text \<open>An embedded field that is not a struct makes \<open>NumField\<close> panic; the panic is the error.\<close>

fun populate_from_env :: "sys \<Rightarrow> string \<Rightarrow> gfield list \<Rightarrow> gfield list res"
  and populate_value :: "sys \<Rightarrow> string \<Rightarrow> string \<Rightarrow> string \<Rightarrow> bool \<Rightarrow> gvalue \<Rightarrow> gvalue res" where
  "populate_from_env y prefix [] = Inr []"
| "populate_from_env y prefix (Field name tag embedded settable v # fs) =
     (case (if settable then populate_value y prefix name tag embedded v else Inr v) of
        Inl err \<Rightarrow> Inl err
      | Inr v' \<Rightarrow>
          (case populate_from_env y prefix fs of
             Inl err \<Rightarrow> Inl err
           | Inr fs' \<Rightarrow> Inr (Field name tag embedded settable v' # fs')))"
| "populate_value y prefix name tag embedded (GStruct fs) =
     (if embedded then map_sum id GStruct (populate_from_env y prefix fs)
      else if tag = ''-'' then Inr (GStruct fs)
      else map_sum id GStruct (populate_from_env y (field_key y prefix name tag) fs))"
| "populate_value y prefix name tag embedded v =
     (if embedded then Inl (ErrExt ''reflect: call of reflect.Value.NumField on non-struct Value'')
      else if tag = ''-'' then Inr v
      else set_from_env y (field_key y prefix name tag) v)"

subsection \<open>Loading\<close>

datatype target = NilTarget | NoStruct | StructPtr "gfield list"

definition load_from_file :: "sys \<Rightarrow> string \<Rightarrow> gfield list \<Rightarrow> gfield list res" where
  "load_from_file y path fs =
     (case sy_read_file y path of
        Inl err \<Rightarrow> Inl (ErrWrap ''config: read file: '' err)
      | Inr data \<Rightarrow>
          (case sy_yaml y data fs of
             Inl err \<Rightarrow> Inl (ErrWrap ''config: decode yaml: '' err)
           | Inr fs' \<Rightarrow> Inr fs'))"

definition config_file :: "sys \<Rightarrow> string" where
  "config_file y = (case sy_env y ''CONFIG_FILE'' of None \<Rightarrow> [] | Some p \<Rightarrow> p)"

definition load_config :: "sys \<Rightarrow> target \<Rightarrow> gfield list res" where
  "load_config y t =
     (case t of
        NilTarget \<Rightarrow> Inl (ErrText ''config: target is nil'')
      | NoStruct \<Rightarrow> Inl (ErrText ''config: target must be pointer to struct'')
      | StructPtr fs \<Rightarrow>
          (case (if config_file y \<noteq> [] then load_from_file y (config_file y) fs else Inr fs) of
             Inl err \<Rightarrow> Inl err
           | Inr fs' \<Rightarrow> populate_from_env y [] fs'))"

subsection \<open>Reading a loaded configuration\<close>

fun conf_value :: "gfield list \<Rightarrow> string list \<Rightarrow> gvalue option" where
  "conf_value [] p = None"
| "conf_value (Field name tag embedded settable v # fs) p =
     (case p of
        [] \<Rightarrow> None
      | n # ns \<Rightarrow>
          if n \<noteq> name then conf_value fs p
          else (case ns of
              [] \<Rightarrow> Some v
            | _ \<Rightarrow> (case v of GStruct sub \<Rightarrow> conf_value sub ns | _ \<Rightarrow> None)))"

definition conf_string :: "gfield list \<Rightarrow> string list \<Rightarrow> string" where
  "conf_string fs p = (case conf_value fs p of Some (GString s) \<Rightarrow> s | _ \<Rightarrow> [])"

definition conf_int :: "gfield list \<Rightarrow> string list \<Rightarrow> int" where
  "conf_int fs p = (case conf_value fs p of Some (GInt w i) \<Rightarrow> i | _ \<Rightarrow> 0)"

end
