(* ===== verification/ConfigProps.thy ===== *)
theory ConfigProps
  imports ConfigLib
begin

section \<open>Correctness of the configuration loader\<close>

text \<open>
  The reference: the settable leaves of a struct with the environment variable of each. Filling a
  struct from the environment keeps every type, replaces exactly the leaves whose variable is set by
  its parsed value, fails exactly when one does not parse, and is idempotent.
\<close>

subsection \<open>Leaves and types\<close>

fun leaves :: "sys \<Rightarrow> string \<Rightarrow> gfield list \<Rightarrow> (string \<times> gvalue) list"
  and value_leaves :: "sys \<Rightarrow> string \<Rightarrow> string \<Rightarrow> string \<Rightarrow> bool \<Rightarrow> gvalue \<Rightarrow> (string \<times> gvalue) list" where
  "leaves y prefix [] = []"
| "leaves y prefix (Field name tag embedded settable v # fs) =
     (if settable then value_leaves y prefix name tag embedded v else []) @ leaves y prefix fs"
| "value_leaves y prefix name tag embedded (GStruct fs) =
     (if embedded then leaves y prefix fs
      else if tag = ''-'' then [] else leaves y (field_key y prefix name tag) fs)"
| "value_leaves y prefix name tag embedded v =
     (if embedded \<or> tag = ''-'' then [] else [(field_key y prefix name tag, v)])"

text \<open>The type of a struct: its tree with the contents of the leaves erased.\<close>

fun type_of :: "gfield list \<Rightarrow> gfield list" and type_of_value :: "gvalue \<Rightarrow> gvalue" where
  "type_of [] = []"
| "type_of (Field name tag embedded settable v # fs) =
     Field name tag embedded settable (type_of_value v) # type_of fs"
| "type_of_value (GString s) = GString []"
| "type_of_value (GBool b) = GBool False"
| "type_of_value (GInt w i) = GInt w 0"
| "type_of_value (GUint w n) = GUint w 0"
| "type_of_value (GFloat w x) = GFloat w (Fin 0)"
| "type_of_value (GOther t) = GOther t"
| "type_of_value (GStruct fs) = GStruct (type_of fs)"

text \<open>Every settable embedded field is a struct.\<close>

fun embedded_ok :: "gfield list \<Rightarrow> bool" and embedded_value_ok :: "bool \<Rightarrow> gvalue \<Rightarrow> bool" where
  "embedded_ok [] = True"
| "embedded_ok (Field name tag embedded settable v # fs) =
     ((settable \<longrightarrow> embedded_value_ok embedded v) \<and> embedded_ok fs)"
| "embedded_value_ok embedded (GStruct fs) = embedded_ok fs"
| "embedded_value_ok embedded v = (\<not> embedded)"

definition from_env :: "sys \<Rightarrow> string \<times> gvalue \<Rightarrow> string \<times> gvalue" where
  "from_env y kv = (fst kv, case set_from_env y (fst kv) (snd kv) of Inl _ \<Rightarrow> snd kv | Inr v \<Rightarrow> v)"

subsection \<open>Assignment\<close>

lemma assign_type: "assign y v s = Inr v' \<Longrightarrow> type_of_value v' = type_of_value v"
  by (cases v) (auto split: option.splits sum.splits)

lemma assign_again: "assign y v s = Inr v' \<Longrightarrow> assign y v' s = Inr v'"
  by (cases v) (auto split: option.splits sum.splits)

lemma set_type: "set_from_env y k v = Inr v' \<Longrightarrow> type_of_value v' = type_of_value v"
  by (auto simp: set_from_env_def assign_type split: option.splits sum.splits)

lemma set_again: "set_from_env y k v = Inr v' \<Longrightarrow> set_from_env y k v' = Inr v'"
  by (auto simp: set_from_env_def assign_again split: option.splits sum.splits)

lemma set_leaf:
  assumes "set_from_env y k v = Inr v'" and "\<And>fs. v \<noteq> GStruct fs"
  shows "\<And>fs. v' \<noteq> GStruct fs"
proof -
  fix fs show "v' \<noteq> GStruct fs" using set_type [OF assms(1)] assms(2) by (cases v) auto
qed

lemma populate_leaf:
  assumes "\<And>fs. v \<noteq> GStruct fs"
  shows "populate_value y prefix name tag embedded v =
      (if embedded then Inl (ErrExt ''reflect: call of reflect.Value.NumField on non-struct Value'')
       else if tag = ''-'' then Inr v else set_from_env y (field_key y prefix name tag) v)"
    and "value_leaves y prefix name tag embedded v =
      (if embedded \<or> tag = ''-'' then [] else [(field_key y prefix name tag, v)])"
    and "embedded_value_ok embedded v = (\<not> embedded)"
  using assms by (cases v; simp)+

lemmas leaf_facts = populate_leaf set_leaf

lemma value_cases [case_names Struct Leaf]:
  assumes "\<And>fs. v = GStruct fs \<Longrightarrow> P" and "(\<And>fs. v \<noteq> GStruct fs) \<Longrightarrow> P" shows P
  using assms by (cases v) auto

subsection \<open>Filling a struct\<close>

lemma populate_type:
  "populate_from_env y prefix fs = Inr fs' \<Longrightarrow> type_of fs' = type_of fs"
  "populate_value y prefix name tag embedded v = Inr v' \<Longrightarrow> type_of_value v' = type_of_value v"
proof (induction y prefix fs and y prefix name tag embedded v arbitrary: fs' and v'
    rule: populate_from_env_populate_value.induct)
  case (2 y prefix name tag embedded settable v fs)
  then show ?case by (auto split: sum.splits if_splits)
next
  case (3 y prefix name tag embedded fs)
  then show ?case by (auto simp: map_sum_def split: sum.splits if_splits)
qed (auto split: if_splits dest: set_type)

lemma is_ok_map_sum [simp]: "is_ok (map_sum id f r) = is_ok r"
  by (cases r) simp_all

lemma populate_succeeds:
  "embedded_ok fs \<Longrightarrow> is_ok (populate_from_env y prefix fs) \<longleftrightarrow>
     (\<forall>kv \<in> set (leaves y prefix fs). is_ok (set_from_env y (fst kv) (snd kv)))"
  "embedded_value_ok embedded v \<Longrightarrow> is_ok (populate_value y prefix name tag embedded v) \<longleftrightarrow>
     (\<forall>kv \<in> set (value_leaves y prefix name tag embedded v). is_ok (set_from_env y (fst kv) (snd kv)))"
proof (induction y prefix fs and y prefix name tag embedded v
    rule: populate_from_env_populate_value.induct)
  case (2 y prefix name tag embedded settable v fs)
  show ?case
  proof (cases settable)
    case True
    then show ?thesis using 2
      by (cases "populate_value y prefix name tag embedded v"; cases "populate_from_env y prefix fs")
        (simp_all add: ball_Un)
  next
    case False
    then show ?thesis using 2 by (cases "populate_from_env y prefix fs") simp_all
  qed
next
  case (3 y prefix name tag embedded fs)
  then show ?case by simp
qed simp_all

lemma populate_leaves:
  "populate_from_env y prefix fs = Inr fs' \<Longrightarrow> leaves y prefix fs' = map (from_env y) (leaves y prefix fs)"
  "populate_value y prefix name tag embedded v = Inr v' \<Longrightarrow>
     value_leaves y prefix name tag embedded v' = map (from_env y) (value_leaves y prefix name tag embedded v)"
proof (induction y prefix fs and y prefix name tag embedded v arbitrary: fs' and v'
    rule: populate_from_env_populate_value.induct)
  case (2 y prefix name tag embedded settable v fs)
  then show ?case by (auto split: sum.splits if_splits)
next
  case (3 y prefix name tag embedded fs)
  then show ?case by (auto simp: map_sum_def split: sum.splits if_splits)
qed (auto split: if_splits simp: from_env_def populate_leaf(2) [OF set_leaf])

lemma populate_again:
  "populate_from_env y prefix fs = Inr fs' \<Longrightarrow> populate_from_env y prefix fs' = Inr fs'"
  "populate_value y prefix name tag embedded v = Inr v' \<Longrightarrow> populate_value y prefix name tag embedded v' = Inr v'"
proof (induction y prefix fs and y prefix name tag embedded v arbitrary: fs' and v'
    rule: populate_from_env_populate_value.induct)
  case (2 y prefix name tag embedded settable v fs)
  then show ?case by (auto split: sum.splits if_splits)
next
  case (3 y prefix name tag embedded fs)
  then show ?case by (auto simp: map_sum_def split: sum.splits if_splits)
qed (auto split: if_splits simp: populate_leaf(1) [OF set_leaf] set_again)

end
