(* ===== verification/GoTime.thy ===== *)
theory GoTime
  imports GoStrings "HOL-Library.Monad_Syntax"
begin

section \<open>Instants, durations and RFC 3339\<close>

text \<open>
  A \<open>time.Time\<close> is the number of nanoseconds since the zero time (1 January of year 1, UTC), so
  \<open>IsZero\<close> is equality with 0 and \<open>UTC()\<close>, which only changes the zone a time is shown in, is
  the identity. A \<open>time.Duration\<close> is a number of nanoseconds. The JSON form of a time is its RFC
  3339 text: \<open>format_rfc3339\<close> is \<open>time.Time.MarshalJSON\<close> in UTC and \<open>parse_rfc3339\<close> the strict
  parser of \<open>UnmarshalJSON\<close>.
\<close>

type_synonym time = int

definition is_zero :: "time \<Rightarrow> bool" where
  "is_zero t \<longleftrightarrow> t = 0"

definition nanosecond :: int where "nanosecond = 1"
definition second :: int where "second = 1000000000"
definition minute :: int where "minute = 60 * second"
definition hour :: int where "hour = 60 * minute"

subsection \<open>Civil dates\<close>

definition is_leap :: "int \<Rightarrow> bool" where
  "is_leap y \<longleftrightarrow> y mod 4 = 0 \<and> (y mod 100 \<noteq> 0 \<or> y mod 400 = 0)"

text \<open>1 January 1970, from which Unix times count.\<close>

definition unix_epoch :: time where
  "unix_epoch = 62135596800 * second"

definition unix_seconds :: "time \<Rightarrow> int" where
  "unix_seconds t = (t - unix_epoch) div second"

text \<open>Days from 1 January of year 1 to 1 January of year \<open>y\<close>.\<close>

definition days_before_year :: "int \<Rightarrow> int" where
  "days_before_year y = (let p = y - 1 in 365 * p + p div 4 - p div 100 + p div 400)"

definition month_lengths :: "bool \<Rightarrow> int list" where
  "month_lengths leap = [31, if leap then 29 else 28, 31, 30, 31, 30, 31, 31, 30, 31, 30, 31]"

definition days_of_date :: "int \<Rightarrow> nat \<Rightarrow> int \<Rightarrow> int" where
  "days_of_date y m d =
     days_before_year y + sum_list (take (m - 1) (month_lengths (is_leap y))) + (d - 1)"

definition year_of_days :: "int \<Rightarrow> int" where
  "year_of_days n =
     (let y = n * 400 div 146097
      in if days_before_year (y + 2) \<le> n then y + 2
         else if days_before_year (y + 1) \<le> n then y + 1 else y)"

fun find_month :: "nat \<Rightarrow> int list \<Rightarrow> int \<Rightarrow> nat \<times> int" where
  "find_month m [] d = (m, d)"
| "find_month m (l # ls) d = (if d < l then (m, d) else find_month (Suc m) ls (d - l))"

definition date_of_days :: "int \<Rightarrow> int \<times> nat \<times> int" where
  "date_of_days n =
     (let y = year_of_days n; (m, r) = find_month 1 (month_lengths (is_leap y)) (n - days_before_year y)
      in (y, m, r + 1))"

lemma year_of_days_bounds:
  "days_before_year (year_of_days n) \<le> n" "n < days_before_year (year_of_days n + 1)"
proof -
  define y where "y = n * 400 div 146097"
  have n: "146097 * y \<le> n * 400" "n * 400 < 146097 * y + 146097"
    by (simp_all add: y_def)
  have bounds: "400 * days_before_year z \<le> 146097 * (z - 1) + 396"
      "146097 * (z - 1) - 699 \<le> 400 * days_before_year z" for z
  proof -
    define p a b c where "p = z - 1" and "a = p div 4" and "b = p div 100" and "c = p div 400"
    have "4 * a \<le> p" "100 * b \<le> p" "400 * c \<le> p"
      "p < 4 * a + 4" "p < 100 * b + 100" "p < 400 * c + 400"
      unfolding a_def b_def c_def by linarith+
    moreover have "days_before_year z = 365 * p + a - b + c"
      by (simp add: days_before_year_def Let_def p_def a_def b_def c_def)
    ultimately show "400 * days_before_year z \<le> 146097 * (z - 1) + 396"
      "146097 * (z - 1) - 699 \<le> 400 * days_before_year z"
      by (simp_all add: p_def)
  qed
  have "days_before_year y \<le> n" using n bounds(1) [of y] by simp
  moreover have "n < days_before_year (y + 3)" using n bounds(2) [of "y + 3"] by simp
  ultimately show "days_before_year (year_of_days n) \<le> n" "n < days_before_year (year_of_days n + 1)"
    by (auto simp: year_of_days_def Let_def ac_simps simp flip: y_def)
qed

lemma div_pred:
  assumes "0 < (k :: int)" shows "y div k = (y - 1) div k + (if y mod k = 0 then 1 else 0)"
proof -
  have y: "y = k * (y div k) + y mod k" by simp
  show ?thesis
  proof (cases "y mod k = 0")
    case True
    have "(y - 1) div k = y div k - 1"
    proof (rule int_div_pos_eq)
      show "y - 1 = k * (y div k - 1) + (k - 1)" using y True by (simp add: algebra_simps)
    qed (use assms in simp_all)
    with True show ?thesis by simp
  next
    case False
    have "(y - 1) div k = y div k"
    proof (rule int_div_pos_eq)
      show "y - 1 = k * (y div k) + (y mod k - 1)" using y by simp
      show "0 \<le> y mod k - 1" using False pos_mod_sign [OF assms, of y] by linarith
      show "y mod k - 1 < k" using pos_mod_bound [OF assms, of y] by linarith
    qed
    with False show ?thesis by simp
  qed
qed

lemma year_length: "days_before_year (y + 1) - days_before_year y = sum_list (month_lengths (is_leap y))"
proof -
  have m: "y mod 400 = 0 \<Longrightarrow> y mod 100 = 0" "y mod 100 = 0 \<Longrightarrow> y mod 4 = 0"
    by presburger+
  define b :: "int \<Rightarrow> int" where "b k = (if y mod k = 0 then 1 else 0)" for k
  have "y div k = (y - 1) div k + b k" if "0 < k" for k
    using div_pred [OF that, of y] by (simp add: b_def)
  then have "days_before_year (y + 1) - days_before_year y = 365 + b 4 - b 100 + b 400"
    unfolding days_before_year_def Let_def by simp
  also have "\<dots> = 365 + (if is_leap y then 1 else 0)"
    using m unfolding b_def is_leap_def by presburger
  also have "\<dots> = sum_list (month_lengths (is_leap y))" by (simp add: month_lengths_def)
  finally show ?thesis .
qed

lemma find_month_bounds:
  assumes "0 \<le> d" and "d < sum_list ls" and "find_month m ls d = (k, r)"
  shows "m \<le> k \<and> k - m < length ls \<and> 0 \<le> r \<and> r < ls ! (k - m) \<and> sum_list (take (k - m) ls) + r = d"
  using assms
proof (induction ls arbitrary: m d)
  case (Cons l ls)
  show ?case
  proof (cases "d < l")
    case False
    with Cons.prems have "find_month (Suc m) ls (d - l) = (k, r)" by simp
    then have "Suc m \<le> k \<and> k - Suc m < length ls \<and> 0 \<le> r \<and> r < ls ! (k - Suc m) \<and>
        sum_list (take (k - Suc m) ls) + r = d - l"
      using Cons.prems False by (intro Cons.IH) auto
    moreover from this have "k - m = Suc (k - Suc m)" by arith
    ultimately show ?thesis by simp
  qed (use Cons.prems in auto)
qed simp

text \<open>The date of a day number is a valid date, and it is that day.\<close>

lemma date_of_days:
  assumes "date_of_days n = (y, m, d)"
  shows "days_of_date y m d = n" and "1 \<le> m" and "m \<le> 12"
    and "1 \<le> d" and "d \<le> month_lengths (is_leap y) ! (m - 1)"
proof -
  let ?ls = "month_lengths (is_leap y)"
  have y: "y = year_of_days n" and fm: "find_month 1 ?ls (n - days_before_year y) = (m, d - 1)"
    using assms by (auto simp: date_of_days_def Let_def split: prod.splits)
  have "0 \<le> n - days_before_year y" and "n - days_before_year y < sum_list ?ls"
    using year_of_days_bounds [of n] year_length [of y] by (simp_all add: y)
  from find_month_bounds [OF this fm]
  have "1 \<le> m \<and> m - 1 < length ?ls \<and> 0 \<le> d - 1 \<and> d - 1 < ?ls ! (m - 1) \<and>
      sum_list (take (m - 1) ?ls) + (d - 1) = n - days_before_year y" .
  moreover have "length ?ls = 12" by (simp add: month_lengths_def)
  ultimately show "days_of_date y m d = n" and "1 \<le> m" and "m \<le> 12"
    and "1 \<le> d" and "d \<le> ?ls ! (m - 1)"
    by (auto simp: days_of_date_def)
qed

subsection \<open>Text\<close>

fun pad :: "nat \<Rightarrow> nat \<Rightarrow> string" where
  "pad 0 k = []"
| "pad (Suc n) k = pad n (k div 10) @ [digit_char (k mod 10)]"

text \<open>The fraction of a second: up to nine digits without trailing zeros, nothing for zero.\<close>

definition format_frac :: "nat \<Rightarrow> string" where
  "format_frac ns = (if ns = 0 then [] else CHR ''.'' # trim_right_char (CHR ''0'') (pad 9 ns))"

definition format_rfc3339 :: "time \<Rightarrow> string option" where
  "format_rfc3339 t =
     (let secs = t div second; ns = nat (t mod second);
          (y, m, d) = date_of_days (secs div 86400); s = nat (secs mod 86400)
      in if 0 \<le> y \<and> y \<le> 9999
         then Some (pad 4 (nat y) @ ''-'' @ pad 2 m @ ''-'' @ pad 2 (nat d) @ ''T'' @
                pad 2 (s div 3600) @ '':'' @ pad 2 (s div 60 mod 60) @ '':'' @ pad 2 (s mod 60) @
                format_frac ns @ ''Z'')
         else None)"

fun take_digits :: "nat \<Rightarrow> nat \<Rightarrow> string \<Rightarrow> (nat \<times> string) option" where
  "take_digits 0 acc s = Some (acc, s)"
| "take_digits (Suc n) acc [] = None"
| "take_digits (Suc n) acc (c # s) =
     (case digit_val c of None \<Rightarrow> None | Some d \<Rightarrow> take_digits n (10 * acc + d) s)"

fun expect :: "char \<Rightarrow> string \<Rightarrow> string option" where
  "expect c [] = None"
| "expect c (d # s) = (if c = d then Some s else None)"

definition is_digit :: "char \<Rightarrow> bool" where
  "is_digit c \<longleftrightarrow> digit_val c \<noteq> None"

text \<open>
  A fraction is a dot and at least one digit, of which the first nine count.
\<close>

definition parse_frac :: "string \<Rightarrow> (nat \<times> string) option" where
  "parse_frac s =
     (case s of
        c # r \<Rightarrow>
          if c = CHR ''.''
          then (let ds = takeWhile is_digit r
                in case parse_nat (take 9 ds) of
                     None \<Rightarrow> None
                   | Some n \<Rightarrow> Some (n * 10 ^ (9 - length (take 9 ds)), dropWhile is_digit r))
          else Some (0, s)
      | [] \<Rightarrow> Some (0, []))"

text \<open>The zone: \<open>Z\<close>, or a sign, hours and minutes; the result is the offset in seconds.\<close>

definition parse_zone :: "string \<Rightarrow> int option" where
  "parse_zone s =
     (if s = ''Z'' then Some 0
      else (case s of
          [] \<Rightarrow> None
        | c # r \<Rightarrow>
            do { (hh, r) \<leftarrow> take_digits 2 0 r;
                 r \<leftarrow> expect (CHR '':'') r;
                 (mm, r) \<leftarrow> take_digits 2 0 r;
                 if r = [] \<and> hh < 24 \<and> mm < 60 \<and> (c = CHR ''+'' \<or> c = CHR ''-'')
                 then Some ((if c = CHR ''-'' then - 1 else 1) * int (hh * 3600 + mm * 60))
                 else None }))"

definition parse_rfc3339 :: "string \<Rightarrow> time option" where
  "parse_rfc3339 s =
     do { (y, s) \<leftarrow> take_digits 4 0 s;
          s \<leftarrow> expect (CHR ''-'') s;
          (m, s) \<leftarrow> take_digits 2 0 s;
          s \<leftarrow> expect (CHR ''-'') s;
          (d, s) \<leftarrow> take_digits 2 0 s;
          s \<leftarrow> expect (CHR ''T'') s;
          (hh, s) \<leftarrow> take_digits 2 0 s;
          s \<leftarrow> expect (CHR '':'') s;
          (mm, s) \<leftarrow> take_digits 2 0 s;
          s \<leftarrow> expect (CHR '':'') s;
          (ss, s) \<leftarrow> take_digits 2 0 s;
          (ns, s) \<leftarrow> parse_frac s;
          off \<leftarrow> parse_zone s;
          if 1 \<le> m \<and> m \<le> 12 \<and> 1 \<le> d \<and> int d \<le> month_lengths (is_leap (int y)) ! (m - 1) \<and>
             hh < 24 \<and> mm < 60 \<and> ss < 60
          then Some ((days_of_date (int y) m (int d) * 86400 + int (hh * 3600 + mm * 60 + ss) - off) * second
                     + int ns)
          else None }"

lemma take_digits_snoc:
  "take_digits (Suc n) a s =
     (case take_digits n a s of
        None \<Rightarrow> None
      | Some (b, []) \<Rightarrow> None
      | Some (b, c # r) \<Rightarrow> (case digit_val c of None \<Rightarrow> None | Some d \<Rightarrow> Some (10 * b + d, r)))"
proof (induction n a s rule: take_digits.induct)
  case (1 a s)
  then show ?case by (cases s) (auto split: option.splits)
qed (auto split: option.splits)

lemma take_digits_pad: "k < 10 ^ n \<Longrightarrow> take_digits n 0 (pad n k @ r) = Some (k, r)"
proof (induction n arbitrary: k r)
  case (Suc n)
  then have "k div 10 < 10 ^ n" by (simp add: less_mult_imp_div_less mult.commute)
  then have "take_digits n 0 (pad n (k div 10) @ digit_char (k mod 10) # r) =
      Some (k div 10, digit_char (k mod 10) # r)" by (rule Suc.IH)
  then show ?case by (subst take_digits_snoc) simp
qed simp

lemma length_pad [simp]: "length (pad n k) = n"
  by (induction n arbitrary: k) auto

lemma pad_digits: "c \<in> set (pad n k) \<Longrightarrow> is_digit c"
  by (induction n arbitrary: k) (auto simp: is_digit_def)

lemma parse_digits_pad: "k < 10 ^ n \<Longrightarrow> parse_digits 0 (pad n k) = Some k"
proof (induction n arbitrary: k)
  case (Suc n)
  then have "k div 10 < 10 ^ n" by (simp add: less_mult_imp_div_less mult.commute)
  with Suc.IH show ?case by (simp add: parse_digits_append)
qed simp

text \<open>Dropping trailing zeros divides the value by a power of ten.\<close>

lemma parse_digits_zeros:
  "parse_digits a (s @ replicate n (CHR ''0'')) = map_option (\<lambda>k. k * 10 ^ n) (parse_digits a s)"
proof -
  have z: "parse_digits k (replicate n (CHR ''0'')) = Some (k * 10 ^ n)" for k
    by (induction n arbitrary: k) (simp_all add: digit_val_def)
  show ?thesis by (simp add: parse_digits_append z split: option.splits)
qed

lemma trim_right_char_split: "s = trim_right_char c s @ replicate (length s - length (trim_right_char c s)) c"
proof -
  have "rev s = takeWhile (\<lambda>d. d = c) (rev s) @ dropWhile (\<lambda>d. d = c) (rev s)" by simp
  then have s: "s = trim_right_char c s @ rev (takeWhile (\<lambda>d. d = c) (rev s))"
    unfolding trim_right_char_def by (metis rev_append rev_rev_ident)
  have "\<forall>d \<in> set (takeWhile (\<lambda>d. d = c) (rev s)). d = c" by (auto dest: set_takeWhileD)
  then have "takeWhile (\<lambda>d. d = c) (rev s) = replicate (length (takeWhile (\<lambda>d. d = c) (rev s))) c"
    by (simp add: replicate_length_same)
  moreover have "length (takeWhile (\<lambda>d. d = c) (rev s)) = length s - length (trim_right_char c s)"
    using arg_cong [OF s, of length] by simp
  ultimately show ?thesis using s by (metis rev_replicate)
qed

lemma not_digit_Z [simp]: "\<not> is_digit (CHR ''Z'')"
  by (simp add: is_digit_def digit_val_def)

lemma parse_frac_format:
  assumes "ns < 10 ^ 9" shows "parse_frac (format_frac ns @ ''Z'') = Some (ns, ''Z'')"
proof (cases "ns = 0")
  case False
  define ds where "ds = trim_right_char (CHR ''0'') (pad 9 ns)"
  have split: "pad 9 ns = ds @ replicate (9 - length ds) (CHR ''0'')"
    using trim_right_char_split [of "pad 9 ns" "CHR ''0''"] by (simp add: ds_def)
  have len: "length ds \<le> 9" using arg_cong [OF split, of length] by simp
  have dig: "\<forall>c \<in> set ds. is_digit c" using split pad_digits [of _ 9 ns] by (metis Un_iff set_append)
  have "parse_digits 0 (pad 9 ns) = map_option (\<lambda>k. k * 10 ^ (9 - length ds)) (parse_digits 0 ds)"
    by (subst split) (rule parse_digits_zeros)
  then obtain n where n: "parse_digits 0 ds = Some n" "n * 10 ^ (9 - length ds) = ns"
    using parse_digits_pad [OF assms] by (cases "parse_digits 0 ds") auto
  have "ds \<noteq> []" using n False by auto
  then have pn: "parse_nat ds = Some n" using n(1) by (simp add: parse_nat_def)
  have "takeWhile is_digit (ds @ ''Z'') = ds" "dropWhile is_digit (ds @ ''Z'') = ''Z''"
    using dig by (simp_all add: takeWhile_append2 dropWhile_append2)
  then show ?thesis
    using False n(2) pn len by (simp add: parse_frac_def format_frac_def flip: ds_def)
qed (simp add: parse_frac_def format_frac_def)

lemma expect_Cons [simp]: "expect c (c # s) = Some s"
  by simp

text \<open>The JSON text of a time parses back to it.\<close>

lemma parse_format_rfc3339:
  assumes "format_rfc3339 t = Some s" shows "parse_rfc3339 s = Some t"
proof -
  define secs where "secs = t div second"
  define ns where "ns = nat (t mod second)"
  define n where "n = nat (secs mod 86400)"
  obtain y m d where dt: "date_of_days (secs div 86400) = (y, m, d)"
    by (cases "date_of_days (secs div 86400)")
  note date = date_of_days [OF dt]
  have dt': "date_of_days (t div second div 86400) = (y, m, d)" using dt by (simp only: secs_def)
  have y: "0 \<le> y" "y \<le> 9999"
    using assms unfolding format_rfc3339_def Let_def dt' by (auto split: if_splits)
  have s: "s = pad 4 (nat y) @ ''-'' @ pad 2 m @ ''-'' @ pad 2 (nat d) @
      ''T'' @ pad 2 (n div 3600) @ '':'' @ pad 2 (n div 60 mod 60) @ '':'' @ pad 2 (n mod 60) @
      format_frac ns @ ''Z''"
    using assms y unfolding format_rfc3339_def Let_def dt' secs_def ns_def n_def by simp
  have n: "n < 86400" "int n = secs mod 86400" by (simp_all add: n_def nat_less_iff)
  have ns: "ns < 10 ^ 9" "int ns = t mod second" by (simp_all add: ns_def second_def nat_less_iff)
  have "month_lengths b ! (m - 1) \<le> 31" if "m \<le> 12" for b
  proof -
    have "m - 1 < length (month_lengths b)" using that by (simp add: month_lengths_def)
    then have "month_lengths b ! (m - 1) \<in> set (month_lengths b)" by (rule nth_mem)
    then show ?thesis by (auto simp: month_lengths_def split: if_splits)
  qed
  from this [of "is_leap y"] have d: "nat d < 10 ^ 2" "int (nat d) = d" "1 \<le> nat d"
    using date by auto
  have lt: "n div 3600 < 24" "n div 60 mod 60 < 60" "n mod 60 < 60"
    using n(1) by (simp_all add: less_mult_imp_div_less)
  have tds: "take_digits 4 0 (pad 4 (nat y) @ r) = Some (nat y, r)"
    "take_digits 2 0 (pad 2 m @ r) = Some (m, r)"
    "take_digits 2 0 (pad 2 (nat d) @ r) = Some (nat d, r)"
    "take_digits 2 0 (pad 2 (n div 3600) @ r) = Some (n div 3600, r)"
    "take_digits 2 0 (pad 2 (n div 60 mod 60) @ r) = Some (n div 60 mod 60, r)"
    "take_digits 2 0 (pad 2 (n mod 60) @ r) = Some (n mod 60, r)" for r
    using y date(3) n(1) d(1) lt by (intro take_digits_pad; simp)+
  have hms: "n div 3600 * 3600 + n div 60 mod 60 * 60 + n mod 60 = n"
  proof -
    have "n div 60 div 60 = n div 3600" by (simp add: div_mult2_eq [symmetric])
    then have "n div 60 = n div 3600 * 60 + n div 60 mod 60" by (metis div_mult_mod_eq)
    moreover have "n = n div 60 * 60 + n mod 60" by simp
    ultimately show ?thesis by linarith
  qed
  have z: "parse_zone ''Z'' = Some 0" by (simp add: parse_zone_def)
  have "parse_rfc3339 s =
      Some ((days_of_date y m d * 86400 + int n) * second + int ns)"
    using y(1) date(2,3,5) lt d(2,3)
    unfolding s parse_rfc3339_def
    by (simp add: tds parse_frac_format [OF ns(1), simplified] z hms del: take_digits.simps pad.simps)
  also have "(days_of_date y m d * 86400 + int n) * second + int ns = t"
    using date(1) n(2) ns(2) by (simp add: secs_def)
  finally show ?thesis .
qed

end
