(* ===== verification/ServiceConfig.thy ===== *)
theory ServiceConfig
  imports ConfigProps GoTime
begin

section \<open>The configurations of the services\<close>

text \<open>
  \<open>internal/config\<close> of the six services: the defaults of \<open>Load\<close>, its checks, the listen address and
  the durations. Field names and \<open>env\<close> tags are those of the structs.
\<close>

definition leaf :: "string \<Rightarrow> string \<Rightarrow> gvalue \<Rightarrow> gfield" where
  "leaf name tag v = Field name tag False True v"

definition group :: "string \<Rightarrow> gfield list \<Rightarrow> gfield" where
  "group name fs = Field name [] False True (GStruct fs)"

definition blank :: "string \<Rightarrow> bool" where
  "blank s \<longleftrightarrow> trim_space s = []"

text \<open>A check after loading: an error when it fails.\<close>

definition require :: "(gfield list \<Rightarrow> bool) \<Rightarrow> string \<Rightarrow> gfield list res \<Rightarrow> gfield list res" where
  "require p message r =
     (case r of Inl err \<Rightarrow> Inl err | Inr cfg \<Rightarrow> if p cfg then Inr cfg else Inl (ErrText message))"

definition http_address :: "string \<Rightarrow> string \<Rightarrow> string" where
  "http_address std configured =
     (let port = (if trim_space configured = [] then std else trim_space configured)
      in if has_prefix port '':'' then port else CHR '':'' # port)"

text \<open>\<open>time.Duration(n) * unit\<close> is an \<open>int64\<close> product.\<close>

definition duration_of :: "int \<Rightarrow> int \<Rightarrow> int" where
  "duration_of n unit = wrap64 (n * unit)"

subsection \<open>ocpp-server\<close>

definition ocpp_defaults :: "gfield list" where
  "ocpp_defaults =
     [group ''HTTP'' [leaf ''Port'' ''OCPP_HTTP_PORT'' (GString ''8081'')],
      group ''Database'' [leaf ''DSN'' ''OCPP_POSTGRES_DSN'' (GString [])],
      group ''Services''
        [leaf ''SessionsURL'' ''SESSIONS_SERVICE_URL'' (GString []),
         leaf ''BillingURL'' ''BILLING_SERVICE_URL'' (GString []),
         leaf ''TelemetryURL'' ''TELEMETRY_SERVICE_URL'' (GString [])],
      group ''WebSocket''
        [leaf ''PingIntervalSeconds'' ''OCPP_PING_INTERVAL'' (GInt 64 30),
         leaf ''WriteTimeoutSeconds'' ''OCPP_WRITE_TIMEOUT'' (GInt 64 15)]]"

definition load_ocpp :: "sys \<Rightarrow> gfield list res" where
  "load_ocpp y =
     require (\<lambda>cfg. \<not> blank (conf_string cfg [''Database'', ''DSN''])) ''config: database DSN is required''
       (load_config y (StructPtr ocpp_defaults))"

definition ocpp_http_address :: "gfield list \<Rightarrow> string" where
  "ocpp_http_address cfg = http_address ''8081'' (conf_string cfg [''HTTP'', ''Port''])"

definition ping_interval :: "gfield list \<Rightarrow> int" where
  "ping_interval cfg =
     (let n = conf_int cfg [''WebSocket'', ''PingIntervalSeconds'']
      in if n \<le> 0 then 30 * second else duration_of n second)"

definition write_timeout :: "gfield list \<Rightarrow> int" where
  "write_timeout cfg =
     (let n = conf_int cfg [''WebSocket'', ''WriteTimeoutSeconds'']
      in if n \<le> 0 then 15 * second else duration_of n second)"

subsection \<open>sessions-service\<close>

definition sessions_defaults :: "gfield list" where
  "sessions_defaults =
     [group ''HTTP'' [leaf ''Port'' ''SESSIONS_HTTP_PORT'' (GString ''8082'')],
      group ''Database'' [leaf ''DSN'' ''SESSIONS_POSTGRES_DSN'' (GString [])],
      group ''Redis''
        [leaf ''Addr'' ''SESSIONS_REDIS_ADDR'' (GString ''localhost:6379''),
         leaf ''Password'' ''SESSIONS_REDIS_PASSWORD'' (GString []),
         leaf ''DB'' ''SESSIONS_REDIS_DB'' (GInt 64 0),
         leaf ''TTL'' ''SESSIONS_REDIS_TTL'' (GInt 64 86400)]]"

definition load_sessions :: "sys \<Rightarrow> gfield list res" where
  "load_sessions y =
     require (\<lambda>cfg. \<not> blank (conf_string cfg [''Redis'', ''Addr''])) ''config: redis addr required''
       (require (\<lambda>cfg. \<not> blank (conf_string cfg [''Database'', ''DSN''])) ''config: database dsn required''
         (load_config y (StructPtr sessions_defaults)))"

definition sessions_http_address :: "gfield list \<Rightarrow> string" where
  "sessions_http_address cfg = http_address ''8082'' (conf_string cfg [''HTTP'', ''Port''])"

definition active_session_ttl :: "gfield list \<Rightarrow> int" where
  "active_session_ttl cfg =
     (let n = conf_int cfg [''Redis'', ''TTL'']
      in if n \<le> 0 then 24 * hour else duration_of n second)"

subsection \<open>billing-service and telemetry-service\<close>

definition billing_defaults :: "gfield list" where
  "billing_defaults =
     [group ''HTTP'' [leaf ''Port'' ''BILLING_HTTP_PORT'' (GString ''8083'')],
      group ''Database'' [leaf ''DSN'' ''BILLING_POSTGRES_DSN'' (GString [])]]"

definition load_billing :: "sys \<Rightarrow> gfield list res" where
  "load_billing y =
     require (\<lambda>cfg. \<not> blank (conf_string cfg [''Database'', ''DSN''])) ''config: database dsn required''
       (load_config y (StructPtr billing_defaults))"

definition billing_http_address :: "gfield list \<Rightarrow> string" where
  "billing_http_address cfg = http_address ''8083'' (conf_string cfg [''HTTP'', ''Port''])"

definition telemetry_defaults :: "gfield list" where
  "telemetry_defaults =
     [group ''HTTP'' [leaf ''Port'' ''TELEMETRY_HTTP_PORT'' (GString ''8084'')],
      group ''Database'' [leaf ''DSN'' ''TELEMETRY_POSTGRES_DSN'' (GString [])]]"

definition load_telemetry :: "sys \<Rightarrow> gfield list res" where
  "load_telemetry y =
     require (\<lambda>cfg. \<not> blank (conf_string cfg [''Database'', ''DSN''])) ''config: database dsn required''
       (load_config y (StructPtr telemetry_defaults))"

definition telemetry_http_address :: "gfield list \<Rightarrow> string" where
  "telemetry_http_address cfg = http_address ''8084'' (conf_string cfg [''HTTP'', ''Port''])"

subsection \<open>auth-service\<close>

definition auth_defaults :: "gfield list" where
  "auth_defaults =
     [group ''HTTP'' [leaf ''Port'' ''AUTH_HTTP_PORT'' (GString ''8080'')],
      group ''Database'' [leaf ''DSN'' ''AUTH_POSTGRES_DSN'' (GString [])],
      group ''JWT''
        [leaf ''Secret'' ''AUTH_JWT_SECRET'' (GString []),
         leaf ''ExpiresInMinutes'' ''AUTH_JWT_EXPIRES_MINUTES'' (GInt 64 60)]]"

text \<open>\<open>cfg.JWT.ExpiresInMinutes = n\<close>\<close>

definition set_expires :: "int \<Rightarrow> gfield list \<Rightarrow> gfield list" where
  "set_expires n cfg =
     map (\<lambda>f. case f of Field g t emb st v \<Rightarrow>
            if g = ''JWT''
            then Field g t emb st (case v of
                GStruct fs \<Rightarrow> GStruct (map (\<lambda>h. case h of Field k t' emb' st' w \<Rightarrow>
                  if k = ''ExpiresInMinutes'' then Field k t' emb' st' (GInt 64 n) else h) fs)
              | _ \<Rightarrow> v)
            else f) cfg"

definition load_auth :: "sys \<Rightarrow> gfield list res" where
  "load_auth y =
     map_sum id
       (\<lambda>cfg. if conf_int cfg [''JWT'', ''ExpiresInMinutes''] \<le> 0 then set_expires 60 cfg else cfg)
       (require (\<lambda>cfg. conf_string cfg [''JWT'', ''Secret''] \<noteq> []) ''config: jwt secret is required''
         (require (\<lambda>cfg. conf_string cfg [''Database'', ''DSN''] \<noteq> []) ''config: database DSN is required''
           (load_config y (StructPtr auth_defaults))))"

definition auth_http_address :: "gfield list \<Rightarrow> string" where
  "auth_http_address cfg = http_address ''8080'' (conf_string cfg [''HTTP'', ''Port''])"

definition jwt_expiration :: "gfield list \<Rightarrow> int" where
  "jwt_expiration cfg =
     (let n = conf_int cfg [''JWT'', ''ExpiresInMinutes'']
      in if n \<le> 0 then hour else duration_of n minute)"

subsection \<open>api-gateway\<close>

definition gateway_defaults :: "gfield list" where
  "gateway_defaults =
     [group ''HTTP'' [leaf ''Port'' ''API_GATEWAY_HTTP_PORT'' (GString ''8080'')],
      group ''JWT'' [leaf ''Secret'' ''API_GATEWAY_JWT_SECRET'' (GString [])],
      group ''Services''
        [leaf ''AuthURL'' ''AUTH_SERVICE_URL'' (GString []),
         leaf ''SessionsURL'' ''SESSIONS_SERVICE_URL'' (GString []),
         leaf ''BillingURL'' ''BILLING_SERVICE_URL'' (GString []),
         leaf ''StationsURL'' ''STATIONS_SERVICE_URL'' (GString [])],
      group ''HTTPClient'' [leaf ''TimeoutSeconds'' ''API_GATEWAY_HTTP_TIMEOUT'' (GInt 64 5)]]"

definition load_gateway :: "sys \<Rightarrow> gfield list res" where
  "load_gateway y =
     require (\<lambda>cfg. \<not> blank (conf_string cfg [''JWT'', ''Secret''])) ''config: jwt secret required''
       (load_config y (StructPtr gateway_defaults))"

definition gateway_http_address :: "gfield list \<Rightarrow> string" where
  "gateway_http_address cfg = http_address ''8080'' (conf_string cfg [''HTTP'', ''Port''])"

definition http_timeout :: "gfield list \<Rightarrow> int" where
  "http_timeout cfg =
     (let n = conf_int cfg [''HTTPClient'', ''TimeoutSeconds'']
      in if n \<le> 0 then 5 * second else duration_of n second)"

end
