(* ===== verification/Platform.thy ===== *)
theory Platform
  imports ServiceConfig
begin

section \<open>Processes and what they run on\<close>

text \<open>
  \<open>src/backend/libs/db\<close>, \<open>redis\<close> and \<open>logging\<close>, the HTTP server of a service and the shape of its
  \<open>main\<close>. What the process does to its surroundings is a list of actions; what the surroundings answer
  (the database driver, Redis, the log library, the listener and the signals) is the record \<open>platform\<close>.
\<close>

subsection \<open>Errors of the standard library\<close>

abbreviation err_server_closed :: go_error where
  "err_server_closed \<equiv> ErrText ''http: Server closed''"
abbreviation err_canceled :: go_error where
  "err_canceled \<equiv> ErrText ''context canceled''"
abbreviation err_deadline :: go_error where
  "err_deadline \<equiv> ErrText ''context deadline exceeded''"

text \<open>\<open>errors.Is\<close>\<close>

fun errors_is :: "go_error \<Rightarrow> go_error \<Rightarrow> bool" where
  "errors_is (ErrWrap s e) t \<longleftrightarrow> ErrWrap s e = t \<or> errors_is e t"
| "errors_is e t \<longleftrightarrow> e = t"

subsection \<open>Platform and actions\<close>

record redis_options =
  ro_addr :: string
  ro_password :: string
  ro_dial_timeout :: int
  ro_read_timeout :: int
  ro_write_timeout :: int

text \<open>The encoders of zap are named; the encoder of times is the code's own.\<close>

datatype zap_encoder = LowercaseLevelEncoder | StringDurationEncoder | ShortCallerEncoder

record encoder_config =
  ec_time_key :: string
  ec_level_key :: string
  ec_name_key :: string
  ec_caller_key :: string
  ec_message_key :: string
  ec_stacktrace_key :: string
  ec_line_ending :: string
  ec_encode_level :: zap_encoder
  ec_encode_time :: "time \<Rightarrow> string"
  ec_encode_duration :: zap_encoder
  ec_encode_caller :: zap_encoder

record zap_config =
  zc_level :: int
  zc_development :: bool
  zc_initial :: nat
  zc_thereafter :: nat
  zc_encoding :: string
  zc_encoder :: encoder_config
  zc_outputs :: "string list"
  zc_error_outputs :: "string list"

text \<open>
  How \<open>Run\<close>'s \<open>select\<close> ends: the context is done and \<open>Shutdown\<close> returns the given error, or
  \<open>ListenAndServe\<close> has returned one.
\<close>

datatype run_end = ContextDone "go_error option" | ServeEnded "go_error option"

text \<open>
  \<open>pf_set_level\<close> is \<open>zapcore.Level.Set\<close>, \<open>None\<close> when it fails; \<open>pf_open\<close> and \<open>pf_ping_db\<close> are
  \<open>sql.Open\<close> with the driver \<open>pgx\<close> and \<open>PingContext\<close>; \<open>pf_ping_redis\<close> is Redis's \<open>PING\<close>.
\<close>

record platform =
  pf_sys :: sys
  pf_set_level :: "string \<Rightarrow> int option"
  pf_build_logger :: "zap_config \<Rightarrow> go_error option"
  pf_open :: "string \<Rightarrow> go_error option"
  pf_ping_db :: "string \<Rightarrow> go_error option"
  pf_close_db :: "go_error option"
  pf_ping_redis :: "redis_options \<Rightarrow> go_error option"
  pf_close_redis :: "go_error option"
  pf_run :: run_end

datatype action =
    BuildLogger zap_config
  | SyncLogger
  | LogInfo string
  | LogWarn string go_error
  | OpenDb string
  | LimitDb nat nat int int
  | PingDb int
  | CloseDb
  | NewRedis redis_options
  | PingRedis int
  | CloseRedis
  | StartManager int
  | Listen string
  | ShutdownServer int
  | StopNotify

subsection \<open>Database, Redis, log\<close>

text \<open>\<open>NewPostgresDB\<close>: the handle is named by its DSN.\<close>

definition new_postgres_db :: "platform \<Rightarrow> string \<Rightarrow> string res \<times> action list" where
  "new_postgres_db p dsn =
     (if trim_space dsn = [] then (Inl (ErrText ''db: empty DSN''), [])
      else case pf_open p dsn of
          Some err \<Rightarrow> (Inl err, [])
        | None \<Rightarrow>
            let acts = [OpenDb dsn, LimitDb 25 5 hour (30 * minute), PingDb (5 * second)]
            in (case pf_ping_db p dsn of
                  Some err \<Rightarrow> (Inl err, acts @ [CloseDb])
                | None \<Rightarrow> (Inr dsn, acts)))"

definition new_redis_client :: "platform \<Rightarrow> string \<Rightarrow> string \<Rightarrow> redis_options res \<times> action list" where
  "new_redis_client p addr0 password =
     (let addr = trim_space addr0
      in if addr = [] then (Inl (ErrText ''redis: addr is empty''), [])
         else
           let opts = \<lparr>ro_addr = addr, ro_password = password, ro_dial_timeout = 5 * second,
                       ro_read_timeout = 3 * second, ro_write_timeout = 3 * second\<rparr>;
               acts = [NewRedis opts, PingRedis (5 * second)]
           in (case pf_ping_redis p opts of
                 Some err \<Rightarrow> (Inl err, acts @ [CloseRedis])
               | None \<Rightarrow> (Inr opts, acts)))"

text \<open>
  \<open>NewLogger\<close>; level 0 is \<open>InfoLevel\<close>, and zap's default line ending a line feed. The text of a time is
  that of \<open>RFC3339Nano\<close>, for years of four digits.
\<close>

definition encode_log_time :: "time \<Rightarrow> string" where
  "encode_log_time t = (case format_rfc3339 t of None \<Rightarrow> [] | Some s \<Rightarrow> s)"

definition encoder_settings :: encoder_config where
  "encoder_settings =
     \<lparr>ec_time_key = ''ts'', ec_level_key = ''level'', ec_name_key = ''logger'', ec_caller_key = ''caller'',
      ec_message_key = ''msg'', ec_stacktrace_key = ''stack'', ec_line_ending = [CHR 0x0A],
      ec_encode_level = LowercaseLevelEncoder, ec_encode_time = encode_log_time,
      ec_encode_duration = StringDurationEncoder, ec_encode_caller = ShortCallerEncoder\<rparr>"

definition log_level :: "platform \<Rightarrow> int" where
  "log_level p =
     (let name = (case sy_env (pf_sys p) ''LOG_LEVEL'' of None \<Rightarrow> [] | Some s \<Rightarrow> s)
      in case pf_set_level p (to_lower (sy_uni (pf_sys p)) (trim_space name)) of
           None \<Rightarrow> 0
         | Some level \<Rightarrow> level)"

definition new_logger :: "platform \<Rightarrow> zap_config res \<times> action list" where
  "new_logger p =
     (let cfg = \<lparr>zc_level = log_level p, zc_development = False, zc_initial = 100, zc_thereafter = 100,
                 zc_encoding = ''json'', zc_encoder = encoder_settings, zc_outputs = [''stdout''], zc_error_outputs = [''stderr'']\<rparr>
      in case pf_build_logger p cfg of
           Some err \<Rightarrow> (Inl err, [])
         | None \<Rightarrow> (Inr cfg, [BuildLogger cfg]))"

subsection \<open>Servers\<close>

record 'h server =
  se_addr :: string
  se_handler :: 'h
  se_read_timeout :: int
  se_write_timeout :: int
  se_idle_timeout :: int

text \<open>\<open>NewServer\<close> of the auth, sessions, billing and telemetry services.\<close>

definition new_server :: "string \<Rightarrow> 'h \<Rightarrow> 'h server" where
  "new_server addr h =
     \<lparr>se_addr = addr, se_handler = h, se_read_timeout = 10 * second, se_write_timeout = 15 * second,
      se_idle_timeout = 60 * second\<rparr>"

text \<open>
  \<open>Server.Run\<close>, the goroutine that listens having started by the time the \<open>select\<close> ends; \<open>shutting\<close> is
  what the service logs before it shuts down.
\<close>

definition server_run ::
  "platform \<Rightarrow> string \<Rightarrow> action list \<Rightarrow> 'h server \<Rightarrow> go_error option \<times> action list" where
  "server_run p starting shutting s =
     (let acts = [LogInfo starting, Listen (se_addr s)]
      in case pf_run p of
           ContextDone r \<Rightarrow> (r, acts @ shutting @ [ShutdownServer (10 * second)])
         | ServeEnded None \<Rightarrow> (None, acts)
         | ServeEnded (Some err) \<Rightarrow> (if errors_is err err_server_closed then None else Some err, acts))"

subsection \<open>Applications\<close>

text \<open>
  \<open>App\<close>: the server and the handles it holds; \<open>None\<close> where the service's struct has no such field.
  \<open>ap_manager\<close> is the interval of the connection manager.
\<close>

record 'h app =
  ap_server :: "'h server"
  ap_db :: "string option"
  ap_redis :: "redis_options option"
  ap_manager :: "int option"

definition close_handle :: "action \<Rightarrow> string \<Rightarrow> go_error option \<Rightarrow> action list" where
  "close_handle close message r =
     close # (case r of None \<Rightarrow> [] | Some err \<Rightarrow> [LogWarn message err])"

definition close_app :: "platform \<Rightarrow> 'h app \<Rightarrow> action list" where
  "close_app p a =
     (if ap_db a = None then [] else close_handle CloseDb ''failed to close db'' (pf_close_db p)) @
     (if ap_redis a = None then [] else close_handle CloseRedis ''failed to close redis'' (pf_close_redis p))"

subsection \<open>\<open>main\<close>\<close>

text \<open>
  The process ends by returning from \<open>main\<close>, by a panic, which runs the deferred calls made so far, or
  by \<open>logger.Fatal\<close>, which exits without them. The six programs differ in the functions they call and
  in whether \<open>main\<close> defers \<open>Close\<close>.
\<close>

datatype exit = Returned | Panicked go_error | Fatal string go_error

record 'h entry_point =
  pc_load :: "sys \<Rightarrow> gfield list res"
  pc_new :: "platform \<Rightarrow> gfield list \<Rightarrow> 'h app res \<times> action list"
  pc_run :: "platform \<Rightarrow> 'h app \<Rightarrow> go_error option \<times> action list"
  pc_close :: "platform \<Rightarrow> 'h app \<Rightarrow> action list"
  pc_init_failed :: string
  pc_run_failed :: string

definition main_of :: "'h entry_point \<Rightarrow> platform \<Rightarrow> exit \<times> action list" where
  "main_of pc p =
     (case pc_load pc (pf_sys p) of
        Inl err \<Rightarrow> (Panicked err, [StopNotify])
      | Inr cfg \<Rightarrow>
          (case new_logger p of
             (Inl err, acts) \<Rightarrow> (Panicked err, acts @ [StopNotify])
           | (Inr _, acts) \<Rightarrow>
               (case pc_new pc p cfg of
                  (Inl err, acts1) \<Rightarrow> (Fatal (pc_init_failed pc) err, acts @ acts1)
                | (Inr a, acts1) \<Rightarrow>
                    (case pc_run pc p a of
                       (Some err, acts2) \<Rightarrow>
                         if errors_is err err_canceled
                         then (Returned, acts @ acts1 @ acts2 @ pc_close pc p a @ [SyncLogger, StopNotify])
                         else (Fatal (pc_run_failed pc) err, acts @ acts1 @ acts2)
                     | (None, acts2) \<Rightarrow>
                         (Returned, acts @ acts1 @ acts2 @ pc_close pc p a @ [SyncLogger, StopNotify])))))"

end
