(* ===== verification/GoJson.thy ===== *)
theory GoJson
  imports GoStrings GoFloat GoTime
begin

section \<open>JSON values and encoding/json\<close>

text \<open>
  Requests, responses and OCPP frames are JSON. The model starts at the JSON value: \<open>JInt\<close> is a
  number literal without fraction and exponent, \<open>JDec\<close> any other number literal with the rational
  it denotes, an object keeps its members in order with duplicates. \<open>json.Unmarshal\<close> into a Go
  struct is \<open>decode_struct\<close>: members are matched to fields by exact name and then by folded name,
  later members overwrite, \<open>null\<close> leaves a field alone, a value of the wrong kind is remembered as
  the call's error while decoding goes on, and a failing \<open>UnmarshalJSON\<close> (a time) stops it.
\<close>

datatype json =
    JNull
  | JBool bool
  | JInt int
  | JDec rat
  | JStr string
  | JArr "json list"
  | JObj "(string \<times> json) list"

text \<open>A body: bytes that do not hold a JSON value (none at all, when empty), or the value they hold.\<close>

datatype body = NotJson string | Json json

subsection \<open>Decoding into Go values\<close>

definition number_f64 :: "json \<Rightarrow> f64 option" where
  "number_f64 j =
     (case j of
        JInt i \<Rightarrow> (let x = of_int64 i in if finite64 x then Some x else None)
      | JDec q \<Rightarrow> (let x = round_f64 q in if finite64 x then Some x else None)
      | _ \<Rightarrow> None)"

type_synonym 'r setter = "json \<Rightarrow> 'r \<Rightarrow> 'r res"

definition string_field :: "string \<Rightarrow> (string \<Rightarrow> 'r \<Rightarrow> 'r) \<Rightarrow> string \<times> 'r setter" where
  "string_field k upd = (k, \<lambda>j r.
     (case j of JNull \<Rightarrow> Inr r | JStr s \<Rightarrow> Inr (upd s r) | _ \<Rightarrow> Inl (ErrType k)))"

definition int_field :: "string \<Rightarrow> (int \<Rightarrow> 'r \<Rightarrow> 'r) \<Rightarrow> string \<times> 'r setter" where
  "int_field k upd = (k, \<lambda>j r.
     (case j of
        JNull \<Rightarrow> Inr r
      | JInt i \<Rightarrow> if in_int64 i then Inr (upd i r) else Inl (ErrType k)
      | _ \<Rightarrow> Inl (ErrType k)))"

definition float_field :: "string \<Rightarrow> (f64 \<Rightarrow> 'r \<Rightarrow> 'r) \<Rightarrow> string \<times> 'r setter" where
  "float_field k upd = (k, \<lambda>j r.
     (if j = JNull then Inr r
      else case number_f64 j of Some x \<Rightarrow> Inr (upd x r) | None \<Rightarrow> Inl (ErrType k)))"

definition time_field :: "string \<Rightarrow> (time \<Rightarrow> 'r \<Rightarrow> 'r) \<Rightarrow> string \<times> 'r setter" where
  "time_field k upd = (k, \<lambda>j r.
     (case j of
        JNull \<Rightarrow> Inr r
      | JStr s \<Rightarrow> (case parse_rfc3339 s of Some t \<Rightarrow> Inr (upd t r) | None \<Rightarrow> Inl (ErrTime k))
      | _ \<Rightarrow> Inl (ErrTime k)))"

definition find_field :: "(string \<times> 'r setter) list \<Rightarrow> string \<Rightarrow> 'r setter option" where
  "find_field fs k =
     (case map_of fs k of
        Some f \<Rightarrow> Some f
      | None \<Rightarrow> map_option snd (find (\<lambda>f. equal_fold k (fst f)) fs))"

fun decode_members ::
  "(string \<times> 'r setter) list \<Rightarrow> go_error option \<Rightarrow> 'r \<Rightarrow> (string \<times> json) list \<Rightarrow> 'r res" where
  "decode_members fs saved r [] = (case saved of None \<Rightarrow> Inr r | Some e \<Rightarrow> Inl e)"
| "decode_members fs saved r ((k, v) # ms) =
     (case find_field fs k of
        None \<Rightarrow> decode_members fs saved r ms
      | Some set_field \<Rightarrow>
          (case set_field v r of
             Inr r' \<Rightarrow> decode_members fs saved r' ms
           | Inl (ErrTime t) \<Rightarrow> Inl (ErrTime t)
           | Inl e \<Rightarrow> decode_members fs (case saved of None \<Rightarrow> Some e | Some e' \<Rightarrow> Some e') r ms))"

definition decode_struct :: "(string \<times> 'r setter) list \<Rightarrow> 'r \<Rightarrow> json \<Rightarrow> 'r res" where
  "decode_struct fs zero j =
     (case j of
        JObj ms \<Rightarrow> decode_members fs None zero ms
      | JNull \<Rightarrow> Inr zero
      | _ \<Rightarrow> Inl (ErrType []))"

text \<open>\<open>json.NewDecoder(r.Body).Decode(&req)\<close>\<close>

definition decode_body :: "(string \<times> 'r setter) list \<Rightarrow> 'r \<Rightarrow> body \<Rightarrow> 'r res" where
  "decode_body fs zero b = (case b of NotJson _ \<Rightarrow> Inl ErrSyntax | Json j \<Rightarrow> decode_struct fs zero j)"

text \<open>
  Decoding into \<open>map[string]interface{}\<close>: every number becomes a float64, so one that overflows,
  at any depth, is an error.
\<close>

fun numbers_fit :: "json \<Rightarrow> bool" where
  "numbers_fit (JInt i) = (number_f64 (JInt i) \<noteq> None)"
| "numbers_fit (JDec q) = (number_f64 (JDec q) \<noteq> None)"
| "numbers_fit (JArr js) = list_all numbers_fit js"
| "numbers_fit (JObj ms) = list_all (\<lambda>m. numbers_fit (snd m)) ms"
| "numbers_fit _ = True"

definition decode_map :: "body \<Rightarrow> (string \<rightharpoonup> json) res" where
  "decode_map b =
     (case b of
        NotJson _ \<Rightarrow> Inl ErrSyntax
      | Json (JObj ms) \<Rightarrow> if numbers_fit (JObj ms) then Inr (map_of (rev ms)) else Inl (ErrType [])
      | Json JNull \<Rightarrow> Inr Map.empty
      | Json _ \<Rightarrow> Inl (ErrType []))"

text \<open>\<open>json.Unmarshal\<close> into an \<open>int\<close> and into a \<open>string\<close> variable that holds its zero value.\<close>

definition unmarshal_int :: "json \<Rightarrow> int res" where
  "unmarshal_int j =
     (case j of
        JNull \<Rightarrow> Inr 0
      | JInt i \<Rightarrow> if in_int64 i then Inr i else Inl (ErrType [])
      | _ \<Rightarrow> Inl (ErrType []))"

definition unmarshal_string :: "json \<Rightarrow> string res" where
  "unmarshal_string j =
     (case j of JNull \<Rightarrow> Inr [] | JStr s \<Rightarrow> Inr s | _ \<Rightarrow> Inl (ErrType []))"

subsection \<open>Encoding\<close>

text \<open>
  \<open>json.Marshal\<close> fails, here \<open>None\<close>, on a float that is not finite and on a time whose year has
  more than four digits. A finite float is written as the shortest decimal that reads back as it;
  the model keeps the number itself, which every reader rounds to the same float.
\<close>

definition json_f64 :: "f64 \<Rightarrow> json option" where
  "json_f64 x =
     (case x of
        Fin q \<Rightarrow> Some (if of_int \<lfloor>q\<rfloor> = q then JInt \<lfloor>q\<rfloor> else JDec q)
      | _ \<Rightarrow> None)"

definition json_time :: "time \<Rightarrow> json option" where
  "json_time t = map_option JStr (format_rfc3339 t)"

fun json_all :: "(string \<times> json option) list \<Rightarrow> (string \<times> json) list option" where
  "json_all [] = Some []"
| "json_all ((k, None) # ms) = None"
| "json_all ((k, Some j) # ms) = map_option ((#) (k, j)) (json_all ms)"

definition json_object :: "(string \<times> json option) list \<Rightarrow> json option" where
  "json_object ms = map_option JObj (json_all ms)"

fun json_list :: "json option list \<Rightarrow> json list option" where
  "json_list [] = Some []"
| "json_list (None # js) = None"
| "json_list (Some j # js) = map_option ((#) j) (json_list js)"

text \<open>A slice: \<open>nil\<close> when nothing was appended, which JSON writes as \<open>null\<close>.\<close>

definition json_slice :: "('a \<Rightarrow> json option) \<Rightarrow> 'a list \<Rightarrow> json option" where
  "json_slice f xs = (if xs = [] then Some JNull else map_option JArr (json_list (map f xs)))"

subsection \<open>What is written can be read\<close>

lemma number_json_f64:
  assumes "valid64 x" and "json_f64 x = Some j" shows "number_f64 j = Some x"
proof -
  obtain q where q: "x = Fin q" "round_f64 q = Fin q"
    using assms by (cases x) (auto simp: json_f64_def)
  with assms(2) show ?thesis
    by (auto simp: json_f64_def number_f64_def of_int64_def split: if_splits)
qed

lemma json_f64_not_null: "json_f64 x = Some j \<Longrightarrow> j \<noteq> JNull"
  by (auto simp: json_f64_def split: f64.splits if_splits)

lemma float_field_json [wire]:
  "valid64 x \<Longrightarrow> json_f64 x = Some j \<Longrightarrow> snd (float_field k upd) j r = Inr (upd x r)"
  by (simp add: float_field_def number_json_f64 json_f64_not_null)

lemma time_field_json [wire]:
  "json_time t = Some j \<Longrightarrow> snd (time_field k upd) j r = Inr (upd t r)"
  by (auto simp: time_field_def json_time_def parse_format_rfc3339)

lemma string_field_json [wire]: "snd (string_field k upd) (JStr s) r = Inr (upd s r)"
  by (simp add: string_field_def)

lemma int_field_json [wire]: "in_int64 i \<Longrightarrow> snd (int_field k upd) (JInt i) r = Inr (upd i r)"
  by (simp add: int_field_def)

lemma field_name [simp]:
  "fst (string_field k u1) = k" "fst (int_field k u2) = k" "fst (float_field k u3) = k"
  "fst (time_field k u4) = k"
  by (simp_all add: string_field_def int_field_def float_field_def time_field_def)

lemma decode_members_Cons_exact:
  assumes "map_of fs k = Some f" and "f v r = Inr r'"
  shows "decode_members fs saved r ((k, v) # ms) = decode_members fs saved r' ms"
  using assms by (simp add: find_field_def)

text \<open>Once a member has failed to decode, the call fails.\<close>

lemma decode_members_saved: "\<not> is_ok (decode_members fs (Some e) r ms)"
  by (induction ms arbitrary: r) (auto split: option.splits sum.splits go_error.splits)

text \<open>A decoded value has every property that the setters keep.\<close>

lemma decode_members_inv:
  assumes "\<And>k f j r r'. (k, f) \<in> set fs \<Longrightarrow> f j r = Inr r' \<Longrightarrow> P r \<Longrightarrow> P r'"
    and "P r" and "decode_members fs saved r ms = Inr r'"
  shows "P r'"
  using assms(2,3)
proof (induction ms arbitrary: saved r)
  case Nil
  then show ?case by (simp split: option.splits)
next
  case (Cons m ms)
  obtain k v where m: "m = (k, v)" by (cases m)
  show ?case
  proof (cases "find_field fs k")
    case None
    with Cons m show ?thesis by simp
  next
    case (Some f)
    then obtain k' where f: "(k', f) \<in> set fs"
      by (auto simp: find_field_def find_Some_iff split: option.splits dest: map_of_SomeD)
        (metis nth_mem prod.collapse)
    show ?thesis
    proof (cases "f v r")
      case (Inl e)
      with Cons m Some show ?thesis by (cases e) (auto split: option.splits)
    next
      case (Inr r2)
      with assms(1) [OF f Inr Cons.prems(1)] Cons m Some show ?thesis by simp
    qed
  qed
qed

lemma decode_struct_inv:
  assumes "decode_struct fs zero j = Inr r"
    and "\<And>k f j r r'. (k, f) \<in> set fs \<Longrightarrow> f j r = Inr r' \<Longrightarrow> P r \<Longrightarrow> P r'" and "P zero"
  shows "P r"
  using assms decode_members_inv [of fs P zero None _ r]
  by (auto simp: decode_struct_def split: json.splits)

lemma number_f64_valid: "number_f64 j = Some x \<Longrightarrow> valid64 x"
  by (auto simp: number_f64_def Let_def of_int64_def round_f64_valid split: json.splits if_splits)

lemma decode_body_inv:
  assumes "decode_body fs zero b = Inr r"
    and "\<And>k f j r r'. (k, f) \<in> set fs \<Longrightarrow> f j r = Inr r' \<Longrightarrow> P r \<Longrightarrow> P r'" and "P zero"
  shows "P r"
  using assms decode_struct_inv [of fs zero _ r P] by (auto simp: decode_body_def split: body.splits)

lemmas field_defs = string_field_def int_field_def float_field_def time_field_def

text \<open>An object is written exactly when all its members are.\<close>

lemma json_all_None: "json_all ms = None \<longleftrightarrow> (\<exists>k. (k, None) \<in> set ms)"
  by (induction ms rule: json_all.induct) auto

lemma json_object_None: "json_object ms = None \<longleftrightarrow> (\<exists>k. (k, None) \<in> set ms)"
  by (simp add: json_object_def json_all_None)

lemma json_all_Some:
  "json_all ((k, x) # ms) = Some ps \<longleftrightarrow> (\<exists>j qs. x = Some j \<and> json_all ms = Some qs \<and> ps = (k, j) # qs)"
  by (cases x) auto

text \<open>The text of a written time reads back as the time.\<close>

lemma json_time_text: "json_time t = Some j \<Longrightarrow> \<exists>s. j = JStr s \<and> parse_rfc3339 s = Some t"
  by (auto simp: json_time_def parse_format_rfc3339)

end
