(* ===== verification/Http.thy ===== *)
theory Http
  imports GoJson
begin

section \<open>HTTP servers and clients, and the interfaces of a service\<close>

text \<open>
  The parts of \<open>net/http\<close> that all services use, and what one call depends on from outside:
  the readings of the clock and the failures of the database. A service is a function from the
  environment, a request and its state to a response and the new state. Three locales state
  what the rest of the development relies on: \<open>service_inv\<close>, a service whose every request keeps an
  invariant, \<open>service_refinement\<close>, one that simulates an abstract service, and \<open>kv_store\<close>, a store that
  answers with what was last stored.
\<close>

subsection \<open>Requests, responses, environment\<close>

record request =
  rq_method :: string
  rq_path :: string
  rq_query :: "string \<Rightarrow> string"
  rq_header :: "string \<Rightarrow> string"
  rq_body :: body

record response =
  rs_status :: nat
  rs_headers :: "(string \<times> string) list"
  rs_body :: body

text \<open>
  \<open>clock n\<close> is the \<open>n\<close>-th reading of \<open>time.Now\<close> during the call, \<open>db_now\<close> the database's \<open>NOW()\<close>,
  and \<open>db_fault n\<close> the error of the \<open>n\<close>-th statement when the server or the connection fails or
  Postgres cannot take a parameter (a text with a zero byte); a statement that fails this way leaves
  the tables as they were.
\<close>

record env =
  clock :: "nat \<Rightarrow> time"
  db_now :: time
  db_fault :: "nat \<Rightarrow> go_error option"

text \<open>An environment in which nothing fails and the clock stands still.\<close>

definition quiet_env :: "time \<Rightarrow> env" where
  "quiet_env t = \<lparr>clock = (\<lambda>n. t), db_now = t, db_fault = (\<lambda>n. None)\<rparr>"

text \<open>A TIMESTAMPTZ column holds microseconds; the driver truncates.\<close>

definition pg_time :: "time \<Rightarrow> time" where
  "pg_time t = t div 1000 * 1000"

lemma pg_time_idem [simp]: "pg_time (pg_time t) = pg_time t"
  by (simp add: pg_time_def)

lemma pg_time_mono: "s \<le> t \<Longrightarrow> pg_time s \<le> pg_time t"
  by (simp add: pg_time_def zdiv_mono1)

type_synonym 's handler = "env \<Rightarrow> request \<Rightarrow> 's \<Rightarrow> response \<times> 's"

subsection \<open>Writing responses\<close>

text \<open>\<open>writeJSON\<close>: when the payload cannot be encoded the status is sent with an empty body.\<close>

definition write_json :: "nat \<Rightarrow> json option \<Rightarrow> response" where
  "write_json status payload =
     \<lparr>rs_status = status, rs_headers = [(''Content-Type'', ''application/json'')],
      rs_body = (case payload of None \<Rightarrow> NotJson [] | Some j \<Rightarrow> Json j)\<rparr>"

definition write_error :: "nat \<Rightarrow> string \<Rightarrow> response" where
  "write_error status message = write_json status (Some (JObj [(''error'', JStr message)]))"

text \<open>\<open>http.Error\<close>\<close>

definition http_error :: "string \<Rightarrow> nat \<Rightarrow> response" where
  "http_error message status =
     \<lparr>rs_status = status,
      rs_headers = [(''Content-Type'', ''text/plain; charset=utf-8''),
                    (''X-Content-Type-Options'', ''nosniff'')],
      rs_body = NotJson (message @ [CHR 0x0A])\<rparr>"

text \<open>\<open>GET /health\<close>, the same in every service.\<close>

definition health :: "'s handler" where
  "health e r s = (write_json 200 (Some (JObj [(''status'', JStr ''ok'')])), s)"

lemma write_json_status [simp]: "rs_status (write_json n j) = n"
  by (simp add: write_json_def)

lemma write_error_status [simp]: "rs_status (write_error n m) = n"
  by (simp add: write_error_def)

lemma http_error_status [simp]: "rs_status (http_error m n) = n"
  by (simp add: http_error_def)

lemma health_simps [simp]: "snd (health e r s) = s" "rs_status (fst (health e r s)) = 200"
  by (simp_all add: health_def)

subsection \<open>Routing\<close>

text \<open>The \<open>method\<close> wrapper every router puts around its handlers.\<close>

definition method_guard :: "string \<Rightarrow> 's handler \<Rightarrow> 's handler" where
  "method_guard expected h e r s =
     (if rq_method r \<noteq> expected
      then (\<lparr>rs_status = 405, rs_headers = [(''Allow'', expected)], rs_body = NotJson []\<rparr>, s)
      else h e r s)"

text \<open>
  \<open>http.ServeMux\<close> on patterns without wildcards or trailing slashes, for request paths that are
  already in canonical form (others are redirected to it).
\<close>

definition serve_mux :: "(string \<times> 's handler) list \<Rightarrow> 's handler" where
  "serve_mux routes e r s =
     (case map_of routes (rq_path r) of
        None \<Rightarrow> (http_error ''404 page not found'' 404, s)
      | Some h \<Rightarrow> h e r s)"

lemma method_guard_state: "rq_method r \<noteq> expected \<Longrightarrow> snd (method_guard expected h e r s) = s"
  by (simp add: method_guard_def)

lemma serve_mux_inv:
  assumes "\<And>p h. (p, h) \<in> set routes \<Longrightarrow> I (snd (h e r s))" and "I s"
  shows "I (snd (serve_mux routes e r s))"
  using assms by (auto simp: serve_mux_def split: option.splits dest: map_of_SomeD)

lemma method_guard_inv: "I s \<Longrightarrow> I (snd (h e r s)) \<Longrightarrow> I (snd (method_guard m h e r s))"
  by (simp add: method_guard_def)

subsection \<open>Calling other services\<close>

record http_call =
  hc_method :: string
  hc_url :: string
  hc_headers :: "(string \<times> string) list"
  hc_body :: body

text \<open>
  The network and the services behind it: a call changes the world \<open>'w\<close> and returns a response or
  an error (a URL that does not parse, a refused connection, a timeout).
\<close>

type_synonym 'w transport = "http_call \<Rightarrow> 'w \<Rightarrow> response res \<times> 'w"

definition json_post :: "string \<Rightarrow> json \<Rightarrow> http_call" where
  "json_post url j =
     \<lparr>hc_method = ''POST'', hc_url = url, hc_headers = [(''Content-Type'', ''application/json'')],
      hc_body = Json j\<rparr>"

text \<open>A request as these clients send it, with a JSON body.\<close>

definition post_body :: "string \<Rightarrow> json \<Rightarrow> request" where
  "post_body path j = \<lparr>rq_method = ''POST'', rq_path = path, rq_query = (\<lambda>_. []), rq_header = (\<lambda>_. []),
     rq_body = Json j\<rparr>"

subsection \<open>A service over a sequence of requests\<close>

fun serve_all :: "'s handler \<Rightarrow> (env \<times> request) list \<Rightarrow> 's \<Rightarrow> response list \<times> 's" where
  "serve_all h [] s = ([], s)"
| "serve_all h ((e, r) # rest) s =
     (let (resp, s1) = h e r s; (resps, s2) = serve_all h rest s1 in (resp # resps, s2))"

locale service_inv =
  fixes handle :: "'s handler" and inv :: "'s \<Rightarrow> bool"
  assumes step: "inv s \<Longrightarrow> inv (snd (handle e r s))"
begin

lemma run: "inv s \<Longrightarrow> inv (snd (serve_all handle es s))"
proof (induction es arbitrary: s)
  case (Cons er es)
  obtain e r where er: "er = (e, r)" by (cases er)
  have "inv (snd (handle e r s))" using Cons.prems by (rule step)
  from Cons.IH [OF this] show ?case
    by (simp add: er case_prod_beta)
qed simp

text \<open>Whatever each request guarantees from a state of the invariant, every request of a run does.\<close>

lemma run_responses:
  assumes "inv s" and "\<And>e r s. inv s \<Longrightarrow> P (fst (handle e r s))"
  shows "list_all P (fst (serve_all handle es s))"
  using assms(1)
proof (induction es arbitrary: s)
  case (Cons er es)
  obtain e r where er: "er = (e, r)" by (cases er)
  have "inv (snd (handle e r s))" using Cons.prems by (rule step)
  from Cons.IH [OF this] assms(2) [OF Cons.prems, of e r] show ?case
    by (simp add: er case_prod_beta)
qed simp

end

subsection \<open>Refinement of an abstract service\<close>

text \<open>The abstract service reads a request and the response it was answered by.\<close>

fun spec_run ::
  "(env \<Rightarrow> request \<Rightarrow> response \<Rightarrow> 'a \<Rightarrow> 'a) \<Rightarrow> (env \<times> request) list \<Rightarrow> response list \<Rightarrow> 'a \<Rightarrow> 'a" where
  "spec_run spec ((e, r) # es) (resp # resps) a = spec_run spec es resps (spec e r resp a)"
| "spec_run spec es resps a = a"

locale service_refinement =
  fixes handle :: "'s handler" and abst :: "'s \<Rightarrow> 'a"
    and spec :: "env \<Rightarrow> request \<Rightarrow> response \<Rightarrow> 'a \<Rightarrow> 'a"
  assumes simulates: "abst (snd (handle e r s)) = spec e r (fst (handle e r s)) (abst s)"
begin

lemma run_refines:
  "abst (snd (serve_all handle es s)) = spec_run spec es (fst (serve_all handle es s)) (abst s)"
proof (induction es arbitrary: s)
  case (Cons er es)
  obtain e r where "er = (e, r)" by (cases er)
  with Cons.IH [of "snd (handle e r s)"] simulates [of e r s] show ?case
    by (simp add: case_prod_beta)
qed simp

end

subsection \<open>Key-value stores\<close>

locale kv_store =
  fixes get :: "'s \<Rightarrow> 'k \<Rightarrow> 'v option"
    and put :: "'k \<Rightarrow> 'v \<Rightarrow> 's \<Rightarrow> 's"
    and del :: "'k \<Rightarrow> 's \<Rightarrow> 's"
  assumes get_put: "get (put k v s) j = (if j = k then Some v else get s j)"
    and get_del: "get (del k s) j = (if j = k then None else get s j)"
begin

lemma get_put_same [simp]: "get (put k v s) k = Some v"
  by (simp add: get_put)

lemma get_put_other: "j \<noteq> k \<Longrightarrow> get (put k v s) j = get s j"
  by (simp add: get_put)

lemma get_del_same [simp]: "get (del k s) k = None"
  by (simp add: get_del)

lemma del_after_put: "get (del k (put k v s)) = get (del k s)"
  by (rule ext) (simp add: get_del get_put)

lemma last_put_wins: "get (put k v (put k w s)) = get (put k v s)"
  by (rule ext) (simp add: get_put)

end

end
