(* ===== verification/Auth.thy ===== *)
theory Auth
  imports Http
begin

section \<open>The auth service\<close>

text \<open>
  \<open>auth-service\<close>: the table \<open>users\<close>, \<open>UserRepository\<close>, \<open>AuthService\<close>, \<open>TokenService\<close>, the password
  hasher, the handlers and the router. Bcrypt and the JWT library are parameters, the records
  \<open>bcrypt\<close> and \<open>jwt\<close>; Unicode's lower-case table outside ASCII is the parameter \<open>uni\<close>. Statement 0
  of a call looks the user up, statement 1 inserts.
\<close>

subsection \<open>Users\<close>

record User =
  us_id :: int
  us_email :: string
  us_hash :: string
  us_role :: string
  us_created_at :: time

record auth_state =
  av_users :: "User list"
  av_seq :: int

abbreviation err_user_not_found :: go_error where
  "err_user_not_found \<equiv> ErrText ''user not found''"

definition find_email :: "string \<Rightarrow> User list \<Rightarrow> User option" where
  "find_email m users = find (\<lambda>u. us_email u = m) users"

definition normalize_email :: "(string \<Rightarrow> string) \<Rightarrow> string \<Rightarrow> string" where
  "normalize_email uni email = to_lower uni (trim_space email)"

definition create_user ::
  "(string \<Rightarrow> string) \<Rightarrow> env \<Rightarrow> nat \<Rightarrow> User \<Rightarrow> auth_state \<Rightarrow> User res \<times> auth_state" where
  "create_user uni e n user s =
     (let email = normalize_email uni (us_email user)
      in (case db_fault e n of
            Some err \<Rightarrow> (Inl err, s)
          | None \<Rightarrow>
              if \<not> in_int64 (av_seq s)
              then (Inl (ErrExt ''nextval: reached maximum value of sequence''), s)
              else if find_email email (av_users s) \<noteq> None
              then (Inl (ErrExt ''duplicate key value violates unique constraint''), s\<lparr>av_seq := av_seq s + 1\<rparr>)
              else
                let u = user\<lparr>us_id := av_seq s, us_email := email, us_created_at := db_now e\<rparr>
                in (Inr u, s\<lparr>av_users := av_users s @ [u], av_seq := av_seq s + 1\<rparr>)))"

definition get_by_email ::
  "(string \<Rightarrow> string) \<Rightarrow> env \<Rightarrow> nat \<Rightarrow> string \<Rightarrow> auth_state \<Rightarrow> User res" where
  "get_by_email uni e n email s =
     (case db_fault e n of
        Some err \<Rightarrow> Inl err
      | None \<Rightarrow>
          (case find_email (normalize_email uni email) (av_users s) of
             None \<Rightarrow> Inl err_user_not_found
           | Some u \<Rightarrow> Inr u))"

subsection \<open>Passwords and tokens\<close>

text \<open>\<open>GenerateFromPassword\<close> draws its salt from the environment of the call.\<close>

record bcrypt =
  bc_generate :: "env \<Rightarrow> string \<Rightarrow> string res"
  bc_compare :: "string \<Rightarrow> string \<Rightarrow> unit res"

definition hash_password :: "bcrypt \<Rightarrow> env \<Rightarrow> string \<Rightarrow> string res" where
  "hash_password bc e password =
     (if password = [] then Inl (ErrText ''password: empty password'') else bc_generate bc e password)"

definition compare_password :: "bcrypt \<Rightarrow> string \<Rightarrow> string \<Rightarrow> unit res" where
  "compare_password bc hash password = bc_compare bc hash password"

text \<open>
  The JWT library: \<open>jw_sign\<close> signs claims with HS256 under a secret; \<open>jw_parse\<close> accepts, at a time,
  a token with an HMAC signature under the secret that has not expired, and returns its claims.
\<close>

record jwt =
  jw_sign :: "string \<Rightarrow> json \<Rightarrow> string res"
  jw_parse :: "string \<Rightarrow> time \<Rightarrow> string \<Rightarrow> json res"

record token_service =
  tk_secret :: string
  tk_expires_in :: int

definition new_token_service :: "string \<Rightarrow> int \<Rightarrow> token_service" where
  "new_token_service secret expires_in =
     \<lparr>tk_secret = secret, tk_expires_in = (if expires_in \<le> 0 then hour else expires_in)\<rparr>"

definition token_claims :: "token_service \<Rightarrow> time \<Rightarrow> int \<Rightarrow> string \<Rightarrow> json" where
  "token_claims ts now user role =
     JObj [(''user_id'', JInt user), (''role'', JStr role),
           (''exp'', JInt (unix_seconds (now + tk_expires_in ts))), (''iat'', JInt (unix_seconds now))]"

definition generate_token :: "jwt \<Rightarrow> token_service \<Rightarrow> time \<Rightarrow> int \<Rightarrow> string \<Rightarrow> string res" where
  "generate_token jw ts now user role =
     (if user = 0 then Inl (ErrText ''token: user id is required'')
      else jw_sign jw (tk_secret ts) (token_claims ts now user role))"

record Claims =
  cl_user :: int
  cl_role :: string

definition claims_fields :: "(string \<times> Claims setter) list" where
  "claims_fields =
     [int_field ''user_id'' (\<lambda>i r. r\<lparr>cl_user := i\<rparr>), string_field ''role'' (\<lambda>s r. r\<lparr>cl_role := s\<rparr>)]"

definition validate_token :: "jwt \<Rightarrow> token_service \<Rightarrow> time \<Rightarrow> string \<Rightarrow> Claims res" where
  "validate_token jw ts now token =
     (case jw_parse jw (tk_secret ts) now token of
        Inl err \<Rightarrow> Inl err
      | Inr claims \<Rightarrow> decode_struct claims_fields \<lparr>cl_user = 0, cl_role = []\<rparr> claims)"

subsection \<open>AuthService\<close>

abbreviation err_email_in_use :: go_error where
  "err_email_in_use \<equiv> ErrText ''auth: email already registered''"
abbreviation err_invalid_credentials :: go_error where
  "err_invalid_credentials \<equiv> ErrText ''auth: invalid credentials''"

record auth_deps =
  ad_uni :: "string \<Rightarrow> string"
  ad_hasher :: bcrypt
  ad_jwt :: jwt
  ad_tokens :: token_service

definition signup :: "auth_deps \<Rightarrow> env \<Rightarrow> string \<Rightarrow> string \<Rightarrow> string \<Rightarrow> auth_state \<Rightarrow> User res \<times> auth_state" where
  "signup d e email0 password role0 s =
     (let email = normalize_email (ad_uni d) email0
      in if email = [] then (Inl (ErrText ''auth: email required''), s)
         else if password = [] then (Inl (ErrText ''auth: password required''), s)
         else
           let role = (if role0 = [] then ''user'' else role0)
           in (case get_by_email (ad_uni d) e 0 email s of
                 Inr _ \<Rightarrow> (Inl err_email_in_use, s)
               | Inl err \<Rightarrow>
                   if err \<noteq> err_user_not_found then (Inl err, s)
                   else (case hash_password (ad_hasher d) e password of
                       Inl err' \<Rightarrow> (Inl err', s)
                     | Inr hash \<Rightarrow>
                         create_user (ad_uni d) e 1
                           \<lparr>us_id = 0, us_email = email, us_hash = hash, us_role = role, us_created_at = 0\<rparr> s)))"

definition login :: "auth_deps \<Rightarrow> env \<Rightarrow> string \<Rightarrow> string \<Rightarrow> auth_state \<Rightarrow> (string \<times> User) res" where
  "login d e email0 password s =
     (let email = normalize_email (ad_uni d) email0
      in if email = [] \<or> password = [] then Inl err_invalid_credentials
         else (case get_by_email (ad_uni d) e 0 email s of
             Inl err \<Rightarrow> Inl (if err = err_user_not_found then err_invalid_credentials else err)
           | Inr user \<Rightarrow>
               (case compare_password (ad_hasher d) (us_hash user) password of
                  Inl _ \<Rightarrow> Inl err_invalid_credentials
                | Inr _ \<Rightarrow>
                    (case generate_token (ad_jwt d) (ad_tokens d) (clock e 0) (us_id user) (us_role user) of
                       Inl err \<Rightarrow> Inl err
                     | Inr token \<Rightarrow> Inr (token, user)))))"

subsection \<open>Handlers\<close>

record login_request =
  lr_email :: string
  lr_password :: string
  lr_role :: string

definition signup_fields :: "(string \<times> login_request setter) list" where
  "signup_fields =
     [string_field ''email'' (\<lambda>s r. r\<lparr>lr_email := s\<rparr>), string_field ''password'' (\<lambda>s r. r\<lparr>lr_password := s\<rparr>),
      string_field ''role'' (\<lambda>s r. r\<lparr>lr_role := s\<rparr>)]"

definition login_fields :: "(string \<times> login_request setter) list" where
  "login_fields =
     [string_field ''email'' (\<lambda>s r. r\<lparr>lr_email := s\<rparr>), string_field ''password'' (\<lambda>s r. r\<lparr>lr_password := s\<rparr>)]"

abbreviation empty_login :: login_request where
  "empty_login \<equiv> \<lparr>lr_email = [], lr_password = [], lr_role = []\<rparr>"

definition signup_handler :: "auth_deps \<Rightarrow> auth_state handler" where
  "signup_handler d e r s =
     (case decode_body signup_fields empty_login (rq_body r) of
        Inl _ \<Rightarrow> (write_error 400 ''invalid JSON body'', s)
      | Inr req \<Rightarrow>
          let email = trim_space (lr_email req); password = trim_space (lr_password req)
          in if email = [] \<or> password = []
             then (write_error 400 ''email and password are required'', s)
             else (case signup d e email password (lr_role req) s of
                 (Inl err, s1) \<Rightarrow>
                   (if err = err_email_in_use then write_error 409 ''email already registered''
                    else write_error 500 ''failed to create user'', s1)
               | (Inr u, s1) \<Rightarrow>
                   (write_json 201 (Some (JObj [(''id'', JInt (us_id u)), (''email'', JStr (us_email u)),
                                                (''role'', JStr (us_role u))])), s1)))"

definition login_handler :: "auth_deps \<Rightarrow> auth_state handler" where
  "login_handler d e r s =
     (case decode_body login_fields empty_login (rq_body r) of
        Inl _ \<Rightarrow> (write_error 400 ''invalid JSON body'', s)
      | Inr req \<Rightarrow>
          let email = trim_space (lr_email req); password = trim_space (lr_password req)
          in if email = [] \<or> password = []
             then (write_error 400 ''email and password are required'', s)
             else (case login d e email password s of
                 Inl err \<Rightarrow>
                   (if err = err_invalid_credentials then write_error 401 ''invalid credentials''
                    else write_error 500 ''failed to login'', s)
               | Inr (token, _) \<Rightarrow>
                   (write_json 200 (Some (JObj [(''token'', JStr token), (''token_type'', JStr ''Bearer'')])), s)))"

definition auth_router :: "auth_deps \<Rightarrow> auth_state handler" where
  "auth_router d =
     serve_mux
       [(''/auth/signup'', method_guard ''POST'' (signup_handler d)),
        (''/auth/login'', method_guard ''POST'' (login_handler d)),
        (''/health'', method_guard ''GET'' health)]"

end
