(* ===== verification/Gateway.thy ===== *)
theory Gateway
  imports Auth
begin

section \<open>The API gateway\<close>

text \<open>
  \<open>api-gateway\<close>: the base client and the four service clients, the middlewares, the proxy handlers
  and the router. The services behind the gateway are the transport \<open>net\<close> on a world \<open>'w\<close>. A handler
  takes the user id that the context of the request holds, \<open>None\<close> outside the auth middleware.
\<close>

subsection \<open>Clients\<close>

record 'w base_client =
  gc_url :: string
  gc_net :: "'w transport"

definition new_base_client :: "string \<Rightarrow> 'w transport \<Rightarrow> 'w base_client" where
  "new_base_client base net = \<lparr>gc_url = trim_right_char (CHR ''/'') base, gc_net = net\<rparr>"

definition build_url :: "'w base_client \<Rightarrow> string \<Rightarrow> string" where
  "build_url c path =
     (if has_prefix path ''http://'' \<or> has_prefix path ''https://'' then path
      else gc_url c @ (if has_prefix path ''/'' then path else CHR ''/'' # path))"

text \<open>\<open>BaseClient.Do\<close>: the body is \<open>None\<close> for a \<open>nil\<close> slice.\<close>

definition client_do ::
  "'w base_client \<Rightarrow> string \<Rightarrow> string \<Rightarrow> body option \<Rightarrow> (string \<times> string) list \<Rightarrow> 'w \<Rightarrow>
     (nat \<times> body) res \<times> 'w" where
  "client_do c meth path b headers w =
     (let headers' = (if b \<noteq> None \<and> map_of headers ''Content-Type'' = None
                      then headers @ [(''Content-Type'', ''application/json'')] else headers);
          req = \<lparr>hc_method = meth, hc_url = build_url c path, hc_headers = headers',
                 hc_body = (case b of None \<Rightarrow> NotJson [] | Some d \<Rightarrow> d)\<rparr>
      in (case gc_net c req w of
            (Inl err, w') \<Rightarrow> (Inl err, w')
          | (Inr resp, w') \<Rightarrow> (Inr (rs_status resp, rs_body resp), w')))"

definition client_signup :: "'w base_client \<Rightarrow> body \<Rightarrow> 'w \<Rightarrow> (nat \<times> body) res \<times> 'w" where
  "client_signup c b w = client_do c ''POST'' ''/auth/signup'' (Some b) [] w"

definition client_login :: "'w base_client \<Rightarrow> body \<Rightarrow> 'w \<Rightarrow> (nat \<times> body) res \<times> 'w" where
  "client_login c b w = client_do c ''POST'' ''/auth/login'' (Some b) [] w"

definition sessions_for_user :: "'w base_client \<Rightarrow> int \<Rightarrow> 'w \<Rightarrow> (nat \<times> body) res \<times> 'w" where
  "sessions_for_user c user w =
     client_do c ''GET'' ''/sessions/me'' None [(''X-User-ID'', format_int user)] w"

definition transactions_for_user :: "'w base_client \<Rightarrow> int \<Rightarrow> 'w \<Rightarrow> (nat \<times> body) res \<times> 'w" where
  "transactions_for_user c user w =
     client_do c ''GET'' ''/billing/me/transactions'' None [(''X-User-ID'', format_int user)] w"

definition list_stations :: "'w base_client \<Rightarrow> 'w \<Rightarrow> (nat \<times> body) res \<times> 'w" where
  "list_stations c w = client_do c ''GET'' ''/stations'' None [] w"

subsection \<open>Proxy handlers\<close>

type_synonym 'w chandler = "int option \<Rightarrow> 'w handler"

definition write_raw :: "nat \<Rightarrow> body \<Rightarrow> response" where
  "write_raw status b =
     \<lparr>rs_status = status, rs_headers = [(''Content-Type'', ''application/json'')], rs_body = b\<rparr>"

text \<open>The common end of the proxy handlers: the upstream's status and body, or 502.\<close>

definition proxy :: "string \<Rightarrow> (nat \<times> body) res \<times> 'w \<Rightarrow> response \<times> 'w" where
  "proxy unavailable r =
     (case r of
        (Inl _, w) \<Rightarrow> (write_error 502 unavailable, w)
      | (Inr (status, b), w) \<Rightarrow> (write_raw status b, w))"

definition signup_proxy :: "'w base_client \<Rightarrow> 'w chandler" where
  "signup_proxy c user e r w = proxy ''auth service unavailable'' (client_signup c (rq_body r) w)"

definition login_proxy :: "'w base_client \<Rightarrow> 'w chandler" where
  "login_proxy c user e r w = proxy ''auth service unavailable'' (client_login c (rq_body r) w)"

definition stations_proxy :: "'w base_client \<Rightarrow> 'w chandler" where
  "stations_proxy c user e r w = proxy ''stations service unavailable'' (list_stations c w)"

definition sessions_proxy :: "'w base_client \<Rightarrow> 'w chandler" where
  "sessions_proxy c user e r w =
     (case user of
        None \<Rightarrow> (write_error 401 ''unauthorized'', w)
      | Some u \<Rightarrow> proxy ''sessions service unavailable'' (sessions_for_user c u w))"

definition billing_proxy :: "'w base_client \<Rightarrow> 'w chandler" where
  "billing_proxy c user e r w =
     (case user of
        None \<Rightarrow> (write_error 401 ''unauthorized'', w)
      | Some u \<Rightarrow> proxy ''billing service unavailable'' (transactions_for_user c u w))"

subsection \<open>Middlewares\<close>

definition extract_user_id :: "(string \<rightharpoonup> json) \<Rightarrow> int res" where
  "extract_user_id claims =
     (case claims ''user_id'' of
        Some (JStr v) \<Rightarrow>
          (case parse_int v of
             None \<Rightarrow> Inl (ErrExt ''strconv.ParseInt: invalid syntax'')
           | Some i \<Rightarrow> Inr i)
      | Some j \<Rightarrow>
          (case number_f64 j of
             Some x \<Rightarrow> Inr (to_int64 x)
           | None \<Rightarrow> Inl (ErrText ''user_id not present''))
      | None \<Rightarrow> Inl (ErrText ''user_id not present''))"

definition auth_middleware :: "jwt \<Rightarrow> string \<Rightarrow> 'w chandler \<Rightarrow> 'w chandler" where
  "auth_middleware jw secret next user e r w =
     (let header = rq_header r ''Authorization''; parts = split2 (CHR '' '') header
      in if header = [] then (http_error ''missing authorization header'' 401, w)
         else if length parts \<noteq> 2 \<or> \<not> equal_fold (parts ! 0) ''Bearer''
         then (http_error ''invalid authorization header'' 401, w)
         else (case jw_parse jw secret (clock e 0) (trim_space (parts ! 1)) of
             Inl _ \<Rightarrow> (http_error ''invalid token'' 401, w)
           | Inr c \<Rightarrow>
               (case decode_map (Json c) of
                  Inl _ \<Rightarrow> (http_error ''invalid token'' 401, w)
                | Inr claims \<Rightarrow>
                    (case extract_user_id claims of
                       Inl _ \<Rightarrow> (http_error ''user id not found'' 401, w)
                     | Inr u \<Rightarrow> next (Some u) e r w))))"

definition chain :: "'w chandler \<Rightarrow> ('w chandler \<Rightarrow> 'w chandler) list \<Rightarrow> 'w chandler" where
  "chain h ms = foldr (\<lambda>m h'. m h') ms h"

subsection \<open>Router\<close>

record 'w gateway_deps =
  gd_auth :: "'w base_client"
  gd_stations :: "'w base_client"
  gd_sessions :: "'w base_client"
  gd_billing :: "'w base_client"
  gd_jwt :: jwt
  gd_secret :: string

definition authenticated :: "'w gateway_deps \<Rightarrow> 'w chandler \<Rightarrow> 'w chandler" where
  "authenticated d h = chain h [auth_middleware (gd_jwt d) (gd_secret d)]"

definition gateway_router :: "'w gateway_deps \<Rightarrow> 'w handler" where
  "gateway_router d =
     serve_mux
       [(''/health'', method_guard ''GET'' health),
        (''/api/auth/signup'', method_guard ''POST'' (signup_proxy (gd_auth d) None)),
        (''/api/auth/login'', method_guard ''POST'' (login_proxy (gd_auth d) None)),
        (''/api/stations'', method_guard ''GET'' (stations_proxy (gd_stations d) None)),
        (''/api/sessions/me'',
           method_guard ''GET'' (authenticated d (sessions_proxy (gd_sessions d)) None)),
        (''/api/billing/me/transactions'',
           method_guard ''GET'' (authenticated d (billing_proxy (gd_billing d)) None))]"

definition new_gateway ::
  "string \<Rightarrow> string \<Rightarrow> string \<Rightarrow> string \<Rightarrow> jwt \<Rightarrow> string \<Rightarrow> 'w transport \<Rightarrow> 'w gateway_deps" where
  "new_gateway auth_url sessions_base billing_base stations_url jw secret net =
     \<lparr>gd_auth = new_base_client auth_url net, gd_stations = new_base_client stations_url net,
      gd_sessions = new_base_client sessions_base net, gd_billing = new_base_client billing_base net,
      gd_jwt = jw, gd_secret = secret\<rparr>"

subsection \<open>Lemmas\<close>

lemma build_url_slash: "build_url (new_base_client base net) (CHR ''/'' # p) = trim_right_char (CHR ''/'') base @ CHR ''/'' # p"
  by (simp add: build_url_def new_base_client_def)

text \<open>A base URL with trailing slashes names the same service as one without.\<close>

lemma new_base_client_slashes: "new_base_client (base @ ''/'') net = new_base_client base net"
  by (simp add: new_base_client_def trim_right_char_def)

text \<open>The user a request is let in as: the middleware's decision, apart from the handler behind it.\<close>

definition admitted :: "jwt \<Rightarrow> string \<Rightarrow> env \<Rightarrow> request \<Rightarrow> int option" where
  "admitted jw secret e r =
     (let parts = split2 (CHR '' '') (rq_header r ''Authorization'')
      in if length parts = 2 \<and> equal_fold (parts ! 0) ''Bearer''
         then case jw_parse jw secret (clock e 0) (trim_space (parts ! 1)) of
             Inl _ \<Rightarrow> None
           | Inr c \<Rightarrow>
               (case decode_map (Json c) of
                  Inl _ \<Rightarrow> None
                | Inr claims \<Rightarrow> (case extract_user_id claims of Inl _ \<Rightarrow> None | Inr u \<Rightarrow> Some u))
         else None)"

lemma auth_middleware_admitted:
  "case admitted jw secret e r of
     None \<Rightarrow> rs_status (fst (auth_middleware jw secret next user e r w)) = 401 \<and>
             snd (auth_middleware jw secret next user e r w) = w
   | Some u \<Rightarrow> auth_middleware jw secret next user e r w = next (Some u) e r w"
proof (cases "rq_header r ''Authorization''")
  case Nil
  then show ?thesis by (simp add: auth_middleware_def admitted_def Let_def)
next
  case (Cons c cs)
  then show ?thesis
    by (simp add: auth_middleware_def admitted_def Let_def split: sum.split)
qed

end
