(* ===== verification/Middleware.thy ===== *)
theory Middleware
  imports Gateway "HOL-Library.AList"
begin

section \<open>Logging and recovery in front of the gateway\<close>

text \<open>
  \<open>api-gateway/internal/http/middleware/logging.go\<close>, \<open>recovery.go\<close> and the order in which
  \<open>NewServer\<close> wraps them around the router. What these middlewares do depends on how a handler uses its
  \<open>ResponseWriter\<close>, so a handler is here the list of its calls on the writer; the writer, of
  \<open>net/http\<close>, refuses a status of less or more than three digits with a panic.
\<close>

subsection \<open>The response writer\<close>

datatype entry = RequestLogged string string nat | PanicLogged

text \<open>
  \<open>wr_sent\<close> is the final status with the headers at the time it was written; \<open>wr_seen\<close> is the field
  \<open>status\<close> of the \<open>responseWriter\<close> that the logging middleware puts around the writer, \<open>None\<close> until its
  \<open>WriteHeader\<close> is called.
\<close>

record writer =
  wr_header :: "(string \<times> string) list"
  wr_sent :: "(nat \<times> (string \<times> string) list) option"
  wr_body :: "body list"
  wr_seen :: "nat option"
  wr_log :: "entry list"

datatype wact =
    SetHeader string string
  | WriteHeader nat
  | WriteBody body
  | Log entry
  | Logged "wact list" string string
  | Recovered "wact list" "wact list"

definition final_status :: "nat \<Rightarrow> bool" where
  "final_status n \<longleftrightarrow> n = 101 \<or> \<not> (100 \<le> n \<and> n \<le> 199)"

definition body_allowed :: "nat \<Rightarrow> bool" where
  "body_allowed n \<longleftrightarrow> \<not> (100 \<le> n \<and> n \<le> 199) \<and> n \<noteq> 204 \<and> n \<noteq> 304"

text \<open>\<open>WriteHeader\<close>: the first final status counts, a later one is ignored.\<close>

definition send_header :: "nat \<Rightarrow> writer \<Rightarrow> writer" where
  "send_header n w =
     (if final_status n \<and> wr_sent w = None then w\<lparr>wr_sent := Some (n, wr_header w)\<rparr> else w)"

definition send_body :: "body \<Rightarrow> writer \<Rightarrow> writer" where
  "send_body b w =
     (let w' = send_header 200 w
      in case wr_sent w' of
           Some (n, _) \<Rightarrow> if body_allowed n then w'\<lparr>wr_body := wr_body w' @ [b]\<rparr> else w'
         | None \<Rightarrow> w')"

text \<open>The result is false when the action panics; \<open>Recovered\<close> runs its second list then.\<close>

fun run_act :: "wact \<Rightarrow> writer \<Rightarrow> bool \<times> writer" and run_acts :: "wact list \<Rightarrow> writer \<Rightarrow> bool \<times> writer" where
  "run_act (SetHeader k v) w = (True, w\<lparr>wr_header := AList.update k v (wr_header w)\<rparr>)"
| "run_act (WriteHeader n) w =
     (let w' = w\<lparr>wr_seen := Some n\<rparr> in if n < 100 \<or> 999 < n then (False, w') else (True, send_header n w'))"
| "run_act (WriteBody b) w = (True, send_body b w)"
| "run_act (Log x) w = (True, w\<lparr>wr_log := wr_log w @ [x]\<rparr>)"
| "run_act (Logged acts meth path) w =
     (let (ok, w') = run_acts acts (w\<lparr>wr_seen := None\<rparr>);
          w'' = w'\<lparr>wr_seen := (if wr_seen w' = None then wr_seen w else wr_seen w')\<rparr>;
          status = (case wr_seen w' of None \<Rightarrow> 200 | Some n \<Rightarrow> n)
      in if ok then (True, w''\<lparr>wr_log := wr_log w'' @ [RequestLogged meth path status]\<rparr>) else (False, w''))"
| "run_act (Recovered acts deferred) w =
     (case run_acts acts w of (True, w') \<Rightarrow> (True, w') | (False, w') \<Rightarrow> run_acts deferred w')"
| "run_acts [] w = (True, w)"
| "run_acts (a # as) w = (case run_act a w of (False, w') \<Rightarrow> (False, w') | (True, w') \<Rightarrow> run_acts as w')"

definition fresh_writer :: writer where
  "fresh_writer = \<lparr>wr_header = [], wr_sent = None, wr_body = [], wr_seen = None, wr_log = []\<rparr>"

text \<open>
  What the client receives, nothing when a panic reaches the server, which then cuts the connection;
  and what is logged.
\<close>

definition served :: "wact list \<Rightarrow> (nat \<times> (string \<times> string) list \<times> body list) option \<times> entry list" where
  "served acts =
     (let (ok, w) = run_acts acts fresh_writer;
          (status, headers) = (case wr_sent w of None \<Rightarrow> (200, wr_header w) | Some sent \<Rightarrow> sent)
      in (if ok then Some (status, headers, wr_body w) else None, wr_log w))"

subsection \<open>Handlers and middlewares\<close>

type_synonym 'w program = "env \<Rightarrow> request \<Rightarrow> 'w \<Rightarrow> wact list \<times> 'w"

text \<open>A response as \<open>writeJSON\<close>, \<open>writeRaw\<close> and \<open>http.Error\<close> write it; an empty body is no write.\<close>

definition emit :: "response \<Rightarrow> wact list" where
  "emit resp =
     map (\<lambda>(k, v). SetHeader k v) (rs_headers resp) @ [WriteHeader (rs_status resp)] @
     (if rs_body resp = NotJson [] then [] else [WriteBody (rs_body resp)])"

definition program_of :: "'w handler \<Rightarrow> 'w program" where
  "program_of h e r w = (let (resp, w') = h e r w in (emit resp, w'))"

definition recovery_middleware :: "'w program \<Rightarrow> 'w program" where
  "recovery_middleware next e r w =
     (let (acts, w') = next e r w
      in ([Recovered acts (Log PanicLogged # emit (http_error ''internal server error'' 500))], w'))"

definition logging_middleware :: "'w program \<Rightarrow> 'w program" where
  "logging_middleware next e r w =
     (let (acts, w') = next e r w in ([Logged acts (rq_method r) (rq_path r)], w'))"

text \<open>The loop of \<open>NewServer\<close>, from the last middleware to the first.\<close>

definition wrap_all :: "'w program \<Rightarrow> ('w program \<Rightarrow> 'w program) list \<Rightarrow> 'w program" where
  "wrap_all h ms = foldr (\<lambda>m h'. m h') ms h"

definition gateway_program :: "'w gateway_deps \<Rightarrow> 'w program" where
  "gateway_program d = wrap_all (program_of (gateway_router d)) [recovery_middleware, logging_middleware]"

subsection \<open>What reaches the client\<close>

lemma run_acts_append:
  "run_acts (xs @ ys) w = (case run_acts xs w of (False, w') \<Rightarrow> (False, w') | (True, w') \<Rightarrow> run_acts ys w')"
  by (induction xs arbitrary: w) (auto split: prod.split bool.split)

lemma run_set_headers:
  "run_acts (map (\<lambda>(k, v). SetHeader k v) hs) w =
     (True, w\<lparr>wr_header := foldl (\<lambda>acc (k, v). AList.update k v acc) (wr_header w) hs\<rparr>)"
  by (induction hs arbitrary: w) (auto split: prod.split)

lemma set_distinct_headers:
  "distinct (map fst (acc @ hs)) \<Longrightarrow> foldl (\<lambda>acc (k, v). AList.update k v acc) acc hs = acc @ hs"
proof (induction hs arbitrary: acc)
  case (Cons h hs)
  obtain k v where h: "h = (k, v)" by (cases h)
  have "k \<notin> set (map fst acc)" using Cons.prems by (auto simp: h)
  then have "AList.update k v acc = acc @ [(k, v)]" by (induction acc) auto
  then show ?case using Cons.IH [of "acc @ [(k, v)]"] Cons.prems by (simp add: h)
qed simp

definition valid_status :: "nat \<Rightarrow> bool" where
  "valid_status n \<longleftrightarrow> 100 \<le> n \<and> n \<le> 999"

definition written :: "response \<Rightarrow> body list" where
  "written resp = (if rs_body resp = NotJson [] \<or> \<not> body_allowed (rs_status resp) then [] else [rs_body resp])"

lemma run_emit:
  assumes "distinct (map fst (rs_headers resp))" and "wr_header w = []" "wr_sent w = None" "wr_body w = []"
  shows "run_acts (emit resp) w =
    (if \<not> valid_status (rs_status resp)
     then (False, w\<lparr>wr_header := rs_headers resp, wr_seen := Some (rs_status resp)\<rparr>)
     else if final_status (rs_status resp)
     then (True, w\<lparr>wr_header := rs_headers resp, wr_seen := Some (rs_status resp),
             wr_sent := Some (rs_status resp, rs_headers resp), wr_body := written resp\<rparr>)
     else (True, w\<lparr>wr_header := rs_headers resp, wr_seen := Some (rs_status resp),
             wr_sent := (if rs_body resp = NotJson [] then None else Some (200, rs_headers resp)),
             wr_body := (if rs_body resp = NotJson [] then [] else [rs_body resp])\<rparr>))"
proof -
  have hs: "run_acts (map (\<lambda>(k, v). SetHeader k v) (rs_headers resp)) w = (True, w\<lparr>wr_header := rs_headers resp\<rparr>)"
    using set_distinct_headers [of "[]" "rs_headers resp"] assms by (simp add: run_set_headers)
  show ?thesis using assms(2-4)
    by (auto simp: emit_def run_acts_append hs valid_status_def send_header_def send_body_def written_def
        Let_def final_status_def body_allowed_def)
qed

subsection \<open>The gateway's answers\<close>

lemma write_json_headers: "rs_headers (write_json n j) = [(''Content-Type'', ''application/json'')]"
  by (simp add: write_json_def)

text \<open>Only an answer passed on from a service can have a status out of range.\<close>

definition well_shaped :: "response \<Rightarrow> bool" where
  "well_shaped resp \<longleftrightarrow> distinct (map fst (rs_headers resp)) \<and>
     (valid_status (rs_status resp) \<or> rs_headers resp = [(''Content-Type'', ''application/json'')])"

lemma well_shaped_writes:
  "valid_status n \<Longrightarrow> well_shaped (write_error n m)" "valid_status n \<Longrightarrow> well_shaped (http_error m n)"
  "well_shaped (write_raw n b)" "well_shaped (write_json n j)"
  by (simp_all add: well_shaped_def write_error_def write_json_def http_error_def write_raw_def)

lemma proxy_well_shaped: "well_shaped (fst (proxy m x))"
  by (cases x rule: prod.exhaust) (auto simp: proxy_def well_shaped_writes valid_status_def split: sum.split)

lemma auth_well_shaped:
  assumes "\<And>u. well_shaped (fst (next u e r w))"
  shows "well_shaped (fst (auth_middleware jw secret next user e r w))"
  using assms by (auto simp: auth_middleware_def Let_def well_shaped_writes valid_status_def split: sum.split)

lemma guard_well_shaped: "well_shaped (fst (h e r w)) \<Longrightarrow> well_shaped (fst (method_guard m h e r w))"
  by (simp add: method_guard_def well_shaped_def valid_status_def)

lemma proxies_well_shaped:
  "well_shaped (fst (signup_proxy c u e r w))" "well_shaped (fst (login_proxy c u e r w))"
  "well_shaped (fst (stations_proxy c u e r w))" "well_shaped (fst (sessions_proxy c u e r w))"
  "well_shaped (fst (billing_proxy c u e r w))" "well_shaped (fst (health e r w))"
  by (simp_all add: signup_proxy_def login_proxy_def stations_proxy_def sessions_proxy_def billing_proxy_def
      proxy_well_shaped health_def well_shaped_writes valid_status_def split: option.split)

lemma gateway_well_shaped: "well_shaped (fst (gateway_router d e r w))"
  by (auto simp: gateway_router_def serve_mux_def authenticated_def chain_def guard_well_shaped proxies_well_shaped
      auth_well_shaped well_shaped_writes valid_status_def split: option.split)

lemma recovered_emit:
  assumes "well_shaped resp"
  shows "served [Recovered [Logged (emit resp) meth path] (Log PanicLogged # emit (http_error ''internal server error'' 500))] =
    (if \<not> valid_status (rs_status resp)
     then (Some (500, rs_headers (http_error [] 500), [NotJson (''internal server error'' @ [CHR 0x0A])]), [PanicLogged])
     else (Some (if final_status (rs_status resp) then rs_status resp else 200, rs_headers resp,
         if final_status (rs_status resp) then written resp
         else if rs_body resp = NotJson [] then [] else [rs_body resp]),
       [RequestLogged meth path (rs_status resp)]))"
proof -
  have d: "distinct (map fst (rs_headers resp))" using assms by (simp add: well_shaped_def)
  have e: "emit (http_error ''internal server error'' 500) =
      [SetHeader ''Content-Type'' ''text/plain; charset=utf-8'', SetHeader ''X-Content-Type-Options'' ''nosniff'',
       WriteHeader 500, WriteBody (NotJson (''internal server error'' @ [CHR 0x0A]))]"
    by (simp add: emit_def http_error_def)
  show ?thesis
  proof (cases "valid_status (rs_status resp)")
    case True
    then show ?thesis using run_emit [OF d, of fresh_writer]
      by (simp add: served_def fresh_writer_def split: if_splits)
  next
    case False
    then have h: "rs_headers resp = [(''Content-Type'', ''application/json'')]" using assms by (simp add: well_shaped_def)
    show ?thesis using run_emit [OF d, of fresh_writer] False
      by (simp add: served_def fresh_writer_def h e send_header_def send_body_def final_status_def body_allowed_def)
        (simp add: http_error_def)
  qed
qed

lemma gateway_program_state: "snd (gateway_program d e r w) = snd (gateway_router d e r w)"
  by (simp add: gateway_program_def wrap_all_def recovery_middleware_def logging_middleware_def program_of_def case_prod_beta)

lemma gateway_program_served:
  "served (fst (gateway_program d e r w)) =
     (let resp = fst (gateway_router d e r w); n = rs_status resp
      in if n < 100 \<or> 999 < n
         then (Some (500, rs_headers (http_error [] 500), [NotJson (''internal server error'' @ [CHR 0x0A])]), [PanicLogged])
         else if n = 101 \<or> 200 \<le> n
         then (Some (n, rs_headers resp, written resp), [RequestLogged (rq_method r) (rq_path r) n])
         else (Some (200, rs_headers resp, if rs_body resp = NotJson [] then [] else [rs_body resp]),
               [RequestLogged (rq_method r) (rq_path r) n]))"
  using recovered_emit [OF gateway_well_shaped [of d e r w], of "rq_method r" "rq_path r"]
  by (auto simp: gateway_program_def wrap_all_def recovery_middleware_def logging_middleware_def program_of_def
      case_prod_beta Let_def valid_status_def final_status_def)

text \<open>C14: Behind its middlewares the gateway answers every request, whatever the services do. The answer
  is the router's, logged with its status, as long as the status has three digits; a status that
  \<open>net/http\<close> refuses, passed on from a service, panics, and the client gets a 500 of which no request is
  logged. The services see what the router sent either way.\<close>

theorem gateway_answers:
  "served (fst (gateway_program d e r w)) =
     (let resp = fst (gateway_router d e r w); n = rs_status resp
      in if n < 100 \<or> 999 < n
         then (Some (500, rs_headers (http_error [] 500), [NotJson (''internal server error'' @ [CHR 0x0A])]), [PanicLogged])
         else if n = 101 \<or> 200 \<le> n
         then (Some (n, rs_headers resp, written resp), [RequestLogged (rq_method r) (rq_path r) n])
         else (Some (200, rs_headers resp, if rs_body resp = NotJson [] then [] else [rs_body resp]),
               [RequestLogged (rq_method r) (rq_path r) n])) \<and>
   snd (gateway_program d e r w) = snd (gateway_router d e r w)"
  by (rule conjI [OF gateway_program_served gateway_program_state])

end
