(* ===== verification/OcppProtocol.thy ===== *)
theory OcppProtocol
  imports Http
begin

section \<open>The OCPP server: messages, frames, router\<close>

text \<open>
  \<open>ocpp-server/internal/ocpp\<close>: the message structs with their JSON fields, \<open>Parser.Parse\<close>, the
  frame builders and the \<open>Router\<close>. A frame is the JSON array \<open>[2, id, action, payload]\<close>; a raw
  message inside it is kept as the JSON value it holds.
\<close>

subsection \<open>Constants\<close>

definition MessageTypeCall :: int where "MessageTypeCall = 2"
definition MessageTypeCallResult :: int where "MessageTypeCallResult = 3"
definition MessageTypeCallError :: int where "MessageTypeCallError = 4"

definition ActionBootNotification :: string where "ActionBootNotification = ''BootNotification''"
definition ActionStatusNotification :: string where "ActionStatusNotification = ''StatusNotification''"
definition ActionStartTransaction :: string where "ActionStartTransaction = ''StartTransaction''"
definition ActionStopTransaction :: string where "ActionStopTransaction = ''StopTransaction''"
definition ActionHeartbeat :: string where "ActionHeartbeat = ''Heartbeat''"
definition ActionMeterValues :: string where "ActionMeterValues = ''MeterValues''"

definition RegistrationAccepted :: string where "RegistrationAccepted = ''Accepted''"
definition ConnectorAvailable :: string where "ConnectorAvailable = ''Available''"
definition ConnectorCharging :: string where "ConnectorCharging = ''Charging''"

lemmas action_defs = ActionBootNotification_def ActionStatusNotification_def
  ActionStartTransaction_def ActionStopTransaction_def ActionHeartbeat_def ActionMeterValues_def

lemmas status_defs = RegistrationAccepted_def ConnectorAvailable_def ConnectorCharging_def

subsection \<open>Requests\<close>

record BootNotificationRequest =
  bn_vendor :: string
  bn_model :: string
  bn_cp_serial :: string
  bn_cb_serial :: string
  bn_firmware :: string
  bn_station :: string

definition boot_fields :: "(string \<times> BootNotificationRequest setter) list" where
  "boot_fields =
     [string_field ''chargePointVendor'' (\<lambda>s r. r\<lparr>bn_vendor := s\<rparr>),
      string_field ''chargePointModel'' (\<lambda>s r. r\<lparr>bn_model := s\<rparr>),
      string_field ''chargePointSerialNumber'' (\<lambda>s r. r\<lparr>bn_cp_serial := s\<rparr>),
      string_field ''chargeBoxSerialNumber'' (\<lambda>s r. r\<lparr>bn_cb_serial := s\<rparr>),
      string_field ''firmwareVersion'' (\<lambda>s r. r\<lparr>bn_firmware := s\<rparr>),
      string_field ''stationId'' (\<lambda>s r. r\<lparr>bn_station := s\<rparr>)]"

definition decode_boot :: "json \<Rightarrow> BootNotificationRequest res" where
  "decode_boot = decode_struct boot_fields
     \<lparr>bn_vendor = [], bn_model = [], bn_cp_serial = [], bn_cb_serial = [], bn_firmware = [],
      bn_station = []\<rparr>"

record StatusNotificationRequest =
  sn_connector :: int
  sn_status :: string
  sn_error_code :: string
  sn_info :: string
  sn_timestamp :: time
  sn_vendor :: string
  sn_station :: string

definition status_fields :: "(string \<times> StatusNotificationRequest setter) list" where
  "status_fields =
     [int_field ''connectorId'' (\<lambda>i r. r\<lparr>sn_connector := i\<rparr>),
      string_field ''status'' (\<lambda>s r. r\<lparr>sn_status := s\<rparr>),
      string_field ''errorCode'' (\<lambda>s r. r\<lparr>sn_error_code := s\<rparr>),
      string_field ''info'' (\<lambda>s r. r\<lparr>sn_info := s\<rparr>),
      time_field ''timestamp'' (\<lambda>t r. r\<lparr>sn_timestamp := t\<rparr>),
      string_field ''vendorId'' (\<lambda>s r. r\<lparr>sn_vendor := s\<rparr>),
      string_field ''stationId'' (\<lambda>s r. r\<lparr>sn_station := s\<rparr>)]"

definition decode_status :: "json \<Rightarrow> StatusNotificationRequest res" where
  "decode_status = decode_struct status_fields
     \<lparr>sn_connector = 0, sn_status = [], sn_error_code = [], sn_info = [], sn_timestamp = 0,
      sn_vendor = [], sn_station = []\<rparr>"

record StartTransactionRequest =
  st_connector :: int
  st_id_tag :: string
  st_meter_start :: int
  st_reservation :: int
  st_timestamp :: time
  st_station :: string
  st_transaction :: string

definition start_fields :: "(string \<times> StartTransactionRequest setter) list" where
  "start_fields =
     [int_field ''connectorId'' (\<lambda>i r. r\<lparr>st_connector := i\<rparr>),
      string_field ''idTag'' (\<lambda>s r. r\<lparr>st_id_tag := s\<rparr>),
      int_field ''meterStart'' (\<lambda>i r. r\<lparr>st_meter_start := i\<rparr>),
      int_field ''reservationId'' (\<lambda>i r. r\<lparr>st_reservation := i\<rparr>),
      time_field ''timestamp'' (\<lambda>t r. r\<lparr>st_timestamp := t\<rparr>),
      string_field ''stationId'' (\<lambda>s r. r\<lparr>st_station := s\<rparr>),
      string_field ''transactionId'' (\<lambda>s r. r\<lparr>st_transaction := s\<rparr>)]"

definition decode_start :: "json \<Rightarrow> StartTransactionRequest res" where
  "decode_start = decode_struct start_fields
     \<lparr>st_connector = 0, st_id_tag = [], st_meter_start = 0, st_reservation = 0, st_timestamp = 0,
      st_station = [], st_transaction = []\<rparr>"

record StopTransactionRequest =
  sp_transaction :: string
  sp_id_tag :: string
  sp_meter_stop :: int
  sp_timestamp :: time
  sp_reason :: string
  sp_station :: string
  sp_meter_start :: int

definition stop_fields :: "(string \<times> StopTransactionRequest setter) list" where
  "stop_fields =
     [string_field ''transactionId'' (\<lambda>s r. r\<lparr>sp_transaction := s\<rparr>),
      string_field ''idTag'' (\<lambda>s r. r\<lparr>sp_id_tag := s\<rparr>),
      int_field ''meterStop'' (\<lambda>i r. r\<lparr>sp_meter_stop := i\<rparr>),
      time_field ''timestamp'' (\<lambda>t r. r\<lparr>sp_timestamp := t\<rparr>),
      string_field ''reason'' (\<lambda>s r. r\<lparr>sp_reason := s\<rparr>),
      string_field ''stationId'' (\<lambda>s r. r\<lparr>sp_station := s\<rparr>),
      int_field ''meterStart'' (\<lambda>i r. r\<lparr>sp_meter_start := i\<rparr>)]"

definition decode_stop :: "json \<Rightarrow> StopTransactionRequest res" where
  "decode_stop = decode_struct stop_fields
     \<lparr>sp_transaction = [], sp_id_tag = [], sp_meter_stop = 0, sp_timestamp = 0, sp_reason = [],
      sp_station = [], sp_meter_start = 0\<rparr>"

record MeterValuesRequest =
  mv_station :: string
  mv_connector :: int
  mv_transaction :: string
  mv_value :: f64
  mv_timestamp :: time

definition meter_fields :: "(string \<times> MeterValuesRequest setter) list" where
  "meter_fields =
     [string_field ''stationId'' (\<lambda>s r. r\<lparr>mv_station := s\<rparr>),
      int_field ''connectorId'' (\<lambda>i r. r\<lparr>mv_connector := i\<rparr>),
      string_field ''transactionId'' (\<lambda>s r. r\<lparr>mv_transaction := s\<rparr>),
      float_field ''meterValue'' (\<lambda>x r. r\<lparr>mv_value := x\<rparr>),
      time_field ''timestamp'' (\<lambda>t r. r\<lparr>mv_timestamp := t\<rparr>)]"

definition decode_meter :: "json \<Rightarrow> MeterValuesRequest res" where
  "decode_meter = decode_struct meter_fields
     \<lparr>mv_station = [], mv_connector = 0, mv_transaction = [], mv_value = Fin 0, mv_timestamp = 0\<rparr>"

subsection \<open>Responses\<close>

text \<open>The \<open>interface{}\<close> a handler returns: \<open>nil\<close>, or one of the response structs.\<close>

record BootNotificationResponse =
  br_current_time :: time
  br_interval :: int
  br_status :: string

datatype reply =
    NilReply
  | BootReply BootNotificationResponse
  | StatusReply
  | StartReply string string
  | StopReply
  | HeartbeatReply time

fun json_reply :: "reply \<Rightarrow> json option" where
  "json_reply NilReply = Some JNull"
| "json_reply (BootReply b) =
     json_object [(''currentTime'', json_time (br_current_time b)),
                  (''interval'', Some (JInt (br_interval b))),
                  (''status'', Some (JStr (br_status b)))]"
| "json_reply StatusReply = Some (JObj [])"
| "json_reply (StartReply transaction_id status) =
     Some (JObj [(''transactionId'', JStr transaction_id),
                 (''idTagInfo'', JObj [(''status'', JStr status)])])"
| "json_reply StopReply = Some (JObj [])"
| "json_reply (HeartbeatReply t) = json_object [(''currentTime'', json_time t)]"

subsection \<open>Frames\<close>

record message =
  msg_type :: int
  msg_unique_id :: string
  msg_action :: string
  msg_payload :: json

text \<open>\<open>var array []json.RawMessage; json.Unmarshal(data, &array)\<close>\<close>

definition unmarshal_array :: "body \<Rightarrow> json list res" where
  "unmarshal_array data =
     (case data of
        NotJson _ \<Rightarrow> Inl ErrSyntax
      | Json (JArr js) \<Rightarrow> Inr js
      | Json JNull \<Rightarrow> Inr []
      | Json _ \<Rightarrow> Inl (ErrType []))"

definition parse_call :: "int \<Rightarrow> json list \<Rightarrow> message res" where
  "parse_call ty array =
     (if length array < 4 then Inl (ErrText ''ocpp: incomplete CALL frame'')
      else case unmarshal_string (array ! 1) of
          Inl e \<Rightarrow> Inl (ErrWrap ''ocpp: read unique id: '' e)
        | Inr uid \<Rightarrow>
            (case unmarshal_string (array ! 2) of
               Inl e \<Rightarrow> Inl (ErrWrap ''ocpp: read action: '' e)
             | Inr action \<Rightarrow>
                 Inr \<lparr>msg_type = ty, msg_unique_id = uid, msg_action = action,
                      msg_payload = array ! 3\<rparr>))"

definition parse_frame :: "body \<Rightarrow> message res" where
  "parse_frame data =
     (case unmarshal_array data of
        Inl e \<Rightarrow> Inl e
      | Inr array \<Rightarrow>
          if length array < 3 then Inl (ErrText ''ocpp: malformed frame'')
          else (case unmarshal_int (array ! 0) of
              Inl e \<Rightarrow> Inl e
            | Inr ty \<Rightarrow>
                if ty = MessageTypeCall then parse_call ty array
                else Inl (ErrText (''ocpp: unsupported message type '' @ format_int ty))))"

definition build_call_result :: "string \<Rightarrow> reply \<Rightarrow> json res" where
  "build_call_result uid payload =
     (case json_reply payload of
        None \<Rightarrow> Inl (ErrExt ''json: error calling MarshalJSON'')
      | Some b \<Rightarrow> Inr (JArr [JInt 3, JStr uid, b]))"

definition build_call_error :: "string \<Rightarrow> string \<Rightarrow> string \<Rightarrow> json res" where
  "build_call_error uid code description =
     Inr (JArr [JInt 4, JStr uid, JStr code, JStr description, JObj []])"

text \<open>A frame is accepted exactly when it is a CALL: four parts, an id and an action.\<close>

definition call_frame :: "string \<Rightarrow> string \<Rightarrow> json \<Rightarrow> json list \<Rightarrow> body" where
  "call_frame uid action payload rest = Json (JArr (JInt 2 # JStr uid # JStr action # payload # rest))"

lemma parse_call_frame [simp]:
  "parse_frame (call_frame uid action payload rest) =
     Inr \<lparr>msg_type = 2, msg_unique_id = uid, msg_action = action, msg_payload = payload\<rparr>"
  by (simp add: parse_frame_def call_frame_def unmarshal_array_def unmarshal_int_def
      unmarshal_string_def parse_call_def in_int64_def MessageTypeCall_def)

lemma unmarshal_string_Inr: "unmarshal_string j = Inr s \<longleftrightarrow> j = JStr s \<or> (j = JNull \<and> s = [])"
  by (auto simp: unmarshal_string_def split: json.splits)

lemma unmarshal_int_Inr:
  "unmarshal_int j = Inr i \<longleftrightarrow> (j = JInt i \<and> in_int64 i) \<or> (j = JNull \<and> i = 0)"
  by (auto simp: unmarshal_int_def split: json.splits)

lemma list_four: "4 \<le> length xs \<Longrightarrow> \<exists>r. xs = xs ! 0 # xs ! 1 # xs ! 2 # xs ! 3 # r"
  by (cases xs rule: list.exhaust; cases "tl xs"; cases "tl (tl xs)"; cases "tl (tl (tl xs))") auto

lemma parse_frame_Inr:
  assumes "parse_frame data = Inr m"
  obtains u a rest where
    "data = Json (JArr (JInt 2 # u # a # msg_payload m # rest))" and "msg_type m = 2"
    and "u = JStr (msg_unique_id m) \<or> (u = JNull \<and> msg_unique_id m = [])"
    and "a = JStr (msg_action m) \<or> (a = JNull \<and> msg_action m = [])"
proof -
  obtain array where arr: "unmarshal_array data = Inr array" "\<not> length array < 3"
    and ty: "unmarshal_int (array ! 0) = Inr 2" and call: "parse_call 2 array = Inr m"
    using assms by (auto simp: parse_frame_def MessageTypeCall_def split: sum.splits if_splits)
  from call have len: "4 \<le> length array" and us: "unmarshal_string (array ! 1) = Inr (msg_unique_id m)"
    "unmarshal_string (array ! 2) = Inr (msg_action m)" "array ! 3 = msg_payload m" "msg_type m = 2"
    by (auto simp: parse_call_def split: sum.splits if_splits)
  have "data = Json (JArr array)"
    using arr by (auto simp: unmarshal_array_def split: body.splits json.splits)
  moreover obtain rest where "array = array ! 0 # array ! 1 # array ! 2 # array ! 3 # rest"
    using list_four [OF len] by blast
  moreover have "array ! 0 = JInt 2" using ty by (simp add: unmarshal_int_Inr)
  ultimately show thesis
    using us by (intro that [of "array ! 1" "array ! 2" rest]) (auto simp: unmarshal_string_Inr)
qed

end
