(* ===== verification/OcppClients.thy ===== *)
theory OcppClients
  imports OcppProtocol
begin

section \<open>The OCPP server: clients of the other services\<close>

text \<open>
  \<open>ocpp-server/internal/clients\<close>: the requests sent to the sessions, billing and telemetry
  services. The network and the services behind it are the parameter \<open>net\<close>, a \<open>transport\<close> on a
  world \<open>'w\<close>; a client is its base URL, empty when the service is not configured.
\<close>

subsection \<open>Request bodies\<close>

record StartSessionRequest =
  ssr_station :: string
  ssr_connector :: int
  ssr_transaction :: string
  ssr_meter_start :: int

definition json_start_session :: "StartSessionRequest \<Rightarrow> json option" where
  "json_start_session r =
     json_object [(''station_id'', Some (JStr (ssr_station r))),
                  (''connector_id'', Some (JInt (ssr_connector r))),
                  (''transaction_id'', Some (JStr (ssr_transaction r))),
                  (''meter_start'', Some (JInt (ssr_meter_start r)))]"

record StopSessionRequest =
  spr_transaction :: string
  spr_meter_stop :: int
  spr_reason :: string
  spr_energy :: f64
  spr_end_time :: time

definition json_stop_session :: "StopSessionRequest \<Rightarrow> json option" where
  "json_stop_session r =
     json_object [(''transaction_id'', Some (JStr (spr_transaction r))),
                  (''meter_stop'', Some (JInt (spr_meter_stop r))),
                  (''reason'', Some (JStr (spr_reason r))),
                  (''energy_kwh'', json_f64 (spr_energy r)),
                  (''end_time'', json_time (spr_end_time r))]"

record BillingStopRequest =
  bsr_session :: int
  bsr_user :: int
  bsr_energy :: f64

definition json_billing_stop :: "BillingStopRequest \<Rightarrow> json option" where
  "json_billing_stop r =
     json_object [(''session_id'', Some (JInt (bsr_session r))),
                  (''user_id'', Some (JInt (bsr_user r))),
                  (''energy_kwh'', json_f64 (bsr_energy r))]"

record MeterValueRequest =
  mvr_session :: int
  mvr_station :: string
  mvr_connector :: int
  mvr_value :: f64
  mvr_unit :: string
  mvr_timestamp :: time

definition json_meter_value :: "MeterValueRequest \<Rightarrow> json option" where
  "json_meter_value r =
     json_object [(''session_id'', Some (JInt (mvr_session r))),
                  (''station_id'', Some (JStr (mvr_station r))),
                  (''connector_id'', Some (JInt (mvr_connector r))),
                  (''meter_value'', json_f64 (mvr_value r)),
                  (''unit'', Some (JStr (mvr_unit r))),
                  (''timestamp'', json_time (mvr_timestamp r))]"

subsection \<open>Calls\<close>

abbreviation err_marshal :: go_error where
  "err_marshal \<equiv> ErrExt ''json: unsupported value''"

text \<open>\<open>post\<close>: the status of the answer is only logged.\<close>

definition post :: "'w transport \<Rightarrow> string \<Rightarrow> string \<Rightarrow> json option \<Rightarrow> 'w \<Rightarrow> unit res \<times> 'w" where
  "post net base path body w =
     (case body of
        None \<Rightarrow> (Inl err_marshal, w)
      | Some data \<Rightarrow>
          (case net (json_post (base @ path) data) w of
             (Inl e, w') \<Rightarrow> (Inl e, w')
           | (Inr resp, w') \<Rightarrow> (Inr (), w')))"

definition session_id_of :: "(string \<rightharpoonup> json) \<Rightarrow> int" where
  "session_id_of payload =
     (case payload ''session_id'' of
        None \<Rightarrow> 0
      | Some v \<Rightarrow> (case number_f64 v of Some x \<Rightarrow> to_int64 x | None \<Rightarrow> 0))"

definition post_start :: "'w transport \<Rightarrow> string \<Rightarrow> string \<Rightarrow> json option \<Rightarrow> 'w \<Rightarrow> int res \<times> 'w" where
  "post_start net base path body w =
     (case body of
        None \<Rightarrow> (Inl err_marshal, w)
      | Some data \<Rightarrow>
          (case net (json_post (base @ path) data) w of
             (Inl e, w') \<Rightarrow> (Inl e, w')
           | (Inr resp, w') \<Rightarrow>
               if 300 \<le> rs_status resp
               then (Inl (ErrText (''sessions start non-success status '' @ format_nat (rs_status resp))), w')
               else (case decode_map (rs_body resp) of
                   Inl e \<Rightarrow> (Inl e, w')
                 | Inr payload \<Rightarrow> (Inr (session_id_of payload), w'))))"

definition create_from_ocpp ::
  "'w transport \<Rightarrow> string \<Rightarrow> StartSessionRequest \<Rightarrow> 'w \<Rightarrow> int res \<times> 'w" where
  "create_from_ocpp net base r w =
     (if base = [] then (Inr 0, w)
      else post_start net base ''/internal/ocpp/session-start'' (json_start_session r) w)"

definition complete_from_ocpp ::
  "'w transport \<Rightarrow> string \<Rightarrow> StopSessionRequest \<Rightarrow> 'w \<Rightarrow> unit res \<times> 'w" where
  "complete_from_ocpp net base r w =
     (if base = [] then (Inr (), w)
      else post net base ''/internal/ocpp/session-stop'' (json_stop_session r) w)"

definition notify_session_stop ::
  "'w transport \<Rightarrow> string \<Rightarrow> BillingStopRequest \<Rightarrow> 'w \<Rightarrow> unit res \<times> 'w" where
  "notify_session_stop net base r w =
     (if base = [] then (Inr (), w)
      else post net base ''/internal/ocpp/session-stopped'' (json_billing_stop r) w)"

definition notify_meter_value ::
  "'w transport \<Rightarrow> string \<Rightarrow> MeterValueRequest \<Rightarrow> 'w \<Rightarrow> unit res \<times> 'w" where
  "notify_meter_value net base r w =
     (if base = [] then (Inr (), w)
      else post net base ''/internal/ocpp/meter-values'' (json_meter_value r) w)"

lemmas client_defs = create_from_ocpp_def complete_from_ocpp_def notify_session_stop_def
  notify_meter_value_def

text \<open>A disabled client sends nothing.\<close>

lemma disabled_client [simp]:
  "create_from_ocpp net [] a w = (Inr 0, w)" "complete_from_ocpp net [] b w = (Inr (), w)"
  "notify_session_stop net [] c w = (Inr (), w)" "notify_meter_value net [] d w = (Inr (), w)"
  by (simp_all add: client_defs)

text \<open>\<open>post\<close> makes exactly one call, with the body it was given.\<close>

lemma post_world [simp]:
  "snd (post net base path (Some j) w) = snd (net (json_post (base @ path) j) w)"
  by (simp add: post_def split: prod.splits sum.splits)

lemma post_start_world [simp]:
  "snd (post_start net base path (Some j) w) = snd (net (json_post (base @ path) j) w)"
  by (simp add: post_start_def split: prod.splits sum.splits)

lemma session_id_of_JInt:
  assumes "payload ''session_id'' = Some (JInt i)" and "\<bar>i\<bar> < 2 ^ 53"
  shows "session_id_of payload = i"
  using assms(1) by (simp add: session_id_of_def number_f64_def of_int64_exact [OF assms(2)]
      to_int64_of_int64 [OF assms(2), unfolded of_int64_exact [OF assms(2)]])

text \<open>The id the sessions service answers with is read back exactly when it is below \<open>2 ^ 53\<close>.\<close>

lemma post_start_id:
  assumes "net (json_post (base @ path) j) w = (Inr resp, w')" and "rs_status resp < 300"
    and "decode_map (rs_body resp) = Inr payload"
    and "payload ''session_id'' = Some (JInt i)" and "\<bar>i\<bar> < 2 ^ 53"
  shows "post_start net base path (Some j) w = (Inr i, w')"
  using assms by (simp add: post_start_def session_id_of_JInt)

lemma json_start_session_Some [simp]: "\<exists>j. json_start_session r = Some j"
  by (simp add: json_start_session_def json_object_def)

end
