(* ===== verification/OcppState.thy ===== *)
theory OcppState
  imports Http
begin

section \<open>The OCPP server: runtime state and tables\<close>

text \<open>
  \<open>ocpp-server/internal/service\<close> (\<open>StationState\<close>, \<open>TransactionStore\<close>) and
  \<open>ocpp-server/internal/repository\<close> with the schema of \<open>migrations/0001_init.sql\<close>. Go's maps are
  partial functions; the pointers in \<open>StationState.stations\<close> are private to the store and never
  shared, so the model keeps the structs they point to. \<open>TransactionStore\<close> is a \<open>kv_store\<close>.
\<close>

subsection \<open>StationState\<close>

record ConnectorState =
  cs_status :: string

record StationRuntimeState =
  rt_status :: string
  rt_connectors :: "int \<rightharpoonup> ConnectorState"

type_synonym station_state = "string \<rightharpoonup> StationRuntimeState"

definition new_station_state :: station_state where
  "new_station_state = Map.empty"

definition runtime_of :: "string \<Rightarrow> station_state \<Rightarrow> StationRuntimeState" where
  "runtime_of station_id s =
     (case s station_id of
        None \<Rightarrow> \<lparr>rt_status = [], rt_connectors = Map.empty\<rparr>
      | Some state \<Rightarrow> state)"

definition update_station :: "string \<Rightarrow> string \<Rightarrow> station_state \<Rightarrow> station_state" where
  "update_station station_id status s =
     s(station_id \<mapsto> (runtime_of station_id s)\<lparr>rt_status := status\<rparr>)"

definition update_connector :: "string \<Rightarrow> int \<Rightarrow> string \<Rightarrow> station_state \<Rightarrow> station_state" where
  "update_connector station_id connector_id status s =
     (let state = runtime_of station_id s
      in s(station_id \<mapsto>
             state\<lparr>rt_connectors := (rt_connectors state)(connector_id \<mapsto> \<lparr>cs_status = status\<rparr>)\<rparr>))"

text \<open>\<open>Snapshot\<close> copies every entry and every connector, so the copy has the same contents.\<close>

definition snapshot :: "station_state \<Rightarrow> station_state" where
  "snapshot s =
     (\<lambda>i. case s i of
        None \<Rightarrow> None
      | Some st \<Rightarrow> Some \<lparr>rt_status = rt_status st, rt_connectors = (\<lambda>c. rt_connectors st c)\<rparr>)"

lemma snapshot_same: "snapshot s = s"
  by (rule ext) (simp add: snapshot_def split: option.split)

text \<open>What a reader sees: the status of a station, the status of a connector.\<close>

definition station_status :: "station_state \<Rightarrow> string \<Rightarrow> string option" where
  "station_status s station_id = map_option rt_status (s station_id)"

definition connector_status :: "station_state \<Rightarrow> string \<Rightarrow> int \<Rightarrow> string option" where
  "connector_status s station_id c =
     (case s station_id of
        None \<Rightarrow> None
      | Some state \<Rightarrow> map_option cs_status (rt_connectors state c))"

lemma station_status_update_station:
  "station_status (update_station i st s) j = (if j = i then Some st else station_status s j)"
  by (simp add: station_status_def update_station_def)

lemma connector_status_update_station:
  "connector_status (update_station i st s) = connector_status s"
  by (intro ext) (auto simp: connector_status_def update_station_def runtime_of_def split: option.splits)

lemma connector_status_update_connector:
  "connector_status (update_connector i c st s) j d =
     (if j = i \<and> d = c then Some st else connector_status s j d)"
  by (auto simp: connector_status_def update_connector_def runtime_of_def Let_def split: option.splits)

lemma station_status_update_connector:
  "station_status (update_connector i c st s) j =
     (if j = i \<and> s i = None then Some [] else station_status s j)"
  by (auto simp: station_status_def update_connector_def runtime_of_def Let_def split: option.splits)

lemmas station_views = station_status_update_station connector_status_update_station
  connector_status_update_connector station_status_update_connector

subsection \<open>TransactionStore\<close>

record TransactionContext =
  tc_session_id :: int
  tc_meter_start :: int

type_synonym transaction_store = "string \<rightharpoonup> TransactionContext"

definition new_transaction_store :: transaction_store where
  "new_transaction_store = Map.empty"

definition tx_set :: "string \<Rightarrow> TransactionContext \<Rightarrow> transaction_store \<Rightarrow> transaction_store" where
  "tx_set tx_id ctx s = s(tx_id \<mapsto> ctx)"

definition tx_get :: "transaction_store \<Rightarrow> string \<Rightarrow> TransactionContext option" where
  "tx_get s tx_id = s tx_id"

definition tx_delete :: "string \<Rightarrow> transaction_store \<Rightarrow> transaction_store" where
  "tx_delete tx_id s = s(tx_id := None)"

interpretation tx: kv_store tx_get tx_set tx_delete
  by unfold_locales (auto simp: tx_get_def tx_set_def tx_delete_def)

subsection \<open>Tables\<close>

record station =
  cp_id :: string
  cp_vendor :: string
  cp_model :: string
  cp_firmware :: string
  cp_last_heartbeat :: time
  cp_status :: string
  cp_created_at :: time
  cp_updated_at :: time

text \<open>\<open>charging_stations\<close> by its primary key; \<open>ocpp_messages\<close> in the order of insertion.\<close>

type_synonym station_table = "string \<rightharpoonup> station"

record ocpp_message =
  om_id :: int
  om_station :: string
  om_direction :: string
  om_type :: string
  om_payload :: json
  om_created_at :: time

record log_table =
  log_rows :: "ocpp_message list"
  log_seq :: int

text \<open>
  \<open>StationRepository.Upsert\<close>: an existing row keeps its creation time. A zero heartbeat is
  replaced by the current time, the clock reading \<open>now\<close>.
\<close>

definition station_upsert :: "env \<Rightarrow> time \<Rightarrow> station \<Rightarrow> station_table \<Rightarrow> station_table" where
  "station_upsert e now st rows =
     (let heartbeat = pg_time (if is_zero (cp_last_heartbeat st) then now else cp_last_heartbeat st);
          fresh = st\<lparr>cp_last_heartbeat := heartbeat, cp_created_at := db_now e, cp_updated_at := db_now e\<rparr>
      in rows(cp_id st \<mapsto>
           (case rows (cp_id st) of
              None \<Rightarrow> fresh
            | Some old \<Rightarrow> fresh\<lparr>cp_created_at := cp_created_at old\<rparr>)))"

definition station_update_status :: "env \<Rightarrow> string \<Rightarrow> string \<Rightarrow> station_table \<Rightarrow> station_table" where
  "station_update_status e station_id status rows =
     (case rows station_id of
        None \<Rightarrow> rows
      | Some st \<Rightarrow>
          rows(station_id \<mapsto> st\<lparr>cp_status := status, cp_last_heartbeat := db_now e,
                                cp_updated_at := db_now e\<rparr>))"

text \<open>\<open>OCPPLogRepository.Save\<close>; every caller drops its error.\<close>

definition log_save ::
  "env \<Rightarrow> nat \<Rightarrow> string \<Rightarrow> string \<Rightarrow> string \<Rightarrow> json \<Rightarrow> log_table \<Rightarrow> log_table" where
  "log_save e n station_id direction message_type payload t =
     (case db_fault e n of
        Some _ \<Rightarrow> t
      | None \<Rightarrow>
          \<lparr>log_rows = log_rows t @
             [\<lparr>om_id = log_seq t, om_station = station_id, om_direction = direction,
               om_type = message_type, om_payload = payload, om_created_at = db_now e\<rparr>],
           log_seq = log_seq t + 1\<rparr>)"

lemma station_update_status_dom [simp]: "dom (station_update_status e i st rows) = dom rows"
  by (auto simp: station_update_status_def split: option.splits)

lemma station_upsert_lookup:
  "station_upsert e now st rows i =
     (if i = cp_id st then station_upsert e now st rows (cp_id st) else rows i)"
  by (simp add: station_upsert_def Let_def)

text \<open>The key of a row is its id.\<close>

definition station_table_ok :: "station_table \<Rightarrow> bool" where
  "station_table_ok rows \<longleftrightarrow> (\<forall>i r. rows i = Some r \<longrightarrow> cp_id r = i)"

lemma station_upsert_ok [inv_intros]:
  "station_table_ok rows \<Longrightarrow> station_table_ok (station_upsert e now st rows)"
  by (auto simp: station_table_ok_def station_upsert_def Let_def split: option.splits)

lemma station_update_status_ok [inv_intros]:
  "station_table_ok rows \<Longrightarrow> station_table_ok (station_update_status e i st rows)"
  by (auto simp: station_table_ok_def station_update_status_def split: option.splits)

text \<open>The ids of the log are fresh and increasing.\<close>

definition log_table_ok :: "log_table \<Rightarrow> bool" where
  "log_table_ok t \<longleftrightarrow>
     sorted_wrt (<) (map om_id (log_rows t)) \<and> (\<forall>r \<in> set (log_rows t). om_id r < log_seq t)"

lemma log_save_ok [inv_intros]: "log_table_ok t \<Longrightarrow> log_table_ok (log_save e n i d m p t)"
  by (auto simp: log_table_ok_def log_save_def sorted_wrt_append split: option.splits)

lemma log_save_prefix: "\<exists>r. log_rows (log_save e n i d m p t) = log_rows t @ r"
  by (auto simp: log_save_def split: option.splits)

end
