(* ===== verification/OcppHandlers.thy ===== *)
theory OcppHandlers
  imports OcppClients OcppState
begin

section \<open>The OCPP server: handlers, router, processor\<close>

text \<open>
  \<open>ocpp-server/internal/handlers\<close>, \<open>internal/ocpp/router.go\<close> and the wiring of
  \<open>internal/app/app.go\<close>. The state \<open>ocpp\<close> holds the station state, the transaction store, the two
  tables and the world the clients reach. A handler is a function of the environment, the
  station's id, the payload and the state. Within one call the database statements are numbered
  0 (log of the incoming frame), 1 (the handler's own) and 2 (log of the answer).
\<close>

record 'w deps =
  dp_sessions :: "string option"
  dp_billing :: "string option"
  dp_telemetry :: "string option"
  dp_net :: "'w transport"

record 'w ocpp =
  oc_stations :: station_state
  oc_txs :: transaction_store
  oc_rows :: station_table
  oc_log :: log_table
  oc_world :: 'w

type_synonym 'w hfun = "env \<Rightarrow> string \<Rightarrow> json \<Rightarrow> 'w ocpp \<Rightarrow> reply res \<times> 'w ocpp"

subsection \<open>BootNotification, StatusNotification, Heartbeat\<close>

definition boot_notification :: "'w hfun" where
  "boot_notification e station_id payload s =
     (case decode_boot payload of
        Inl err \<Rightarrow> (Inl err, s)
      | Inr req \<Rightarrow>
          (case db_fault e 1 of
             Some err \<Rightarrow> (Inl err, s)
           | None \<Rightarrow>
               let st = \<lparr>cp_id = station_id, cp_vendor = bn_vendor req, cp_model = bn_model req,
                         cp_firmware = bn_firmware req, cp_last_heartbeat = clock e 0,
                         cp_status = ConnectorAvailable, cp_created_at = 0, cp_updated_at = 0\<rparr>;
                   resp = \<lparr>br_current_time = clock e (if is_zero (clock e 0) then 2 else 1),
                           br_interval = 30, br_status = RegistrationAccepted\<rparr>
               in (Inr (BootReply resp),
                   s\<lparr>oc_rows := station_upsert e (clock e 1) st (oc_rows s),
                     oc_stations := update_station station_id ConnectorAvailable (oc_stations s)\<rparr>)))"

definition status_notification :: "'w hfun" where
  "status_notification e station_id payload s =
     (case decode_status payload of
        Inl err \<Rightarrow> (Inl err, s)
      | Inr req \<Rightarrow>
          let status = (if sn_status req = [] then ConnectorAvailable else sn_status req);
              rows = (case db_fault e 1 of
                        Some _ \<Rightarrow> oc_rows s
                      | None \<Rightarrow> station_update_status e station_id status (oc_rows s));
              stations = update_station station_id status (oc_stations s);
              stations' = (if 0 < sn_connector req
                           then update_connector station_id (sn_connector req) status stations
                           else stations)
          in (Inr StatusReply, s\<lparr>oc_rows := rows, oc_stations := stations'\<rparr>))"

definition heartbeat :: "'w hfun" where
  "heartbeat e station_id payload s = (Inr (HeartbeatReply (clock e 0)), s)"

subsection \<open>StartTransaction\<close>

definition unix_nano :: "time \<Rightarrow> int" where
  "unix_nano t = wrap64 (t - unix_epoch)"

definition transaction_id_of :: "env \<Rightarrow> string \<Rightarrow> StartTransactionRequest \<Rightarrow> string" where
  "transaction_id_of e station_id req =
     (if st_transaction req = []
      then station_id @ ''-'' @ format_int (unix_nano (clock e 0))
      else st_transaction req)"

definition start_transaction :: "'w deps \<Rightarrow> 'w hfun" where
  "start_transaction d e station_id payload s =
     (case decode_start payload of
        Inl err \<Rightarrow> (Inl err, s)
      | Inr req \<Rightarrow>
          let transaction_id = transaction_id_of e station_id req;
              (session_id, w) =
                (case dp_sessions d of
                   None \<Rightarrow> (0, oc_world s)
                 | Some base \<Rightarrow>
                     (case create_from_ocpp (dp_net d) base
                             \<lparr>ssr_station = station_id, ssr_connector = st_connector req,
                              ssr_transaction = transaction_id,
                              ssr_meter_start = st_meter_start req\<rparr> (oc_world s) of
                        (Inl _, w') \<Rightarrow> (0, w')
                      | (Inr i, w') \<Rightarrow> (i, w')));
              stations = (if 0 < st_connector req
                          then update_connector station_id (st_connector req) ConnectorCharging
                                 (oc_stations s)
                          else oc_stations s);
              txs = tx_set transaction_id
                      \<lparr>tc_session_id = session_id, tc_meter_start = st_meter_start req\<rparr> (oc_txs s)
          in (Inr (StartReply transaction_id ''Accepted''),
              s\<lparr>oc_world := w, oc_stations := stations, oc_txs := txs\<rparr>))"

subsection \<open>StopTransaction\<close>

definition stop_energy :: "int \<Rightarrow> int \<Rightarrow> f64" where
  "stop_energy meter_start meter_stop =
     (if meter_start < meter_stop then div64 (of_int64 (wrap64 (meter_stop - meter_start))) 1000
      else Fin 0)"

text \<open>The energy and the session of a stopped transaction: zero when the store does not know it.\<close>

definition stop_context :: "transaction_store \<Rightarrow> StopTransactionRequest \<Rightarrow> f64 \<times> int \<times> transaction_store" where
  "stop_context txs req =
     (case tx_get txs (sp_transaction req) of
        None \<Rightarrow> (Fin 0, 0, txs)
      | Some c \<Rightarrow>
          (stop_energy (tc_meter_start c) (sp_meter_stop req),
           tc_session_id c,
           tx_delete (sp_transaction req) txs))"

definition stop_transaction :: "'w deps \<Rightarrow> 'w hfun" where
  "stop_transaction d e station_id payload s =
     (case decode_stop payload of
        Inl err \<Rightarrow> (Inl err, s)
      | Inr req \<Rightarrow>
          let (energy, session_id, txs) = stop_context (oc_txs s) req;
              w1 = (case dp_sessions d of
                      None \<Rightarrow> oc_world s
                    | Some base \<Rightarrow>
                        snd (complete_from_ocpp (dp_net d) base
                          \<lparr>spr_transaction = sp_transaction req, spr_meter_stop = sp_meter_stop req,
                           spr_reason = sp_reason req, spr_energy = energy,
                           spr_end_time = clock e 0\<rparr> (oc_world s)));
              w2 = (case dp_billing d of
                      None \<Rightarrow> w1
                    | Some base \<Rightarrow>
                        if 0 < session_id
                        then snd (notify_session_stop (dp_net d) base
                               \<lparr>bsr_session = session_id, bsr_user = 0, bsr_energy = energy\<rparr> w1)
                        else w1)
          in (Inr StopReply,
              s\<lparr>oc_txs := txs, oc_world := w2,
                oc_stations := update_station station_id ConnectorAvailable (oc_stations s)\<rparr>))"

subsection \<open>MeterValues\<close>

definition meter_values :: "'w deps \<Rightarrow> 'w hfun" where
  "meter_values d e station_id payload s =
     (case decode_meter payload of
        Inl err \<Rightarrow> (Inl err, s)
      | Inr req \<Rightarrow>
          (case tx_get (oc_txs s) (mv_transaction req) of
             None \<Rightarrow> (Inr NilReply, s)
           | Some c \<Rightarrow>
               if tc_session_id c = 0 then (Inr NilReply, s)
               else (case dp_telemetry d of
                   None \<Rightarrow> (Inr NilReply, s)
                 | Some base \<Rightarrow>
                     (Inr NilReply,
                      s\<lparr>oc_world := snd (notify_meter_value (dp_net d) base
                          \<lparr>mvr_session = tc_session_id c, mvr_station = mv_station req,
                           mvr_connector = mv_connector req, mvr_value = mv_value req,
                           mvr_unit = ''kWh'', mvr_timestamp = mv_timestamp req\<rparr> (oc_world s))\<rparr>))))"

subsection \<open>Router and Processor\<close>

type_synonym 'w router = "string \<rightharpoonup> 'w hfun"

definition new_router :: "'w router" where
  "new_router = Map.empty"

definition register :: "string \<Rightarrow> 'w hfun \<Rightarrow> 'w router \<Rightarrow> 'w router" where
  "register action handler r = r(action \<mapsto> handler)"

definition route :: "'w router \<Rightarrow> env \<Rightarrow> string \<Rightarrow> message \<Rightarrow> 'w ocpp \<Rightarrow> reply res \<times> 'w ocpp" where
  "route r e station_id msg s =
     (case r (msg_action msg) of
        None \<Rightarrow> (Inl (ErrText (''ocpp: unsupported action '' @ msg_action msg)), s)
      | Some handler \<Rightarrow> handler e station_id (msg_payload msg) s)"

definition app_router :: "'w deps \<Rightarrow> 'w router" where
  "app_router d =
     register ActionMeterValues (meter_values d)
      (register ActionHeartbeat heartbeat
       (register ActionStopTransaction (stop_transaction d)
        (register ActionStartTransaction (start_transaction d)
         (register ActionStatusNotification status_notification
          (register ActionBootNotification boot_notification new_router)))))"

text \<open>
  \<open>Processor.Process\<close>: an error means that the frame is dropped; \<open>None\<close> is a \<open>nil\<close> response, for
  which nothing is sent. \<open>lib\<close> is the text of the errors \<open>encoding/json\<close> reports. The processor of
  the server always has its log repository.
\<close>

definition process ::
  "(go_error \<Rightarrow> string) \<Rightarrow> 'w router \<Rightarrow> env \<Rightarrow> string \<Rightarrow> body \<Rightarrow> 'w ocpp \<Rightarrow>
     json option res \<times> 'w ocpp" where
  "process lib r e station_id raw s =
     (case parse_frame raw of
        Inl err \<Rightarrow> (Inl err, s)
      | Inr msg \<Rightarrow>
          let raw_json = (case raw of Json j \<Rightarrow> j | NotJson _ \<Rightarrow> JNull);
              s1 = s\<lparr>oc_log := log_save e 0 station_id ''incoming'' (msg_action msg) raw_json (oc_log s)\<rparr>
          in (case route r e station_id msg s1 of
                (Inl err, s2) \<Rightarrow>
                  (map_sum id Some
                     (build_call_error (msg_unique_id msg) ''InternalError'' (error_text lib err)), s2)
              | (Inr payload, s2) \<Rightarrow>
                  if payload = NilReply then (Inr None, s2)
                  else (case build_call_result (msg_unique_id msg) payload of
                      Inl err \<Rightarrow> (Inl err, s2)
                    | Inr bytes \<Rightarrow>
                        (Inr (Some bytes),
                         s2\<lparr>oc_log := log_save e 2 station_id ''outgoing'' (msg_action msg) bytes
                                        (oc_log s2)\<rparr>))))"

lemma app_router_simps [simp]:
  "app_router d ''BootNotification'' = Some boot_notification"
  "app_router d ''StatusNotification'' = Some status_notification"
  "app_router d ''StartTransaction'' = Some (start_transaction d)"
  "app_router d ''StopTransaction'' = Some (stop_transaction d)"
  "app_router d ''Heartbeat'' = Some heartbeat"
  "app_router d ''MeterValues'' = Some (meter_values d)"
  by (simp_all add: app_router_def register_def action_defs)

lemma app_router_SomeE:
  assumes "app_router d a = Some h"
  obtains "h = boot_notification" | "h = status_notification" | "h = start_transaction d"
    | "h = stop_transaction d" | "h = heartbeat" | "h = meter_values d"
  using assms by (auto simp: app_router_def register_def new_router_def split: if_splits)

lemma app_router_None:
  "app_router d a = None \<longleftrightarrow>
     a \<notin> {''BootNotification'', ''StatusNotification'', ''StartTransaction'', ''StopTransaction'',
          ''Heartbeat'', ''MeterValues''}"
  by (auto simp: app_router_def register_def new_router_def action_defs)

end
