(* ===== verification/OcppCorrect.thy ===== *)
theory OcppCorrect
  imports OcppHandlers
begin

section \<open>The OCPP server: lemmas\<close>

subsection \<open>Energy of a transaction\<close>

lemma powi2_m10: "(2 :: rat) powi (- 10) = 1 / 1024"
  by (simp add: power_int_def power_divide)

lemma powi2_63: "(2 :: rat) powi 63 = 2 ^ 63"
  by (simp add: power_int_def)

lemma stop_energy_small:
  assumes "meter_start < meter_stop" and "meter_stop - meter_start < 2 ^ 53"
  shows "stop_energy meter_start meter_stop = round_f64 (of_int (meter_stop - meter_start) / 1000)"
proof -
  have "in_int64 (meter_stop - meter_start)" using assms by (simp add: in_int64_def)
  moreover have "of_int64 (meter_stop - meter_start) = Fin (of_int (meter_stop - meter_start))"
    using assms by (intro of_int64_exact) simp
  ultimately show ?thesis using assms(1) by (simp add: stop_energy_def div64_def)
qed

text \<open>A double of magnitude 1 to \<open>2 ^ 63\<close>, divided by 1000, is a finite double of the same sign.\<close>

lemma div_1000_range:
  assumes "1 \<le> q" and "q \<le> 2 ^ 63"
  obtains v where "div64 (Fin q) 1000 = Fin v" and "div64 (Fin (- q)) 1000 = Fin (- v)"
    and "0 < v"
proof -
  have "(2 :: rat) powi (- 10) \<le> q / 1000" "q / 1000 \<le> 2 powi 63"
    using assms unfolding powi2_m10 powi2_63 by simp_all
  then obtain v where "round_f64 (q / 1000) = Fin v" "round_f64 (- (q / 1000)) = Fin (- v)"
    "2 powi (- 10) \<le> v"
    using round_f64_between [of "- 10" "q / 1000" 63] by auto
  then show thesis unfolding powi2_m10 by (intro that [of v]) (simp_all add: div64_def)
qed

lemma of_int64_range:
  assumes "1 \<le> i" and "i \<le> 2 ^ 63"
  obtains q where "of_int64 i = Fin q" and "of_int64 (- i) = Fin (- q)" and "1 \<le> q" and "q \<le> 2 ^ 63"
proof -
  have "(of_int i :: rat) \<le> of_int (2 ^ 63)" using assms(2) by (simp only: of_int_le_iff)
  then have "(2 :: rat) powi 0 \<le> of_int i" "(of_int i :: rat) \<le> 2 powi 63"
    using assms(1) unfolding powi2_63 by simp_all
  then obtain v where "round_f64 (of_int i) = Fin v" "round_f64 (- of_int i) = Fin (- v)"
    "2 powi 0 \<le> v" "v \<le> 2 powi 63"
    using round_f64_between [of 0 "of_int i" 63] by auto
  then show thesis unfolding powi2_63 by (intro that [of v]) (simp_all add: of_int64_def)
qed

text \<open>Up to a difference below \<open>2 ^ 63\<close> the energy is positive; from there on it is negative.\<close>

lemma stop_energy_pos:
  assumes "meter_start < meter_stop" and "meter_stop - meter_start < 2 ^ 63"
  obtains v where "stop_energy meter_start meter_stop = Fin v" and "0 < v"
proof -
  have w: "wrap64 (meter_stop - meter_start) = meter_stop - meter_start"
    using assms by (intro wrap64_id) (simp add: in_int64_def)
  obtain q where q: "of_int64 (meter_stop - meter_start) = Fin q" "1 \<le> q" "q \<le> 2 ^ 63"
    using of_int64_range [of "meter_stop - meter_start"] assms by auto
  obtain v where "div64 (Fin q) 1000 = Fin v" "0 < v" using div_1000_range [OF q(2,3)] by auto
  then show thesis using assms(1) q w by (intro that [of v]) (simp_all add: stop_energy_def)
qed

lemma stop_energy_neg:
  assumes "in_int64 meter_start" and "in_int64 meter_stop" and "2 ^ 63 \<le> meter_stop - meter_start"
  obtains v where "stop_energy meter_start meter_stop = Fin v" and "v < 0"
proof -
  have lt: "meter_start < meter_stop" using assms(3) by simp
  let ?w = "wrap64 (meter_stop - meter_start)"
  have "?w < 0"
    using wrap64_diff_big [OF assms(2,1,3)] assms(1,2) by (simp add: in_int64_def)
  moreover have "in_int64 ?w" by (rule wrap64_range)
  ultimately have "1 \<le> - ?w" "- ?w \<le> 2 ^ 63" by (simp_all add: in_int64_def)
  then obtain q where q: "of_int64 (- (- ?w)) = Fin (- q)" "1 \<le> q" "q \<le> 2 ^ 63"
    using of_int64_range [of "- ?w"] by auto
  obtain v where "div64 (Fin (- q)) 1000 = Fin (- v)" "0 < v" using div_1000_range [OF q(2,3)] by auto
  then show thesis using q lt by (intro that [of "- v"]) (simp_all add: stop_energy_def)
qed

lemma stop_energy_none: "meter_stop \<le> meter_start \<Longrightarrow> stop_energy meter_start meter_stop = Fin 0"
  by (simp add: stop_energy_def)

lemma stop_energy_valid: "valid64 (stop_energy a b)"
  by (simp add: stop_energy_def valid64_ops)

subsection \<open>Runs and their invariants\<close>

text \<open>
  The frames the read pumps hand to the processor, one after the other: each with the environment
  of its call and the station of its connection.
\<close>

type_synonym event = "env \<times> string \<times> body"

fun process_all ::
  "(go_error \<Rightarrow> string) \<Rightarrow> 'w router \<Rightarrow> event list \<Rightarrow> 'w ocpp \<Rightarrow> 'w ocpp" where
  "process_all lib r [] s = s"
| "process_all lib r ((e, i, raw) # es) s =
     process_all lib r es (snd (process lib r e i raw s))"

definition init_ocpp :: "'w \<Rightarrow> 'w ocpp" where
  "init_ocpp w =
     \<lparr>oc_stations = new_station_state, oc_txs = new_transaction_store, oc_rows = Map.empty,
      oc_log = \<lparr>log_rows = [], log_seq = 1\<rparr>, oc_world = w\<rparr>"

text \<open>The contract between the processor and its handlers: what every handler keeps, a run keeps.\<close>

locale ocpp_invariant =
  fixes router :: "'w router" and inv :: "'w ocpp \<Rightarrow> bool"
  assumes handler: "router a = Some h \<Longrightarrow> inv s \<Longrightarrow> inv (snd (h e i p s))"
    and logging: "inv s \<Longrightarrow> inv (s\<lparr>oc_log := log_save e n i dir a p (oc_log s)\<rparr>)"
begin

lemma route_inv: "inv s \<Longrightarrow> inv (snd (route router e i m s))"
  by (auto simp: route_def split: option.splits dest: handler)

lemma process_inv:
  assumes "inv s" shows "inv (snd (process lib router e i raw s))"
proof (cases "parse_frame raw")
  case (Inr m)
  let ?j = "case raw of Json j \<Rightarrow> j | NotJson _ \<Rightarrow> JNull"
  let ?s1 = "s\<lparr>oc_log := log_save e 0 i ''incoming'' (msg_action m) ?j (oc_log s)\<rparr>"
  obtain res s2 where r: "route router e i m ?s1 = (res, s2)" by fastforce
  have "inv s2" using route_inv [OF logging [OF assms], of e i m] r by (metis snd_conv)
  then show ?thesis
    by (auto simp: process_def Inr Let_def r split: sum.splits intro: logging)
qed (use assms in \<open>simp add: process_def\<close>)

lemma run_inv: "inv s \<Longrightarrow> inv (process_all lib router es s)"
proof (induction es arbitrary: s)
  case (Cons ev es)
  obtain e i raw where "ev = (e, i, raw)" by (cases ev)
  with Cons process_inv show ?case by simp
qed simp

end

subsection \<open>Well-formed states\<close>

lemma in_int64_0 [simp]: "in_int64 0"
  by (simp add: in_int64_def)

lemma to_int64_range: "in_int64 (to_int64 x)"
  by (cases x) (auto simp: to_int64_def Let_def in_int64_def)

lemma session_id_range: "in_int64 (session_id_of p)"
  by (auto simp: session_id_of_def to_int64_range split: option.splits)

lemma post_start_range: "fst (post_start net base path b w) = Inr i \<Longrightarrow> in_int64 i"
  by (auto simp: post_start_def session_id_range split: option.splits prod.splits sum.splits if_splits)

lemma create_range: "create_from_ocpp net base r w = (Inr i, w') \<Longrightarrow> in_int64 i"
  using post_start_range [of net base "''/internal/ocpp/session-start''" "json_start_session r" w i]
  by (auto simp: create_from_ocpp_def split: if_splits)

lemma decode_start_range:
  assumes "decode_start p = Inr req"
  shows "in_int64 (st_meter_start req) \<and> in_int64 (st_connector req)"
proof -
  let ?P = "\<lambda>r. in_int64 (st_meter_start r) \<and> in_int64 (st_connector r)"
  show ?thesis
    by (rule decode_struct_inv [where P = ?P, OF assms [unfolded decode_start_def]])
      (auto simp: start_fields_def field_defs in_int64_def split: json.splits option.splits if_splits)
qed

lemma decode_stop_range:
  assumes "decode_stop p = Inr req" shows "in_int64 (sp_meter_stop req)"
proof -
  let ?P = "\<lambda>r. in_int64 (sp_meter_stop r)"
  show ?thesis
    by (rule decode_struct_inv [where P = ?P, OF assms [unfolded decode_stop_def]])
      (auto simp: stop_fields_def field_defs in_int64_def split: json.splits option.splits if_splits)
qed

definition tx_ok :: "transaction_store \<Rightarrow> bool" where
  "tx_ok txs \<longleftrightarrow>
     finite (dom txs) \<and>
     (\<forall>t c. tx_get txs t = Some c \<longrightarrow> in_int64 (tc_session_id c) \<and> in_int64 (tc_meter_start c))"

lemma tx_set_ok [inv_intros]:
  "tx_ok txs \<Longrightarrow> in_int64 (tc_session_id c) \<Longrightarrow> in_int64 (tc_meter_start c) \<Longrightarrow> tx_ok (tx_set t c txs)"
  by (auto simp: tx_ok_def tx.get_put) (simp add: tx_set_def)

lemma tx_delete_ok [inv_intros]: "tx_ok txs \<Longrightarrow> tx_ok (tx_delete t txs)"
  by (auto simp: tx_ok_def tx.get_del split: if_splits) (simp add: tx_delete_def)

definition ocpp_ok :: "'w ocpp \<Rightarrow> bool" where
  "ocpp_ok s \<longleftrightarrow> tx_ok (oc_txs s) \<and> station_table_ok (oc_rows s) \<and> log_table_ok (oc_log s) \<and>
     dom (oc_rows s) \<subseteq> dom (oc_stations s)"

lemma dom_update_station [simp]: "dom (update_station i st s) = insert i (dom s)"
  by (simp add: update_station_def)

lemma dom_update_connector [simp]: "dom (update_connector i c st s) = insert i (dom s)"
  by (simp add: update_connector_def Let_def)

lemma dom_station_upsert [simp]: "dom (station_upsert e now st rows) = insert (cp_id st) (dom rows)"
  by (simp add: station_upsert_def Let_def)

lemma boot_ok: "ocpp_ok s \<Longrightarrow> ocpp_ok (snd (boot_notification e i p s))"
  by (auto simp: boot_notification_def Let_def ocpp_ok_def intro!: inv_intros
      split: sum.splits option.splits)

lemma status_ok: "ocpp_ok s \<Longrightarrow> ocpp_ok (snd (status_notification e i p s))"
  by (auto simp: status_notification_def Let_def ocpp_ok_def intro!: inv_intros
      split: sum.splits option.splits)

lemma start_ok: "ocpp_ok s \<Longrightarrow> ocpp_ok (snd (start_transaction d e i p s))"
  by (auto simp: start_transaction_def Let_def ocpp_ok_def intro!: inv_intros
      split: sum.splits option.splits prod.splits
      dest: decode_start_range create_range)

lemma stop_context_ok: "tx_ok txs \<Longrightarrow> tx_ok (snd (snd (stop_context txs req)))"
  by (auto simp: stop_context_def intro: inv_intros split: option.splits)

lemma stop_ok: "ocpp_ok s \<Longrightarrow> ocpp_ok (snd (stop_transaction d e i p s))"
  using stop_context_ok [of "oc_txs s"]
  by (auto simp: stop_transaction_def Let_def ocpp_ok_def case_prod_beta split: sum.splits)

lemma meter_ok: "ocpp_ok s \<Longrightarrow> ocpp_ok (snd (meter_values d e i p s))"
  by (auto simp: meter_values_def ocpp_ok_def split: sum.splits option.splits)

lemma heartbeat_state [simp]: "snd (heartbeat e i p s) = s"
  by (simp add: heartbeat_def)

interpretation wf: ocpp_invariant "app_router d" ocpp_ok for d :: "'w deps"
proof
  fix a h e i p and s :: "'w ocpp"
  assume "app_router d a = Some h" and "ocpp_ok s"
  then show "ocpp_ok (snd (h e i p s))"
    by (cases rule: app_router_SomeE) (simp_all add: boot_ok status_ok start_ok stop_ok meter_ok)
qed (auto simp: ocpp_ok_def intro: inv_intros)

lemma init_ocpp_ok: "ocpp_ok (init_ocpp w)"
  by (simp add: ocpp_ok_def init_ocpp_def tx_ok_def new_transaction_store_def tx_get_def
      station_table_ok_def log_table_ok_def)

end
