(* ===== verification/WsConn.thy ===== *)
theory WsConn
  imports OcppCorrect "HOL-Library.Sublist"
begin

section \<open>Connections of the OCPP server\<close>

text \<open>
  \<open>ocpp-server/internal/ws\<close>: the connection manager, \<open>HandleWS\<close>, and the read pump, the write pump and
  the clean-up of each connection, as a step relation over all connections. A connection has a read
  pump that processes one frame at a time and queues the response, a write pump that takes responses
  from the queue of 16, and a clean-up of three steps: close the queue, close the socket, deregister.
  The steps of all goroutines interleave; the processing of one frame is one step. The network decides
  which of the enabled steps of a socket, success or failure, is taken.
\<close>

subsection \<open>State\<close>

datatype wire = WireText json | WirePing | WireClose

datatype phase = Reading | QueueClosed | SocketClosed | Removed

text \<open>\<open>co_given\<close> is a history: the responses that the read pump has passed to \<open>Send\<close>.\<close>

record connection =
  co_station :: string
  co_send :: "json list"
  co_phase :: phase
  co_writing :: bool
  co_wire :: "wire list"
  co_given :: "json list"

definition new_connection :: "string \<Rightarrow> connection" where
  "new_connection i =
     \<lparr>co_station = i, co_send = [], co_phase = Reading, co_writing = True, co_wire = [], co_given = []\<rparr>"

type_synonym manager = "string \<rightharpoonup> nat"

definition new_manager :: manager where "new_manager = Map.empty"

definition manager_interval :: "int \<Rightarrow> int" where
  "manager_interval ping = (if ping \<le> 0 then 30 * second else ping)"

definition manager_add :: "string \<Rightarrow> nat \<Rightarrow> manager \<Rightarrow> manager" where
  "manager_add i n m = m(i \<mapsto> n)"

definition manager_remove :: "string \<Rightarrow> manager \<Rightarrow> manager" where
  "manager_remove i m = m(i := None)"

text \<open>The manager is a store of connections by station.\<close>

interpretation registry: kv_store "\<lambda>m i. m i" manager_add manager_remove
  by unfold_locales (auto simp: manager_add_def manager_remove_def)

record 'w ws =
  ws_ocpp :: "'w ocpp"
  ws_conns :: "nat \<rightharpoonup> connection"
  ws_next :: nat
  ws_manager :: manager

definition init_ws :: "'w \<Rightarrow> 'w ws" where
  "init_ws w = \<lparr>ws_ocpp = init_ocpp w, ws_conns = Map.empty, ws_next = 0, ws_manager = new_manager\<rparr>"

subsection \<open>Operations\<close>

text \<open>
  \<open>Connection.Send\<close>: a full queue drops the response, and sending on the closed queue panics, which
  \<open>Send\<close> recovers from.
\<close>

definition send_capacity :: nat where "send_capacity = 16"

definition conn_send :: "json \<Rightarrow> connection \<Rightarrow> connection" where
  "conn_send msg c =
     (let c' = c\<lparr>co_given := co_given c @ [msg]\<rparr>
      in if co_phase c \<noteq> Reading then c'
         else if length (co_send c) < send_capacity then c'\<lparr>co_send := co_send c @ [msg]\<rparr>
         else c')"

definition socket_open :: "connection \<Rightarrow> bool" where
  "socket_open c \<longleftrightarrow> co_phase c \<in> {Reading, QueueClosed}"

definition conn_write :: "wire \<Rightarrow> connection \<Rightarrow> connection" where
  "conn_write m c = c\<lparr>co_wire := co_wire c @ [m]\<rparr>"

text \<open>\<open>HandleWS\<close> once the upgrade has succeeded; without a station id the request is answered by 400.\<close>

definition handle_ws :: "string \<Rightarrow> bool \<Rightarrow> 'w ws \<Rightarrow> response option \<times> 'w ws" where
  "handle_ws i upgraded s =
     (if i = [] then (Some (http_error ''station_id is required'' 400), s)
      else if \<not> upgraded then (None, s)
      else (None, s\<lparr>ws_conns := (ws_conns s)(ws_next s \<mapsto> new_connection i),
                    ws_manager := manager_add i (ws_next s) (ws_manager s), ws_next := ws_next s + 1\<rparr>))"

text \<open>One round of the read pump with a frame that has been read.\<close>

definition read_round ::
  "(go_error \<Rightarrow> string) \<Rightarrow> 'w router \<Rightarrow> env \<Rightarrow> body \<Rightarrow> connection \<Rightarrow> 'w ocpp \<Rightarrow> connection \<times> 'w ocpp" where
  "read_round lib r e raw c s =
     (case process lib r e (co_station c) raw s of
        (Inl err, s') \<Rightarrow> (c, s')
      | (Inr None, s') \<Rightarrow> (c, s')
      | (Inr (Some resp), s') \<Rightarrow> (conn_send resp c, s'))"

text \<open>The write pump: a queued response, or the close message when the queue is closed and empty.\<close>

definition pump_round :: "bool \<Rightarrow> connection \<Rightarrow> connection" where
  "pump_round ok c =
     (case co_send c of
        m # ms \<Rightarrow>
          (let c' = c\<lparr>co_send := ms\<rparr>
           in if ok then conn_write (WireText m) c' else c'\<lparr>co_writing := False\<rparr>)
      | [] \<Rightarrow>
          if co_phase c = Reading then c
          else (if ok then conn_write WireClose c else c)\<lparr>co_writing := False\<rparr>)"

definition ping_round :: "bool \<Rightarrow> connection \<Rightarrow> connection" where
  "ping_round ok c = (if ok then conn_write WirePing c else c\<lparr>co_writing := False\<rparr>)"

subsection \<open>Steps\<close>

datatype ws_event =
    Connect string bool
  | Receive nat env body
  | ReadFails nat
  | Pump nat bool
  | Tick nat bool
  | PumpCancelled nat
  | ManagerPing string
  | CloseSocket nat
  | OnClose nat

definition set_conn :: "nat \<Rightarrow> connection \<Rightarrow> 'w ws \<Rightarrow> 'w ws" where
  "set_conn n c s = s\<lparr>ws_conns := (ws_conns s)(n \<mapsto> c)\<rparr>"

text \<open>
  \<open>Pump\<close> and \<open>Tick\<close> may succeed only on an open socket. The manager's ping is the caller's own write,
  whose failure is ignored.
\<close>

inductive ws_step :: "(go_error \<Rightarrow> string) \<Rightarrow> 'w router \<Rightarrow> 'w ws \<Rightarrow> ws_event \<Rightarrow> 'w ws \<Rightarrow> bool"
  for lib :: "go_error \<Rightarrow> string" and r :: "'w router" where
  connect: "ws_step lib r s (Connect i up) (snd (handle_ws i up s))"
| receive: "ws_conns s n = Some c \<Longrightarrow> co_phase c = Reading \<Longrightarrow> read_round lib r e raw c (ws_ocpp s) = (c', o') \<Longrightarrow>
    ws_step lib r s (Receive n e raw) (set_conn n c' (s\<lparr>ws_ocpp := o'\<rparr>))"
| read_fails: "ws_conns s n = Some c \<Longrightarrow> co_phase c = Reading \<Longrightarrow>
    ws_step lib r s (ReadFails n) (set_conn n (c\<lparr>co_phase := QueueClosed\<rparr>) s)"
| pump: "ws_conns s n = Some c \<Longrightarrow> co_writing c \<Longrightarrow> co_send c \<noteq> [] \<or> co_phase c \<noteq> Reading \<Longrightarrow>
    (ok \<longrightarrow> socket_open c) \<Longrightarrow> ws_step lib r s (Pump n ok) (set_conn n (pump_round ok c) s)"
| tick: "ws_conns s n = Some c \<Longrightarrow> co_writing c \<Longrightarrow> (ok \<longrightarrow> socket_open c) \<Longrightarrow>
    ws_step lib r s (Tick n ok) (set_conn n (ping_round ok c) s)"
| pump_cancelled: "ws_conns s n = Some c \<Longrightarrow> co_writing c \<Longrightarrow> co_phase c = Removed \<Longrightarrow>
    ws_step lib r s (PumpCancelled n) (set_conn n (c\<lparr>co_writing := False\<rparr>) s)"
| manager_ping: "ws_manager s i = Some n \<Longrightarrow> ws_conns s n = Some c \<Longrightarrow> socket_open c \<Longrightarrow>
    ws_step lib r s (ManagerPing i) (set_conn n (conn_write WirePing c) s)"
| close_socket: "ws_conns s n = Some c \<Longrightarrow> co_phase c = QueueClosed \<Longrightarrow>
    ws_step lib r s (CloseSocket n) (set_conn n (c\<lparr>co_phase := SocketClosed\<rparr>) s)"
| on_close: "ws_conns s n = Some c \<Longrightarrow> co_phase c = SocketClosed \<Longrightarrow>
    ws_step lib r s (OnClose n)
      (set_conn n (c\<lparr>co_phase := Removed\<rparr>) (s\<lparr>ws_manager := manager_remove (co_station c) (ws_manager s)\<rparr>))"

inductive ws_run :: "(go_error \<Rightarrow> string) \<Rightarrow> 'w router \<Rightarrow> 'w ws \<Rightarrow> ws_event list \<Rightarrow> 'w ws \<Rightarrow> bool"
  for lib :: "go_error \<Rightarrow> string" and r :: "'w router" where
  finish: "ws_run lib r s [] s"
| step: "ws_step lib r s ev s' \<Longrightarrow> ws_run lib r s' evs s'' \<Longrightarrow> ws_run lib r s (ev # evs) s''"

text \<open>What must hold for the steps of the environment and of the clean-up.\<close>

inductive_simps receive_iff: "ws_step lib r s (Receive n e raw) s'"
inductive_simps close_iff: "ws_step lib r s (CloseSocket n) s'" "ws_step lib r s (OnClose n) s'"

end
