(* ===== verification/Telemetry.thy ===== *)
theory Telemetry
  imports Http
begin

section \<open>The telemetry service\<close>

text \<open>
  \<open>telemetry-service\<close>: the table and the materialized view of its migration with the statements of
  \<open>internal/repository\<close>, \<open>internal/service\<close>, the handler and the router, followed by the service's
  properties. A reading is a finite float; the view holds what it held when it was last refreshed,
  and nothing in the repository refreshes it.
\<close>

subsection \<open>Tables\<close>

record TelemetryData =
  td_id :: int
  td_session :: int
  td_station :: string
  td_connector :: int
  td_value :: f64
  td_unit :: string
  td_recorded_at :: time
  td_created_at :: time

record telemetry_state =
  tl_rows :: "TelemetryData list"
  tl_seq :: int
  tl_view :: "int \<rightharpoonup> f64"

definition telemetry_insert :: "env \<Rightarrow> nat \<Rightarrow> TelemetryData \<Rightarrow> telemetry_state \<Rightarrow> unit res \<times> telemetry_state" where
  "telemetry_insert e n d s =
     (case db_fault e n of
        Some err \<Rightarrow> (Inl err, s)
      | None \<Rightarrow>
          if \<not> in_int32 (td_connector d) then (Inl (ErrExt ''out of range for type integer''), s)
          else if \<not> in_int64 (tl_seq s)
          then (Inl (ErrExt ''nextval: reached maximum value of sequence''), s)
          else (Inr (), s\<lparr>tl_rows := tl_rows s @
                 [d\<lparr>td_id := tl_seq s, td_recorded_at := pg_time (td_recorded_at d),
                    td_created_at := db_now e\<rparr>], tl_seq := tl_seq s + 1\<rparr>))"

text \<open>\<open>MAX\<close> and \<open>MIN\<close> over finite readings; Postgres rejects a difference that overflows.\<close>

fun max64 :: "f64 list \<Rightarrow> f64" where
  "max64 [] = Fin 0"
| "max64 [x] = x"
| "max64 (x # xs) = (let m = max64 xs in if le64 x m then m else x)"

fun min64 :: "f64 list \<Rightarrow> f64" where
  "min64 [] = Fin 0"
| "min64 [x] = x"
| "min64 (x # xs) = (let m = min64 xs in if le64 x m then x else m)"

definition sum_energy_by_session :: "env \<Rightarrow> nat \<Rightarrow> int \<Rightarrow> telemetry_state \<Rightarrow> f64 res" where
  "sum_energy_by_session e n session s =
     (case db_fault e n of
        Some err \<Rightarrow> Inl err
      | None \<Rightarrow>
          let values = map td_value (filter (\<lambda>d. td_session d = session) (tl_rows s));
              total = (if values = [] then Fin 0 else sub64 (max64 values) (min64 values))
          in if \<not> finite64 total then Inl (ErrExt ''value out of range: overflow'')
             else Inr (if lt64 total (Fin 0) then Fin 0 else total))"

definition last_meter_value :: "env \<Rightarrow> nat \<Rightarrow> int \<Rightarrow> telemetry_state \<Rightarrow> (f64 \<times> time) res" where
  "last_meter_value e n session s =
     (case db_fault e n of
        Some err \<Rightarrow> Inl err
      | None \<Rightarrow>
          (case order_desc_limit td_recorded_at 1 (filter (\<lambda>d. td_session d = session) (tl_rows s)) of
             [] \<Rightarrow> Inl err_no_rows
           | d # _ \<Rightarrow> Inr (td_value d, td_recorded_at d)))"

definition view_total_energy :: "env \<Rightarrow> nat \<Rightarrow> int \<Rightarrow> telemetry_state \<Rightarrow> f64 res" where
  "view_total_energy e n session s =
     (case db_fault e n of
        Some err \<Rightarrow> Inl err
      | None \<Rightarrow> (case tl_view s session of None \<Rightarrow> Inl err_no_rows | Some x \<Rightarrow> Inr x))"

subsection \<open>Service\<close>

definition calculate_delta_energy :: "f64 \<Rightarrow> f64 \<Rightarrow> f64" where
  "calculate_delta_energy prev cur = (if lt64 cur prev then Fin 0 else sub64 cur prev)"

record MeterValueInput =
  mi_session :: int
  mi_station :: string
  mi_connector :: int
  mi_value :: f64
  mi_unit :: string
  mi_timestamp :: time

definition store_meter_value :: "env \<Rightarrow> MeterValueInput \<Rightarrow> telemetry_state \<Rightarrow> unit res \<times> telemetry_state" where
  "store_meter_value e input s =
     telemetry_insert e 0
       \<lparr>td_id = 0, td_session = mi_session input, td_station = mi_station input,
        td_connector = mi_connector input, td_value = mi_value input, td_unit = mi_unit input,
        td_recorded_at = (if is_zero (mi_timestamp input) then clock e 0 else mi_timestamp input),
        td_created_at = 0\<rparr> s"

text \<open>\<open>TotalEnergy\<close>, with (\<open>True\<close>) or without the view.\<close>

definition total_energy :: "bool \<Rightarrow> env \<Rightarrow> int \<Rightarrow> telemetry_state \<Rightarrow> f64 res" where
  "total_energy view e session s =
     (if view
      then case view_total_energy e 0 session s of
          Inr t \<Rightarrow> Inr t
        | Inl _ \<Rightarrow> sum_energy_by_session e 1 session s
      else sum_energy_by_session e 0 session s)"

subsection \<open>Handler and router\<close>

definition meter_value_fields :: "(string \<times> MeterValueInput setter) list" where
  "meter_value_fields =
     [int_field ''session_id'' (\<lambda>i r. r\<lparr>mi_session := i\<rparr>),
      string_field ''station_id'' (\<lambda>s r. r\<lparr>mi_station := s\<rparr>),
      int_field ''connector_id'' (\<lambda>i r. r\<lparr>mi_connector := i\<rparr>),
      float_field ''meter_value'' (\<lambda>x r. r\<lparr>mi_value := x\<rparr>),
      string_field ''unit'' (\<lambda>s r. r\<lparr>mi_unit := s\<rparr>),
      time_field ''timestamp'' (\<lambda>t r. r\<lparr>mi_timestamp := t\<rparr>)]"

definition decode_meter_value :: "body \<Rightarrow> MeterValueInput res" where
  "decode_meter_value = decode_body meter_value_fields
     \<lparr>mi_session = 0, mi_station = [], mi_connector = 0, mi_value = Fin 0, mi_unit = [], mi_timestamp = 0\<rparr>"

definition handle_meter_values :: "telemetry_state handler" where
  "handle_meter_values e r s =
     (case decode_meter_value (rq_body r) of
        Inl _ \<Rightarrow> (http_error ''invalid json'' 400, s)
      | Inr input \<Rightarrow>
          if mi_session input = 0 then (http_error ''session_id is required'' 400, s)
          else (case store_meter_value e input s of
              (Inl _, s1) \<Rightarrow> (http_error ''failed to store meter value'' 500, s1)
            | (Inr _, s1) \<Rightarrow>
                (\<lparr>rs_status = 202, rs_headers = [(''Content-Type'', ''text/plain; charset=utf-8'')],
                  rs_body = Json (JObj [(''status'', JStr ''ok'')])\<rparr>, s1)))"

definition telemetry_router :: "telemetry_state handler" where
  "telemetry_router =
     serve_mux
       [(''/internal/ocpp/meter-values'', method_guard ''POST'' handle_meter_values),
        (''/health'', method_guard ''GET'' health)]"

subsection \<open>The invariant\<close>

definition reading_ok :: "int \<Rightarrow> TelemetryData \<Rightarrow> bool" where
  "reading_ok next_id d \<longleftrightarrow>
     td_id d < next_id \<and> td_session d \<noteq> 0 \<and> in_int32 (td_connector d) \<and>
     finite64 (td_value d) \<and> valid64 (td_value d)"

definition telemetry_ok :: "telemetry_state \<Rightarrow> bool" where
  "telemetry_ok s \<longleftrightarrow>
     sorted_wrt (<) (map td_id (tl_rows s)) \<and> (\<forall>d \<in> set (tl_rows s). reading_ok (tl_seq s) d)"

lemma decode_meter_value_ok:
  assumes "decode_meter_value b = Inr i"
  shows "finite64 (mi_value i) \<and> valid64 (mi_value i) \<and> in_int64 (mi_session i)"
proof -
  let ?P = "\<lambda>i. finite64 (mi_value i) \<and> valid64 (mi_value i) \<and> in_int64 (mi_session i)"
  have fin: "number_f64 j = Some x \<Longrightarrow> finite64 x" for j x
    by (auto simp: number_f64_def Let_def split: json.splits if_splits)
  show ?thesis
    by (rule decode_body_inv [where P = ?P, OF assms [unfolded decode_meter_value_def]])
      (auto simp: meter_value_fields_def field_defs number_f64_valid fin in_int64_def
        split: json.splits option.splits if_splits)
qed

lemma store_cases:
  obtains err where "store_meter_value e i s = (Inl err, s)"
  | d where "store_meter_value e i s = (Inr (), s\<lparr>tl_rows := tl_rows s @ [d], tl_seq := tl_seq s + 1\<rparr>)"
      and "in_int32 (mi_connector i)"
      and "d = \<lparr>td_id = tl_seq s, td_session = mi_session i, td_station = mi_station i,
                td_connector = mi_connector i, td_value = mi_value i, td_unit = mi_unit i,
                td_recorded_at = pg_time (if is_zero (mi_timestamp i) then clock e 0 else mi_timestamp i),
                td_created_at = db_now e\<rparr>"
  by (cases "db_fault e 0"; cases "in_int32 (mi_connector i)"; cases "in_int64 (tl_seq s)")
    (auto simp: store_meter_value_def telemetry_insert_def)

lemma handle_meter_cases:
  obtains "snd (handle_meter_values e r s) = s" and "rs_status (fst (handle_meter_values e r s)) \<noteq> 202"
  | i d where "decode_meter_value (rq_body r) = Inr i" and "mi_session i \<noteq> 0" and "in_int32 (mi_connector i)"
      and "snd (handle_meter_values e r s) = s\<lparr>tl_rows := tl_rows s @ [d], tl_seq := tl_seq s + 1\<rparr>"
      and "rs_status (fst (handle_meter_values e r s)) = 202"
      and "d = \<lparr>td_id = tl_seq s, td_session = mi_session i, td_station = mi_station i,
                td_connector = mi_connector i, td_value = mi_value i, td_unit = mi_unit i,
                td_recorded_at = pg_time (if is_zero (mi_timestamp i) then clock e 0 else mi_timestamp i),
                td_created_at = db_now e\<rparr>"
proof (cases "decode_meter_value (rq_body r)")
  case (Inr i)
  show thesis
  proof (cases "mi_session i = 0")
    case True
    with Inr that show thesis by (simp add: handle_meter_values_def)
  next
    case False
    show thesis
    proof (cases rule: store_cases [of e i s])
      case (1 err)
      with Inr False that show thesis by (simp add: handle_meter_values_def)
    next
      case (2 d)
      with Inr False show thesis by (intro that(2) [of i d]) (simp_all add: handle_meter_values_def)
    qed
  qed
qed (use that in \<open>simp add: handle_meter_values_def\<close>)

lemma handle_meter_ok:
  assumes "telemetry_ok s" shows "telemetry_ok (snd (handle_meter_values e r s))"
proof (cases rule: handle_meter_cases [of e r s])
  case (2 i d)
  have "reading_ok (tl_seq s + 1) d"
    using 2 decode_meter_value_ok [OF 2(1)] by (simp add: reading_ok_def)
  moreover have "reading_ok (tl_seq s + 1) u" "td_id u < tl_seq s" if "u \<in> set (tl_rows s)" for u
    using assms that by (auto simp: telemetry_ok_def reading_ok_def)
  ultimately show ?thesis using assms 2 by (auto simp: telemetry_ok_def sorted_wrt_append)
qed (use assms in simp)

interpretation telemetry: service_inv telemetry_router telemetry_ok
  by unfold_locales (simp add: telemetry_router_def serve_mux_def method_guard_def handle_meter_ok)

lemma handle_meter_view: "tl_view (snd (handle_meter_values e r s)) = tl_view s"
  by (cases rule: handle_meter_cases [of e r s]) simp_all

interpretation view: service_inv telemetry_router "\<lambda>s. tl_view s = v" for v
  by unfold_locales (simp add: telemetry_router_def serve_mux_def method_guard_def handle_meter_view)

subsection \<open>Maximum and minimum\<close>

lemma max64_bounds:
  assumes "xs \<noteq> []" and "\<forall>x \<in> set xs. finite64 x"
  shows "max64 xs \<in> set xs \<and> (\<forall>x \<in> set xs. le64 x (max64 xs))"
  using assms
proof (induction xs rule: max64.induct)
  case (2 x)
  then show ?case by (simp add: le64_refl)
next
  case (3 x y ys)
  let ?m = "max64 (y # ys)"
  have ih: "?m \<in> set (y # ys)" "\<forall>z \<in> set (y # ys). le64 z ?m" using 3 by auto
  then have fin: "finite64 ?m" "finite64 x" using 3(3) by auto
  show ?case
  proof (cases "le64 x ?m")
    case True
    with ih show ?thesis by (simp add: Let_def)
  next
    case False
    then have "le64 ?m x" using le64_total [OF fin] by blast
    then have "\<forall>z \<in> set (y # ys). le64 z x" using ih(2) le64_trans by blast
    with False show ?thesis using le64_refl [OF fin(2)] by (simp add: Let_def)
  qed
qed simp

lemma min64_bounds:
  assumes "xs \<noteq> []" and "\<forall>x \<in> set xs. finite64 x"
  shows "min64 xs \<in> set xs \<and> (\<forall>x \<in> set xs. le64 (min64 xs) x)"
  using assms
proof (induction xs rule: min64.induct)
  case (2 x)
  then show ?case by (simp add: le64_refl)
next
  case (3 x y ys)
  let ?m = "min64 (y # ys)"
  have ih: "?m \<in> set (y # ys)" "\<forall>z \<in> set (y # ys). le64 ?m z" using 3 by auto
  then have fin: "finite64 ?m" "finite64 x" using 3(3) by auto
  show ?case
  proof (cases "le64 x ?m")
    case True
    then have "\<forall>z \<in> set (y # ys). le64 x z" using ih(2) le64_trans by blast
    with True show ?thesis using le64_refl [OF fin(2)] by (simp add: Let_def)
  next
    case False
    with ih show ?thesis using le64_total [OF fin] by (auto simp: Let_def)
  qed
qed simp

lemma finite64E: "finite64 x \<Longrightarrow> (\<And>a. x = Fin a \<Longrightarrow> thesis) \<Longrightarrow> thesis"
  by (cases x) auto

definition readings :: "int \<Rightarrow> telemetry_state \<Rightarrow> f64 list" where
  "readings session s = map td_value (filter (\<lambda>d. td_session d = session) (tl_rows s))"

lemma readings_finite: "telemetry_ok s \<Longrightarrow> x \<in> set (readings session s) \<Longrightarrow> finite64 x"
  by (auto simp: telemetry_ok_def readings_def reading_ok_def)

lemma sum_energy_eq:
  assumes "telemetry_ok s" and "db_fault e n = None" and "readings session s \<noteq> []"
    and "max64 (readings session s) = Fin hi" and "min64 (readings session s) = Fin lo"
    and "lo \<le> hi"
  shows "sum_energy_by_session e n session s =
    (if finite64 (round_f64 (hi - lo)) then Inr (round_f64 (hi - lo))
     else Inl (ErrExt ''value out of range: overflow''))"
proof -
  have "le64 (Fin 0) (round_f64 (hi - lo))" using assms(6) by (simp add: round_f64_nonneg)
  then have "\<not> lt64 (round_f64 (hi - lo)) (Fin 0)" by (cases "round_f64 (hi - lo)") auto
  then show ?thesis using assms
    by (simp add: sum_energy_by_session_def readings_def [symmetric] sub64_def Let_def)
qed

subsection \<open>Properties\<close>

definition init_telemetry :: "(int \<rightharpoonup> f64) \<Rightarrow> telemetry_state" where
  "init_telemetry v = \<lparr>tl_rows = [], tl_seq = 1, tl_view = v\<rparr>"

lemma init_telemetry_ok: "telemetry_ok (init_telemetry v)"
  by (simp add: telemetry_ok_def init_telemetry_def)

text \<open>Over any run every stored reading has a session, an int4 connector and a finite value, and
  ids increase.\<close>

theorem telemetry_run_ok: "telemetry_ok (snd (serve_all telemetry_router es (init_telemetry v)))"
  by (rule telemetry.run) (rule init_telemetry_ok)

text \<open>The energy of a session is the rounded difference between a largest and a smallest of its
  readings, never negative, an error when that difference leaves the range of doubles, and zero
  without readings.\<close>

theorem sum_energy_correct:
  assumes "telemetry_ok s" and "db_fault e n = None"
  shows "if readings session s = [] then sum_energy_by_session e n session s = Inr (Fin 0)
    else \<exists>lo hi. Fin lo \<in> set (readings session s) \<and> Fin hi \<in> set (readings session s) \<and>
      (\<forall>x \<in> set (readings session s). le64 (Fin lo) x \<and> le64 x (Fin hi)) \<and>
      sum_energy_by_session e n session s =
        (if finite64 (round_f64 (hi - lo)) then Inr (round_f64 (hi - lo))
         else Inl (ErrExt ''value out of range: overflow'')) \<and>
      le64 (Fin 0) (round_f64 (hi - lo))"
proof (cases "readings session s = []")
  case True
  then show ?thesis using assms(2)
    by (simp add: sum_energy_by_session_def readings_def)
next
  case False
  let ?xs = "readings session s"
  have fin: "\<forall>x \<in> set ?xs. finite64 x" using readings_finite [OF assms(1)] by blast
  note hi = max64_bounds [OF False fin] and lo = min64_bounds [OF False fin]
  obtain h l where hl: "max64 ?xs = Fin h" "min64 ?xs = Fin l"
    using hi lo fin by (metis finite64E)
  then have le: "l \<le> h" using hi lo by fastforce
  have "le64 (Fin 0) (round_f64 (h - l))" using le by (simp add: round_f64_nonneg)
  then show ?thesis
    unfolding if_not_P [OF False] using hi lo hl sum_energy_eq [OF assms False hl le]
    by (intro exI [of _ l] exI [of _ h]) simp
qed

text \<open>A client that asks for the total energy through the materialized view gets the value the view
  was last refreshed with, whatever readings have been stored for the session since: no request
  refreshes the view.\<close>

theorem total_energy_stale:
  assumes "tl_view s session = Some x" and "db_fault e 0 = None"
  shows "total_energy True e session (snd (serve_all telemetry_router es s)) = Inr x"
proof -
  have "tl_view (snd (serve_all telemetry_router es s)) = tl_view s" by (rule view.run) (rule refl)
  then show ?thesis using assms by (simp add: total_energy_def view_total_energy_def)
qed

text \<open>The energy between two finite readings is never negative; a meter that counts backwards
  contributes nothing.\<close>

theorem delta_energy_nonneg:
  assumes "finite64 prev" and "finite64 cur"
  shows "le64 (Fin 0) (calculate_delta_energy prev cur) \<and>
    (le64 cur prev \<longrightarrow> calculate_delta_energy prev cur = Fin 0)"
proof -
  obtain a b where ab: "prev = Fin a" "cur = Fin b" using assms by (metis finite64E)
  have "le64 (Fin 0) (round_f64 (b - a))" if "a \<le> b" using that by (simp add: round_f64_nonneg)
  then show ?thesis by (auto simp: calculate_delta_energy_def ab sub64_def)
qed

end
