(* ===== verification/Billing.thy ===== *)
theory Billing
  imports Http
begin

section \<open>The billing service\<close>

text \<open>
  \<open>billing-service\<close>: the tables of \<open>migrations/0001_init_billing.sql\<close> with the statements of
  \<open>internal/repository\<close>, the tariff lookup with its fallback and the billing of a stopped session
  from \<open>internal/service\<close>, the handlers and the router. Prices and energies are floats; statement 0
  of a call reads the tariff or the list, statement 1 inserts.
\<close>

subsection \<open>Models and tables\<close>

record Tariff =
  tf_id :: int
  tf_name :: string
  tf_price :: f64
  tf_active :: bool
  tf_created_at :: time
  tf_updated_at :: time

record Transaction =
  bt_id :: int
  bt_session :: int
  bt_user :: int
  bt_energy :: f64
  bt_price :: f64
  bt_amount :: f64
  bt_status :: string
  bt_created_at :: time

definition json_transaction :: "Transaction \<Rightarrow> json option" where
  "json_transaction t =
     json_object [(''id'', Some (JInt (bt_id t))), (''session_id'', Some (JInt (bt_session t))),
                  (''user_id'', Some (JInt (bt_user t))), (''energy_kwh'', json_f64 (bt_energy t)),
                  (''price_per_kwh'', json_f64 (bt_price t)), (''amount'', json_f64 (bt_amount t)),
                  (''status'', Some (JStr (bt_status t))), (''created_at'', json_time (bt_created_at t))]"

record billing_state =
  bv_tariffs :: "Tariff list"
  bv_rows :: "Transaction list"
  bv_seq :: int

subsection \<open>Repositories\<close>

definition get_active_tariff :: "env \<Rightarrow> nat \<Rightarrow> billing_state \<Rightarrow> Tariff res" where
  "get_active_tariff e n s =
     (case db_fault e n of
        Some err \<Rightarrow> Inl err
      | None \<Rightarrow>
          (case order_desc_limit tf_updated_at 1 (filter tf_active (bv_tariffs s)) of
             [] \<Rightarrow> Inl err_no_rows
           | t # _ \<Rightarrow> Inr t))"

definition create_transaction :: "env \<Rightarrow> nat \<Rightarrow> Transaction \<Rightarrow> billing_state \<Rightarrow> Transaction res \<times> billing_state" where
  "create_transaction e n t s =
     (case db_fault e n of
        Some err \<Rightarrow> (Inl err, s)
      | None \<Rightarrow>
          if \<not> in_int64 (bv_seq s)
          then (Inl (ErrExt ''nextval: reached maximum value of sequence''), s)
          else let t' = t\<lparr>bt_id := bv_seq s, bt_created_at := db_now e\<rparr>
               in (Inr t', s\<lparr>bv_rows := bv_rows s @ [t'], bv_seq := bv_seq s + 1\<rparr>))"

definition list_by_user :: "env \<Rightarrow> nat \<Rightarrow> int \<Rightarrow> int \<Rightarrow> billing_state \<Rightarrow> Transaction list res" where
  "list_by_user e n user limit s =
     (case db_fault e n of
        Some err \<Rightarrow> Inl err
      | None \<Rightarrow>
          Inr (order_desc_limit bt_created_at (nat (if limit \<le> 0 then 50 else limit))
                 (filter (\<lambda>t. bt_user t = user) (bv_rows s))))"

subsection \<open>Services\<close>

text \<open>\<open>TariffService\<close>: with or without a repository, and a default price.\<close>

record tariff_service =
  ts_repo :: bool
  ts_default :: Tariff

definition new_tariff_service :: "bool \<Rightarrow> f64 \<Rightarrow> tariff_service" where
  "new_tariff_service repo default_price =
     \<lparr>ts_repo = repo,
      ts_default = \<lparr>tf_id = 0, tf_name = ''Default'', tf_price = default_price, tf_active = True,
                    tf_created_at = 0, tf_updated_at = 0\<rparr>\<rparr>"

definition active_tariff :: "tariff_service \<Rightarrow> env \<Rightarrow> billing_state \<Rightarrow> Tariff res" where
  "active_tariff ts e s =
     (if \<not> ts_repo ts
      then if le64 (tf_price (ts_default ts)) (Fin 0)
           then Inl (ErrText ''tariff: no tariff configured'')
           else Inr (ts_default ts)
      else case get_active_tariff e 0 s of
          Inl err \<Rightarrow>
            if le64 (tf_price (ts_default ts)) (Fin 0) then Inl err else Inr (ts_default ts)
        | Inr t \<Rightarrow> Inr t)"

record CreateTransactionInput =
  ci_session :: int
  ci_user :: int
  ci_energy :: f64

definition calculate_and_create ::
  "tariff_service \<Rightarrow> env \<Rightarrow> CreateTransactionInput \<Rightarrow> billing_state \<Rightarrow> Transaction res \<times> billing_state" where
  "calculate_and_create ts e input s =
     (if ci_session input = 0 then (Inl (ErrText ''billing: session id required''), s)
      else case active_tariff ts e s of
          Inl err \<Rightarrow> (Inl err, s)
        | Inr tariff \<Rightarrow>
            let price = (if le64 (tf_price tariff) (Fin 0) then Fin 1 else tf_price tariff);
                amount = mul64 (ci_energy input) price
            in create_transaction e 1
                 \<lparr>bt_id = 0, bt_session = ci_session input, bt_user = ci_user input,
                  bt_energy = ci_energy input, bt_price = price, bt_amount = amount,
                  bt_status = ''completed'', bt_created_at = 0\<rparr> s)"

subsection \<open>Handlers\<close>

definition session_stopped_fields :: "(string \<times> CreateTransactionInput setter) list" where
  "session_stopped_fields =
     [int_field ''session_id'' (\<lambda>i r. r\<lparr>ci_session := i\<rparr>),
      int_field ''user_id'' (\<lambda>i r. r\<lparr>ci_user := i\<rparr>),
      float_field ''energy_kwh'' (\<lambda>x r. r\<lparr>ci_energy := x\<rparr>)]"

definition decode_session_stopped :: "body \<Rightarrow> CreateTransactionInput res" where
  "decode_session_stopped = decode_body session_stopped_fields
     \<lparr>ci_session = 0, ci_user = 0, ci_energy = Fin 0\<rparr>"

definition handle_session_stopped :: "tariff_service \<Rightarrow> billing_state handler" where
  "handle_session_stopped ts e r s =
     (case decode_session_stopped (rq_body r) of
        Inl _ \<Rightarrow> (write_error 400 ''invalid json'', s)
      | Inr req \<Rightarrow>
          if ci_session req = 0 then (write_error 400 ''session_id required'', s)
          else (case calculate_and_create ts e req s of
              (Inl _, s1) \<Rightarrow> (write_error 500 ''billing calculation failed'', s1)
            | (Inr t, s1) \<Rightarrow> (write_json 201 (json_transaction t), s1)))"

definition transactions_me :: "billing_state handler" where
  "transactions_me e r s =
     (if rq_header r ''X-User-ID'' = [] then (write_error 401 ''missing user id header'', s)
      else case parse_int (rq_header r ''X-User-ID'') of
          None \<Rightarrow> (write_error 400 ''invalid user id header'', s)
        | Some user \<Rightarrow>
            (case list_by_user e 0 user 50 s of
               Inl _ \<Rightarrow> (write_error 500 ''failed to load transactions'', s)
             | Inr ts \<Rightarrow>
                 (write_json 200 (json_object [(''transactions'', json_slice json_transaction ts)]), s)))"

definition billing_router :: "tariff_service \<Rightarrow> billing_state handler" where
  "billing_router ts =
     serve_mux
       [(''/internal/ocpp/session-stopped'', method_guard ''POST'' (handle_session_stopped ts)),
        (''/billing/me/transactions'', method_guard ''GET'' transactions_me),
        (''/health'', method_guard ''GET'' health)]"

text \<open>\<open>app.New\<close>: the tariffs come from the database, the default price is 7.\<close>

definition app_tariffs :: tariff_service where
  "app_tariffs = new_tariff_service True (Fin 7)"

definition billing_app :: "billing_state handler" where
  "billing_app = billing_router app_tariffs"

subsection \<open>The invariant\<close>

definition transaction_ok :: "int \<Rightarrow> Transaction \<Rightarrow> bool" where
  "transaction_ok next_id t \<longleftrightarrow>
     bt_id t < next_id \<and> bt_session t \<noteq> 0 \<and> bt_status t = ''completed'' \<and>
     \<not> le64 (bt_price t) (Fin 0) \<and> bt_amount t = mul64 (bt_energy t) (bt_price t) \<and>
     finite64 (bt_energy t)"

definition billing_rows_ok :: "billing_state \<Rightarrow> bool" where
  "billing_rows_ok s \<longleftrightarrow>
     sorted_wrt (<) (map bt_id (bv_rows s)) \<and> (\<forall>t \<in> set (bv_rows s). transaction_ok (bv_seq s) t)"

lemma transaction_ok_seq: "transaction_ok n t \<Longrightarrow> n \<le> m \<Longrightarrow> transaction_ok m t"
  by (auto simp: transaction_ok_def)

lemma create_transaction_cases:
  obtains err where "create_transaction e n t s = (Inl err, s)"
  | t' where "create_transaction e n t s = (Inr t', s\<lparr>bv_rows := bv_rows s @ [t'], bv_seq := bv_seq s + 1\<rparr>)"
      and "t' = t\<lparr>bt_id := bv_seq s, bt_created_at := db_now e\<rparr>"
  by (cases "db_fault e n"; cases "in_int64 (bv_seq s)") (auto simp: create_transaction_def Let_def)

text \<open>A call appends the one transaction it answers with, or changes nothing.\<close>

definition price_of :: "Tariff \<Rightarrow> f64" where
  "price_of t = (if le64 (tf_price t) (Fin 0) then Fin 1 else tf_price t)"

lemma calculate_cases:
  obtains err where "calculate_and_create ts e i s = (Inl err, s)"
  | t tariff where "calculate_and_create ts e i s = (Inr t, s\<lparr>bv_rows := bv_rows s @ [t], bv_seq := bv_seq s + 1\<rparr>)"
      and "active_tariff ts e s = Inr tariff" and "ci_session i \<noteq> 0"
      and "t = \<lparr>bt_id = bv_seq s, bt_session = ci_session i, bt_user = ci_user i, bt_energy = ci_energy i,
                bt_price = price_of tariff, bt_amount = mul64 (ci_energy i) (price_of tariff),
                bt_status = ''completed'', bt_created_at = db_now e\<rparr>"
proof (cases "active_tariff ts e s")
  case (Inr tariff)
  let ?t = "\<lparr>bt_id = 0, bt_session = ci_session i, bt_user = ci_user i, bt_energy = ci_energy i,
      bt_price = price_of tariff, bt_amount = mul64 (ci_energy i) (price_of tariff),
      bt_status = ''completed'', bt_created_at = 0\<rparr>"
  have c: "calculate_and_create ts e i s =
      (if ci_session i = 0 then (Inl (ErrText ''billing: session id required''), s)
       else create_transaction e 1 ?t s)"
    by (simp add: calculate_and_create_def Inr Let_def price_of_def)
  show thesis
    by (cases rule: create_transaction_cases [of e 1 ?t s]) (use c that Inr in \<open>auto split: if_splits\<close>)
next
  case (Inl err)
  then show thesis by (cases "ci_session i = 0") (auto simp: calculate_and_create_def intro: that(1))
qed

end
