(* ===== verification/Sessions.thy ===== *)
theory Sessions
  imports Http
begin

section \<open>The sessions service\<close>

text \<open>
  \<open>sessions-service\<close>: the tables of \<open>migrations/0001_create_charging_sessions.sql\<close> with the statements of
  \<open>internal/repository\<close>, the Redis cache of \<open>internal/redis\<close>, \<open>internal/service\<close>, the HTTP handlers
  and the router. Redis is a parameter: the operations of a record \<open>redis\<close> on a state \<open>'c\<close>.
\<close>

subsection \<open>Model structs\<close>

record session =
  ses_id :: int
  ses_user :: int
  ses_station :: string
  ses_connector :: int
  ses_status :: string
  ses_start :: time
  ses_end :: time
  ses_energy :: f64
  ses_transaction :: string
  ses_created_at :: time
  ses_updated_at :: time

definition json_session :: "session \<Rightarrow> json option" where
  "json_session s =
     json_object [(''id'', Some (JInt (ses_id s))), (''user_id'', Some (JInt (ses_user s))),
                  (''station_id'', Some (JStr (ses_station s))),
                  (''connector_id'', Some (JInt (ses_connector s))),
                  (''status'', Some (JStr (ses_status s))),
                  (''start_time'', json_time (ses_start s)), (''end_time'', json_time (ses_end s)),
                  (''energy_kwh'', json_f64 (ses_energy s)),
                  (''transaction_id'', Some (JStr (ses_transaction s))),
                  (''created_at'', json_time (ses_created_at s)),
                  (''updated_at'', json_time (ses_updated_at s))]"

subsection \<open>Tables\<close>

text \<open>
  A row of \<open>charging_sessions\<close>; \<open>end_time\<close> is the only column the code leaves NULL. \<open>sv_seq\<close> is the
  next value of the id's sequence, which every attempted insertion consumes.
\<close>

record session_row =
  sr_id :: int
  sr_user :: int
  sr_station :: string
  sr_connector :: int
  sr_status :: string
  sr_start :: time
  sr_end :: "time option"
  sr_energy :: f64
  sr_tx :: string
  sr_created :: time
  sr_updated :: time

record station_meta =
  sm_name :: string
  sm_location :: string
  sm_created :: time
  sm_updated :: time

record 'c sessions_state =
  sv_stations :: "string \<rightharpoonup> station_meta"
  sv_rows :: "session_row list"
  sv_seq :: int
  sv_cache :: 'c

abbreviation err_fk :: go_error where
  "err_fk \<equiv> ErrExt ''violates foreign key constraint fk_station''"
abbreviation err_int4 :: go_error where
  "err_int4 \<equiv> ErrExt ''out of range for type integer''"
abbreviation err_sequence :: go_error where
  "err_sequence \<equiv> ErrExt ''nextval: reached maximum value of sequence''"

definition find_tx :: "string \<Rightarrow> session_row list \<Rightarrow> session_row option" where
  "find_tx t rows = find (\<lambda>r. sr_tx r = t) rows"

definition update_tx :: "string \<Rightarrow> (session_row \<Rightarrow> session_row) \<Rightarrow> session_row list \<Rightarrow> session_row list" where
  "update_tx t f rows = map (\<lambda>r. if sr_tx r = t then f r else r) rows"

definition station_meta_upsert :: "env \<Rightarrow> nat \<Rightarrow> string \<Rightarrow> string \<Rightarrow> string \<Rightarrow>
    'c sessions_state \<Rightarrow> unit res \<times> 'c sessions_state" where
  "station_meta_upsert e n i name location s =
     (case db_fault e n of
        Some err \<Rightarrow> (Inl err, s)
      | None \<Rightarrow>
          let created = (case sv_stations s i of None \<Rightarrow> db_now e | Some st \<Rightarrow> sm_created st)
          in (Inr (), s\<lparr>sv_stations := (sv_stations s)(i \<mapsto>
                 \<lparr>sm_name = name, sm_location = location, sm_created = created, sm_updated = db_now e\<rparr>)\<rparr>))"

definition start_session :: "env \<Rightarrow> nat \<Rightarrow> session \<Rightarrow> 'c sessions_state \<Rightarrow> session res \<times> 'c sessions_state" where
  "start_session e n ses s =
     (case db_fault e n of
        Some err \<Rightarrow> (Inl err, s)
      | None \<Rightarrow>
          if \<not> in_int32 (ses_connector ses) then (Inl err_int4, s)
          else if \<not> in_int64 (sv_seq s) then (Inl err_sequence, s)
          else
            let s1 = s\<lparr>sv_seq := sv_seq s + 1\<rparr>
            in if sv_stations s (ses_station ses) = None then (Inl err_fk, s1)
               else (case find_tx (ses_transaction ses) (sv_rows s) of
                   None \<Rightarrow>
                     (Inr (ses\<lparr>ses_id := sv_seq s, ses_created_at := db_now e, ses_updated_at := db_now e\<rparr>),
                      s1\<lparr>sv_rows := sv_rows s @
                           [\<lparr>sr_id = sv_seq s, sr_user = ses_user ses, sr_station = ses_station ses,
                             sr_connector = ses_connector ses, sr_status = ses_status ses,
                             sr_start = pg_time (ses_start ses), sr_end = None, sr_energy = Fin 0,
                             sr_tx = ses_transaction ses, sr_created = db_now e,
                             sr_updated = db_now e\<rparr>]\<rparr>)
                 | Some old \<Rightarrow>
                     (Inr (ses\<lparr>ses_id := sr_id old, ses_created_at := sr_created old,
                               ses_updated_at := db_now e\<rparr>),
                      s1\<lparr>sv_rows := update_tx (ses_transaction ses)
                           (\<lambda>r. r\<lparr>sr_user := ses_user ses, sr_station := ses_station ses,
                                  sr_connector := ses_connector ses, sr_status := ses_status ses,
                                  sr_start := pg_time (ses_start ses), sr_updated := db_now e\<rparr>)
                           (sv_rows s)\<rparr>)))"

definition complete_session :: "env \<Rightarrow> nat \<Rightarrow> string \<Rightarrow> time \<Rightarrow> f64 \<Rightarrow> string \<Rightarrow>
    'c sessions_state \<Rightarrow> unit res \<times> 'c sessions_state" where
  "complete_session e n t end_time energy status s =
     (case db_fault e n of
        Some err \<Rightarrow> (Inl err, s)
      | None \<Rightarrow>
          (case find_tx t (sv_rows s) of
             None \<Rightarrow> (Inl err_no_rows, s)
           | Some _ \<Rightarrow>
               (Inr (), s\<lparr>sv_rows := update_tx t
                  (\<lambda>r. r\<lparr>sr_end := Some (pg_time end_time), sr_energy := energy, sr_status := status,
                         sr_updated := db_now e\<rparr>) (sv_rows s)\<rparr>)))"

text \<open>\<open>rows.Scan\<close>: a NULL does not fit a \<open>time.Time\<close>.\<close>

definition scan_session :: "session_row \<Rightarrow> session res" where
  "scan_session r =
     (case sr_end r of
        None \<Rightarrow> Inl (ErrExt ''sql: Scan error on column index 6: unsupported Scan'')
      | Some t \<Rightarrow>
          Inr \<lparr>ses_id = sr_id r, ses_user = sr_user r, ses_station = sr_station r,
               ses_connector = sr_connector r, ses_status = sr_status r, ses_start = sr_start r,
               ses_end = t, ses_energy = sr_energy r, ses_transaction = sr_tx r,
               ses_created_at = sr_created r, ses_updated_at = sr_updated r\<rparr>)"

definition effective_limit :: "int \<Rightarrow> nat" where
  "effective_limit limit = nat (if limit \<le> 0 then 50 else limit)"

definition get_sessions_by_user :: "env \<Rightarrow> nat \<Rightarrow> int \<Rightarrow> int \<Rightarrow> 'c sessions_state \<Rightarrow> session list res" where
  "get_sessions_by_user e n user limit s =
     (case db_fault e n of
        Some err \<Rightarrow> Inl err
      | None \<Rightarrow>
          scan_all scan_session
            (order_desc_limit sr_start (effective_limit limit) (filter (\<lambda>r. sr_user r = user) (sv_rows s))))"

definition get_active_sessions :: "env \<Rightarrow> nat \<Rightarrow> int \<Rightarrow> 'c sessions_state \<Rightarrow> session list res" where
  "get_active_sessions e n limit s =
     (case db_fault e n of
        Some err \<Rightarrow> Inl err
      | None \<Rightarrow>
          scan_all scan_session
            (order_desc_limit sr_start (effective_limit limit)
               (filter (\<lambda>r. sr_status r = ''active'') (sv_rows s))))"

subsection \<open>The cache of active sessions\<close>

record ActiveSession =
  as_session :: int
  as_transaction :: string
  as_station :: string
  as_connector :: int
  as_user :: int

definition json_active :: "ActiveSession \<Rightarrow> json option" where
  "json_active a =
     json_object [(''session_id'', Some (JInt (as_session a))),
                  (''transaction_id'', Some (JStr (as_transaction a))),
                  (''station_id'', Some (JStr (as_station a))),
                  (''connector_id'', Some (JInt (as_connector a))),
                  (''user_id'', Some (JInt (as_user a)))]"

definition active_fields :: "(string \<times> ActiveSession setter) list" where
  "active_fields =
     [int_field ''session_id'' (\<lambda>i r. r\<lparr>as_session := i\<rparr>),
      string_field ''transaction_id'' (\<lambda>s r. r\<lparr>as_transaction := s\<rparr>),
      string_field ''station_id'' (\<lambda>s r. r\<lparr>as_station := s\<rparr>),
      int_field ''connector_id'' (\<lambda>i r. r\<lparr>as_connector := i\<rparr>),
      int_field ''user_id'' (\<lambda>i r. r\<lparr>as_user := i\<rparr>)]"

text \<open>The Redis client: SET with a time to live, GET, DEL.\<close>

record 'c redis =
  rd_set :: "string \<Rightarrow> json \<Rightarrow> int \<Rightarrow> 'c \<Rightarrow> unit res \<times> 'c"
  rd_get :: "string \<Rightarrow> 'c \<Rightarrow> body res \<times> 'c"
  rd_del :: "string \<Rightarrow> 'c \<Rightarrow> unit res \<times> 'c"

record 'c store =
  st_client :: "'c redis"
  st_ttl :: int

definition store_key :: "string \<Rightarrow> string" where
  "store_key transaction_id = ''sessions:active:'' @ transaction_id"

definition store_save :: "'c store \<Rightarrow> ActiveSession \<Rightarrow> 'c \<Rightarrow> unit res \<times> 'c" where
  "store_save st a c =
     (case json_active a of
        None \<Rightarrow> (Inl (ErrExt ''json: unsupported value''), c)
      | Some data \<Rightarrow> rd_set (st_client st) (store_key (as_transaction a)) data (st_ttl st) c)"

definition store_get :: "'c store \<Rightarrow> string \<Rightarrow> 'c \<Rightarrow> ActiveSession res \<times> 'c" where
  "store_get st transaction_id c =
     (case rd_get (st_client st) (store_key transaction_id) c of
        (Inl err, c') \<Rightarrow> (Inl err, c')
      | (Inr data, c') \<Rightarrow>
          (decode_body active_fields
             \<lparr>as_session = 0, as_transaction = [], as_station = [], as_connector = 0, as_user = 0\<rparr> data, c'))"

definition store_delete :: "'c store \<Rightarrow> string \<Rightarrow> 'c \<Rightarrow> unit res \<times> 'c" where
  "store_delete st transaction_id c = rd_del (st_client st) (store_key transaction_id) c"

lemma store_key_inj [simp]: "store_key s = store_key t \<longleftrightarrow> s = t"
  by (simp add: store_key_def)

subsection \<open>The service\<close>

definition SessionStatusActive :: string where "SessionStatusActive = ''active''"
definition SessionStatusCompleted :: string where "SessionStatusCompleted = ''completed''"

record StartSessionInput =
  ssi_user :: int
  ssi_station :: string
  ssi_connector :: int
  ssi_transaction :: string
  ssi_start :: time

record StopSessionInput =
  spi_transaction :: string
  spi_end :: time
  spi_energy :: f64

definition new_session :: "env \<Rightarrow> StartSessionInput \<Rightarrow> session" where
  "new_session e input =
     \<lparr>ses_id = 0, ses_user = ssi_user input, ses_station = ssi_station input,
      ses_connector = ssi_connector input, ses_status = SessionStatusActive,
      ses_start = (if is_zero (ssi_start input) then clock e 0 else ssi_start input), ses_end = 0,
      ses_energy = Fin 0, ses_transaction = ssi_transaction input, ses_created_at = 0,
      ses_updated_at = 0\<rparr>"

definition start_session_from_ocpp ::
  "'c store option \<Rightarrow> env \<Rightarrow> StartSessionInput \<Rightarrow> 'c sessions_state \<Rightarrow> session res \<times> 'c sessions_state" where
  "start_session_from_ocpp store e input s =
     (case start_session e 0 (new_session e input) s of
            (Inl err, s1) \<Rightarrow> (Inl err, s1)
          | (Inr ses1, s1) \<Rightarrow>
              (case store of
                 None \<Rightarrow> (Inr ses1, s1)
               | Some st \<Rightarrow>
                   (Inr ses1, s1\<lparr>sv_cache := snd (store_save st
                      \<lparr>as_session = ses_id ses1, as_transaction = ssi_transaction input,
                       as_station = ssi_station input, as_connector = ssi_connector input,
                       as_user = ssi_user input\<rparr> (sv_cache s1))\<rparr>)))"

definition stop_time :: "env \<Rightarrow> StopSessionInput \<Rightarrow> time" where
  "stop_time e input = (if is_zero (spi_end input) then clock e 0 else spi_end input)"

definition stop_session_from_ocpp ::
  "'c store option \<Rightarrow> env \<Rightarrow> StopSessionInput \<Rightarrow> 'c sessions_state \<Rightarrow> unit res \<times> 'c sessions_state" where
  "stop_session_from_ocpp store e input s =
     (case complete_session e 0 (spi_transaction input) (stop_time e input) (spi_energy input)
             SessionStatusCompleted s of
            (Inl err, s1) \<Rightarrow> (Inl err, s1)
          | (Inr _, s1) \<Rightarrow>
              (case store of
                 None \<Rightarrow> (Inr (), s1)
               | Some st \<Rightarrow>
                   (Inr (), s1\<lparr>sv_cache := snd (store_delete st (spi_transaction input) (sv_cache s1))\<rparr>)))"

subsection \<open>Handlers\<close>

definition session_start_fields :: "(string \<times> StartSessionInput setter) list" where
  "session_start_fields =
     [int_field ''user_id'' (\<lambda>i r. r\<lparr>ssi_user := i\<rparr>),
      string_field ''station_id'' (\<lambda>s r. r\<lparr>ssi_station := s\<rparr>),
      int_field ''connector_id'' (\<lambda>i r. r\<lparr>ssi_connector := i\<rparr>),
      string_field ''transaction_id'' (\<lambda>s r. r\<lparr>ssi_transaction := s\<rparr>),
      time_field ''start_time'' (\<lambda>t r. r\<lparr>ssi_start := t\<rparr>)]"

definition decode_session_start :: "body \<Rightarrow> StartSessionInput res" where
  "decode_session_start = decode_body session_start_fields
     \<lparr>ssi_user = 0, ssi_station = [], ssi_connector = 0, ssi_transaction = [], ssi_start = 0\<rparr>"

definition session_stop_fields :: "(string \<times> StopSessionInput setter) list" where
  "session_stop_fields =
     [string_field ''transaction_id'' (\<lambda>s r. r\<lparr>spi_transaction := s\<rparr>),
      time_field ''end_time'' (\<lambda>t r. r\<lparr>spi_end := t\<rparr>),
      float_field ''energy_kwh'' (\<lambda>x r. r\<lparr>spi_energy := x\<rparr>)]"

definition decode_session_stop :: "body \<Rightarrow> StopSessionInput res" where
  "decode_session_stop = decode_body session_stop_fields
     \<lparr>spi_transaction = [], spi_end = 0, spi_energy = Fin 0\<rparr>"

definition handle_session_start :: "'c store option \<Rightarrow> 'c sessions_state handler" where
  "handle_session_start store e r s =
     (case decode_session_start (rq_body r) of
        Inl _ \<Rightarrow> (write_error 400 ''invalid json'', s)
      | Inr req \<Rightarrow>
          if ssi_transaction req = [] then (write_error 400 ''transaction_id is required'', s)
          else (case start_session_from_ocpp store e req s of
              (Inl _, s1) \<Rightarrow> (write_error 500 ''failed to start session'', s1)
            | (Inr ses, s1) \<Rightarrow>
                (write_json 202 (Some (JObj [(''session_id'', JInt (ses_id ses)), (''status'', JStr ''ok'')])), s1)))"

definition handle_session_stop :: "'c store option \<Rightarrow> 'c sessions_state handler" where
  "handle_session_stop store e r s =
     (case decode_session_stop (rq_body r) of
        Inl _ \<Rightarrow> (write_error 400 ''invalid json'', s)
      | Inr req \<Rightarrow>
          if spi_transaction req = [] then (write_error 400 ''transaction_id is required'', s)
          else (case stop_session_from_ocpp store e req s of
              (Inl _, s1) \<Rightarrow> (write_error 500 ''failed to stop session'', s1)
            | (Inr _, s1) \<Rightarrow> (write_json 202 (Some (JObj [(''status'', JStr ''ok'')])), s1)))"

definition sessions_payload :: "session list \<Rightarrow> json option" where
  "sessions_payload sessions = json_object [(''sessions'', json_slice json_session sessions)]"

definition sessions_me :: "'c sessions_state handler" where
  "sessions_me e r s =
     (if rq_header r ''X-User-ID'' = [] then (write_error 401 ''missing user id header'', s)
      else case parse_int (rq_header r ''X-User-ID'') of
          None \<Rightarrow> (write_error 400 ''invalid user id'', s)
        | Some user \<Rightarrow>
            (case get_sessions_by_user e 0 user 50 s of
               Inl _ \<Rightarrow> (write_error 500 ''failed to fetch sessions'', s)
             | Inr sessions \<Rightarrow> (write_json 200 (sessions_payload sessions), s)))"

definition active_sessions :: "'c sessions_state handler" where
  "active_sessions e r s =
     (case get_active_sessions e 0 50 s of
        Inl _ \<Rightarrow> (write_error 500 ''failed to fetch active sessions'', s)
      | Inr sessions \<Rightarrow> (write_json 200 (sessions_payload sessions), s))"

definition sessions_router :: "'c store option \<Rightarrow> 'c sessions_state handler" where
  "sessions_router store =
     serve_mux
       [(''/sessions/me'', method_guard ''GET'' sessions_me),
        (''/sessions/active'', method_guard ''GET'' active_sessions),
        (''/internal/ocpp/session-start'', method_guard ''POST'' (handle_session_start store)),
        (''/internal/ocpp/session-stop'', method_guard ''POST'' (handle_session_stop store)),
        (''/health'', method_guard ''GET'' health)]"

end
