(* ===== verification/Apps.thy ===== *)
theory Apps
  imports Platform Middleware WsConn Telemetry Billing Sessions
begin

section \<open>The six programs\<close>

text \<open>
  \<open>internal/app/app.go\<close> and \<open>cmd\<close> of the services: how \<open>New\<close> builds handles, handler and server from the
  configuration, \<open>Run\<close>, \<open>Close\<close>, and \<open>main\<close>. The handlers are those of the components' models.
\<close>

subsection \<open>auth-service\<close>

definition auth_app :: "(string \<Rightarrow> string) \<Rightarrow> bcrypt \<Rightarrow> jwt \<Rightarrow> gfield list \<Rightarrow> auth_state handler" where
  "auth_app uni bc jw cfg =
     auth_router \<lparr>ad_uni = uni, ad_hasher = bc, ad_jwt = jw,
       ad_tokens = new_token_service (conf_string cfg [''JWT'', ''Secret'']) (jwt_expiration cfg)\<rparr>"

definition new_auth_app ::
  "bcrypt \<Rightarrow> jwt \<Rightarrow> platform \<Rightarrow> gfield list \<Rightarrow> auth_state handler app res \<times> action list" where
  "new_auth_app bc jw p cfg =
     (case new_postgres_db p (conf_string cfg [''Database'', ''DSN'']) of
        (Inl err, acts) \<Rightarrow> (Inl err, acts)
      | (Inr db, acts) \<Rightarrow>
          (Inr \<lparr>ap_server = new_server (auth_http_address cfg) (auth_app (sy_uni (pf_sys p)) bc jw cfg),
                ap_db = Some db, ap_redis = None, ap_manager = None\<rparr>, acts))"

definition run_auth_app :: "platform \<Rightarrow> 'h app \<Rightarrow> go_error option \<times> action list" where
  "run_auth_app p a =
     server_run p ''starting http server'' [LogInfo ''shutting down http server''] (ap_server a)"

definition auth_process :: "bcrypt \<Rightarrow> jwt \<Rightarrow> auth_state handler entry_point" where
  "auth_process bc jw =
     \<lparr>pc_load = load_auth, pc_new = new_auth_app bc jw, pc_run = run_auth_app, pc_close = close_app,
      pc_init_failed = ''failed to initialize application'', pc_run_failed = ''application stopped with error''\<rparr>"

subsection \<open>sessions-service\<close>

text \<open>The go-redis client is the parameter \<open>client\<close>, by the options it was built with.\<close>

definition sessions_app :: "'c redis \<Rightarrow> gfield list \<Rightarrow> 'c sessions_state handler" where
  "sessions_app client cfg =
     sessions_router (Some \<lparr>st_client = client, st_ttl = active_session_ttl cfg\<rparr>)"

definition new_sessions_app ::
  "(redis_options \<Rightarrow> 'c redis) \<Rightarrow> platform \<Rightarrow> gfield list \<Rightarrow> 'c sessions_state handler app res \<times> action list" where
  "new_sessions_app client p cfg =
     (case new_postgres_db p (conf_string cfg [''Database'', ''DSN'']) of
        (Inl err, acts) \<Rightarrow> (Inl err, acts)
      | (Inr db, acts) \<Rightarrow>
          (case new_redis_client p (conf_string cfg [''Redis'', ''Addr'']) (conf_string cfg [''Redis'', ''Password'']) of
             (Inl err, acts1) \<Rightarrow> (Inl err, acts @ acts1 @ [CloseDb])
           | (Inr opts, acts1) \<Rightarrow>
               (Inr \<lparr>ap_server = new_server (sessions_http_address cfg) (sessions_app (client opts) cfg),
                     ap_db = Some db, ap_redis = Some opts, ap_manager = None\<rparr>, acts @ acts1)))"

definition run_app :: "platform \<Rightarrow> 'h app \<Rightarrow> go_error option \<times> action list" where
  "run_app p a = server_run p ''starting http server'' [] (ap_server a)"

definition sessions_process :: "(redis_options \<Rightarrow> 'c redis) \<Rightarrow> 'c sessions_state handler entry_point" where
  "sessions_process client =
     \<lparr>pc_load = load_sessions, pc_new = new_sessions_app client, pc_run = run_app, pc_close = close_app,
      pc_init_failed = ''failed to init application'', pc_run_failed = ''application stopped with error''\<rparr>"

subsection \<open>billing-service and telemetry-service\<close>

text \<open>\<open>New\<close> of a service with a database and a handler of its own.\<close>

definition new_db_app ::
  "(gfield list \<Rightarrow> string) \<Rightarrow> 'h \<Rightarrow> platform \<Rightarrow> gfield list \<Rightarrow> 'h app res \<times> action list" where
  "new_db_app address h p cfg =
     (case new_postgres_db p (conf_string cfg [''Database'', ''DSN'']) of
        (Inl err, acts) \<Rightarrow> (Inl err, acts)
      | (Inr db, acts) \<Rightarrow>
          (Inr \<lparr>ap_server = new_server (address cfg) h, ap_db = Some db, ap_redis = None, ap_manager = None\<rparr>,
           acts))"

definition new_billing_app :: "platform \<Rightarrow> gfield list \<Rightarrow> billing_state handler app res \<times> action list" where
  "new_billing_app = new_db_app billing_http_address billing_app"

definition billing_process :: "billing_state handler entry_point" where
  "billing_process =
     \<lparr>pc_load = load_billing, pc_new = new_billing_app, pc_run = run_app, pc_close = close_app,
      pc_init_failed = ''failed to init application'', pc_run_failed = ''application stopped with error''\<rparr>"

definition new_telemetry_app :: "platform \<Rightarrow> gfield list \<Rightarrow> telemetry_state handler app res \<times> action list" where
  "new_telemetry_app = new_db_app telemetry_http_address telemetry_router"

definition telemetry_process :: "telemetry_state handler entry_point" where
  "telemetry_process =
     \<lparr>pc_load = load_telemetry, pc_new = new_telemetry_app, pc_run = run_app, pc_close = close_app,
      pc_init_failed = ''failed to init application'', pc_run_failed = ''application stopped with error''\<rparr>"

subsection \<open>ocpp-server\<close>

text \<open>
  The mux of \<open>New\<close>. \<open>upgrade\<close> is the WebSocket library's \<open>Upgrade\<close>: the response it writes and
  whether the connection is a WebSocket from then on. The clients of the three services send over \<open>net\<close>;
  an empty base URL leaves a client out.
\<close>

definition ocpp_health :: "'w ws handler" where
  "ocpp_health e r s =
     (\<lparr>rs_status = 200, rs_headers = [(''Content-Type'', ''text/plain; charset=utf-8'')],
       rs_body = Json (JObj [(''status'', JStr ''ok'')])\<rparr>, s)"

definition ws_endpoint :: "(request \<Rightarrow> response \<times> bool) \<Rightarrow> 'w ws handler" where
  "ws_endpoint upgrade e r s =
     (let (resp, up) = upgrade r
      in case handle_ws (rq_query r ''station_id'') up s of
           (Some refused, s') \<Rightarrow> (refused, s')
         | (None, s') \<Rightarrow> (resp, s'))"

definition ocpp_mux :: "(request \<Rightarrow> response \<times> bool) \<Rightarrow> 'w ws handler" where
  "ocpp_mux upgrade = serve_mux [(''/health'', ocpp_health), (''/ocpp/ws'', ws_endpoint upgrade)]"

definition deps_of :: "'w transport \<Rightarrow> gfield list \<Rightarrow> 'w deps" where
  "deps_of net cfg =
     \<lparr>dp_sessions = Some (conf_string cfg [''Services'', ''SessionsURL'']),
      dp_billing = Some (conf_string cfg [''Services'', ''BillingURL'']),
      dp_telemetry = Some (conf_string cfg [''Services'', ''TelemetryURL'']), dp_net = net\<rparr>"

text \<open>What the mux holds: the handlers, and the router and write timeout of every connection.\<close>

record 'w ocpp_parts =
  op_mux :: "'w ws handler"
  op_router :: "'w router"
  op_write_timeout :: int

definition new_ocpp_app ::
  "(request \<Rightarrow> response \<times> bool) \<Rightarrow> 'w transport \<Rightarrow> platform \<Rightarrow> gfield list \<Rightarrow>
     'w ocpp_parts app res \<times> action list" where
  "new_ocpp_app upgrade net p cfg =
     (case new_postgres_db p (conf_string cfg [''Database'', ''DSN'']) of
        (Inl err, acts) \<Rightarrow> (Inl err, acts)
      | (Inr db, acts) \<Rightarrow>
          (let h = \<lparr>op_mux = ocpp_mux upgrade, op_router = app_router (deps_of net cfg),
                    op_write_timeout = write_timeout cfg\<rparr>
           in (Inr \<lparr>ap_server = \<lparr>se_addr = ocpp_http_address cfg, se_handler = h, se_read_timeout = 15 * second,
                                 se_write_timeout = 15 * second, se_idle_timeout = 60 * second\<rparr>,
                    ap_db = Some db, ap_redis = None, ap_manager = Some (manager_interval (ping_interval cfg))\<rparr>,
               acts)))"

text \<open>\<open>Run\<close> compares with \<open>==\<close> where the other services use \<open>errors.Is\<close>.\<close>

definition run_ocpp_app :: "platform \<Rightarrow> 'h app \<Rightarrow> go_error option \<times> action list" where
  "run_ocpp_app p a =
     (let acts = (case ap_manager a of None \<Rightarrow> [] | Some interval \<Rightarrow> [StartManager interval]) @
            [LogInfo ''starting ocpp http server'', Listen (se_addr (ap_server a))]
      in case pf_run p of
           ContextDone r \<Rightarrow> (r, acts @ [ShutdownServer (10 * second)])
         | ServeEnded r \<Rightarrow> (if r = Some err_server_closed then None else r, acts))"

definition ocpp_process ::
  "(request \<Rightarrow> response \<times> bool) \<Rightarrow> 'w transport \<Rightarrow> 'w ocpp_parts entry_point" where
  "ocpp_process upgrade net =
     \<lparr>pc_load = load_ocpp, pc_new = new_ocpp_app upgrade net, pc_run = run_ocpp_app, pc_close = close_app,
      pc_init_failed = ''failed to initialize application'', pc_run_failed = ''application stopped with error''\<rparr>"

subsection \<open>api-gateway\<close>

definition new_gateway_server :: "string \<Rightarrow> 'w program \<Rightarrow> ('w program \<Rightarrow> 'w program) list \<Rightarrow> 'w program server" where
  "new_gateway_server addr h ms =
     \<lparr>se_addr = addr, se_handler = wrap_all h ms, se_read_timeout = 15 * second, se_write_timeout = 15 * second,
      se_idle_timeout = 60 * second\<rparr>"

text \<open>The clients share one \<open>http.Client\<close> with the configured timeout, the parameter \<open>net\<close>.\<close>

definition gateway_of :: "jwt \<Rightarrow> (int \<Rightarrow> 'w transport) \<Rightarrow> gfield list \<Rightarrow> 'w gateway_deps" where
  "gateway_of jw net cfg =
     new_gateway (conf_string cfg [''Services'', ''AuthURL'']) (conf_string cfg [''Services'', ''SessionsURL''])
       (conf_string cfg [''Services'', ''BillingURL'']) (conf_string cfg [''Services'', ''StationsURL''])
       jw (conf_string cfg [''JWT'', ''Secret'']) (net (http_timeout cfg))"

definition new_gateway_app ::
  "jwt \<Rightarrow> (int \<Rightarrow> 'w transport) \<Rightarrow> platform \<Rightarrow> gfield list \<Rightarrow> 'w program app res \<times> action list" where
  "new_gateway_app jw net p cfg =
     (Inr \<lparr>ap_server = new_gateway_server (gateway_http_address cfg) (program_of (gateway_router (gateway_of jw net cfg)))
             [recovery_middleware, logging_middleware],
           ap_db = None, ap_redis = None, ap_manager = None\<rparr>, [])"

definition run_gateway_app :: "platform \<Rightarrow> 'h app \<Rightarrow> go_error option \<times> action list" where
  "run_gateway_app p a = server_run p ''starting api gateway'' [] (ap_server a)"

text \<open>\<open>main\<close> of the gateway does not call \<open>Close\<close>, which does nothing there.\<close>

definition gateway_process :: "jwt \<Rightarrow> (int \<Rightarrow> 'w transport) \<Rightarrow> 'w program entry_point" where
  "gateway_process jw net =
     \<lparr>pc_load = load_gateway, pc_new = new_gateway_app jw net, pc_run = run_gateway_app, pc_close = (\<lambda>_ _. []),
      pc_init_failed = ''failed to init api gateway'', pc_run_failed = ''gateway stopped with error''\<rparr>"

end
