(* ===== verification/Lifecycle.thy ===== *)
theory Lifecycle
  imports Apps
begin

section \<open>Start, service and shutdown\<close>

text \<open>
  What a process holds while it runs, as an automaton over its actions that refuses to use or close a
  handle which is not open. The contract of the functions that \<open>main\<close> calls is the locale
  \<open>process_contract\<close>; the six programs are its instances.
\<close>

subsection \<open>Handles\<close>

type_synonym held = "string list \<times> redis_options list"

fun hold :: "action \<Rightarrow> held \<Rightarrow> held option" where
  "hold (OpenDb d) (dbs, rs) = Some (d # dbs, rs)"
| "hold (LimitDb _ _ _ _) (dbs, rs) = (if dbs = [] then None else Some (dbs, rs))"
| "hold (PingDb _) (dbs, rs) = (if dbs = [] then None else Some (dbs, rs))"
| "hold CloseDb (dbs, rs) = (case dbs of [] \<Rightarrow> None | d # ds \<Rightarrow> Some (ds, rs))"
| "hold (NewRedis r) (dbs, rs) = Some (dbs, r # rs)"
| "hold (PingRedis _) (dbs, rs) = (if rs = [] then None else Some (dbs, rs))"
| "hold CloseRedis (dbs, rs) = (case rs of [] \<Rightarrow> None | x # xs \<Rightarrow> Some (dbs, xs))"
| "hold _ h = Some h"

fun holding :: "action list \<Rightarrow> held \<Rightarrow> held option" where
  "holding [] h = Some h"
| "holding (a # as) h = (case hold a h of None \<Rightarrow> None | Some h' \<Rightarrow> holding as h')"

lemma holding_append: "holding (xs @ ys) h = (case holding xs h of None \<Rightarrow> None | Some h' \<Rightarrow> holding ys h')"
  by (induction xs arbitrary: h) (auto split: option.split)

lemma holding_append_Some [simp]: "holding xs h = Some h' \<Longrightarrow> holding (xs @ ys) h = holding ys h'"
  by (simp add: holding_append)

definition handles :: "'h app \<Rightarrow> held" where
  "handles a = ((case ap_db a of None \<Rightarrow> [] | Some d \<Rightarrow> [d]), (case ap_redis a of None \<Rightarrow> [] | Some r \<Rightarrow> [r]))"

definition listens :: "action list \<Rightarrow> bool" where
  "listens acts \<longleftrightarrow> (\<exists>addr. Listen addr \<in> set acts)"

lemma listens_simps [simp]:
  "\<not> listens []" "listens (x # xs) \<longleftrightarrow> (\<exists>a. x = Listen a) \<or> listens xs"
  "listens (xs @ ys) \<longleftrightarrow> listens xs \<or> listens ys"
  by (auto simp: listens_def)

lemma new_logger_holds:
  "new_logger p = (r, acts) \<Longrightarrow> holding acts h = Some h \<and> \<not> listens acts"
  by (auto simp: new_logger_def Let_def split: option.splits)

lemma new_postgres_holds:
  assumes "new_postgres_db p dsn = (r, acts)"
  shows "holding acts (dbs, rs) = Some (case r of Inl _ \<Rightarrow> (dbs, rs) | Inr db \<Rightarrow> (db # dbs, rs))" and "\<not> listens acts"
  using assms by (auto simp: new_postgres_db_def Let_def split: if_splits option.splits)

lemma new_redis_holds:
  assumes "new_redis_client p addr pw = (r, acts)"
  shows "holding acts (dbs, rs) = Some (case r of Inl _ \<Rightarrow> (dbs, rs) | Inr opts \<Rightarrow> (dbs, opts # rs))" and "\<not> listens acts"
  using assms by (auto simp: new_redis_client_def Let_def split: if_splits option.splits)

lemma close_handle_holds:
  "holding (close_handle CloseDb m r) (d # dbs, rs) = Some (dbs, rs)"
  "holding (close_handle CloseRedis m r) (dbs, o' # rs) = Some (dbs, rs)"
  by (auto simp: close_handle_def split: option.split)

lemma close_app_holds: "holding (close_app p a) (handles a) = Some ([], []) \<and> \<not> listens (close_app p a)"
  by (cases "ap_db a"; cases "ap_redis a")
    (auto simp: close_app_def handles_def close_handle_holds close_handle_def split: option.splits)

lemma server_run_holds:
  assumes "\<And>h. holding shutting h = Some h" and "\<not> listens shutting" and "server_run p m shutting s = (r, acts)"
  shows "holding acts h = Some h \<and> (\<forall>x. Listen x \<in> set acts \<longleftrightarrow> x = se_addr s)"
  using assms by (cases h) (auto simp: server_run_def Let_def listens_def split: run_end.splits option.splits if_splits)

text \<open>The application that \<open>main\<close> gets to run, if any.\<close>

definition started :: "'h entry_point \<Rightarrow> platform \<Rightarrow> 'h app option" where
  "started pc p =
     (case pc_load pc (pf_sys p) of
        Inl _ \<Rightarrow> None
      | Inr cfg \<Rightarrow>
          if is_ok (fst (new_logger p))
          then (case fst (pc_new pc p cfg) of Inl _ \<Rightarrow> None | Inr a \<Rightarrow> Some a) else None)"

subsection \<open>The contract\<close>

locale process_contract =
  fixes pc :: "'h entry_point"
  assumes new_holds: "pc_new pc p cfg = (r, acts) \<Longrightarrow>
      holding acts ([], []) = Some (case r of Inl _ \<Rightarrow> ([], []) | Inr a \<Rightarrow> handles a) \<and> \<not> listens acts"
    and run_holds: "pc_run pc p a = (e, acts) \<Longrightarrow> holding acts h = Some h \<and>
      (\<forall>x. Listen x \<in> set acts \<longleftrightarrow> x = se_addr (ap_server a))"
    and close_holds: "pc_new pc p cfg = (Inr a, acts) \<Longrightarrow>
      holding (pc_close pc p a) (handles a) = Some ([], []) \<and> \<not> listens (pc_close pc p a)"
begin

text \<open>
  The three ways out of \<open>main\<close>: before anything is served nothing is held; a run that ends well closes
  everything; a run that fails exits with the handles of the application.
\<close>

lemma run_listens: "listens (snd (pc_run pc p a))"
  using run_holds [of p a "fst (pc_run pc p a)" "snd (pc_run pc p a)" "([], [])"] by (auto simp: listens_def)

lemma main_not_started:
  assumes "started pc p = None" and "main_of pc p = (out, acts)"
  shows "holding acts ([], []) = Some ([], [])" "\<not> listens acts" "out \<noteq> Returned"
proof -
  obtain r la where l: "new_logger p = (r, la)" by (cases "new_logger p")
  note log = new_logger_holds [OF l]
  have "holding acts ([], []) = Some ([], []) \<and> \<not> listens acts \<and> out \<noteq> Returned"
  proof (cases "pc_load pc (pf_sys p)")
    case (Inr cfg)
    obtain x na where n: "pc_new pc p cfg = (x, na)" by (cases "pc_new pc p cfg")
    show ?thesis using assms Inr l n log new_holds [OF n]
      by (auto simp: main_of_def started_def split: sum.splits)
  qed (use assms in \<open>auto simp: main_of_def\<close>)
  then show "holding acts ([], []) = Some ([], [])" "\<not> listens acts" "out \<noteq> Returned" by simp_all
qed

lemma main_started:
  assumes "started pc p = Some a" and "main_of pc p = (out, acts)"
  shows "holding acts ([], []) = Some (if out = Returned then ([], []) else handles a)"
    and "Listen x \<in> set acts \<longleftrightarrow> x = se_addr (ap_server a)"
    and "out = (case fst (pc_run pc p a) of None \<Rightarrow> Returned
       | Some err \<Rightarrow> if errors_is err err_canceled then Returned else Fatal (pc_run_failed pc) err)"
proof -
  obtain cfg r la na where cfg: "pc_load pc (pf_sys p) = Inr cfg" and l: "new_logger p = (Inr r, la)"
    and n: "pc_new pc p cfg = (Inr a, na)"
    using assms(1) by (auto simp: started_def is_ok_iff prod_eq_iff split: sum.splits if_splits)
  obtain e ra where ra: "pc_run pc p a = (e, ra)" by (cases "pc_run pc p a")
  have h: "holding (la @ na @ ra) ([], []) = Some (handles a)"
    using new_logger_holds [OF l] new_holds [OF n] run_holds [OF ra] by simp
  have "holding (pc_close pc p a @ [SyncLogger, StopNotify]) (handles a) = Some ([], [])"
    using close_holds n by simp
  with h have c: "holding (la @ na @ ra @ pc_close pc p a @ [SyncLogger, StopNotify]) ([], []) = Some ([], [])"
    using holding_append_Some [OF h] by (simp only: append_assoc)
  have ls: "Listen x \<notin> set la" "Listen x \<notin> set na" "Listen x \<notin> set (pc_close pc p a)"
      "Listen x \<in> set ra \<longleftrightarrow> x = se_addr (ap_server a)"
    using new_logger_holds [OF l] new_holds [OF n] close_holds [of p cfg a na] n run_holds [OF ra]
    by (auto simp: listens_def)
  note m = assms(2) [unfolded main_of_def cfg l n ra sum.case prod.case]
  show "holding acts ([], []) = Some (if out = Returned then ([], []) else handles a)"
    and "Listen x \<in> set acts \<longleftrightarrow> x = se_addr (ap_server a)"
    and "out = (case fst (pc_run pc p a) of None \<Rightarrow> Returned
       | Some err \<Rightarrow> if errors_is err err_canceled then Returned else Fatal (pc_run_failed pc) err)"
    using m h c ls by (auto simp: ra split: option.splits if_splits)
qed

lemma main_listen_iff:
  "Listen x \<in> set (snd (main_of pc p)) \<longleftrightarrow> (\<exists>a. started pc p = Some a \<and> x = se_addr (ap_server a))"
proof (cases "main_of pc p")
  case (Pair out acts)
  then show ?thesis using main_not_started(2) [OF _ Pair] main_started(2) [OF _ Pair, of _ x]
    by (cases "started pc p") (auto simp: listens_def)
qed

lemma main_returns:
  "fst (main_of pc p) = Returned \<longleftrightarrow> (\<exists>a. started pc p = Some a \<and>
     (case fst (pc_run pc p a) of None \<Rightarrow> True | Some err \<Rightarrow> errors_is err err_canceled))"
proof (cases "main_of pc p")
  case (Pair out acts)
  then show ?thesis using main_not_started(3) [OF _ Pair] main_started(3) [OF _ Pair]
    by (cases "started pc p") (auto split: option.splits)
qed

text \<open>The contract of a whole process, as one statement.\<close>

lemma main_contract:
  "case main_of pc p of (out, acts) \<Rightarrow>
     (case started pc p of
        None \<Rightarrow> holding acts ([], []) = Some ([], []) \<and> \<not> listens acts \<and> out \<noteq> Returned
      | Some a \<Rightarrow> holding acts ([], []) = Some (if out = Returned then ([], []) else handles a) \<and>
          (\<forall>x. Listen x \<in> set acts \<longleftrightarrow> x = se_addr (ap_server a)))"
proof (cases "main_of pc p")
  case (Pair out acts)
  then show ?thesis using main_not_started [OF _ Pair] main_started(1,2) [OF _ Pair]
    by (cases "started pc p") simp_all
qed

end

subsection \<open>The six programs keep it\<close>

lemma run_app_holds: "run_app p a = (e, acts) \<Longrightarrow> holding acts h = Some h \<and>
      (\<forall>x. Listen x \<in> set acts \<longleftrightarrow> x = se_addr (ap_server a))"
  unfolding run_app_def by (rule server_run_holds) auto

lemma db_app_holds:
  "new_db_app address hf p cfg = (r, acts) \<Longrightarrow>
     holding acts ([], []) = Some (case r of Inl _ \<Rightarrow> ([], []) | Inr a \<Rightarrow> handles a) \<and> \<not> listens acts"
  by (auto simp: new_db_app_def handles_def dest: new_postgres_holds split: prod.splits sum.splits)

lemma sessions_app_holds:
  assumes "new_sessions_app client p cfg = (r, acts)"
  shows "holding acts ([], []) = Some (case r of Inl _ \<Rightarrow> ([], []) | Inr a \<Rightarrow> handles a) \<and> \<not> listens acts"
proof (cases "new_postgres_db p (conf_string cfg [''Database'', ''DSN''])")
  case (Pair db acts1)
  note db = new_postgres_holds [OF Pair]
  show ?thesis
  proof (cases db)
    case (Inl err)
    then show ?thesis using assms db Pair by (auto simp: new_sessions_app_def)
  next
    case (Inr d)
    obtain c acts2 where c: "new_redis_client p (conf_string cfg [''Redis'', ''Addr'']) (conf_string cfg [''Redis'', ''Password'']) = (c, acts2)"
      by (rule prod.exhaust)
    note redis = new_redis_holds [OF c]
    show ?thesis using assms Pair Inr c db redis
      by (cases c) (auto simp: new_sessions_app_def handles_def)
  qed
qed

interpretation auth: process_contract "auth_process bc jw"
proof unfold_locales
  fix p cfg r acts
  assume "pc_new (auth_process bc jw) p cfg = (r, acts)"
  then show "holding acts ([], []) = Some (case r of Inl _ \<Rightarrow> ([], []) | Inr a \<Rightarrow> handles a) \<and> \<not> listens acts"
    by (auto simp: auth_process_def new_auth_app_def handles_def dest: new_postgres_holds split: prod.splits sum.splits)
next
  fix p e acts h and a :: "auth_state handler app"
  assume "pc_run (auth_process bc jw) p a = (e, acts)"
  then have "server_run p ''starting http server'' [LogInfo ''shutting down http server''] (ap_server a) = (e, acts)"
    by (simp add: auth_process_def run_auth_app_def)
  then show "holding acts h = Some h \<and>
      (\<forall>x. Listen x \<in> set acts \<longleftrightarrow> x = se_addr (ap_server a))"
    by (rule server_run_holds [rotated 2]) auto
qed (simp add: auth_process_def close_app_holds)

interpretation sessions: process_contract "sessions_process client"
  by unfold_locales (simp_all add: sessions_process_def sessions_app_holds run_app_holds close_app_holds)

interpretation billing: process_contract billing_process
  by unfold_locales (auto simp: billing_process_def new_billing_app_def close_app_holds dest: db_app_holds run_app_holds)

interpretation telemetry: process_contract telemetry_process
  by unfold_locales (auto simp: telemetry_process_def new_telemetry_app_def close_app_holds dest: db_app_holds run_app_holds)

interpretation ocpp: process_contract "ocpp_process upgrade net"
proof unfold_locales
  fix p cfg r acts
  assume "pc_new (ocpp_process upgrade net) p cfg = (r, acts)"
  then show "holding acts ([], []) = Some (case r of Inl _ \<Rightarrow> ([], []) | Inr a \<Rightarrow> handles a) \<and> \<not> listens acts"
    by (auto simp: ocpp_process_def new_ocpp_app_def handles_def Let_def dest: new_postgres_holds split: prod.splits sum.splits)
next
  fix p e acts h and a :: "'a ocpp_parts app"
  assume "pc_run (ocpp_process upgrade net) p a = (e, acts)"
  then show "holding acts h = Some h \<and>
      (\<forall>x. Listen x \<in> set acts \<longleftrightarrow> x = se_addr (ap_server a))"
    by (cases h) (auto simp: ocpp_process_def run_ocpp_app_def Let_def split: option.splits run_end.splits)
qed (simp add: ocpp_process_def close_app_holds)

text \<open>The gateway holds nothing, so that its \<open>main\<close> without \<open>Close\<close> is no leak.\<close>

interpretation gateway: process_contract "gateway_process jw net"
proof unfold_locales
  fix p e acts h and a :: "'a program app"
  assume "pc_run (gateway_process jw net) p a = (e, acts)"
  then have "server_run p ''starting api gateway'' [] (ap_server a) = (e, acts)"
    by (simp add: gateway_process_def run_gateway_app_def)
  then show "holding acts h = Some h \<and>
      (\<forall>x. Listen x \<in> set acts \<longleftrightarrow> x = se_addr (ap_server a))"
    by (rule server_run_holds [rotated 2]) auto
qed (auto simp: gateway_process_def new_gateway_app_def handles_def)

end
