(* ===== verification/ServiceConfigProps.thy ===== *)
theory ServiceConfigProps
  imports ServiceConfig
begin

section \<open>What the services read from their environment\<close>

text \<open>
  The loader's properties, and the configuration of the OCPP server as a function of its environment:
  which variables count, what they default to, and when loading fails. Durations are exact up to the
  bound where their product leaves \<open>int64\<close>.
\<close>

subsection \<open>Variables of a service\<close>

definition text_of :: "sys \<Rightarrow> string \<Rightarrow> string \<Rightarrow> string" where
  "text_of y key d = (case sy_env y key of None \<Rightarrow> d | Some s \<Rightarrow> s)"
definition int_of :: "sys \<Rightarrow> string \<Rightarrow> int \<Rightarrow> int option" where
  "int_of y key d = (case sy_env y key of None \<Rightarrow> Some d | Some s \<Rightarrow> parse_int_width 64 s)"

lemma upper_plain: "is_ascii k \<Longrightarrow> map upper_char k = k \<Longrightarrow> CHR ''-'' \<notin> set k \<Longrightarrow> normalize_key uni [] k = k"
proof -
  assume a: "is_ascii k" "map upper_char k = k" "CHR ''-'' \<notin> set k"
  have "map (\<lambda>c. if c = CHR ''-'' then CHR ''_'' else c) k = k"
    using a(3) by (auto intro: map_idI)
  then show "normalize_key uni [] k = k" using a by (simp add: normalize_key_def to_upper_def)
qed

definition plain_key :: "string \<Rightarrow> bool" where
  "plain_key k \<longleftrightarrow> is_ascii k \<and> map upper_char k = k \<and> CHR ''-'' \<notin> set k \<and> k \<noteq> [] \<and> k \<noteq> ''-''"

lemma set_leaf_env:
  assumes "plain_key key"
  shows "populate_value y prefix name key False (GString d) = Inr (GString (text_of y key d))"
    "populate_value y prefix name key False (GInt 64 i) =
      (case int_of y key i of
         None \<Rightarrow> Inl (ErrWrap (''config: parse '' @ key @ '': '') (parse_error ''ParseInt'' (the (sy_env y key))))
       | Some j \<Rightarrow> Inr (GInt 64 j))"
  using assms upper_plain [of key "sy_uni y"]
  by (auto simp: plain_key_def field_key_def set_from_env_def text_of_def int_of_def split: option.split)

lemma ocpp_keys: "list_all plain_key [''OCPP_HTTP_PORT'', ''OCPP_POSTGRES_DSN'', ''SESSIONS_SERVICE_URL'', ''BILLING_SERVICE_URL'',
   ''TELEMETRY_SERVICE_URL'', ''OCPP_PING_INTERVAL'', ''OCPP_WRITE_TIMEOUT'']"
  by code_simp
lemmas plain_ocpp = ocpp_keys [simplified]
definition ocpp_config :: "sys \<Rightarrow> int \<Rightarrow> int \<Rightarrow> gfield list" where
  "ocpp_config y ping write =
     [group ''HTTP'' [leaf ''Port'' ''OCPP_HTTP_PORT'' (GString (text_of y ''OCPP_HTTP_PORT'' ''8081''))],
      group ''Database'' [leaf ''DSN'' ''OCPP_POSTGRES_DSN'' (GString (text_of y ''OCPP_POSTGRES_DSN'' []))],
      group ''Services''
        [leaf ''SessionsURL'' ''SESSIONS_SERVICE_URL'' (GString (text_of y ''SESSIONS_SERVICE_URL'' [])),
         leaf ''BillingURL'' ''BILLING_SERVICE_URL'' (GString (text_of y ''BILLING_SERVICE_URL'' [])),
         leaf ''TelemetryURL'' ''TELEMETRY_SERVICE_URL'' (GString (text_of y ''TELEMETRY_SERVICE_URL'' []))],
      group ''WebSocket''
        [leaf ''PingIntervalSeconds'' ''OCPP_PING_INTERVAL'' (GInt 64 ping),
         leaf ''WriteTimeoutSeconds'' ''OCPP_WRITE_TIMEOUT'' (GInt 64 write)]]"

lemma populate_ocpp:
  "case (int_of y ''OCPP_PING_INTERVAL'' 30, int_of y ''OCPP_WRITE_TIMEOUT'' 15) of
     (Some p, Some w) \<Rightarrow> populate_from_env y [] ocpp_defaults = Inr (ocpp_config y p w)
   | _ \<Rightarrow> \<not> is_ok (populate_from_env y [] ocpp_defaults)"
  by (simp add: ocpp_defaults_def ocpp_config_def leaf_def group_def set_leaf_env plain_ocpp del: populate_value.simps(2-) split: option.split)

lemma ocpp_config_simps:
  "conf_string (ocpp_config y p w) [''Database'', ''DSN''] = text_of y ''OCPP_POSTGRES_DSN'' []"
  "conf_string (ocpp_config y p w) [''HTTP'', ''Port''] = text_of y ''OCPP_HTTP_PORT'' ''8081''"
  "conf_int (ocpp_config y p w) [''WebSocket'', ''PingIntervalSeconds''] = p"
  "conf_int (ocpp_config y p w) [''WebSocket'', ''WriteTimeoutSeconds''] = w"
  by (simp_all add: ocpp_config_def group_def leaf_def conf_string_def conf_int_def)

lemma load_ocpp_iff:
  assumes "config_file y = []"
  shows "load_ocpp y = Inr cfg \<longleftrightarrow> (\<exists>p w. int_of y ''OCPP_PING_INTERVAL'' 30 = Some p \<and>
    int_of y ''OCPP_WRITE_TIMEOUT'' 15 = Some w \<and> \<not> blank (text_of y ''OCPP_POSTGRES_DSN'' []) \<and>
    cfg = ocpp_config y p w)"
  using populate_ocpp [of y] assms
  by (cases "populate_from_env y [] ocpp_defaults")
    (auto simp: load_ocpp_def require_def load_config_def ocpp_config_simps split: option.splits)

subsection \<open>Durations\<close>

lemma duration_exact:
  assumes "0 < n" and "0 < unit" and "n * unit < 2 ^ 63"
  shows "duration_of n unit = n * unit"
proof -
  have "0 < n * unit" using assms by simp
  then show ?thesis using assms(3) by (simp add: duration_of_def in_int64_def)
qed

lemma seconds_exact: "0 < n \<Longrightarrow> n \<le> 9223372036 \<Longrightarrow> duration_of n second = n * second"
  by (rule duration_exact) (simp_all add: second_def)

lemma minutes_exact: "0 < n \<Longrightarrow> n \<le> 153722867 \<Longrightarrow> duration_of n minute = n * minute"
  by (rule duration_exact) (simp_all add: minute_def second_def)

lemma duration_wraps: "duration_of 9223372037 second < 0" "duration_of 153722868 minute < 0"
  by (simp_all add: duration_of_def wrap64_def minute_def second_def)

subsection \<open>Properties\<close>


text \<open>Without a configuration file the OCPP server starts exactly when its database DSN is set to more
  than white space and the ping interval and the write timeout, where set, are 64-bit integers; its
  configuration then is the environment's, with the documented defaults.\<close>

theorem ocpp_config_loaded:
  assumes "config_file y = []"
  shows "load_ocpp y = Inr cfg \<longleftrightarrow> (\<exists>p w. int_of y ''OCPP_PING_INTERVAL'' 30 = Some p \<and>
    int_of y ''OCPP_WRITE_TIMEOUT'' 15 = Some w \<and> \<not> blank (text_of y ''OCPP_POSTGRES_DSN'' []) \<and>
    cfg = ocpp_config y p w)"
  using assms by (rule load_ocpp_iff)

text \<open>Every configured duration is positive and exactly the configured number of units up to 9223372036
  seconds (153722867 minutes); one unit more wraps around to a negative duration, with which every
  write to a station and every call through the gateway times out at once.\<close>

theorem durations_bounded:
  "(conf_int cfg [''WebSocket'', ''WriteTimeoutSeconds''] \<le> 9223372036 \<longrightarrow> 0 < write_timeout cfg) \<and>
   (conf_int cfg [''WebSocket'', ''PingIntervalSeconds''] \<le> 9223372036 \<longrightarrow> 0 < ping_interval cfg) \<and>
   (conf_int cfg [''HTTPClient'', ''TimeoutSeconds''] \<le> 9223372036 \<longrightarrow> 0 < http_timeout cfg) \<and>
   (conf_int cfg [''Redis'', ''TTL''] \<le> 9223372036 \<longrightarrow> 0 < active_session_ttl cfg) \<and>
   (conf_int cfg [''JWT'', ''ExpiresInMinutes''] \<le> 153722867 \<longrightarrow> 0 < jwt_expiration cfg) \<and>
   (conf_int cfg [''WebSocket'', ''WriteTimeoutSeconds''] = 9223372037 \<longrightarrow> write_timeout cfg < 0) \<and>
   (conf_int cfg [''HTTPClient'', ''TimeoutSeconds''] = 9223372037 \<longrightarrow> http_timeout cfg < 0)"
  by (simp add: write_timeout_def ping_interval_def http_timeout_def active_session_ttl_def jwt_expiration_def
      Let_def seconds_exact minutes_exact duration_wraps)
    (simp add: second_def minute_def hour_def)

subsection \<open>Witnesses\<close>

definition demo_sys :: sys where
  "demo_sys = \<lparr>sy_env = [''OCPP_POSTGRES_DSN'' \<mapsto> ''dsn'', ''OCPP_WRITE_TIMEOUT'' \<mapsto> ''20''],
     sy_read_file = (\<lambda>_. Inl (ErrExt ''no such file'')), sy_yaml = (\<lambda>_ fs. Inr fs),
     sy_float = (\<lambda>_ _. Inl (ErrExt ''syntax'')), sy_uni = id\<rparr>"

lemma demo_sys_facts: "config_file demo_sys = []" "text_of demo_sys ''OCPP_POSTGRES_DSN'' [] = ''dsn''"
  "int_of demo_sys ''OCPP_PING_INTERVAL'' 30 = Some 30"
  by (simp_all add: config_file_def demo_sys_def text_of_def int_of_def)

lemma demo_timeout: "int_of demo_sys ''OCPP_WRITE_TIMEOUT'' 15 = Some 20"
proof -
  have "parse_int_width 64 ''20'' = Some 20" by code_simp
  then show ?thesis by (simp add: demo_sys_def int_of_def)
qed


end
