(* ===== verification/ServiceEnv.thy ===== *)
theory ServiceEnv
  imports ServiceConfigProps
begin

section \<open>The other services' configurations from their environment\<close>

text \<open>
  For each service what \<open>Load\<close> returns when there is no configuration file: the configuration its
  variables and defaults make, provided the numbers parse and what the service requires is set.
\<close>

lemma other_keys: "list_all plain_key
  [''AUTH_HTTP_PORT'', ''AUTH_POSTGRES_DSN'', ''AUTH_JWT_SECRET'', ''AUTH_JWT_EXPIRES_MINUTES'',
   ''SESSIONS_HTTP_PORT'', ''SESSIONS_POSTGRES_DSN'', ''SESSIONS_REDIS_ADDR'', ''SESSIONS_REDIS_PASSWORD'',
   ''SESSIONS_REDIS_DB'', ''SESSIONS_REDIS_TTL'', ''BILLING_HTTP_PORT'', ''BILLING_POSTGRES_DSN'',
   ''TELEMETRY_HTTP_PORT'', ''TELEMETRY_POSTGRES_DSN'', ''API_GATEWAY_HTTP_PORT'', ''API_GATEWAY_JWT_SECRET'',
   ''AUTH_SERVICE_URL'', ''STATIONS_SERVICE_URL'', ''API_GATEWAY_HTTP_TIMEOUT'']"
  by code_simp

lemmas plain_others = other_keys [simplified] plain_ocpp

lemmas config_defs = leaf_def group_def conf_string_def conf_int_def

lemmas populate_env = leaf_def group_def set_leaf_env plain_others

subsection \<open>billing-service and telemetry-service\<close>

definition db_config :: "sys \<Rightarrow> string \<Rightarrow> string \<Rightarrow> string \<Rightarrow> gfield list" where
  "db_config y port dsn std =
     [group ''HTTP'' [leaf ''Port'' port (GString (text_of y port std))],
      group ''Database'' [leaf ''DSN'' dsn (GString (text_of y dsn []))]]"

lemma db_config_simps [simp]:
  "conf_string (db_config y port dsn std) [''Database'', ''DSN''] = text_of y dsn []"
  "conf_string (db_config y port dsn std) [''HTTP'', ''Port''] = text_of y port std"
  by (simp_all add: db_config_def config_defs)

lemma load_billing_iff:
  assumes "config_file y = []"
  shows "load_billing y = Inr cfg \<longleftrightarrow> \<not> blank (text_of y ''BILLING_POSTGRES_DSN'' []) \<and>
    cfg = db_config y ''BILLING_HTTP_PORT'' ''BILLING_POSTGRES_DSN'' ''8083''"
proof -
  have "populate_from_env y [] billing_defaults = Inr (db_config y ''BILLING_HTTP_PORT'' ''BILLING_POSTGRES_DSN'' ''8083'')"
    by (simp add: billing_defaults_def db_config_def populate_env del: populate_value.simps(2-))
  then show ?thesis using assms by (auto simp: load_billing_def require_def load_config_def)
qed

lemma load_telemetry_iff:
  assumes "config_file y = []"
  shows "load_telemetry y = Inr cfg \<longleftrightarrow> \<not> blank (text_of y ''TELEMETRY_POSTGRES_DSN'' []) \<and>
    cfg = db_config y ''TELEMETRY_HTTP_PORT'' ''TELEMETRY_POSTGRES_DSN'' ''8084''"
proof -
  have "populate_from_env y [] telemetry_defaults = Inr (db_config y ''TELEMETRY_HTTP_PORT'' ''TELEMETRY_POSTGRES_DSN'' ''8084'')"
    by (simp add: telemetry_defaults_def db_config_def populate_env del: populate_value.simps(2-))
  then show ?thesis using assms by (auto simp: load_telemetry_def require_def load_config_def)
qed

subsection \<open>sessions-service\<close>

definition sessions_config :: "sys \<Rightarrow> int \<Rightarrow> int \<Rightarrow> gfield list" where
  "sessions_config y db ttl =
     [group ''HTTP'' [leaf ''Port'' ''SESSIONS_HTTP_PORT'' (GString (text_of y ''SESSIONS_HTTP_PORT'' ''8082''))],
      group ''Database'' [leaf ''DSN'' ''SESSIONS_POSTGRES_DSN'' (GString (text_of y ''SESSIONS_POSTGRES_DSN'' []))],
      group ''Redis''
        [leaf ''Addr'' ''SESSIONS_REDIS_ADDR'' (GString (text_of y ''SESSIONS_REDIS_ADDR'' ''localhost:6379'')),
         leaf ''Password'' ''SESSIONS_REDIS_PASSWORD'' (GString (text_of y ''SESSIONS_REDIS_PASSWORD'' [])),
         leaf ''DB'' ''SESSIONS_REDIS_DB'' (GInt 64 db), leaf ''TTL'' ''SESSIONS_REDIS_TTL'' (GInt 64 ttl)]]"

lemma sessions_config_simps [simp]:
  "conf_string (sessions_config y db ttl) [''Database'', ''DSN''] = text_of y ''SESSIONS_POSTGRES_DSN'' []"
  "conf_string (sessions_config y db ttl) [''HTTP'', ''Port''] = text_of y ''SESSIONS_HTTP_PORT'' ''8082''"
  "conf_string (sessions_config y db ttl) [''Redis'', ''Addr''] = text_of y ''SESSIONS_REDIS_ADDR'' ''localhost:6379''"
  "conf_string (sessions_config y db ttl) [''Redis'', ''Password''] = text_of y ''SESSIONS_REDIS_PASSWORD'' []"
  "conf_int (sessions_config y db ttl) [''Redis'', ''TTL''] = ttl"
  by (simp_all add: sessions_config_def config_defs)

lemma load_sessions_iff:
  assumes "config_file y = []"
  shows "load_sessions y = Inr cfg \<longleftrightarrow> (\<exists>db ttl. int_of y ''SESSIONS_REDIS_DB'' 0 = Some db \<and>
    int_of y ''SESSIONS_REDIS_TTL'' 86400 = Some ttl \<and> \<not> blank (text_of y ''SESSIONS_POSTGRES_DSN'' []) \<and>
    \<not> blank (text_of y ''SESSIONS_REDIS_ADDR'' ''localhost:6379'') \<and> cfg = sessions_config y db ttl)"
proof -
  have "case (int_of y ''SESSIONS_REDIS_DB'' 0, int_of y ''SESSIONS_REDIS_TTL'' 86400) of
     (Some d, Some t) \<Rightarrow> populate_from_env y [] sessions_defaults = Inr (sessions_config y d t)
   | _ \<Rightarrow> \<not> is_ok (populate_from_env y [] sessions_defaults)"
    by (simp add: sessions_defaults_def sessions_config_def populate_env del: populate_value.simps(2-) split: option.split)
  then show ?thesis using assms
    by (cases "populate_from_env y [] sessions_defaults")
      (auto simp: load_sessions_def require_def load_config_def split: option.splits)
qed

subsection \<open>auth-service\<close>

definition auth_config :: "sys \<Rightarrow> int \<Rightarrow> gfield list" where
  "auth_config y expires =
     [group ''HTTP'' [leaf ''Port'' ''AUTH_HTTP_PORT'' (GString (text_of y ''AUTH_HTTP_PORT'' ''8080''))],
      group ''Database'' [leaf ''DSN'' ''AUTH_POSTGRES_DSN'' (GString (text_of y ''AUTH_POSTGRES_DSN'' []))],
      group ''JWT''
        [leaf ''Secret'' ''AUTH_JWT_SECRET'' (GString (text_of y ''AUTH_JWT_SECRET'' [])),
         leaf ''ExpiresInMinutes'' ''AUTH_JWT_EXPIRES_MINUTES'' (GInt 64 expires)]]"

lemma auth_config_simps [simp]:
  "conf_string (auth_config y n) [''Database'', ''DSN''] = text_of y ''AUTH_POSTGRES_DSN'' []"
  "conf_string (auth_config y n) [''HTTP'', ''Port''] = text_of y ''AUTH_HTTP_PORT'' ''8080''"
  "conf_string (auth_config y n) [''JWT'', ''Secret''] = text_of y ''AUTH_JWT_SECRET'' []"
  "conf_int (auth_config y n) [''JWT'', ''ExpiresInMinutes''] = n"
  "set_expires m (auth_config y n) = auth_config y m"
  by (simp_all add: auth_config_def config_defs set_expires_def)

definition expires_minutes :: "int \<Rightarrow> int" where
  "expires_minutes n = (if n \<le> 0 then 60 else n)"

lemma load_auth_iff:
  assumes "config_file y = []"
  shows "load_auth y = Inr cfg \<longleftrightarrow> (\<exists>n. int_of y ''AUTH_JWT_EXPIRES_MINUTES'' 60 = Some n \<and>
    text_of y ''AUTH_POSTGRES_DSN'' [] \<noteq> [] \<and> text_of y ''AUTH_JWT_SECRET'' [] \<noteq> [] \<and>
    cfg = auth_config y (expires_minutes n))"
proof -
  have "case int_of y ''AUTH_JWT_EXPIRES_MINUTES'' 60 of
     Some n \<Rightarrow> populate_from_env y [] auth_defaults = Inr (auth_config y n)
   | _ \<Rightarrow> \<not> is_ok (populate_from_env y [] auth_defaults)"
    by (simp add: auth_defaults_def auth_config_def populate_env del: populate_value.simps(2-) split: option.split)
  note pop = this
  show ?thesis
  proof (cases "int_of y ''AUTH_JWT_EXPIRES_MINUTES'' 60")
    case None
    with pop assms show ?thesis
      by (cases "populate_from_env y [] auth_defaults") (simp_all add: load_auth_def require_def load_config_def)
  next
    case (Some n)
    with pop have "populate_from_env y [] auth_defaults = Inr (auth_config y n)" by simp
    with assms show ?thesis by (simp add: load_auth_def require_def load_config_def Some expires_minutes_def) metis
  qed
qed

subsection \<open>api-gateway\<close>

definition gateway_config :: "sys \<Rightarrow> int \<Rightarrow> gfield list" where
  "gateway_config y timeout =
     [group ''HTTP'' [leaf ''Port'' ''API_GATEWAY_HTTP_PORT'' (GString (text_of y ''API_GATEWAY_HTTP_PORT'' ''8080''))],
      group ''JWT'' [leaf ''Secret'' ''API_GATEWAY_JWT_SECRET'' (GString (text_of y ''API_GATEWAY_JWT_SECRET'' []))],
      group ''Services''
        [leaf ''AuthURL'' ''AUTH_SERVICE_URL'' (GString (text_of y ''AUTH_SERVICE_URL'' [])),
         leaf ''SessionsURL'' ''SESSIONS_SERVICE_URL'' (GString (text_of y ''SESSIONS_SERVICE_URL'' [])),
         leaf ''BillingURL'' ''BILLING_SERVICE_URL'' (GString (text_of y ''BILLING_SERVICE_URL'' [])),
         leaf ''StationsURL'' ''STATIONS_SERVICE_URL'' (GString (text_of y ''STATIONS_SERVICE_URL'' []))],
      group ''HTTPClient'' [leaf ''TimeoutSeconds'' ''API_GATEWAY_HTTP_TIMEOUT'' (GInt 64 timeout)]]"

lemma gateway_config_simps [simp]:
  "conf_string (gateway_config y n) [''HTTP'', ''Port''] = text_of y ''API_GATEWAY_HTTP_PORT'' ''8080''"
  "conf_string (gateway_config y n) [''JWT'', ''Secret''] = text_of y ''API_GATEWAY_JWT_SECRET'' []"
  "conf_string (gateway_config y n) [''Services'', ''AuthURL''] = text_of y ''AUTH_SERVICE_URL'' []"
  "conf_string (gateway_config y n) [''Services'', ''SessionsURL''] = text_of y ''SESSIONS_SERVICE_URL'' []"
  "conf_string (gateway_config y n) [''Services'', ''BillingURL''] = text_of y ''BILLING_SERVICE_URL'' []"
  "conf_string (gateway_config y n) [''Services'', ''StationsURL''] = text_of y ''STATIONS_SERVICE_URL'' []"
  "conf_int (gateway_config y n) [''HTTPClient'', ''TimeoutSeconds''] = n"
  by (simp_all add: gateway_config_def config_defs)

lemma load_gateway_iff:
  assumes "config_file y = []"
  shows "load_gateway y = Inr cfg \<longleftrightarrow> (\<exists>n. int_of y ''API_GATEWAY_HTTP_TIMEOUT'' 5 = Some n \<and>
    \<not> blank (text_of y ''API_GATEWAY_JWT_SECRET'' []) \<and> cfg = gateway_config y n)"
proof -
  have "case int_of y ''API_GATEWAY_HTTP_TIMEOUT'' 5 of
     Some n \<Rightarrow> populate_from_env y [] gateway_defaults = Inr (gateway_config y n)
   | _ \<Rightarrow> \<not> is_ok (populate_from_env y [] gateway_defaults)"
    by (simp add: gateway_defaults_def gateway_config_def populate_env del: populate_value.simps(2-) split: option.split)
  then show ?thesis using assms
    by (cases "populate_from_env y [] gateway_defaults")
      (auto simp: load_gateway_def require_def load_config_def split: option.splits)
qed

end
