(* ===== verification/LifecycleProps.thy ===== *)
theory LifecycleProps
  imports Lifecycle ServiceEnv
begin

section \<open>Properties of the processes\<close>

text \<open>
  When each program serves, with which address, and how it ends: from its environment variables, from
  what the platform answers, and for every outcome what it still holds.
\<close>

subsection \<open>What a start needs\<close>

definition logger_ok :: "platform \<Rightarrow> bool" where
  "logger_ok p \<longleftrightarrow> is_ok (fst (new_logger p))"

definition db_ok :: "platform \<Rightarrow> string \<Rightarrow> bool" where
  "db_ok p dsn \<longleftrightarrow> \<not> blank dsn \<and> pf_open p dsn = None \<and> pf_ping_db p dsn = None"

definition redis_options_of :: "string \<Rightarrow> string \<Rightarrow> redis_options" where
  "redis_options_of addr password =
     \<lparr>ro_addr = trim_space addr, ro_password = password, ro_dial_timeout = 5 * second,
      ro_read_timeout = 3 * second, ro_write_timeout = 3 * second\<rparr>"

definition redis_ok :: "platform \<Rightarrow> string \<Rightarrow> string \<Rightarrow> bool" where
  "redis_ok p addr password \<longleftrightarrow> \<not> blank addr \<and> pf_ping_redis p (redis_options_of addr password) = None"

lemma new_postgres_cases:
  obtains acts where "db_ok p dsn" "new_postgres_db p dsn = (Inr dsn, acts)"
  | err acts where "\<not> db_ok p dsn" "new_postgres_db p dsn = (Inl err, acts)"
proof (cases "new_postgres_db p dsn")
  case (Pair r acts)
  then show thesis
    by (cases r) (auto simp: new_postgres_db_def db_ok_def blank_def Let_def intro: that split: option.splits if_splits)
qed

lemma new_redis_cases:
  obtains acts where "redis_ok p addr pw" "new_redis_client p addr pw = (Inr (redis_options_of addr pw), acts)"
  | err acts where "\<not> redis_ok p addr pw" "new_redis_client p addr pw = (Inl err, acts)"
proof (cases "new_redis_client p addr pw")
  case (Pair r acts)
  then show thesis
    by (cases r) (auto simp: new_redis_client_def redis_ok_def redis_options_of_def blank_def Let_def intro: that
        split: option.splits if_splits)
qed

lemma started_iff:
  "started pc p = Some a \<longleftrightarrow>
     (\<exists>cfg. pc_load pc (pf_sys p) = Inr cfg \<and> logger_ok p \<and> fst (pc_new pc p cfg) = Inr a)"
  by (auto simp: started_def logger_ok_def split: sum.split)

lemma new_db_app_iff:
  "fst (new_db_app address hf p cfg) = Inr a \<longleftrightarrow> db_ok p (conf_string cfg [''Database'', ''DSN'']) \<and>
     a = \<lparr>ap_server = new_server (address cfg) hf, ap_db = Some (conf_string cfg [''Database'', ''DSN'']),
          ap_redis = None, ap_manager = None\<rparr>"
  by (cases rule: new_postgres_cases [of p "conf_string cfg [''Database'', ''DSN'']"]) (auto simp: new_db_app_def)

lemma new_auth_app_iff:
  "fst (new_auth_app bc jw p cfg) = Inr a \<longleftrightarrow> db_ok p (conf_string cfg [''Database'', ''DSN'']) \<and>
     a = \<lparr>ap_server = new_server (auth_http_address cfg) (auth_app (sy_uni (pf_sys p)) bc jw cfg),
          ap_db = Some (conf_string cfg [''Database'', ''DSN'']), ap_redis = None, ap_manager = None\<rparr>"
proof -
  have "new_auth_app bc jw p cfg = new_db_app auth_http_address (auth_app (sy_uni (pf_sys p)) bc jw cfg) p cfg"
    by (simp add: new_auth_app_def new_db_app_def)
  then show ?thesis by (simp add: new_db_app_iff)
qed

lemma new_sessions_app_iff:
  "fst (new_sessions_app client p cfg) = Inr a \<longleftrightarrow> db_ok p (conf_string cfg [''Database'', ''DSN'']) \<and>
     redis_ok p (conf_string cfg [''Redis'', ''Addr'']) (conf_string cfg [''Redis'', ''Password'']) \<and>
     (let opts = redis_options_of (conf_string cfg [''Redis'', ''Addr'']) (conf_string cfg [''Redis'', ''Password''])
      in a = \<lparr>ap_server = new_server (sessions_http_address cfg) (sessions_app (client opts) cfg),
              ap_db = Some (conf_string cfg [''Database'', ''DSN'']), ap_redis = Some opts, ap_manager = None\<rparr>)"
proof (cases rule: new_postgres_cases [of p "conf_string cfg [''Database'', ''DSN'']"])
  case 1
  then show ?thesis
    by (cases rule: new_redis_cases [of p "conf_string cfg [''Redis'', ''Addr'']" "conf_string cfg [''Redis'', ''Password'']"])
      (auto simp: new_sessions_app_def Let_def)
qed (simp add: new_sessions_app_def)

lemma new_ocpp_app_iff:
  "fst (new_ocpp_app upgrade net p cfg) = Inr a \<longleftrightarrow> db_ok p (conf_string cfg [''Database'', ''DSN'']) \<and>
     a = \<lparr>ap_server = \<lparr>se_addr = ocpp_http_address cfg,
            se_handler = \<lparr>op_mux = ocpp_mux upgrade, op_router = app_router (deps_of net cfg),
                         op_write_timeout = write_timeout cfg\<rparr>,
            se_read_timeout = 15 * second, se_write_timeout = 15 * second, se_idle_timeout = 60 * second\<rparr>,
          ap_db = Some (conf_string cfg [''Database'', ''DSN'']), ap_redis = None,
          ap_manager = Some (manager_interval (ping_interval cfg))\<rparr>"
  by (cases rule: new_postgres_cases [of p "conf_string cfg [''Database'', ''DSN'']"]) (auto simp: new_ocpp_app_def Let_def)

subsection \<open>How a run ends\<close>

text \<open>What \<open>main\<close> takes for a good end: nothing, a closed server, or a cancelled context.\<close>

definition stops_well :: "(go_error \<Rightarrow> bool) \<Rightarrow> platform \<Rightarrow> bool" where
  "stops_well good p \<longleftrightarrow>
     (case pf_run p of
        ContextDone None \<Rightarrow> True
      | ContextDone (Some err) \<Rightarrow> errors_is err err_canceled
      | ServeEnded None \<Rightarrow> True
      | ServeEnded (Some err) \<Rightarrow> good err \<or> errors_is err err_canceled)"

lemma server_run_ends:
  "(case fst (server_run p m shutting s) of None \<Rightarrow> True | Some err \<Rightarrow> errors_is err err_canceled) \<longleftrightarrow>
     stops_well (\<lambda>err. errors_is err err_server_closed) p"
  by (auto simp: server_run_def stops_well_def Let_def split: run_end.split option.split)

lemma ocpp_run_ends:
  "(case fst (run_ocpp_app p a) of None \<Rightarrow> True | Some err \<Rightarrow> errors_is err err_canceled) \<longleftrightarrow>
     stops_well (\<lambda>err. err = err_server_closed) p"
  by (auto simp: run_ocpp_app_def stops_well_def Let_def split: run_end.split option.split)

lemmas process_defs = auth_process_def sessions_process_def billing_process_def telemetry_process_def
  ocpp_process_def gateway_process_def

lemmas run_defs = run_auth_app_def run_app_def run_gateway_app_def

subsection \<open>Who serves where\<close>

definition platform_up :: "platform \<Rightarrow> bool" where
  "platform_up p \<longleftrightarrow> config_file (pf_sys p) = [] \<and> logger_ok p \<and>
     (\<forall>dsn. pf_open p dsn = None \<and> pf_ping_db p dsn = None) \<and> (\<forall>opts. pf_ping_redis p opts = None)"

lemma platform_up_simps:
  assumes "platform_up p"
  shows "config_file (pf_sys p) = []" "logger_ok p" "db_ok p dsn \<longleftrightarrow> \<not> blank dsn" "redis_ok p addr pw \<longleftrightarrow> \<not> blank addr"
  using assms by (auto simp: platform_up_def db_ok_def redis_ok_def)

lemma not_blank_Nil: "\<not> blank s \<Longrightarrow> s \<noteq> []"
  by (auto simp: blank_def)

lemmas listen_simps = started_iff process_defs Let_def new_server_def new_gateway_server_def new_billing_app_def
  new_telemetry_app_def new_gateway_app_def new_auth_app_iff new_sessions_app_iff new_db_app_iff new_ocpp_app_iff
  auth_http_address_def sessions_http_address_def billing_http_address_def telemetry_http_address_def
  ocpp_http_address_def gateway_http_address_def ocpp_config_simps

lemma auth_listens:
  assumes "platform_up p"
  shows "Listen x \<in> set (snd (main_of (auth_process bc jw) p)) \<longleftrightarrow>
      int_of (pf_sys p) ''AUTH_JWT_EXPIRES_MINUTES'' 60 \<noteq> None \<and> \<not> blank (text_of (pf_sys p) ''AUTH_POSTGRES_DSN'' []) \<and>
      text_of (pf_sys p) ''AUTH_JWT_SECRET'' [] \<noteq> [] \<and> x = http_address ''8080'' (text_of (pf_sys p) ''AUTH_HTTP_PORT'' ''8080'')"
  unfolding auth.main_listen_iff
  by (auto simp: listen_simps platform_up_simps [OF assms] load_auth_iff [OF platform_up_simps(1) [OF assms]]
      dest: not_blank_Nil)

lemma sessions_listens:
  assumes "platform_up p"
  shows "Listen x \<in> set (snd (main_of (sessions_process client) p)) \<longleftrightarrow>
      int_of (pf_sys p) ''SESSIONS_REDIS_DB'' 0 \<noteq> None \<and> int_of (pf_sys p) ''SESSIONS_REDIS_TTL'' 86400 \<noteq> None \<and>
      \<not> blank (text_of (pf_sys p) ''SESSIONS_POSTGRES_DSN'' []) \<and>
      \<not> blank (text_of (pf_sys p) ''SESSIONS_REDIS_ADDR'' ''localhost:6379'') \<and>
      x = http_address ''8082'' (text_of (pf_sys p) ''SESSIONS_HTTP_PORT'' ''8082'')"
  unfolding sessions.main_listen_iff
  by (auto simp: listen_simps platform_up_simps [OF assms] load_sessions_iff [OF platform_up_simps(1) [OF assms]]
      dest: not_blank_Nil)

lemma billing_listens:
  assumes "platform_up p"
  shows "Listen x \<in> set (snd (main_of billing_process p)) \<longleftrightarrow>
      \<not> blank (text_of (pf_sys p) ''BILLING_POSTGRES_DSN'' []) \<and>
      x = http_address ''8083'' (text_of (pf_sys p) ''BILLING_HTTP_PORT'' ''8083'')"
  unfolding billing.main_listen_iff
  by (auto simp: listen_simps platform_up_simps [OF assms] load_billing_iff [OF platform_up_simps(1) [OF assms]]
      dest: not_blank_Nil)

lemma telemetry_listens:
  assumes "platform_up p"
  shows "Listen x \<in> set (snd (main_of telemetry_process p)) \<longleftrightarrow>
      \<not> blank (text_of (pf_sys p) ''TELEMETRY_POSTGRES_DSN'' []) \<and>
      x = http_address ''8084'' (text_of (pf_sys p) ''TELEMETRY_HTTP_PORT'' ''8084'')"
  unfolding telemetry.main_listen_iff
  by (auto simp: listen_simps platform_up_simps [OF assms] load_telemetry_iff [OF platform_up_simps(1) [OF assms]]
      dest: not_blank_Nil)

lemma ocpp_listens:
  assumes "platform_up p"
  shows "Listen x \<in> set (snd (main_of (ocpp_process upgrade net) p)) \<longleftrightarrow>
      int_of (pf_sys p) ''OCPP_PING_INTERVAL'' 30 \<noteq> None \<and> int_of (pf_sys p) ''OCPP_WRITE_TIMEOUT'' 15 \<noteq> None \<and>
      \<not> blank (text_of (pf_sys p) ''OCPP_POSTGRES_DSN'' []) \<and>
      x = http_address ''8081'' (text_of (pf_sys p) ''OCPP_HTTP_PORT'' ''8081'')"
  unfolding ocpp.main_listen_iff
  by (auto simp: listen_simps platform_up_simps [OF assms] load_ocpp_iff [OF platform_up_simps(1) [OF assms]]
      dest: not_blank_Nil)

lemma gateway_listens:
  assumes "platform_up p"
  shows "Listen x \<in> set (snd (main_of (gateway_process jw gnet) p)) \<longleftrightarrow>
      int_of (pf_sys p) ''API_GATEWAY_HTTP_TIMEOUT'' 5 \<noteq> None \<and> \<not> blank (text_of (pf_sys p) ''API_GATEWAY_JWT_SECRET'' []) \<and>
      x = http_address ''8080'' (text_of (pf_sys p) ''API_GATEWAY_HTTP_PORT'' ''8080'')"
  unfolding gateway.main_listen_iff
  by (auto simp: listen_simps platform_up_simps [OF assms] load_gateway_iff [OF platform_up_simps(1) [OF assms]]
      dest: not_blank_Nil)

subsection \<open>Properties\<close>

definition releases :: "'h entry_point \<Rightarrow> platform \<Rightarrow> bool" where
  "releases pc p \<longleftrightarrow>
     (case main_of pc p of (out, acts) \<Rightarrow>
        (case started pc p of
           None \<Rightarrow> holding acts ([], []) = Some ([], []) \<and> \<not> listens acts \<and> out \<noteq> Returned
         | Some a \<Rightarrow> holding acts ([], []) = Some (if out = Returned then ([], []) else handles a) \<and>
             (\<forall>x. Listen x \<in> set acts \<longleftrightarrow> x = se_addr (ap_server a))))"

text \<open>C15: No program uses or closes a handle it does not hold. One that does not come to serve, for whichever
  reason, has closed what it opened, the sessions service its database when Redis does not answer; one
  that returns from \<open>main\<close> has closed everything; only one whose run ends in an error still holds the
  handles of its application, and exits.\<close>

theorem resources_released:
  "releases (auth_process bc jw) p \<and> releases (sessions_process client) p \<and> releases billing_process p \<and>
   releases telemetry_process p \<and> releases (ocpp_process upgrade net) p \<and> releases (gateway_process jw gnet) p"
  unfolding releases_def
  by (intro conjI auth.main_contract sessions.main_contract billing.main_contract telemetry.main_contract
      ocpp.main_contract gateway.main_contract)

text \<open>A process that serves returns from \<open>main\<close>, having closed its handles, exactly when its run ends
  without an error, with a cancelled context, or with a closed server; in particular a shutdown that does
  not finish within its ten seconds is a failure, which exits without closing them. The OCPP server takes
  only \<open>http.ErrServerClosed\<close> itself for a closed server, the others also an error that wraps it.\<close>

theorem graceful_exit:
  "let well = stops_well (\<lambda>err. errors_is err err_server_closed) p
   in (fst (main_of (auth_process bc jw) p) = Returned \<longleftrightarrow> started (auth_process bc jw) p \<noteq> None \<and> well) \<and>
    (fst (main_of (sessions_process client) p) = Returned \<longleftrightarrow> started (sessions_process client) p \<noteq> None \<and> well) \<and>
    (fst (main_of billing_process p) = Returned \<longleftrightarrow> started billing_process p \<noteq> None \<and> well) \<and>
    (fst (main_of telemetry_process p) = Returned \<longleftrightarrow> started telemetry_process p \<noteq> None \<and> well) \<and>
    (fst (main_of (ocpp_process upgrade net) p) = Returned \<longleftrightarrow> started (ocpp_process upgrade net) p \<noteq> None \<and>
       stops_well (\<lambda>err. err = err_server_closed) p) \<and>
    (fst (main_of (gateway_process jw gnet) p) = Returned \<longleftrightarrow> started (gateway_process jw gnet) p \<noteq> None \<and> well) \<and>
    \<not> stops_well (\<lambda>err. errors_is err err_server_closed) (p\<lparr>pf_run := ContextDone (Some err_deadline)\<rparr>)"
proof -
  have run: "(case fst (run_auth_app p a) of None \<Rightarrow> True | Some err \<Rightarrow> errors_is err err_canceled) \<longleftrightarrow>
      stops_well (\<lambda>err. errors_is err err_server_closed) p"
    "(case fst (run_app p b) of None \<Rightarrow> True | Some err \<Rightarrow> errors_is err err_canceled) \<longleftrightarrow>
      stops_well (\<lambda>err. errors_is err err_server_closed) p"
    "(case fst (run_gateway_app p c) of None \<Rightarrow> True | Some err \<Rightarrow> errors_is err err_canceled) \<longleftrightarrow>
      stops_well (\<lambda>err. errors_is err err_server_closed) p" for a :: "'u app" and b :: "'v app" and c :: "'x app"
    unfolding run_auth_app_def run_app_def run_gateway_app_def by (rule server_run_ends)+
  have dl: "\<not> stops_well (\<lambda>err. errors_is err err_server_closed) (p\<lparr>pf_run := ContextDone (Some err_deadline)\<rparr>)"
    by (simp add: stops_well_def)
  have pc: "pc_run (auth_process bc jw) = run_auth_app" "pc_run (sessions_process client) = run_app"
    "pc_run billing_process = run_app" "pc_run telemetry_process = run_app"
    "pc_run (ocpp_process upgrade net) = run_ocpp_app" "pc_run (gateway_process jw gnet) = run_gateway_app"
    by (simp_all add: process_defs)
  show ?thesis
    unfolding Let_def auth.main_returns sessions.main_returns billing.main_returns telemetry.main_returns
      ocpp.main_returns gateway.main_returns pc run ocpp_run_ends
    using dl by simp
qed

text \<open>C31: With its database and Redis up and no configuration file, each program serves exactly when the
  variables that it needs hold more than white space (the secret of the auth service need only not be
  empty) and the numbers among its variables are 64-bit integers; it listens at the address of its port
  variable, or of its default port, and nowhere else.\<close>

theorem required_variables:
  assumes "platform_up p" and y: "y = pf_sys p"
  shows "(Listen x \<in> set (snd (main_of (auth_process bc jw) p)) \<longleftrightarrow>
      int_of y ''AUTH_JWT_EXPIRES_MINUTES'' 60 \<noteq> None \<and> \<not> blank (text_of y ''AUTH_POSTGRES_DSN'' []) \<and>
      text_of y ''AUTH_JWT_SECRET'' [] \<noteq> [] \<and> x = http_address ''8080'' (text_of y ''AUTH_HTTP_PORT'' ''8080'')) \<and>
    (Listen x \<in> set (snd (main_of (sessions_process client) p)) \<longleftrightarrow>
      int_of y ''SESSIONS_REDIS_DB'' 0 \<noteq> None \<and> int_of y ''SESSIONS_REDIS_TTL'' 86400 \<noteq> None \<and>
      \<not> blank (text_of y ''SESSIONS_POSTGRES_DSN'' []) \<and>
      \<not> blank (text_of y ''SESSIONS_REDIS_ADDR'' ''localhost:6379'') \<and>
      x = http_address ''8082'' (text_of y ''SESSIONS_HTTP_PORT'' ''8082'')) \<and>
    (Listen x \<in> set (snd (main_of billing_process p)) \<longleftrightarrow>
      \<not> blank (text_of y ''BILLING_POSTGRES_DSN'' []) \<and>
      x = http_address ''8083'' (text_of y ''BILLING_HTTP_PORT'' ''8083'')) \<and>
    (Listen x \<in> set (snd (main_of telemetry_process p)) \<longleftrightarrow>
      \<not> blank (text_of y ''TELEMETRY_POSTGRES_DSN'' []) \<and>
      x = http_address ''8084'' (text_of y ''TELEMETRY_HTTP_PORT'' ''8084'')) \<and>
    (Listen x \<in> set (snd (main_of (ocpp_process upgrade net) p)) \<longleftrightarrow>
      int_of y ''OCPP_PING_INTERVAL'' 30 \<noteq> None \<and> int_of y ''OCPP_WRITE_TIMEOUT'' 15 \<noteq> None \<and>
      \<not> blank (text_of y ''OCPP_POSTGRES_DSN'' []) \<and>
      x = http_address ''8081'' (text_of y ''OCPP_HTTP_PORT'' ''8081'')) \<and>
    (Listen x \<in> set (snd (main_of (gateway_process jw gnet) p)) \<longleftrightarrow>
      int_of y ''API_GATEWAY_HTTP_TIMEOUT'' 5 \<noteq> None \<and> \<not> blank (text_of y ''API_GATEWAY_JWT_SECRET'' []) \<and>
      x = http_address ''8080'' (text_of y ''API_GATEWAY_HTTP_PORT'' ''8080''))"
  unfolding y
  by (intro conjI auth_listens sessions_listens billing_listens telemetry_listens ocpp_listens gateway_listens assms(1))

subsection \<open>Witnesses\<close>

text \<open>A platform on which everything works, with the variables of \<open>demo_sys\<close>.\<close>

definition demo_platform :: platform where
  "demo_platform = \<lparr>pf_sys = demo_sys, pf_set_level = (\<lambda>_. None), pf_build_logger = (\<lambda>_. None), pf_open = (\<lambda>_. None),
     pf_ping_db = (\<lambda>_. None), pf_close_db = None, pf_ping_redis = (\<lambda>_. None), pf_close_redis = None,
     pf_run = ContextDone None\<rparr>"

lemma demo_platform_up: "platform_up demo_platform"
  by (simp add: platform_up_def demo_platform_def demo_sys_facts logger_ok_def new_logger_def Let_def)

theorem required_variables_witness:
  "Listen '':8081'' \<in> set (snd (main_of (ocpp_process (\<lambda>r. (http_error [] 400, False)) (\<lambda>c w. (Inl ErrSyntax, w :: unit)))
     demo_platform)) \<and> Listen '':8083'' \<notin> set (snd (main_of billing_process demo_platform))"
proof -
  have dsn: "\<not> blank ''dsn''" "blank []" "http_address ''8081'' ''8081'' = '':8081''" by code_simp+
  have y: "pf_sys demo_platform = demo_sys" by (simp add: demo_platform_def)
  have vars: "text_of demo_sys ''BILLING_POSTGRES_DSN'' [] = []" "text_of demo_sys ''OCPP_HTTP_PORT'' ''8081'' = ''8081''"
    by (simp_all add: text_of_def demo_sys_def)
  let ?up = "\<lambda>r. (http_error [] 400, False)" and ?net = "\<lambda>c w. (Inl ErrSyntax, w :: unit)"
  note all = required_variables [OF demo_platform_up refl, where upgrade = ?up and net = ?net, unfolded y]
  note ocpp = all [THEN conjunct2, THEN conjunct2, THEN conjunct2, THEN conjunct2, THEN conjunct1]
  show ?thesis
  proof
    show "Listen '':8081'' \<in> set (snd (main_of (ocpp_process ?up ?net) demo_platform))"
      by (rule iffD2 [OF ocpp]) (simp add: demo_sys_facts demo_timeout dsn vars)
    show "Listen '':8083'' \<notin> set (snd (main_of billing_process demo_platform))"
      using all [THEN conjunct2, THEN conjunct2, THEN conjunct1] by (simp add: dsn vars)
  qed
qed

end
