(* ===== verification/AuthProps.thy ===== *)
theory AuthProps
  imports Auth
begin

section \<open>The auth service: properties\<close>

subsection \<open>The table of users\<close>

definition user_ok :: "int \<Rightarrow> User \<Rightarrow> bool" where
  "user_ok next_id u \<longleftrightarrow> 1 \<le> us_id u \<and> us_id u < next_id \<and> us_role u \<noteq> []"

definition users_ok :: "auth_state \<Rightarrow> bool" where
  "users_ok s \<longleftrightarrow>
     1 \<le> av_seq s \<and> distinct (map us_id (av_users s)) \<and> distinct (map us_email (av_users s)) \<and>
     (\<forall>u \<in> set (av_users s). user_ok (av_seq s) u)"

lemma find_email_None: "find_email m users = None \<longleftrightarrow> m \<notin> us_email ` set users"
  by (auto simp: find_email_def find_None_iff)

lemma find_email_Some: "find_email m users = Some u \<Longrightarrow> u \<in> set users \<and> us_email u = m"
  by (auto simp: find_email_def find_Some_iff)

lemma find_email_append:
  "find_email m (users @ [u]) =
     (case find_email m users of Some v \<Rightarrow> Some v | None \<Rightarrow> if us_email u = m then Some u else None)"
  by (induction users) (auto simp: find_email_def)

lemma create_user_cases:
  obtains err n' where "create_user uni e n u s = (Inl err, s\<lparr>av_seq := n'\<rparr>)" and "av_seq s \<le> n'"
  | v where "create_user uni e n u s = (Inr v, s\<lparr>av_users := av_users s @ [v], av_seq := av_seq s + 1\<rparr>)"
      and "v = u\<lparr>us_id := av_seq s, us_email := normalize_email uni (us_email u), us_created_at := db_now e\<rparr>"
      and "find_email (us_email v) (av_users s) = None"
proof (cases "db_fault e n")
  case None
  note fault = this
  show thesis
  proof (cases "in_int64 (av_seq s)")
    case False
    then show thesis using fault by (intro that(1) [of _ "av_seq s"]) (simp_all add: create_user_def Let_def)
  next
    case seq: True
    show thesis
    proof (cases "find_email (normalize_email uni (us_email u)) (av_users s)")
      case None
      then show thesis using fault seq
        by (intro that(2) [of "u\<lparr>us_id := av_seq s, us_email := normalize_email uni (us_email u),
            us_created_at := db_now e\<rparr>"]) (simp_all add: create_user_def Let_def)
    next
      case (Some v)
      then show thesis using fault seq
        by (intro that(1) [of _ "av_seq s + 1"]) (simp_all add: create_user_def Let_def)
    qed
  qed
next
  case (Some err)
  then show thesis by (intro that(1) [of err "av_seq s"]) (simp_all add: create_user_def Let_def)
qed

text \<open>A signup leaves the users alone, or appends one whose email was free.\<close>

lemma signup_cases:
  obtains err n' where "signup d e m p r s = (Inl err, s\<lparr>av_seq := n'\<rparr>)" and "av_seq s \<le> n'"
  | v h where "signup d e m p r s = (Inr v, s\<lparr>av_users := av_users s @ [v], av_seq := av_seq s + 1\<rparr>)"
      and "hash_password (ad_hasher d) e p = Inr h"
      and "v = \<lparr>us_id = av_seq s, us_email = normalize_email (ad_uni d) (normalize_email (ad_uni d) m),
                us_hash = h, us_role = (if r = [] then ''user'' else r), us_created_at = db_now e\<rparr>"
      and "find_email (us_email v) (av_users s) = None" and "normalize_email (ad_uni d) m \<noteq> []"
proof -
  let ?m = "normalize_email (ad_uni d) m"
  consider (guard) err where "signup d e m p r s = (Inl err, s)"
    | (create) h where "hash_password (ad_hasher d) e p = Inr h" and "?m \<noteq> []"
        and "signup d e m p r s = create_user (ad_uni d) e 1
          \<lparr>us_id = 0, us_email = ?m, us_hash = h, us_role = (if r = [] then ''user'' else r),
           us_created_at = 0\<rparr> s"
  proof (cases "?m = [] \<or> p = []")
    case True
    then show ?thesis using guard by (cases "?m = []") (simp_all add: signup_def Let_def)
  next
    case False
    note ne = this
    show ?thesis
    proof (cases "get_by_email (ad_uni d) e 0 ?m s")
      case (Inl err)
      show ?thesis
      proof (cases "err = err_user_not_found")
        case True
        then show ?thesis using ne Inl guard create
          by (cases "hash_password (ad_hasher d) e p") (simp_all add: signup_def Let_def)
      qed (use ne Inl guard in \<open>simp add: signup_def Let_def\<close>)
    qed (use ne guard in \<open>simp add: signup_def Let_def\<close>)
  qed
  then show thesis
  proof cases
    case (guard err)
    then show thesis by (intro that(1) [of err "av_seq s"]) simp_all
  next
    case (create h)
    let ?u = "\<lparr>us_id = 0, us_email = ?m, us_hash = h, us_role = (if r = [] then ''user'' else r),
        us_created_at = 0\<rparr>"
    show thesis
      by (cases rule: create_user_cases [of "ad_uni d" e 1 ?u s]) (use create that in simp_all)
  qed
qed

lemma users_ok_seq: "users_ok s \<Longrightarrow> av_seq s \<le> n \<Longrightarrow> users_ok (s\<lparr>av_seq := n\<rparr>)"
  by (auto simp: users_ok_def user_ok_def)

lemma users_ok_append:
  assumes "users_ok s" and "us_id v = av_seq s" and "us_role v \<noteq> []"
    and "find_email (us_email v) (av_users s) = None"
  shows "users_ok (s\<lparr>av_users := av_users s @ [v], av_seq := av_seq s + 1\<rparr>)"
  using assms by (fastforce simp: users_ok_def user_ok_def find_email_None)

lemma signup_ok:
  assumes "users_ok s" shows "users_ok (snd (signup d e m p r s))"
  by (cases rule: signup_cases [of d e m p r s])
    (use assms in \<open>auto intro: users_ok_seq users_ok_append\<close>)

lemma signup_handler_ok:
  assumes "users_ok s" shows "users_ok (snd (signup_handler d e r s))"
proof (cases "decode_body signup_fields empty_login (rq_body r)")
  case (Inr req)
  obtain x s1 where x: "signup d e (trim_space (lr_email req)) (trim_space (lr_password req)) (lr_role req) s = (x, s1)"
    by fastforce
  then have "users_ok s1" using signup_ok [OF assms] by (metis snd_conv)
  then show ?thesis using assms by (auto simp: signup_handler_def Inr Let_def x split: sum.split)
qed (use assms in \<open>simp add: signup_handler_def\<close>)

lemma login_handler_state [simp]: "snd (login_handler d e r s) = s"
  by (auto simp: login_handler_def Let_def split: sum.split)

interpretation users: service_inv "auth_router d" users_ok for d
  by unfold_locales (simp add: auth_router_def serve_mux_def method_guard_def signup_handler_ok)

definition init_auth :: auth_state where
  "init_auth = \<lparr>av_users = [], av_seq = 1\<rparr>"

lemma init_auth_ok: "users_ok init_auth"
  by (simp add: users_ok_def init_auth_def)

lemma login_answer:
  assumes "decode_body login_fields empty_login (rq_body r) = Inr req"
    and "trim_space (lr_email req) \<noteq> []" and pw: "trim_space (lr_password req) \<noteq> []"
    and m: "m = normalize_email (ad_uni d) (normalize_email (ad_uni d) (trim_space (lr_email req)))"
    and "normalize_email (ad_uni d) (trim_space (lr_email req)) \<noteq> []"
    and "db_fault e 0 = None" and "users_ok s"
    and sign: "\<And>c. jw_sign (ad_jwt d) (tk_secret (ad_tokens d)) c = Inr (tok c)"
  shows "fst (login_handler d e r s) =
    (case find_email m (av_users s) of
       None \<Rightarrow> write_error 401 ''invalid credentials''
     | Some u \<Rightarrow>
         if is_ok (bc_compare (ad_hasher d) (us_hash u) (trim_space (lr_password req)))
         then write_json 200 (Some (JObj [(''token'', JStr (tok (token_claims (ad_tokens d) (clock e 0)
                (us_id u) (us_role u)))), (''token_type'', JStr ''Bearer'')]))
         else write_error 401 ''invalid credentials'')"
proof -
  have "us_id u \<noteq> 0" if "find_email m (av_users s) = Some u" for u
    using find_email_Some [OF that] assms(7) by (auto simp: users_ok_def user_ok_def)
  then show ?thesis using assms(1,2,5,6) pw
    by (auto simp: login_handler_def login_def get_by_email_def m [symmetric] compare_password_def
        generate_token_def sign Let_def split: option.split sum.split)
qed

subsection \<open>Properties\<close>

text \<open>Whatever requests the service receives, no two users share an email or an id, ids are
  positive and below the next value of the sequence, and every user has a role.\<close>

theorem users_unique: "users_ok (snd (serve_all (auth_router d) es init_auth))"
  by (rule users.run) (rule init_auth_ok)

text \<open>A login is answered with a token exactly when the email, trimmed and lower-cased, belongs to a
  user whose hash matches the trimmed password; an unknown email and a wrong password get the same
  401, so that a caller cannot tell which emails are registered.\<close>

theorem login_decides:
  assumes "decode_body login_fields empty_login (rq_body r) = Inr req"
    and "trim_space (lr_email req) \<noteq> []" and pw: "trim_space (lr_password req) \<noteq> []"
    and m: "m = normalize_email (ad_uni d) (normalize_email (ad_uni d) (trim_space (lr_email req)))"
    and "normalize_email (ad_uni d) (trim_space (lr_email req)) \<noteq> []"
    and "db_fault e 0 = None" and "users_ok s"
    and sign: "\<And>c. jw_sign (ad_jwt d) (tk_secret (ad_tokens d)) c = Inr (tok c)"
  shows "fst (login_handler d e r s) =
    (case find_email m (av_users s) of
       None \<Rightarrow> write_error 401 ''invalid credentials''
     | Some u \<Rightarrow>
         if is_ok (bc_compare (ad_hasher d) (us_hash u) (trim_space (lr_password req)))
         then write_json 200 (Some (JObj [(''token'', JStr (tok (token_claims (ad_tokens d) (clock e 0)
                (us_id u) (us_role u)))), (''token_type'', JStr ''Bearer'')]))
         else write_error 401 ''invalid credentials'')"
  using assms by (rule login_answer)

text \<open>C26: A user who has signed up can log in with the same password and any spelling of the email that
  trims and lower-cases to the same address, and the token carries the user's id and the role of
  the signup request (\<open>user\<close> when it named none): the caller chooses the role.\<close>

theorem signup_then_login:
  assumes "decode_body signup_fields empty_login (rq_body r) = Inr a"
    and "rs_status (fst (signup_handler d e r s)) = 201"
    and "decode_body login_fields empty_login (rq_body r') = Inr b"
    and "normalize_email (ad_uni d) (trim_space (lr_email b)) = normalize_email (ad_uni d) (trim_space (lr_email a))"
    and "trim_space (lr_email b) \<noteq> []" and "trim_space (lr_password b) = trim_space (lr_password a)"
    and "db_fault e' 0 = None" and "users_ok s"
    and "\<And>c. jw_sign (ad_jwt d) (tk_secret (ad_tokens d)) c = Inr (tok c)"
    and "\<And>e p h. bc_generate (ad_hasher d) e p = Inr h \<Longrightarrow> bc_compare (ad_hasher d) h p = Inr ()"
  shows "\<exists>u. u \<in> set (av_users (snd (signup_handler d e r s))) \<and>
    us_role u = (if lr_role a = [] then ''user'' else lr_role a) \<and>
    fst (login_handler d e' r' (snd (signup_handler d e r s))) =
      write_json 200 (Some (JObj [(''token'', JStr (tok (token_claims (ad_tokens d) (clock e' 0)
        (us_id u) (us_role u)))), (''token_type'', JStr ''Bearer'')]))"
proof -
  let ?m = "trim_space (lr_email a)" and ?p = "trim_space (lr_password a)"
  let ?s = "snd (signup_handler d e r s)"
  have guard: "?m \<noteq> []" "?p \<noteq> []"
    using assms(2) by (auto simp: signup_handler_def assms(1) Let_def split: if_splits)
  obtain v h where sig: "signup d e ?m ?p (lr_role a) s = (Inr v, s\<lparr>av_users := av_users s @ [v], av_seq := av_seq s + 1\<rparr>)"
    and h: "hash_password (ad_hasher d) e ?p = Inr h"
    and v: "v = \<lparr>us_id = av_seq s, us_email = normalize_email (ad_uni d) (normalize_email (ad_uni d) ?m),
        us_hash = h, us_role = (if lr_role a = [] then ''user'' else lr_role a), us_created_at = db_now e\<rparr>"
    and free: "find_email (us_email v) (av_users s) = None" and ne: "normalize_email (ad_uni d) ?m \<noteq> []"
  proof (cases rule: signup_cases [of d e ?m ?p "lr_role a" s])
    case (1 err n')
    then show ?thesis using assms(2) guard by (simp add: signup_handler_def assms(1) Let_def split: if_splits)
  qed (use that in blast)
  have s1: "?s = s\<lparr>av_users := av_users s @ [v], av_seq := av_seq s + 1\<rparr>"
    using guard by (simp add: signup_handler_def assms(1) Let_def sig)
  have "bc_compare (ad_hasher d) h ?p = Inr ()"
    using h guard assms(10) [of e ?p h] by (simp add: hash_password_def)
  moreover have "find_email (us_email v) (av_users ?s) = Some v"
    using free by (simp add: s1 find_email_append)
  moreover have "normalize_email (ad_uni d) (trim_space (lr_email b)) \<noteq> []" using ne assms(4) by simp
  moreover have "us_email v = normalize_email (ad_uni d) (normalize_email (ad_uni d) (trim_space (lr_email b)))"
    using assms(4) by (simp add: v)
  moreover have "users_ok ?s" using assms(8) by (rule signup_handler_ok)
  moreover have "v \<in> set (av_users ?s)" by (simp add: s1)
  ultimately show ?thesis
    using login_answer [where m = "us_email v" and d = d and s = ?s and e = e' and r = r' and req = b and
        tok = tok] assms(3,5,6,7,9) guard
    by (intro exI [of _ v]) (simp add: v)
qed

subsection \<open>Witnesses\<close>

definition toy_bcrypt :: bcrypt where
  "toy_bcrypt = \<lparr>bc_generate = (\<lambda>e p. Inr (CHR ''$'' # p)),
     bc_compare = (\<lambda>h p. if h = CHR ''$'' # p then Inr () else Inl (ErrExt ''mismatch''))\<rparr>"

definition toy_jwt :: jwt where
  "toy_jwt = \<lparr>jw_sign = (\<lambda>k c. Inr ''t''), jw_parse = (\<lambda>k t tok. Inl ErrSyntax)\<rparr>"

definition toy_deps :: auth_deps where
  "toy_deps = \<lparr>ad_uni = id, ad_hasher = toy_bcrypt, ad_jwt = toy_jwt, ad_tokens = new_token_service ''k'' 0\<rparr>"

definition sample_signup :: request where
  "sample_signup = post_body ''/auth/signup'' (JObj [(''email'', JStr ''Ann@x.io''), (''password'', JStr ''pw'')])"

definition sample_login :: request where
  "sample_login = post_body ''/auth/login'' (JObj [(''email'', JStr '' ann@X.io''), (''password'', JStr ''pw'')])"

lemma decode_samples:
  "decode_body signup_fields empty_login (rq_body sample_signup) =
     Inr \<lparr>lr_email = ''Ann@x.io'', lr_password = ''pw'', lr_role = []\<rparr>"
  "decode_body login_fields empty_login (rq_body sample_login) =
     Inr \<lparr>lr_email = '' ann@X.io'', lr_password = ''pw'', lr_role = []\<rparr>"
  by (simp_all add: sample_signup_def sample_login_def post_body_def decode_body_def decode_struct_def
      signup_fields_def login_fields_def field_defs find_field_def)

lemma trim_samples:
  "trim_space ''Ann@x.io'' = ''Ann@x.io''" "trim_space '' ann@X.io'' = ''ann@X.io''" "trim_space ''pw'' = ''pw''"
  "trim_space ''ann@X.io'' = ''ann@X.io''" "trim_space ''ann@x.io'' = ''ann@x.io''"
  by code_simp+

lemma lower_samples:
  "to_lower id ''Ann@x.io'' = ''ann@x.io''" "to_lower id ''ann@X.io'' = ''ann@x.io''"
  "to_lower id ''ann@x.io'' = ''ann@x.io''"
  by (simp_all only: to_lower_def) code_simp+

theorem signup_then_login_witness:
  "rs_status (fst (login_handler toy_deps (quiet_env 5) sample_login
     (snd (signup_handler toy_deps (quiet_env 0) sample_signup init_auth)))) = 200"
proof -
  have "rs_status (fst (signup_handler toy_deps (quiet_env 0) sample_signup init_auth)) = 201"
    by (simp add: signup_handler_def decode_samples trim_samples signup_def normalize_email_def toy_deps_def
        lower_samples get_by_email_def quiet_env_def init_auth_def find_email_def hash_password_def
        toy_bcrypt_def create_user_def in_int64_def Let_def)
  from signup_then_login [OF decode_samples(1) this decode_samples(2), of "quiet_env 5" "\<lambda>_. ''t''"]
  show ?thesis
    by (auto simp: trim_samples normalize_email_def toy_deps_def lower_samples quiet_env_def init_auth_ok
        toy_jwt_def toy_bcrypt_def)
qed

end
