(* ===== verification/OcppRuns.thy ===== *)
theory OcppRuns
  imports OcppCorrect
begin

section \<open>The OCPP server: what a run tells the other services\<close>

text \<open>
  Runs against a recording world: the calls made so far, in order, and an arbitrary function of a
  call and its past for the answers. The invariant counts session starts and billing
  notifications; the theorems at the end are the properties of the server.
\<close>

subsection \<open>Recorded calls\<close>

type_synonym trace = "http_call list"

definition recording :: "(http_call \<Rightarrow> trace \<Rightarrow> response res) \<Rightarrow> trace transport" where
  "recording answer c w = (answer c w, w @ [c])"

definition ends_with :: "string \<Rightarrow> string \<Rightarrow> bool" where
  "ends_with path url \<longleftrightarrow> take (length path) (rev url) = rev path"

definition calls :: "string \<Rightarrow> trace \<Rightarrow> nat" where
  "calls path w = length (filter (\<lambda>c. ends_with path (hc_url c)) w)"

abbreviation start_path :: string where "start_path \<equiv> ''/internal/ocpp/session-start''"
abbreviation stop_path :: string where "stop_path \<equiv> ''/internal/ocpp/session-stop''"
abbreviation stopped_path :: string where "stopped_path \<equiv> ''/internal/ocpp/session-stopped''"
abbreviation meter_path :: string where "meter_path \<equiv> ''/internal/ocpp/meter-values''"

lemma calls_snoc:
  "calls path (w @ [json_post url j]) = calls path w + (if ends_with path url then 1 else 0)"
  by (simp add: calls_def json_post_def)

lemma calls_Nil [simp]: "calls path [] = 0"
  by (simp add: calls_def)

lemma ends_with_paths [simp]:
  "ends_with start_path (b @ start_path)" "\<not> ends_with start_path (b @ stop_path)"
  "\<not> ends_with start_path (b @ stopped_path)" "\<not> ends_with start_path (b @ meter_path)"
  "ends_with stopped_path (b @ stopped_path)" "\<not> ends_with stopped_path (b @ stop_path)"
  "\<not> ends_with stopped_path (b @ start_path)" "\<not> ends_with stopped_path (b @ meter_path)"
  by (simp_all add: ends_with_def)

lemma post_recording:
  "snd (post (recording answer) base path b w) = w \<or>
     (\<exists>j. snd (post (recording answer) base path b w) = w @ [json_post (base @ path) j])"
  by (cases b) (auto simp: post_def recording_def split: sum.splits)

lemma complete_recording:
  "snd (complete_from_ocpp (recording answer) base r w) = w \<or>
     (\<exists>j. snd (complete_from_ocpp (recording answer) base r w) = w @ [json_post (base @ stop_path) j])"
  using post_recording by (simp add: complete_from_ocpp_def)

lemma stopped_recording:
  "snd (notify_session_stop (recording answer) base r w) = w \<or>
     (\<exists>j. snd (notify_session_stop (recording answer) base r w) = w @ [json_post (base @ stopped_path) j])"
  using post_recording by (simp add: notify_session_stop_def)

lemma meter_recording:
  "snd (notify_meter_value (recording answer) base r w) = w \<or>
     (\<exists>j. snd (notify_meter_value (recording answer) base r w) = w @ [json_post (base @ meter_path) j])"
  using post_recording by (simp add: notify_meter_value_def)

lemma create_recording:
  assumes "create_from_ocpp (recording answer) base r w = (x, w')"
  obtains "w' = w" and "x = Inr 0" | j where "w' = w @ [json_post (base @ start_path) j]"
proof (cases "base = []")
  case False
  moreover obtain j where "json_start_session r = Some j" using json_start_session_Some by blast
  ultimately have "w' = w @ [json_post (base @ start_path) j]"
    using assms by (auto simp: create_from_ocpp_def post_start_def recording_def
        split: sum.splits if_splits)
  then show thesis by (rule that(2))
qed (use assms that in simp)

subsection \<open>Starts and bills\<close>

definition live :: "transaction_store \<Rightarrow> string set" where
  "live txs = {t. \<exists>c. tx_get txs t = Some c \<and> 0 < tc_session_id c}"

definition billed_ok :: "trace ocpp \<Rightarrow> bool" where
  "billed_ok s \<longleftrightarrow>
     finite (dom (oc_txs s)) \<and>
     calls stopped_path (oc_world s) + card (live (oc_txs s)) \<le> calls start_path (oc_world s)"

lemma live_dom: "live txs \<subseteq> dom txs"
  by (auto simp: live_def tx_get_def)

lemma live_set:
  "live (tx_set t c txs) = (if 0 < tc_session_id c then insert t (live txs) else live txs - {t})"
  by (auto simp: live_def tx.get_put)

lemma live_delete: "live (tx_delete t txs) = live txs - {t}"
  by (auto simp: live_def tx.get_del)

lemma card_live_set:
  assumes "finite (dom txs)"
  shows "card (live (tx_set t c txs)) \<le> card (live txs) + (if 0 < tc_session_id c then 1 else 0)"
proof -
  have "finite (live txs)" using assms live_dom by (rule finite_subset [rotated])
  moreover from this have "card (live txs - {t}) \<le> card (live txs)" by (intro card_mono) auto
  ultimately show ?thesis by (simp add: live_set card_insert_if)
qed

lemma card_live_delete:
  assumes "finite (dom txs)"
  shows "card (live (tx_delete t txs)) + (if t \<in> live txs then 1 else 0) = card (live txs)"
proof -
  have "finite (live txs)" using assms live_dom by (rule finite_subset [rotated])
  then show ?thesis using card.remove [of "live txs" t]
    by (cases "t \<in> live txs") (simp_all add: live_delete del: card_Diff_singleton)
qed

lemma start_world:
  assumes "decode_start p = Inr req" and net: "dp_net d = recording answer"
  obtains i j where "oc_txs (snd (start_transaction d e st p s)) =
       tx_set (transaction_id_of e st req) \<lparr>tc_session_id = i, tc_meter_start = st_meter_start req\<rparr> (oc_txs s)"
    and "(i = 0 \<and> oc_world (snd (start_transaction d e st p s)) = oc_world s) \<or>
       oc_world (snd (start_transaction d e st p s)) =
         oc_world s @ [json_post (the (dp_sessions d) @ start_path) j]"
proof (cases "dp_sessions d")
  case None
  then show thesis using assms
    by (intro that [of 0]) (simp_all add: start_transaction_def Let_def)
next
  case (Some base)
  let ?r = "\<lparr>ssr_station = st, ssr_connector = st_connector req,
      ssr_transaction = transaction_id_of e st req, ssr_meter_start = st_meter_start req\<rparr>"
  obtain x w' where c: "create_from_ocpp (recording answer) base ?r (oc_world s) = (x, w')"
    by fastforce
  show thesis
  proof (cases rule: create_recording [OF c])
    case 1
    then show thesis using assms Some c
      by (intro that [of 0]) (simp_all add: start_transaction_def Let_def)
  next
    case (2 j)
    then show thesis using assms Some c
      by (intro that [of "case x of Inl _ \<Rightarrow> 0 | Inr i \<Rightarrow> i" j])
        (simp_all add: start_transaction_def Let_def split: sum.split)
  qed
qed

lemma start_billed:
  assumes net: "dp_net d = recording answer" and ok: "billed_ok s"
  shows "billed_ok (snd (start_transaction d e st p s))"
proof (cases "decode_start p")
  case (Inr req)
  let ?s = "snd (start_transaction d e st p s)"
  obtain i j where txs: "oc_txs ?s = tx_set (transaction_id_of e st req)
        \<lparr>tc_session_id = i, tc_meter_start = st_meter_start req\<rparr> (oc_txs s)"
    and w: "(i = 0 \<and> oc_world ?s = oc_world s) \<or>
        oc_world ?s = oc_world s @ [json_post (the (dp_sessions d) @ start_path) j]"
    using start_world [OF Inr net] by metis
  have "card (live (oc_txs ?s)) \<le> card (live (oc_txs s)) + (if 0 < i then 1 else 0)"
    using card_live_set ok unfolding billed_ok_def txs by (metis TransactionContext.select_convs(1))
  moreover have "finite (dom (oc_txs ?s))"
    using ok by (simp add: txs billed_ok_def) (simp add: tx_set_def)
  ultimately show ?thesis
    using w ok by (auto simp: billed_ok_def calls_snoc split: if_splits)
qed (use ok in \<open>simp add: start_transaction_def\<close>)

lemma stop_world:
  assumes "decode_stop p = Inr req" and net: "dp_net d = recording answer"
    and s': "s' = snd (stop_transaction d e st p s)"
  obtains w where "w = oc_world s \<or> (\<exists>b j. w = oc_world s @ [json_post (b @ stop_path) j])"
    and "(tx_get (oc_txs s) (sp_transaction req) = None \<and> oc_txs s' = oc_txs s \<and> oc_world s' = w) \<or>
      (oc_txs s' = tx_delete (sp_transaction req) (oc_txs s) \<and>
         (oc_world s' = w \<or>
           sp_transaction req \<in> live (oc_txs s) \<and>
             (\<exists>b j. oc_world s' = w @ [json_post (b @ stopped_path) j])))"
proof -
  let ?en = "fst (stop_context (oc_txs s) req)"
  let ?r = "\<lparr>spr_transaction = sp_transaction req, spr_meter_stop = sp_meter_stop req,
      spr_reason = sp_reason req, spr_energy = ?en, spr_end_time = clock e 0\<rparr>"
  define w where "w = (case dp_sessions d of None \<Rightarrow> oc_world s
    | Some base \<Rightarrow> snd (complete_from_ocpp (dp_net d) base ?r (oc_world s)))"
  have "w = oc_world s \<or> (\<exists>b j. w = oc_world s @ [json_post (b @ stop_path) j])"
    using complete_recording by (fastforce simp: w_def net split: option.split)
  moreover have "(tx_get (oc_txs s) (sp_transaction req) = None \<and> oc_txs s' = oc_txs s \<and> oc_world s' = w) \<or>
      (oc_txs s' = tx_delete (sp_transaction req) (oc_txs s) \<and>
         (oc_world s' = w \<or>
           sp_transaction req \<in> live (oc_txs s) \<and>
             (\<exists>b j. oc_world s' = w @ [json_post (b @ stopped_path) j])))"
  proof (cases "tx_get (oc_txs s) (sp_transaction req)")
    case None
    then show ?thesis
      by (simp add: s' stop_transaction_def assms(1) stop_context_def w_def Let_def split: option.split)
  next
    case (Some c)
    then have l: "sp_transaction req \<in> live (oc_txs s) \<longleftrightarrow> 0 < tc_session_id c"
      by (simp add: live_def)
    show ?thesis
    proof (cases "dp_billing d")
      case None
      with Some show ?thesis
        by (simp add: s' stop_transaction_def assms(1) stop_context_def w_def Let_def split: option.split)
    next
      case (Some base)
      let ?b = "\<lparr>bsr_session = tc_session_id c, bsr_user = 0, bsr_energy = ?en\<rparr>"
      have "oc_world s' = (if 0 < tc_session_id c
          then snd (notify_session_stop (dp_net d) base ?b w) else w)"
        "oc_txs s' = tx_delete (sp_transaction req) (oc_txs s)"
        using Some \<open>tx_get _ _ = Some c\<close>
        by (simp_all add: s' stop_transaction_def assms(1) stop_context_def w_def Let_def split: option.split)
      then show ?thesis
        using stopped_recording [of answer base ?b w] by (auto simp: l net)
    qed
  qed
  ultimately show thesis by (rule that)
qed

lemma stop_billed:
  assumes net: "dp_net d = recording answer" and ok: "billed_ok s"
  shows "billed_ok (snd (stop_transaction d e st p s))"
proof (cases "decode_stop p")
  case (Inr req)
  define s' where "s' = snd (stop_transaction d e st p s)"
  let ?t = "sp_transaction req"
  have fin: "finite (dom (oc_txs s))" using ok by (simp add: billed_ok_def)
  obtain w where w: "w = oc_world s \<or> (\<exists>b j. w = oc_world s @ [json_post (b @ stop_path) j])"
    and c: "(tx_get (oc_txs s) ?t = None \<and> oc_txs s' = oc_txs s \<and> oc_world s' = w) \<or>
      (oc_txs s' = tx_delete ?t (oc_txs s) \<and>
         (oc_world s' = w \<or>
           ?t \<in> live (oc_txs s) \<and> (\<exists>b j. oc_world s' = w @ [json_post (b @ stopped_path) j])))"
    using stop_world [OF Inr net s'_def] by metis
  have "calls stopped_path w = calls stopped_path (oc_world s)"
    "calls start_path w = calls start_path (oc_world s)"
    using w by (auto simp: calls_snoc)
  moreover have "finite (dom (oc_txs s'))" using c fin by (auto simp: tx_delete_def)
  ultimately have "billed_ok s'"
    using c ok card_live_delete [OF fin, of ?t] by (auto simp: billed_ok_def calls_snoc split: if_splits)
  then show ?thesis by (simp add: s'_def)
qed (use ok in \<open>simp add: stop_transaction_def\<close>)

lemma meter_billed:
  assumes net: "dp_net d = recording answer" and ok: "billed_ok s"
  shows "billed_ok (snd (meter_values d e st p s))"
proof -
  let ?s = "snd (meter_values d e st p s)"
  have "oc_txs ?s = oc_txs s"
    by (auto simp: meter_values_def split: sum.split option.split)
  moreover have "oc_world ?s = oc_world s \<or>
      (\<exists>b j. oc_world ?s = oc_world s @ [json_post (b @ meter_path) j])"
    using meter_recording [of answer]
    by (fastforce simp: meter_values_def net split: sum.split option.split)
  ultimately show ?thesis using ok by (auto simp: billed_ok_def calls_snoc)
qed

lemma billed_other:
  assumes "billed_ok s" and "oc_txs s' = oc_txs s" and "oc_world s' = oc_world s"
  shows "billed_ok s'"
  using assms by (simp add: billed_ok_def)

lemma boot_world [simp]:
  "oc_txs (snd (boot_notification e i p s)) = oc_txs s"
  "oc_world (snd (boot_notification e i p s)) = oc_world s"
  by (auto simp: boot_notification_def Let_def split: sum.split option.split)

lemma status_world [simp]:
  "oc_txs (snd (status_notification e i p s)) = oc_txs s"
  "oc_world (snd (status_notification e i p s)) = oc_world s"
  by (auto simp: status_notification_def Let_def split: sum.split option.split)

definition recording_deps ::
  "string option \<Rightarrow> string option \<Rightarrow> string option \<Rightarrow> (http_call \<Rightarrow> trace \<Rightarrow> response res) \<Rightarrow> trace deps" where
  "recording_deps sessions billing telemetry answer =
     \<lparr>dp_sessions = sessions, dp_billing = billing, dp_telemetry = telemetry,
      dp_net = recording answer\<rparr>"

interpretation billing: ocpp_invariant "app_router (recording_deps sb bb tb answer)" billed_ok
  for sb bb tb answer
proof
  fix a h e i p and s :: "trace ocpp"
  let ?d = "recording_deps sb bb tb answer"
  have net: "dp_net ?d = recording answer" by (simp add: recording_deps_def)
  assume "app_router ?d a = Some h" and "billed_ok s"
  then show "billed_ok (snd (h e i p s))"
    by (cases rule: app_router_SomeE)
      (simp_all add: start_billed [OF net] stop_billed [OF net] meter_billed [OF net]
        billed_other [of s "snd (boot_notification e i p s)"]
        billed_other [of s "snd (status_notification e i p s)"])
qed (simp add: billed_ok_def)

lemma init_billed: "billed_ok (init_ocpp [])"
  by (simp add: billed_ok_def init_ocpp_def new_transaction_store_def live_def tx_get_def)

end
