(* ===== verification/OcppProps.thy ===== *)
theory OcppProps
  imports OcppRuns
begin

section \<open>The OCPP server: properties\<close>

subsection \<open>What each handler answers and touches\<close>

lemma handler_replies:
  "fst (boot_notification e i p s) = Inr r \<Longrightarrow> r \<noteq> NilReply"
  "fst (status_notification e i p s) = Inr r \<Longrightarrow> r = StatusReply"
  "fst (start_transaction d e i p s) = Inr r \<Longrightarrow> \<exists>t. r = StartReply t ''Accepted''"
  "fst (stop_transaction d e i p s) = Inr r \<Longrightarrow> r = StopReply"
  "fst (meter_values d e i p s) = Inr r \<Longrightarrow> r = NilReply"
  "fst (heartbeat e i p s) = Inr r \<Longrightarrow> r = HeartbeatReply (clock e 0)"
  by (auto simp: boot_notification_def status_notification_def start_transaction_def
      stop_transaction_def meter_values_def heartbeat_def Let_def case_prod_beta
      split: sum.splits option.splits if_splits)

lemma handler_nil:
  assumes "app_router d a = Some h" and "fst (h e i p s) = Inr NilReply"
  shows "a = ''MeterValues''"
  using assms
  by (auto simp: app_router_def register_def new_router_def action_defs split: if_splits
      dest: handler_replies)

lemma reply_encodes:
  assumes "build_call_result uid r = Inl err"
  shows "\<exists>b. r = BootReply b \<or> (\<exists>t. r = HeartbeatReply t)"
  using assms by (cases r) (auto simp: build_call_result_def)

text \<open>The part of the state that belongs to one station.\<close>

definition station_view ::
  "'w ocpp \<Rightarrow> string \<Rightarrow> string option \<times> (int \<Rightarrow> string option) \<times> station option" where
  "station_view s j = (station_status (oc_stations s) j, connector_status (oc_stations s) j, oc_rows s j)"

lemma upsert_other: "j \<noteq> cp_id st \<Longrightarrow> station_upsert e now st rows j = rows j"
  by (simp add: station_upsert_def Let_def)

lemma update_status_other: "j \<noteq> i \<Longrightarrow> station_update_status e i st rows j = rows j"
  by (simp add: station_update_status_def split: option.split)

lemma handler_isolated:
  assumes "app_router d a = Some h" and "j \<noteq> i"
  shows "station_view (snd (h e i p s)) j = station_view s j"
  using assms(1)
proof (cases rule: app_router_SomeE)
  case 1
  with assms(2) show ?thesis
    by (simp add: station_view_def boot_notification_def Let_def upsert_other station_views
        split: sum.split option.split)
next
  case 2
  with assms(2) show ?thesis
    by (auto simp: station_view_def status_notification_def Let_def update_status_other station_views
        fun_eq_iff split: sum.split option.split)
next
  case 3
  with assms(2) show ?thesis
    by (auto simp: station_view_def start_transaction_def Let_def case_prod_beta station_views fun_eq_iff
        split: sum.split)
next
  case 4
  with assms(2) show ?thesis
    by (simp add: station_view_def stop_transaction_def Let_def case_prod_beta station_views
        split: sum.split)
next
  case 5
  then show ?thesis by simp
next
  case 6
  then show ?thesis by (simp add: station_view_def meter_values_def split: sum.split option.split)
qed

lemma station_view_log [simp]: "station_view (s\<lparr>oc_log := l\<rparr>) j = station_view s j"
  by (simp add: station_view_def)

lemma route_isolated:
  "j \<noteq> i \<Longrightarrow> station_view (snd (route (app_router d) e i m s)) j = station_view s j"
  by (auto simp: route_def handler_isolated split: option.split)

text \<open>No handler writes to the message log.\<close>

lemma handler_log:
  assumes "app_router d a = Some h" shows "oc_log (snd (h e i p s)) = oc_log s"
  using assms
  by (cases rule: app_router_SomeE)
    (auto simp: boot_notification_def status_notification_def start_transaction_def
      stop_transaction_def meter_values_def heartbeat_def Let_def case_prod_beta
      split: sum.split option.split)

lemma route_log: "oc_log (snd (route (app_router d) e i m s)) = oc_log s"
  by (auto simp: route_def handler_log split: option.split)

subsection \<open>Answers\<close>

text \<open>\<open>process\<close> on a frame that parses: the state after the log entry, the handler's result, the answer.\<close>

definition log_incoming :: "env \<Rightarrow> string \<Rightarrow> body \<Rightarrow> message \<Rightarrow> 'w ocpp \<Rightarrow> 'w ocpp" where
  "log_incoming e i raw m s =
     s\<lparr>oc_log := log_save e 0 i ''incoming'' (msg_action m)
        (case raw of Json j \<Rightarrow> j | NotJson _ \<Rightarrow> JNull) (oc_log s)\<rparr>"

lemma process_route:
  assumes "parse_frame raw = Inr m" and "route r e i m (log_incoming e i raw m s) = (x, s2)"
  shows "process lib r e i raw s =
     (case x of
        Inl err \<Rightarrow>
          (map_sum id Some (build_call_error (msg_unique_id m) ''InternalError'' (error_text lib err)), s2)
      | Inr payload \<Rightarrow>
          if payload = NilReply then (Inr None, s2)
          else (case build_call_result (msg_unique_id m) payload of
              Inl err \<Rightarrow> (Inl err, s2)
            | Inr bytes \<Rightarrow>
                (Inr (Some bytes),
                 s2\<lparr>oc_log := log_save e 2 i ''outgoing'' (msg_action m) bytes (oc_log s2)\<rparr>)))"
  using assms by (simp add: process_def log_incoming_def Let_def)

text \<open>C6: Every CALL frame the server accepts is answered under its own unique id: by a CALLRESULT
  for the five actions that have one, by a CALLERROR with code \<open>InternalError\<close>, or not at all.
  Without an answer, the action was \<open>MeterValues\<close>, or the answer held a time that JSON cannot
  express, which only \<open>BootNotification\<close> and \<open>Heartbeat\<close> can produce.\<close>

theorem process_answers:
  assumes "parse_frame raw = Inr m"
  shows "case fst (process lib (app_router d) e i raw s) of
      Inl err \<Rightarrow> msg_action m \<in> {''BootNotification'', ''Heartbeat''} \<and>
                 (\<exists>n. format_rfc3339 (clock e n) = None)
    | Inr None \<Rightarrow> msg_action m = ''MeterValues''
    | Inr (Some j) \<Rightarrow>
        (\<exists>b. j = JArr [JInt MessageTypeCallResult, JStr (msg_unique_id m), b] \<and>
             msg_action m \<in> {''BootNotification'', ''StatusNotification'', ''StartTransaction'',
                               ''StopTransaction'', ''Heartbeat''}) \<or>
        (\<exists>desc. j = JArr [JInt MessageTypeCallError, JStr (msg_unique_id m),
                          JStr ''InternalError'', JStr desc, JObj []])"
proof -
  let ?s1 = "log_incoming e i raw m s"
  obtain x s2 where r: "route (app_router d) e i m ?s1 = (x, s2)" by fastforce
  note P = process_route [OF assms r] MessageTypeCallResult_def MessageTypeCallError_def
  show ?thesis
  proof (cases x)
    case (Inl err)
    then show ?thesis by (simp add: P build_call_error_def)
  next
    case (Inr rep)
    then obtain h where h: "app_router d (msg_action m) = Some h"
      and fst_h: "fst (h e i (msg_payload m) ?s1) = Inr rep"
      using r by (auto simp: route_def split: option.splits)
    show ?thesis
    proof (cases "rep = NilReply")
      case True
      then show ?thesis using Inr handler_nil [OF h] fst_h by (simp add: P)
    next
      case False
      have act: "msg_action m \<in> {''BootNotification'', ''StatusNotification'', ''StartTransaction'',
          ''StopTransaction'', ''Heartbeat''}"
        using h fst_h False
        by (auto simp: app_router_def register_def new_router_def action_defs split: if_splits
            dest: handler_replies)
      have enc: "\<exists>n. format_rfc3339 (clock e n) = None"
        "msg_action m \<in> {''BootNotification'', ''Heartbeat''}"
        if "json_reply rep = None"
        using h fst_h that
        by (auto simp: app_router_def register_def new_router_def action_defs boot_notification_def
            status_notification_def start_transaction_def stop_transaction_def meter_values_def
            heartbeat_def Let_def case_prod_beta json_object_None json_time_def
            split: if_splits sum.splits option.splits)
      show ?thesis using Inr False act enc
        by (cases "json_reply rep") (auto simp: P build_call_result_def)
    qed
  qed
qed

theorem process_answers_witness:
  "\<exists>m. parse_frame (call_frame ''7'' ''MeterValues'' JNull []) = Inr m \<and>
     (case fst (process (\<lambda>_. []) (app_router (recording_deps None None None (\<lambda>c w. Inl ErrSyntax)))
             (quiet_env 0) ''CP1'' (call_frame ''7'' ''MeterValues'' JNull []) (init_ocpp [])) of
        Inl err \<Rightarrow> False | Inr None \<Rightarrow> True | Inr (Some j) \<Rightarrow> True)"
  using process_answers [where raw = "call_frame ''7'' ''MeterValues'' JNull []"
      and m = "\<lparr>msg_type = 2, msg_unique_id = ''7'', msg_action = ''MeterValues'', msg_payload = JNull\<rparr>"
      and lib = "\<lambda>_. []" and d = "recording_deps None None None (\<lambda>c w. Inl ErrSyntax)"
      and e = "quiet_env 0" and i = "''CP1''" and s = "init_ocpp []"]
  by (simp split: sum.splits option.splits)

text \<open>A frame is accepted exactly when it is a JSON array of at least four parts whose first is
  the number 2 and whose second and third are strings (or \<open>null\<close>, read as the empty string); the
  message holds those parts, and further parts are ignored.\<close>

theorem parse_frame_accepts:
  "parse_frame data = Inr m \<longleftrightarrow>
     msg_type m = MessageTypeCall \<and>
     (\<exists>u a rest. data = Json (JArr (JInt 2 # u # a # msg_payload m # rest)) \<and>
        unmarshal_string u = Inr (msg_unique_id m) \<and> unmarshal_string a = Inr (msg_action m))"
proof
  assume "parse_frame data = Inr m"
  then show "msg_type m = MessageTypeCall \<and>
     (\<exists>u a rest. data = Json (JArr (JInt 2 # u # a # msg_payload m # rest)) \<and>
        unmarshal_string u = Inr (msg_unique_id m) \<and> unmarshal_string a = Inr (msg_action m))"
    by (elim parse_frame_Inr) (auto simp: MessageTypeCall_def unmarshal_string_Inr)
next
  assume "msg_type m = MessageTypeCall \<and>
     (\<exists>u a rest. data = Json (JArr (JInt 2 # u # a # msg_payload m # rest)) \<and>
        unmarshal_string u = Inr (msg_unique_id m) \<and> unmarshal_string a = Inr (msg_action m))"
  then show "parse_frame data = Inr m"
    by (cases m) (auto simp: parse_frame_def unmarshal_array_def unmarshal_int_def parse_call_def
        in_int64_def MessageTypeCall_def)
qed

text \<open>A frame whose action no handler is registered for is answered with a CALLERROR that names
  the action, and changes nothing but the message log.\<close>

theorem unknown_action_rejected:
  assumes "parse_frame raw = Inr m"
    and "msg_action m \<notin> {''BootNotification'', ''StatusNotification'', ''StartTransaction'',
           ''StopTransaction'', ''Heartbeat'', ''MeterValues''}"
  shows "fst (process lib (app_router d) e i raw s) =
      Inr (Some (JArr [JInt MessageTypeCallError, JStr (msg_unique_id m), JStr ''InternalError'',
                       JStr (''ocpp: unsupported action '' @ msg_action m), JObj []])) \<and>
    (\<exists>l. snd (process lib (app_router d) e i raw s) = s\<lparr>oc_log := l\<rparr>)"
proof
  let ?s1 = "log_incoming e i raw m s"
  have "route (app_router d) e i m ?s1 =
      (Inl (ErrText (''ocpp: unsupported action '' @ msg_action m)), ?s1)"
    using assms(2) by (simp add: route_def app_router_None [THEN iffD2])
  note P = process_route [OF assms(1) this]
  show "fst (process lib (app_router d) e i raw s) =
      Inr (Some (JArr [JInt MessageTypeCallError, JStr (msg_unique_id m), JStr ''InternalError'',
                       JStr (''ocpp: unsupported action '' @ msg_action m), JObj []]))"
    by (simp add: P build_call_error_def MessageTypeCallError_def)
  show "\<exists>l. snd (process lib (app_router d) e i raw s) = s\<lparr>oc_log := l\<rparr>"
    by (auto simp: P log_incoming_def)
qed

subsection \<open>Isolation and the message log\<close>

text \<open>C24: A frame on one station's connection leaves every other station's runtime status, connector
  statuses and database row as they were, whatever the frame says.\<close>

theorem stations_isolated:
  assumes "j \<noteq> i"
  shows "station_view (snd (process lib (app_router d) e i raw s)) j = station_view s j"
proof (cases "parse_frame raw")
  case (Inr m)
  obtain x s2 where r: "route (app_router d) e i m (log_incoming e i raw m s) = (x, s2)" by fastforce
  have "station_view s2 j = station_view s j"
    using route_isolated [OF assms, of d e m "log_incoming e i raw m s"]
    unfolding r by (simp add: log_incoming_def)
  then show ?thesis by (auto simp: process_route [OF Inr r] split: sum.split)
qed (simp add: process_def)

theorem stations_isolated_witness:
  "station_view (snd (process (\<lambda>_. []) (app_router (recording_deps None None None (\<lambda>c w. Inl ErrSyntax)))
        (quiet_env 0) ''CP1'' (call_frame ''7'' ''BootNotification'' JNull []) (init_ocpp []))) ''CP2'' =
     station_view (init_ocpp [] :: trace ocpp) ''CP2''"
  using stations_isolated [of "''CP2''" "''CP1''"] by simp

definition is_call_result :: "json \<Rightarrow> bool" where
  "is_call_result j = (case j of JArr (JInt t # _) \<Rightarrow> t = MessageTypeCallResult | _ \<Rightarrow> False)"



subsection \<open>Transactions\<close>

text \<open>C2: After any sequence of frames from a fresh server, the billing notifications sent plus the
  transactions still open with a session are at most the session starts sent: no start is billed
  twice, and a stop the server does not know is never billed.\<close>

theorem starts_bound_bills:
  "calls stopped_path (oc_world (process_all lib (app_router (recording_deps sb bb tb answer)) es (init_ocpp []))) +
     card (live (oc_txs (process_all lib (app_router (recording_deps sb bb tb answer)) es (init_ocpp [])))) \<le>
   calls start_path (oc_world (process_all lib (app_router (recording_deps sb bb tb answer)) es (init_ocpp [])))"
  using billing.run_inv [OF init_billed, of lib sb bb tb answer es] by (simp add: billed_ok_def)

text \<open>Every state the server reaches is well formed: the transaction store is finite and holds
  int64 values, the station table is keyed by station id, message ids are fresh and increasing, and
  every station in the table has a runtime state.\<close>

theorem reachable_ok: "ocpp_ok (process_all lib (app_router d) es (init_ocpp w))"
  by (rule wf.run_inv) (rule init_ocpp_ok)



text \<open>When the meter difference does not fit an int64 the subtraction wraps around, and the
  energy reported for the transaction is negative although the meter has only gone up.\<close>

theorem stop_energy_wraps:
  assumes "in_int64 meter_start" and "in_int64 meter_stop" and "2 ^ 63 \<le> meter_stop - meter_start"
  shows "lt64 (stop_energy meter_start meter_stop) (Fin 0)"
  using stop_energy_neg [OF assms] by fastforce

lemma start_recorded:
  assumes "dp_net d = recording answer" and "dp_sessions d = Some sb" and "sb \<noteq> []"
    and "decode_start p = Inr a"
    and j: "json_start_session \<lparr>ssr_station = i, ssr_connector = st_connector a,
        ssr_transaction = transaction_id_of e i a, ssr_meter_start = st_meter_start a\<rparr> = Some j"
    and "answer (json_post (sb @ start_path) j) (oc_world s) = Inr resp" and "rs_status resp < 300"
    and "decode_map (rs_body resp) = Inr m" and "m ''session_id'' = Some (JInt sid)"
    and "\<bar>sid\<bar> < 2 ^ 53"
  shows "oc_world (snd (start_transaction d e i p s)) = oc_world s @ [json_post (sb @ start_path) j]"
    and "oc_txs (snd (start_transaction d e i p s)) =
      tx_set (transaction_id_of e i a) \<lparr>tc_session_id = sid, tc_meter_start = st_meter_start a\<rparr> (oc_txs s)"
proof -
  have "recording answer (json_post (sb @ start_path) j) (oc_world s) =
      (Inr resp, oc_world s @ [json_post (sb @ start_path) j])"
    using assms(6) by (simp add: recording_def)
  then have "post_start (recording answer) sb start_path (Some j) (oc_world s) =
      (Inr sid, oc_world s @ [json_post (sb @ start_path) j])"
    by (rule post_start_id [where payload = m]) (use assms(7-10) in simp_all)
  then have "create_from_ocpp (dp_net d) sb \<lparr>ssr_station = i, ssr_connector = st_connector a,
        ssr_transaction = transaction_id_of e i a, ssr_meter_start = st_meter_start a\<rparr> (oc_world s) =
      (Inr sid, oc_world s @ [json_post (sb @ start_path) j])"
    using assms(1,3) j by (simp add: create_from_ocpp_def)
  then show "oc_world (snd (start_transaction d e i p s)) = oc_world s @ [json_post (sb @ start_path) j]"
    "oc_txs (snd (start_transaction d e i p s)) =
      tx_set (transaction_id_of e i a) \<lparr>tc_session_id = sid, tc_meter_start = st_meter_start a\<rparr> (oc_txs s)"
    using assms(2,4) by (simp_all add: start_transaction_def Let_def)
qed

lemma post_recorded:
  "snd (post (recording answer) base path (Some j) w) = w @ [json_post (base @ path) j]"
  by (simp add: recording_def)

lemma stop_recorded:
  assumes "dp_net d = recording answer" and "dp_sessions d = Some sb" and "sb \<noteq> []"
    and "dp_billing d = Some bb" and "bb \<noteq> []"
    and "decode_stop q = Inr b" and "tx_get (oc_txs s) (sp_transaction b) = Some c" and "0 < tc_session_id c"
    and en: "en = stop_energy (tc_meter_start c) (sp_meter_stop b)"
    and "json_stop_session \<lparr>spr_transaction = sp_transaction b, spr_meter_stop = sp_meter_stop b,
        spr_reason = sp_reason b, spr_energy = en, spr_end_time = clock e 0\<rparr> = Some j2"
    and "json_billing_stop \<lparr>bsr_session = tc_session_id c, bsr_user = 0, bsr_energy = en\<rparr> = Some j3"
  shows "oc_world (snd (stop_transaction d e i q s)) =
      oc_world s @ [json_post (sb @ stop_path) j2, json_post (bb @ stopped_path) j3]"
    and "oc_txs (snd (stop_transaction d e i q s)) = tx_delete (sp_transaction b) (oc_txs s)"
  using assms
  by (simp_all add: stop_transaction_def stop_context_def complete_from_ocpp_def notify_session_stop_def
      post_recorded recording_def)

text \<open>C3: A transaction started and stopped on a server connected to its peers makes exactly three
  calls: the session start; the session stop with the energy of the meter difference and the time of
  the call; and a billing notification for the session id the sessions service had answered, with
  the same energy and user 0. Afterwards the server has forgotten the transaction.\<close>

theorem charge_cycle:
  assumes "dp_net d = recording answer" and "dp_sessions d = Some sb" and "dp_billing d = Some bb"
    and "sb \<noteq> []" and "bb \<noteq> []"
    and "decode_start p = Inr a" and "st_transaction a \<noteq> []"
    and "decode_stop q = Inr b" and "sp_transaction b = st_transaction a"
    and "json_start_session \<lparr>ssr_station = i, ssr_connector = st_connector a,
        ssr_transaction = st_transaction a, ssr_meter_start = st_meter_start a\<rparr> = Some j1"
    and "answer (json_post (sb @ start_path) j1) (oc_world s) = Inr resp" and "rs_status resp < 300"
    and "decode_map (rs_body resp) = Inr m" and "m ''session_id'' = Some (JInt sid)"
    and "0 < sid" and "sid < 2 ^ 53"
    and "en = stop_energy (st_meter_start a) (sp_meter_stop b)"
    and "json_stop_session \<lparr>spr_transaction = st_transaction a, spr_meter_stop = sp_meter_stop b,
        spr_reason = sp_reason b, spr_energy = en, spr_end_time = clock e' 0\<rparr> = Some j2"
    and "json_billing_stop \<lparr>bsr_session = sid, bsr_user = 0, bsr_energy = en\<rparr> = Some j3"
  shows "oc_world (snd (stop_transaction d e' i' q (snd (start_transaction d e i p s)))) =
       oc_world s @ [json_post (sb @ start_path) j1, json_post (sb @ stop_path) j2,
                     json_post (bb @ stopped_path) j3] \<and>
     tx_get (oc_txs (snd (stop_transaction d e' i' q (snd (start_transaction d e i p s)))))
       (st_transaction a) = None"
proof -
  let ?s = "snd (start_transaction d e i p s)"
  have t: "transaction_id_of e i a = st_transaction a" using assms(7) by (simp add: transaction_id_of_def)
  note start = start_recorded [OF assms(1,2,4,6), where i = i and e = e and s = s and j = j1 and m = m
      and resp = resp and sid = sid, unfolded t]
  have w: "oc_world ?s = oc_world s @ [json_post (sb @ start_path) j1]"
    and txs: "oc_txs ?s = tx_set (st_transaction a)
        \<lparr>tc_session_id = sid, tc_meter_start = st_meter_start a\<rparr> (oc_txs s)"
    using start assms by simp_all
  have "tx_get (oc_txs ?s) (sp_transaction b) = Some \<lparr>tc_session_id = sid, tc_meter_start = st_meter_start a\<rparr>"
    using assms(9) by (simp add: txs)
  from stop_recorded [OF assms(1,2,4,3,5,8) this, where en = en and e = e' and i = i' and ?j2.0 = j2 and ?j3.0 = j3]
  show ?thesis using assms by (simp add: w txs)
qed

text \<open>A StopTransaction for a transaction the server does not hold, in particular a second one
  for the same transaction, is accepted and sends no billing notification, but still reports the
  stop to the sessions service, with an energy of zero.\<close>

theorem repeated_stop:
  assumes "decode_stop q = Inr b" and "dp_net d = recording answer" and "dp_sessions d = Some sb"
    and "sb \<noteq> []" and s': "s' = snd (stop_transaction d e i q s)"
    and "json_stop_session \<lparr>spr_transaction = sp_transaction b, spr_meter_stop = sp_meter_stop b,
        spr_reason = sp_reason b, spr_energy = Fin 0, spr_end_time = clock e' 0\<rparr> = Some j"
  shows "fst (stop_transaction d e' i' q s') = Inr StopReply \<and>
     oc_world (snd (stop_transaction d e' i' q s')) = oc_world s' @ [json_post (sb @ stop_path) j] \<and>
     oc_txs (snd (stop_transaction d e' i' q s')) = oc_txs s'"
proof -
  have "oc_txs s' = snd (snd (stop_context (oc_txs s) b))"
    by (simp add: s' stop_transaction_def assms(1) Let_def case_prod_beta)
  then have "tx_get (oc_txs s') (sp_transaction b) = None"
    by (auto simp: stop_context_def split: option.split)
  then have "stop_context (oc_txs s') b = (Fin 0, 0, oc_txs s')" by (simp add: stop_context_def)
  then show ?thesis using assms(1-4,6)
    by (simp add: stop_transaction_def complete_from_ocpp_def recording_def Let_def split: option.split)
qed

text \<open>StopTransaction makes the station \<open>Available\<close> but touches no connector: a connector that
  StartTransaction has set to \<open>Charging\<close> stays so in the server's state after the stop.\<close>

theorem connector_stays_charging:
  assumes "decode_start p = Inr a" and "0 < st_connector a" and "decode_stop q = Inr b"
  shows "connector_status (oc_stations (snd (stop_transaction d e' i q (snd (start_transaction d e i p s)))))
           i (st_connector a) = Some ConnectorCharging \<and>
         station_status (oc_stations (snd (stop_transaction d e' i q (snd (start_transaction d e i p s))))) i =
           Some ConnectorAvailable"
  using assms by (simp add: stop_transaction_def start_transaction_def Let_def case_prod_beta station_views)

subsection \<open>A concrete charge\<close>

definition example_start :: json where
  "example_start = JObj [(''connectorId'', JInt 1), (''transactionId'', JStr ''T1''),
     (''meterStart'', JInt 1000)]"

definition example_stop :: json where
  "example_stop = JObj [(''transactionId'', JStr ''T1''), (''meterStop'', JInt 13500)]"

definition example_answer :: "http_call \<Rightarrow> trace \<Rightarrow> response res" where
  "example_answer c w =
     Inr \<lparr>rs_status = 201, rs_headers = [], rs_body = Json (JObj [(''session_id'', JInt 7)])\<rparr>"

definition example_deps :: "trace deps" where
  "example_deps = recording_deps (Some ''http://s'') (Some ''http://b'') None example_answer"

lemma decode_example_start:
  "decode_start example_start = Inr \<lparr>st_connector = 1, st_id_tag = [], st_meter_start = 1000,
     st_reservation = 0, st_timestamp = 0, st_station = [], st_transaction = ''T1''\<rparr>"
  by (simp add: example_start_def decode_start_def decode_struct_def start_fields_def field_defs
      find_field_def in_int64_def)

lemma decode_example_stop:
  "decode_stop example_stop = Inr \<lparr>sp_transaction = ''T1'', sp_id_tag = [], sp_meter_stop = 13500,
     sp_timestamp = 0, sp_reason = [], sp_station = [], sp_meter_start = 0\<rparr>"
  by (simp add: example_stop_def decode_stop_def decode_struct_def stop_fields_def field_defs
      find_field_def in_int64_def)

lemma round_12_5: "round_f64 (25 / 2) = Fin (25 / 2)"
  using round_f64_dyadic [of 25 "- 1"] by (simp add: power_int_minus)

lemma stop_energy_example: "stop_energy 1000 13500 = Fin (25 / 2)"
  by (simp add: stop_energy_small round_12_5)

lemma json_12_5: "json_f64 (Fin (25 / 2)) = Some (JDec (25 / 2))"
proof -
  have "\<lfloor>25 / 2 :: rat\<rfloor> = 12" by (simp add: floor_eq_iff)
  then show ?thesis by (simp add: json_f64_def)
qed

lemma json_time_0: "json_time 0 = Some (JStr ''0001-01-01T00:00:00Z'')"
  by code_simp

theorem charge_cycle_witness:
  "oc_world (snd (stop_transaction example_deps (quiet_env 0) ''CP1'' example_stop
       (snd (start_transaction example_deps (quiet_env 0) ''CP1'' example_start (init_ocpp []))))) =
     [json_post ''http://s/internal/ocpp/session-start''
        (JObj [(''station_id'', JStr ''CP1''), (''connector_id'', JInt 1),
               (''transaction_id'', JStr ''T1''), (''meter_start'', JInt 1000)]),
      json_post ''http://s/internal/ocpp/session-stop''
        (JObj [(''transaction_id'', JStr ''T1''), (''meter_stop'', JInt 13500), (''reason'', JStr []),
               (''energy_kwh'', JDec (25 / 2)), (''end_time'', JStr ''0001-01-01T00:00:00Z'')]),
      json_post ''http://b/internal/ocpp/session-stopped''
        (JObj [(''session_id'', JInt 7), (''user_id'', JInt 0), (''energy_kwh'', JDec (25 / 2))])]"
proof -
  have "decode_map (Json (JObj [(''session_id'', JInt 7)])) = Inr [''session_id'' \<mapsto> JInt 7]"
    by (simp add: decode_map_def number_f64_def of_int64_exact)
  then show ?thesis
    by (subst charge_cycle [where sb = "''http://s''" and bb = "''http://b''" and
          sid = 7 and en = "Fin (25 / 2)" and answer = example_answer and
          resp = "\<lparr>rs_status = 201, rs_headers = [],
              rs_body = Json (JObj [(''session_id'', JInt 7)])\<rparr>" and
          m = "[''session_id'' \<mapsto> JInt 7]", OF _ _ _ _ _ decode_example_start _ decode_example_stop, THEN conjunct1])
      (simp_all add: example_deps_def recording_deps_def json_start_session_def json_stop_session_def
        json_billing_stop_def json_object_def example_answer_def stop_energy_example json_12_5 json_time_0
        quiet_env_def init_ocpp_def)
qed

end
