(* ===== verification/SessionsCorrect.thy ===== *)
theory SessionsCorrect
  imports Sessions
begin

section \<open>The sessions service: invariant and lemmas\<close>

subsection \<open>Rows by transaction\<close>

lemma find_tx_Some: "find_tx t rows = Some r \<Longrightarrow> r \<in> set rows \<and> sr_tx r = t"
  by (auto simp: find_tx_def find_Some_iff)

lemma find_tx_None: "find_tx t rows = None \<longleftrightarrow> t \<notin> sr_tx ` set rows"
  by (auto simp: find_tx_def find_None_iff)

lemma map_update_tx:
  assumes "\<And>r. g (f r) = g r" shows "map g (update_tx t f rows) = map g rows"
  using assms by (simp add: update_tx_def)

lemma set_update_tx: "r \<in> set (update_tx t f rows) \<Longrightarrow> r \<in> set rows \<and> sr_tx r \<noteq> t \<or> (\<exists>q \<in> set rows. sr_tx q = t \<and> r = f q)"
  by (auto simp: update_tx_def split: if_splits)

lemma find_update_tx:
  assumes "\<And>r. sr_tx (f r) = sr_tx r"
  shows "find_tx u (update_tx t f rows) = (if u = t then map_option f (find_tx u rows) else find_tx u rows)"
  using assms by (induction rows) (auto simp: find_tx_def update_tx_def)

lemma length_update_tx [simp]: "length (update_tx t f rows) = length rows"
  by (simp add: update_tx_def)

lemma find_tx_append:
  "find_tx t (rows @ [r]) = (case find_tx t rows of Some q \<Rightarrow> Some q | None \<Rightarrow> if sr_tx r = t then Some r else None)"
  by (induction rows) (auto simp: find_tx_def)

subsection \<open>Decoded requests\<close>

lemma decode_session_start_range:
  assumes "decode_session_start b = Inr req"
  shows "in_int64 (ssi_user req) \<and> in_int64 (ssi_connector req)"
proof -
  let ?P = "\<lambda>r. in_int64 (ssi_user r) \<and> in_int64 (ssi_connector r)"
  show ?thesis
    by (rule decode_body_inv [where P = ?P, OF assms [unfolded decode_session_start_def]])
      (auto simp: session_start_fields_def field_defs in_int64_def split: json.splits option.splits if_splits)
qed

lemma decode_session_stop_valid:
  assumes "decode_session_stop b = Inr req" shows "valid64 (spi_energy req)"
proof -
  let ?P = "\<lambda>r. valid64 (spi_energy r)"
  show ?thesis
    by (rule decode_body_inv [where P = ?P, OF assms [unfolded decode_session_stop_def]])
      (auto simp: session_stop_fields_def field_defs number_f64_valid
        split: json.splits option.splits if_splits)
qed

subsection \<open>The invariant\<close>

definition row_ok :: "(string \<rightharpoonup> station_meta) \<Rightarrow> int \<Rightarrow> session_row \<Rightarrow> bool" where
  "row_ok stations next_id r \<longleftrightarrow>
     1 \<le> sr_id r \<and> sr_id r < next_id \<and> in_int64 (sr_user r) \<and> in_int32 (sr_connector r) \<and>
     stations (sr_station r) \<noteq> None \<and> sr_tx r \<noteq> [] \<and> valid64 (sr_energy r) \<and>
     (sr_status r = ''active'' \<or> sr_status r = ''completed'' \<and> sr_end r \<noteq> None)"

definition sessions_ok :: "'c sessions_state \<Rightarrow> bool" where
  "sessions_ok s \<longleftrightarrow>
     1 \<le> sv_seq s \<and> sv_seq s \<le> 2 ^ 63 \<and>
     distinct (map sr_id (sv_rows s)) \<and> distinct (map sr_tx (sv_rows s)) \<and>
     (\<forall>r \<in> set (sv_rows s). row_ok (sv_stations s) (sv_seq s) r)"

lemma sessions_ok_cache [simp]: "sessions_ok (s\<lparr>sv_cache := c\<rparr>) = sessions_ok s"
  by (simp add: sessions_ok_def)

lemma row_ok_seq: "row_ok st n r \<Longrightarrow> n \<le> m \<Longrightarrow> row_ok st m r"
  by (auto simp: row_ok_def)

lemma distinct_find:
  assumes "distinct (map sr_tx rows)" and "r \<in> set rows" shows "find_tx (sr_tx r) rows = Some r"
proof (cases "find_tx (sr_tx r) rows")
  case None
  with assms(2) show ?thesis by (auto simp: find_tx_None)
next
  case (Some q)
  then have "q \<in> set rows" "sr_tx q = sr_tx r" by (auto dest: find_tx_Some)
  with assms have "q = r" by (auto simp: distinct_map dest: inj_onD)
  with Some show ?thesis by simp
qed

lemma start_session_ok:
  assumes ok: "sessions_ok s" and s': "s' = snd (start_session e n ses s)"
    and u: "in_int64 (ses_user ses)" "ses_status ses = ''active''" "ses_transaction ses \<noteq> []"
  shows "sessions_ok s'"
proof -
  note parts = ok [unfolded sessions_ok_def]
  show ?thesis
  proof (cases "db_fault e n \<noteq> None \<or> \<not> in_int32 (ses_connector ses) \<or> \<not> in_int64 (sv_seq s)")
    case True
    then have "s' = s" by (auto simp: s' start_session_def split: option.split)
    with ok show ?thesis by simp
  next
    case False
    then have seq: "sv_seq s < 2 ^ 63" by (simp add: in_int64_def)
    have old: "row_ok (sv_stations s) (sv_seq s + 1) r" if "r \<in> set (sv_rows s)" for r
      using parts that by (auto intro: row_ok_seq)
    show ?thesis
    proof (cases "sv_stations s (ses_station ses)")
      case None
      then have "s' = s\<lparr>sv_seq := sv_seq s + 1\<rparr>" using False by (simp add: s' start_session_def Let_def)
      then show ?thesis using parts seq old by (simp add: sessions_ok_def)
    next
      case (Some st)
      show ?thesis
      proof (cases "find_tx (ses_transaction ses) (sv_rows s)")
        case None
        let ?r = "\<lparr>sr_id = sv_seq s, sr_user = ses_user ses, sr_station = ses_station ses,
            sr_connector = ses_connector ses, sr_status = ses_status ses,
            sr_start = pg_time (ses_start ses), sr_end = None, sr_energy = Fin 0,
            sr_tx = ses_transaction ses, sr_created = db_now e, sr_updated = db_now e\<rparr>"
        have s'_eq: "s' = s\<lparr>sv_seq := sv_seq s + 1, sv_rows := sv_rows s @ [?r]\<rparr>"
          using False Some None by (simp add: s' start_session_def Let_def)
        have "row_ok (sv_stations s) (sv_seq s + 1) ?r"
          using parts u False Some by (simp add: row_ok_def)
        moreover have "sv_seq s \<notin> sr_id ` set (sv_rows s)" using parts by (force simp: row_ok_def)
        ultimately show ?thesis using parts seq old None
          by (simp add: s'_eq sessions_ok_def find_tx_None)
      next
        case (Some old_row)
        let ?f = "\<lambda>r. r\<lparr>sr_user := ses_user ses, sr_station := ses_station ses,
            sr_connector := ses_connector ses, sr_status := ses_status ses,
            sr_start := pg_time (ses_start ses), sr_updated := db_now e\<rparr>"
        have s'_eq: "s' = s\<lparr>sv_seq := sv_seq s + 1, sv_rows := update_tx (ses_transaction ses) ?f (sv_rows s)\<rparr>"
          using False Some \<open>sv_stations s (ses_station ses) = _\<close> by (simp add: s' start_session_def Let_def)
        have "row_ok (sv_stations s) (sv_seq s + 1) (?f q)" if "q \<in> set (sv_rows s)" for q
          using old [OF that] u False \<open>sv_stations s (ses_station ses) = _\<close> by (auto simp: row_ok_def)
        then have "row_ok (sv_stations s) (sv_seq s + 1) r"
          if "r \<in> set (update_tx (ses_transaction ses) ?f (sv_rows s))" for r
          using set_update_tx [OF that] old by auto
        then show ?thesis using parts seq
          by (simp add: s'_eq sessions_ok_def map_update_tx)
      qed
    qed
  qed
qed

lemma complete_session_ok:
  assumes ok: "sessions_ok s" and "valid64 energy"
  shows "sessions_ok (snd (complete_session e n t end_time energy ''completed'' s))"
proof -
  let ?f = "\<lambda>r. r\<lparr>sr_end := Some (pg_time end_time), sr_energy := energy, sr_status := ''completed'',
      sr_updated := db_now e\<rparr>"
  have "row_ok (sv_stations s) (sv_seq s) r" if "r \<in> set (update_tx t ?f (sv_rows s))" for r
    using set_update_tx [OF that] ok assms(2) by (auto simp: sessions_ok_def row_ok_def)
  then show ?thesis using ok
    by (auto simp: complete_session_def sessions_ok_def map_update_tx split: option.split)
qed

lemma station_meta_upsert_ok:
  assumes "sessions_ok s" shows "sessions_ok (snd (station_meta_upsert e n i name loc s))"
  using assms by (auto simp: station_meta_upsert_def sessions_ok_def row_ok_def Let_def split: option.split)

lemma new_session_fields:
  "ses_user (new_session e i) = ssi_user i" "ses_status (new_session e i) = ''active''"
  "ses_transaction (new_session e i) = ssi_transaction i" "ses_station (new_session e i) = ssi_station i"
  "ses_connector (new_session e i) = ssi_connector i"
  by (simp_all add: new_session_def SessionStatusActive_def)

lemma handle_session_start_ok:
  assumes ok: "sessions_ok s" shows "sessions_ok (snd (handle_session_start store e r s))"
proof (cases "decode_session_start (rq_body r)")
  case (Inr req)
  obtain x s1 where st: "start_session e 0 (new_session e req) s = (x, s1)" by fastforce
  have "sessions_ok s1" if "ssi_transaction req \<noteq> []"
    by (rule start_session_ok [OF ok, of s1 e 0 "new_session e req"])
      (use that decode_session_start_range [OF Inr] in
        \<open>simp_all add: st new_session_fields\<close>)
  then show ?thesis using ok
    by (auto simp: handle_session_start_def Inr start_session_from_ocpp_def st split: sum.split option.split)
qed (use ok in \<open>simp add: handle_session_start_def\<close>)

lemma handle_session_stop_ok:
  assumes ok: "sessions_ok s" shows "sessions_ok (snd (handle_session_stop store e r s))"
proof (cases "decode_session_stop (rq_body r)")
  case (Inr req)
  obtain x s1 where st: "complete_session e 0 (spi_transaction req) (stop_time e req) (spi_energy req)
      SessionStatusCompleted s = (x, s1)" by fastforce
  have "sessions_ok s1"
    using complete_session_ok [OF ok decode_session_stop_valid [OF Inr], of e 0 "spi_transaction req"
        "stop_time e req"]
    by (simp add: st [unfolded SessionStatusCompleted_def])
  then show ?thesis using ok
    by (auto simp: handle_session_stop_def Inr stop_session_from_ocpp_def st split: sum.split option.split)
qed (use ok in \<open>simp add: handle_session_stop_def\<close>)

lemma read_only [simp]:
  "snd (sessions_me e r s) = s" "snd (active_sessions e r s) = s"
  by (auto simp: sessions_me_def active_sessions_def split: option.split sum.split)

lemma sessions_router_ok:
  "sessions_ok s \<Longrightarrow> sessions_ok (snd (sessions_router store e r s))"
  by (simp add: sessions_router_def serve_mux_def method_guard_def handle_session_start_ok
      handle_session_stop_ok)

interpretation sessions: service_inv "sessions_router store" sessions_ok for store
  by unfold_locales (rule sessions_router_ok)

definition init_sessions :: "(string \<rightharpoonup> station_meta) \<Rightarrow> 'c \<Rightarrow> 'c sessions_state" where
  "init_sessions stations c =
     \<lparr>sv_stations = stations, sv_rows = [], sv_seq = 1, sv_cache = c\<rparr>"

lemma init_sessions_ok: "sessions_ok (init_sessions stations c)"
  by (simp add: sessions_ok_def init_sessions_def)

subsection \<open>Stations are never written\<close>

text \<open>No route writes the table of stations, so a service whose table is empty cannot create a session.\<close>

lemma start_session_stations [simp]: "sv_stations (snd (start_session e n ses s)) = sv_stations s"
  by (auto simp: start_session_def Let_def split: option.split)

lemma complete_session_stations [simp]:
  "sv_stations (snd (complete_session e n t et en st s)) = sv_stations s"
  by (auto simp: complete_session_def split: option.split)

lemma start_from_ocpp_stations: "sv_stations (snd (start_session_from_ocpp store e i s)) = sv_stations s"
  using start_session_stations [of e 0 "new_session e i" s]
  by (auto simp: start_session_from_ocpp_def split: prod.split sum.split option.split
      simp del: start_session_stations)

lemma stop_from_ocpp_stations: "sv_stations (snd (stop_session_from_ocpp store e i s)) = sv_stations s"
  using complete_session_stations [of e 0 "spi_transaction i" "stop_time e i" "spi_energy i"
      SessionStatusCompleted s]
  by (auto simp: stop_session_from_ocpp_def split: prod.split sum.split option.split
      simp del: complete_session_stations)

lemma start_session_no_station:
  "sv_stations s (ses_station ses) = None \<Longrightarrow>
     \<not> is_ok (fst (start_session e n ses s)) \<and> sv_rows (snd (start_session e n ses s)) = sv_rows s"
  by (auto simp: start_session_def Let_def split: option.split)

end
