(* ===== verification/SessionsProps.thy ===== *)
theory SessionsProps
  imports SessionsCorrect
begin

section \<open>The sessions service: properties\<close>

subsection \<open>What one call does\<close>

lemma start_session_fresh:
  assumes "db_fault e n = None" and "in_int32 (ses_connector ses)" and "in_int64 (sv_seq s)"
    and "sv_stations s (ses_station ses) = Some st" and "find_tx (ses_transaction ses) (sv_rows s) = None"
  obtains r where "start_session e n ses s =
       (Inr (ses\<lparr>ses_id := sr_id r, ses_created_at := db_now e, ses_updated_at := db_now e\<rparr>),
        s\<lparr>sv_seq := sv_seq s + 1, sv_rows := sv_rows s @ [r]\<rparr>)"
    and "sr_id r = sv_seq s" and "sr_tx r = ses_transaction ses" and "sr_status r = ses_status ses"
    and "sr_end r = None" and "sr_station r = ses_station ses" and "sr_user r = ses_user ses"
  using assms
  by (intro that [of "\<lparr>sr_id = sv_seq s, sr_user = ses_user ses, sr_station = ses_station ses,
      sr_connector = ses_connector ses, sr_status = ses_status ses, sr_start = pg_time (ses_start ses),
      sr_end = None, sr_energy = Fin 0, sr_tx = ses_transaction ses, sr_created = db_now e,
      sr_updated = db_now e\<rparr>"]) (simp_all add: start_session_def Let_def)

lemma start_session_known:
  assumes "db_fault e n = None" and "in_int32 (ses_connector ses)" and "in_int64 (sv_seq s)"
    and "sv_stations s (ses_station ses) = Some st" and "find_tx (ses_transaction ses) (sv_rows s) = Some q"
  obtains f where "start_session e n ses s =
       (Inr (ses\<lparr>ses_id := sr_id q, ses_created_at := sr_created q, ses_updated_at := db_now e\<rparr>),
        s\<lparr>sv_seq := sv_seq s + 1, sv_rows := update_tx (ses_transaction ses) f (sv_rows s)\<rparr>)"
    and "\<And>r. sr_id (f r) = sr_id r \<and> sr_tx (f r) = sr_tx r \<and> sr_status (f r) = ses_status ses \<and>
             sr_end (f r) = sr_end r \<and> sr_energy (f r) = sr_energy r \<and>
             sr_station (f r) = ses_station ses \<and> sr_user (f r) = ses_user ses"
  using assms
  by (intro that [of "\<lambda>r. r\<lparr>sr_user := ses_user ses, sr_station := ses_station ses,
      sr_connector := ses_connector ses, sr_status := ses_status ses,
      sr_start := pg_time (ses_start ses), sr_updated := db_now e\<rparr>"])
    (simp_all add: start_session_def Let_def)

text \<open>A request that starts a session which the service can take.\<close>

definition startable :: "env \<Rightarrow> StartSessionInput \<Rightarrow> 'c sessions_state \<Rightarrow> bool" where
  "startable e i s \<longleftrightarrow>
     db_fault e 0 = None \<and> in_int32 (ssi_connector i) \<and> in_int64 (sv_seq s) \<and>
     sv_stations s (ssi_station i) \<noteq> None \<and> ssi_transaction i \<noteq> []"

definition start_answer :: "int \<Rightarrow> response" where
  "start_answer i = write_json 202 (Some (JObj [(''session_id'', JInt i), (''status'', JStr ''ok'')]))"

lemma handle_start_effect:
  assumes dec: "decode_session_start (rq_body r) = Inr i" and st: "startable e i s"
  obtains row where "fst (handle_session_start store e r s) = start_answer (sr_id row)"
    and "find_tx (ssi_transaction i) (sv_rows (snd (handle_session_start store e r s))) = Some row"
    and "sr_status row = ''active''" and "sr_station row = ssi_station i" and "sr_user row = ssi_user i"
    and "case find_tx (ssi_transaction i) (sv_rows s) of
           None \<Rightarrow> sr_id row = sv_seq s \<and> sr_end row = None \<and>
                   sv_rows (snd (handle_session_start store e r s)) = sv_rows s @ [row]
         | Some q \<Rightarrow> sr_id row = sr_id q \<and> sr_end row = sr_end q \<and> sr_energy row = sr_energy q \<and>
                   length (sv_rows (snd (handle_session_start store e r s))) = length (sv_rows s)"
    and "\<And>u. u \<noteq> ssi_transaction i \<Longrightarrow>
           find_tx u (sv_rows (snd (handle_session_start store e r s))) = find_tx u (sv_rows s)"
proof -
  let ?ses = "new_session e i" and ?s' = "snd (handle_session_start store e r s)"
  obtain st' where pre: "db_fault e 0 = None" "in_int32 (ses_connector ?ses)" "in_int64 (sv_seq s)"
    "sv_stations s (ses_station ?ses) = Some st'" and ne: "ssi_transaction i \<noteq> []"
    using st by (auto simp: startable_def new_session_fields)
  note H = handle_session_start_def dec start_session_from_ocpp_def new_session_fields start_answer_def
  show thesis
  proof (cases "find_tx (ssi_transaction i) (sv_rows s)")
    case None
    then have "find_tx (ses_transaction ?ses) (sv_rows s) = None" by (simp add: new_session_fields)
    then obtain row where row: "start_session e 0 ?ses s =
       (Inr (?ses\<lparr>ses_id := sr_id row, ses_created_at := db_now e, ses_updated_at := db_now e\<rparr>),
        s\<lparr>sv_seq := sv_seq s + 1, sv_rows := sv_rows s @ [row]\<rparr>)"
      "sr_id row = sv_seq s" "sr_tx row = ses_transaction ?ses" "sr_status row = ses_status ?ses"
      "sr_end row = None" "sr_station row = ses_station ?ses" "sr_user row = ses_user ?ses"
      using start_session_fresh [OF pre] by metis
    have "sv_rows ?s' = sv_rows s @ [row]" "fst (handle_session_start store e r s) = start_answer (sr_id row)"
      using ne by (auto simp: H row(1) split: option.split)
    then show thesis using None row(2-) by (intro that [of row]) (auto simp: find_tx_append new_session_fields split: option.split)
  next
    case (Some q)
    then have "find_tx (ses_transaction ?ses) (sv_rows s) = Some q" by (simp add: new_session_fields)
    then obtain f where f: "start_session e 0 ?ses s =
       (Inr (?ses\<lparr>ses_id := sr_id q, ses_created_at := sr_created q, ses_updated_at := db_now e\<rparr>),
        s\<lparr>sv_seq := sv_seq s + 1, sv_rows := update_tx (ses_transaction ?ses) f (sv_rows s)\<rparr>)"
      "\<And>r. sr_id (f r) = sr_id r \<and> sr_tx (f r) = sr_tx r \<and> sr_status (f r) = ses_status ?ses \<and>
           sr_end (f r) = sr_end r \<and> sr_energy (f r) = sr_energy r \<and>
           sr_station (f r) = ses_station ?ses \<and> sr_user (f r) = ses_user ?ses"
      using start_session_known [OF pre] by metis
    have "sv_rows ?s' = update_tx (ssi_transaction i) f (sv_rows s)"
      "fst (handle_session_start store e r s) = start_answer (sr_id q)"
      using ne by (auto simp: H f(1) split: option.split)
    then show thesis using Some f(2)
      by (intro that [of "f q"]) (simp_all add: find_update_tx new_session_fields)
  qed
qed

lemma handle_stop_effect:
  assumes dec: "decode_session_stop (rq_body r) = Inr i" and "db_fault e 0 = None"
    and "spi_transaction i \<noteq> []" and q: "find_tx (spi_transaction i) (sv_rows s) = Some q"
  shows "rs_status (fst (handle_session_stop store e r s)) = 202"
    and "find_tx u (sv_rows (snd (handle_session_stop store e r s))) =
      (if u = spi_transaction i
       then Some (q\<lparr>sr_end := Some (pg_time (stop_time e i)), sr_energy := spi_energy i,
                    sr_status := ''completed'', sr_updated := db_now e\<rparr>)
       else find_tx u (sv_rows s))"
proof -
  have c: "complete_session e 0 (spi_transaction i) (stop_time e i) (spi_energy i) SessionStatusCompleted s =
      (Inr (), s\<lparr>sv_rows := update_tx (spi_transaction i)
          (\<lambda>r. r\<lparr>sr_end := Some (pg_time (stop_time e i)), sr_energy := spi_energy i,
                 sr_status := ''completed'', sr_updated := db_now e\<rparr>) (sv_rows s)\<rparr>)"
    using assms by (simp add: complete_session_def SessionStatusCompleted_def)
  show "rs_status (fst (handle_session_stop store e r s)) = 202"
    using assms by (simp add: handle_session_stop_def stop_session_from_ocpp_def c split: option.split)
  show "find_tx u (sv_rows (snd (handle_session_stop store e r s))) =
      (if u = spi_transaction i
       then Some (q\<lparr>sr_end := Some (pg_time (stop_time e i)), sr_energy := spi_energy i,
                    sr_status := ''completed'', sr_updated := db_now e\<rparr>)
       else find_tx u (sv_rows s))"
    using assms
    by (auto simp: handle_session_stop_def stop_session_from_ocpp_def c find_update_tx split: option.split)
qed

subsection \<open>Properties\<close>

text \<open>Whatever requests the service receives, its table stays well formed: ids are unique,
  positive and below the next value of the sequence, a transaction has at most one row, every row
  belongs to a known station and has an int4 connector, and a completed row has an end time.\<close>

theorem sessions_table_ok:
  "sessions_ok (snd (serve_all (sessions_router store) es (init_sessions stations c)))"
  by (rule sessions.run) (rule init_sessions_ok)

text \<open>C7: A session started and then stopped under one transaction id is completed with the energy
  and the end time of the stop and keeps the station, the user and the id that the start was
  answered with; the rows of all other transactions are untouched.\<close>

theorem session_lifecycle:
  assumes "decode_session_start (rq_body r) = Inr a" and "startable e a s"
    and "decode_session_stop (rq_body r') = Inr b" and "spi_transaction b = ssi_transaction a"
    and "db_fault e' 0 = None"
    and s1: "s1 = snd (handle_session_start store e r s)"
    and s2: "s2 = snd (handle_session_stop store e' r' s1)"
  shows "\<exists>row. find_tx (ssi_transaction a) (sv_rows s2) = Some row \<and>
      fst (handle_session_start store e r s) = start_answer (sr_id row) \<and>
      rs_status (fst (handle_session_stop store e' r' s1)) = 202 \<and>
      sr_status row = ''completed'' \<and> sr_end row = Some (pg_time (stop_time e' b)) \<and>
      sr_energy row = spi_energy b \<and> sr_station row = ssi_station a \<and> sr_user row = ssi_user a \<and>
      (\<forall>u. u = ssi_transaction a \<or> find_tx u (sv_rows s2) = find_tx u (sv_rows s))"
proof -
  obtain row where row: "fst (handle_session_start store e r s) = start_answer (sr_id row)"
    "find_tx (ssi_transaction a) (sv_rows s1) = Some row"
    "sr_station row = ssi_station a" "sr_user row = ssi_user a"
    and other: "\<And>u. u \<noteq> ssi_transaction a \<Longrightarrow> find_tx u (sv_rows s1) = find_tx u (sv_rows s)"
    using handle_start_effect [OF assms(1,2), of store] unfolding s1 by metis
  have "spi_transaction b \<noteq> []" using assms(2,4) by (simp add: startable_def)
  moreover have "find_tx (spi_transaction b) (sv_rows s1) = Some row" using row(2) assms(4) by simp
  ultimately have status: "rs_status (fst (handle_session_stop store e' r' s1)) = 202"
    and find: "\<And>u. find_tx u (sv_rows s2) =
      (if u = spi_transaction b
       then Some (row\<lparr>sr_end := Some (pg_time (stop_time e' b)), sr_energy := spi_energy b,
                      sr_status := ''completed'', sr_updated := db_now e'\<rparr>)
       else find_tx u (sv_rows s1))"
    unfolding s2 using handle_stop_effect [OF assms(3,5)] by blast+
  then show ?thesis using row other assms(4)
    by (intro exI [of _ "row\<lparr>sr_end := Some (pg_time (stop_time e' b)), sr_energy := spi_energy b,
        sr_status := ''completed'', sr_updated := db_now e'\<rparr>"]) auto
qed

text \<open>Starting a transaction again, with whatever other content, is idempotent on the table's
  keys: it is answered with the session id of the first start and creates no further row.\<close>

theorem start_idempotent:
  assumes "decode_session_start (rq_body r) = Inr a" and "startable e a s"
    and "decode_session_start (rq_body r') = Inr b" and "ssi_transaction b = ssi_transaction a"
    and s1: "s1 = snd (handle_session_start store e r s)" and "startable e' b s1"
  shows "fst (handle_session_start store e' r' s1) = fst (handle_session_start store e r s) \<and>
     length (sv_rows (snd (handle_session_start store e' r' s1))) = length (sv_rows s1)"
proof -
  obtain row where row: "fst (handle_session_start store e r s) = start_answer (sr_id row)"
    "find_tx (ssi_transaction a) (sv_rows s1) = Some row"
    using handle_start_effect [OF assms(1,2), of store] unfolding s1 by metis
  show ?thesis
    using handle_start_effect [OF assms(3,6), of store] row assms(4) by (auto split: option.splits)
qed

text \<open>C39: The list of active sessions cannot be read while a session is charging: a row of a started
  and not yet stopped session has no end time, which \<open>rows.Scan\<close> refuses, so the request fails
  with 500 whenever such a row is among the at most 50 active ones.\<close>

theorem active_list_fails:
  assumes "row \<in> set (sv_rows s)" and "sr_status row = ''active''" and "sr_end row = None"
    and "length (filter (\<lambda>r. sr_status r = ''active'') (sv_rows s)) \<le> 50"
  shows "rs_status (fst (active_sessions e r s)) = 500"
proof -
  let ?rows = "filter (\<lambda>r. sr_status r = ''active'') (sv_rows s)"
  have "row \<in> set (order_desc_limit sr_start 50 ?rows)"
    using assms by (simp add: order_desc_limit_all)
  moreover have "\<not> is_ok (scan_session row)" using assms(3) by (simp add: scan_session_def)
  ultimately have "\<not> is_ok (scan_all scan_session (order_desc_limit sr_start 50 ?rows))"
    unfolding scan_all_ok_iff by blast
  then have "\<not> is_ok (get_active_sessions e 0 50 s)"
    by (simp add: get_active_sessions_def effective_limit_def split: option.split)
  then show ?thesis by (cases "get_active_sessions e 0 50 s") (simp_all add: active_sessions_def)
qed

text \<open>C35: When all sessions of a user have ended, the history holds rows of that user only, newest
  first, as many as exist up to the limit (50 when none is given), and no row left out is newer than
  a row returned.\<close>

theorem history_correct:
  assumes "db_fault e n = None" and "\<forall>r \<in> set (sv_rows s). sr_user r = user \<longrightarrow> sr_end r \<noteq> None"
  shows "\<exists>ss. get_sessions_by_user e n user limit s = Inr ss \<and>
    length ss = min (effective_limit limit) (length (filter (\<lambda>r. sr_user r = user) (sv_rows s))) \<and>
    sorted_wrt (\<lambda>a b. ses_start b \<le> ses_start a) ss \<and>
    (\<forall>a \<in> set ss. \<exists>r \<in> set (sv_rows s). scan_session r = Inr a \<and> ses_user a = user) \<and>
    (\<forall>r \<in> set (sv_rows s). sr_user r \<noteq> user \<or> (\<exists>a \<in> set ss. scan_session r = Inr a) \<or>
       (\<forall>a \<in> set ss. sr_start r \<le> ses_start a))"
proof -
  let ?rows = "filter (\<lambda>r. sr_user r = user) (sv_rows s)"
  let ?top = "order_desc_limit sr_start (effective_limit limit) ?rows"
  have sub: "set ?top \<subseteq> set ?rows" by (rule set_order_desc_limit)
  obtain g where g: "\<And>r. r \<in> set ?top \<Longrightarrow> scan_session r = Inr (g r)"
    and gs: "\<And>r. r \<in> set ?top \<Longrightarrow> ses_start (g r) = sr_start r \<and> ses_user (g r) = sr_user r"
    using assms(2) sub
    by (intro that [of "\<lambda>r. the (case scan_session r of Inr a \<Rightarrow> Some a | Inl _ \<Rightarrow> None)"])
      (force simp: scan_session_def split: option.splits)+
  have eq: "get_sessions_by_user e n user limit s = Inr (map g ?top)"
    using assms(1) by (simp add: get_sessions_by_user_def scan_all_total [of ?top scan_session g, OF g])
  have "sorted_wrt (\<lambda>a b. ses_start b \<le> ses_start a) (map g ?top)"
    unfolding sorted_wrt_map
    by (rule sorted_wrt_mono_rel [OF _ sorted_order_desc_limit]) (simp add: gs)
  moreover have "\<forall>a \<in> set (map g ?top). \<exists>r \<in> set (sv_rows s). scan_session r = Inr a \<and> ses_user a = user"
    using g gs sub by fastforce
  moreover have "\<forall>r \<in> set (sv_rows s). sr_user r \<noteq> user \<or>
      (\<exists>a \<in> set (map g ?top). scan_session r = Inr a) \<or> (\<forall>a \<in> set (map g ?top). sr_start r \<le> ses_start a)"
    using g gs order_desc_limit_newest [of _ ?rows sr_start "effective_limit limit"] by auto metis
  ultimately show ?thesis using eq
    by (intro exI [of _ "map g ?top"]) (simp add: length_order_desc_limit)
qed

text \<open>A service without stations: by the foreign key every start fails, and every stop finds no row.\<close>

definition stationless :: "'c sessions_state \<Rightarrow> bool" where
  "stationless s \<longleftrightarrow> sv_stations s = Map.empty \<and> sv_rows s = []"

lemma stationless_start:
  assumes "stationless s"
  shows "stationless (snd (handle_session_start store e r s)) \<and>
    rs_status (fst (handle_session_start store e r s)) \<noteq> 202"
proof (cases "decode_session_start (rq_body r)")
  case (Inr i)
  have n: "\<not> is_ok (fst (start_session e 0 (new_session e i) s))"
    "sv_rows (snd (start_session e 0 (new_session e i) s)) = []"
    "sv_stations (snd (start_session e 0 (new_session e i) s)) = Map.empty"
    using start_session_no_station [of s "new_session e i" e 0] assms by (auto simp: stationless_def)
  obtain x s1 where st: "start_session e 0 (new_session e i) s = (x, s1)" by fastforce
  then obtain err where x: "x = Inl err" using n(1) by (cases x) auto
  show ?thesis using assms n(2,3)
    by (simp add: handle_session_start_def Inr start_session_from_ocpp_def st x stationless_def)
qed (use assms in \<open>simp add: handle_session_start_def\<close>)

lemma stationless_stop:
  assumes "stationless s"
  shows "stationless (snd (handle_session_stop store e r s)) \<and>
    rs_status (fst (handle_session_stop store e r s)) \<noteq> 202"
  using assms
  by (auto simp: handle_session_stop_def stop_session_from_ocpp_def complete_session_def stationless_def
      find_tx_def split: sum.split option.split)

lemma read_only_status:
  "rs_status (fst (sessions_me e r s)) \<noteq> 202" "rs_status (fst (active_sessions e r s)) \<noteq> 202"
  by (auto simp: sessions_me_def active_sessions_def split: option.split sum.split)

lemma stationless_router:
  "stationless s \<Longrightarrow> stationless (snd (sessions_router store e r s)) \<and>
     rs_status (fst (sessions_router store e r s)) \<noteq> 202"
  by (simp add: sessions_router_def serve_mux_def method_guard_def stationless_start stationless_stop
      read_only_status)

interpretation stationless: service_inv "sessions_router store" stationless for store
  by unfold_locales (use stationless_router in blast)

text \<open>C37: A service whose table of stations is empty, as the migrations leave it and since no route
  writes it, never creates a session row and never answers 202, whatever requests it receives.\<close>

theorem no_station_no_session:
  "list_all (\<lambda>resp. rs_status resp \<noteq> 202) (fst (serve_all (sessions_router store) es (init_sessions Map.empty c))) \<and>
   sv_rows (snd (serve_all (sessions_router store) es (init_sessions Map.empty c))) = []"
proof -
  have init: "stationless (init_sessions Map.empty c)" by (simp add: stationless_def init_sessions_def)
  have "list_all (\<lambda>resp. rs_status resp \<noteq> 202) (fst (serve_all (sessions_router store) es (init_sessions Map.empty c)))"
    by (rule stationless.run_responses [OF init]) (use stationless_router in blast)
  moreover have "stationless (snd (serve_all (sessions_router store) es (init_sessions Map.empty c)))"
    by (rule stationless.run [OF init])
  ultimately show ?thesis by (simp add: stationless_def)
qed

text \<open>A session saved in the cache is read back as it was saved, provided Redis returns the last
  value set under a key.\<close>

theorem cache_round_trip:
  assumes "\<And>k j t c. fst (rd_get (st_client st) k (snd (rd_set (st_client st) k j t c))) = Inr (Json j)"
    and "in_int64 (as_session a)" and "in_int64 (as_connector a)" and "in_int64 (as_user a)"
  shows "fst (store_get st (as_transaction a) (snd (store_save st a c))) = Inr a"
proof -
  let ?j = "JObj [(''session_id'', JInt (as_session a)), (''transaction_id'', JStr (as_transaction a)),
      (''station_id'', JStr (as_station a)), (''connector_id'', JInt (as_connector a)),
      (''user_id'', JInt (as_user a))]"
  have "json_active a = Some ?j" by (simp add: json_active_def json_object_def)
  then have save: "store_save st a c = rd_set (st_client st) (store_key (as_transaction a)) ?j (st_ttl st) c"
    by (simp add: store_save_def)
  have "decode_body active_fields
      \<lparr>as_session = 0, as_transaction = [], as_station = [], as_connector = 0, as_user = 0\<rparr> (Json ?j) = Inr a"
    using assms(2-4)
    by (simp add: decode_body_def decode_struct_def active_fields_def field_defs find_field_def)
  moreover obtain c' where "rd_get (st_client st) (store_key (as_transaction a)) (snd (store_save st a c)) =
      (Inr (Json ?j), c')"
    using assms(1) [of "store_key (as_transaction a)" ?j "st_ttl st" c] unfolding save by (metis surjective_pairing)
  ultimately show ?thesis by (simp add: store_get_def)
qed

subsection \<open>Witnesses\<close>

definition sample_start :: request where
  "sample_start = post_body ''/internal/ocpp/session-start''
     (JObj [(''station_id'', JStr ''CP1''), (''connector_id'', JInt 1), (''transaction_id'', JStr ''T1'')])"

definition sample_stop :: request where
  "sample_stop = post_body ''/internal/ocpp/session-stop''
     (JObj [(''transaction_id'', JStr ''T1''), (''energy_kwh'', JInt 12)])"

definition sample_sessions :: "unit sessions_state" where
  "sample_sessions = init_sessions
     [''CP1'' \<mapsto> \<lparr>sm_name = ''one'', sm_location = [], sm_created = 0, sm_updated = 0\<rparr>] ()"

lemma decode_sample_start:
  "decode_session_start (rq_body sample_start) = Inr \<lparr>ssi_user = 0, ssi_station = ''CP1'', ssi_connector = 1,
     ssi_transaction = ''T1'', ssi_start = 0\<rparr>"
  by (simp add: sample_start_def post_body_def decode_session_start_def decode_body_def decode_struct_def
      session_start_fields_def field_defs find_field_def in_int64_def)

lemma decode_sample_stop:
  "decode_session_stop (rq_body sample_stop) = Inr \<lparr>spi_transaction = ''T1'', spi_end = 0, spi_energy = Fin 12\<rparr>"
  by (simp add: sample_stop_def post_body_def decode_session_stop_def decode_body_def decode_struct_def
      session_stop_fields_def field_defs find_field_def number_f64_def of_int64_exact)

lemma sample_startable:
  "startable (quiet_env 0) \<lparr>ssi_user = 0, ssi_station = ''CP1'', ssi_connector = 1, ssi_transaction = ''T1'',
     ssi_start = 0\<rparr> sample_sessions"
  by (simp add: startable_def sample_sessions_def init_sessions_def quiet_env_def in_int32_def in_int64_def)

definition sample_started :: "unit sessions_state" where
  "sample_started = snd (handle_session_start None (quiet_env 0) sample_start sample_sessions)"

theorem session_lifecycle_witness:
  "\<exists>row. find_tx ''T1'' (sv_rows (snd (handle_session_stop None (quiet_env 5) sample_stop sample_started))) =
     Some row \<and> sr_status row = ''completed'' \<and> sr_energy row = Fin 12"
  using session_lifecycle [OF decode_sample_start sample_startable decode_sample_stop _ _ refl refl,
      of "quiet_env 5" None]
  by (auto simp: quiet_env_def [of 5] sample_started_def)

lemma sample_started_eq:
  "sample_started = sample_sessions\<lparr>sv_seq := 2, sv_rows :=
     [\<lparr>sr_id = 1, sr_user = 0, sr_station = ''CP1'', sr_connector = 1, sr_status = ''active'', sr_start = 0,
       sr_end = None, sr_energy = Fin 0, sr_tx = ''T1'', sr_created = 0, sr_updated = 0\<rparr>]\<rparr>"
  by (simp add: sample_started_def handle_session_start_def decode_sample_start start_session_from_ocpp_def
      start_session_def new_session_def sample_sessions_def init_sessions_def quiet_env_def in_int32_def
      in_int64_def find_tx_def SessionStatusActive_def pg_time_def)

theorem active_list_fails_witness:
  "rs_status (fst (active_sessions (quiet_env 0) sample_start sample_started)) = 500"
  by (rule active_list_fails [where row = "hd (sv_rows sample_started)"]) (simp_all add: sample_started_eq)

theorem history_correct_witness:
  "\<exists>ss. get_sessions_by_user (quiet_env 0) 0 7 0 sample_started = Inr ss \<and> length ss = 0"
  using history_correct [of "quiet_env 0" 0 sample_started 7 0]
  by (auto simp: sample_started_eq quiet_env_def)

definition one_cell :: "(string \<rightharpoonup> json) redis" where
  "one_cell = \<lparr>rd_set = (\<lambda>k j t c. (Inr (), c(k \<mapsto> j))),
     rd_get = (\<lambda>k c. (case c k of None \<Rightarrow> Inl (ErrExt ''redis: nil'') | Some j \<Rightarrow> Inr (Json j), c)),
     rd_del = (\<lambda>k c. (Inr (), c(k := None)))\<rparr>"

end
