(* ===== verification/BillingProps.thy ===== *)
theory BillingProps
  imports Billing
begin

section \<open>The billing service: properties\<close>

subsection \<open>The invariant over runs\<close>

lemma decode_stopped_valid:
  assumes "decode_session_stopped b = Inr i" shows "valid64 (ci_energy i) \<and> finite64 (ci_energy i)"
proof -
  let ?P = "\<lambda>r. valid64 (ci_energy r) \<and> finite64 (ci_energy r)"
  have fin: "number_f64 j = Some x \<Longrightarrow> finite64 x" for j x
    by (auto simp: number_f64_def Let_def split: json.splits if_splits)
  show ?thesis
    by (rule decode_body_inv [where P = ?P, OF assms [unfolded decode_session_stopped_def]])
      (auto simp: session_stopped_fields_def field_defs number_f64_valid fin
        split: json.splits option.splits if_splits)
qed

lemma price_of_pos: "\<not> le64 (price_of t) (Fin 0)"
  by (simp add: price_of_def)

text \<open>A notification is answered 201 and adds one transaction, or changes nothing.\<close>

lemma handle_stopped_cases:
  obtains "snd (handle_session_stopped ts e r s) = s" and "rs_status (fst (handle_session_stopped ts e r s)) \<noteq> 201"
  | i tariff t where "decode_session_stopped (rq_body r) = Inr i" and "active_tariff ts e s = Inr tariff"
      and "handle_session_stopped ts e r s =
         (write_json 201 (json_transaction t), s\<lparr>bv_rows := bv_rows s @ [t], bv_seq := bv_seq s + 1\<rparr>)"
      and "ci_session i \<noteq> 0"
      and "t = \<lparr>bt_id = bv_seq s, bt_session = ci_session i, bt_user = ci_user i, bt_energy = ci_energy i,
                bt_price = price_of tariff, bt_amount = mul64 (ci_energy i) (price_of tariff),
                bt_status = ''completed'', bt_created_at = db_now e\<rparr>"
proof (cases "decode_session_stopped (rq_body r)")
  case (Inr i)
  show thesis
  proof (cases rule: calculate_cases [of ts e i s])
    case (1 err)
    then show thesis using Inr by (intro that(1)) (simp_all add: handle_session_stopped_def)
  next
    case (2 t tariff)
    then show thesis using Inr by (intro that(2) [of i tariff t]) (simp_all add: handle_session_stopped_def)
  qed
qed (use that in \<open>simp add: handle_session_stopped_def\<close>)

lemma handle_stopped_ok:
  assumes "billing_rows_ok s" shows "billing_rows_ok (snd (handle_session_stopped ts e r s))"
proof (cases rule: handle_stopped_cases [of ts e r s])
  case (2 i tariff t)
  have "transaction_ok (bv_seq s + 1) t"
    using 2 price_of_pos decode_stopped_valid [OF 2(1)] by (simp add: transaction_ok_def)
  moreover have "transaction_ok (bv_seq s + 1) u" "bt_id u < bv_seq s" if "u \<in> set (bv_rows s)" for u
    using assms that by (auto simp: billing_rows_ok_def transaction_ok_def)
  ultimately show ?thesis using assms 2
    by (auto simp: billing_rows_ok_def sorted_wrt_append)
qed (use assms in simp)

lemma transactions_me_state [simp]: "snd (transactions_me e r s) = s"
  by (auto simp: transactions_me_def split: option.split sum.split)

lemma transactions_me_status: "rs_status (fst (transactions_me e r s)) \<noteq> 201"
  by (auto simp: transactions_me_def split: option.split sum.split)

interpretation billing_rows: service_inv "billing_router ts" billing_rows_ok for ts
  by unfold_locales (simp add: billing_router_def serve_mux_def method_guard_def handle_stopped_ok)

definition init_billing :: "Tariff list \<Rightarrow> billing_state" where
  "init_billing tariffs = \<lparr>bv_tariffs = tariffs, bv_rows = [], bv_seq = 1\<rparr>"

lemma init_billing_ok: "billing_rows_ok (init_billing tariffs)"
  by (simp add: billing_rows_ok_def init_billing_def)

subsection \<open>Properties\<close>

text \<open>Every transaction the service ever stores is consistent: fresh increasing ids, a session, a
  price that is not zero or negative, a finite energy, and an amount that is the rounded product of
  the stored energy and the stored price.\<close>

theorem transactions_consistent:
  "billing_rows_ok (snd (serve_all (billing_router ts) es (init_billing tariffs)))"
  by (rule billing_rows.run) (rule init_billing_ok)



text \<open>A user's billing history holds that user's transactions only, newest first, and all of them
  up to the limit of 50.\<close>

theorem billing_history:
  assumes "db_fault e n = None"
  shows "\<exists>ts. list_by_user e n user 50 s = Inr ts \<and>
    set ts \<subseteq> {t \<in> set (bv_rows s). bt_user t = user} \<and>
    sorted_wrt (\<lambda>a b. bt_created_at b \<le> bt_created_at a) ts \<and>
    length ts = min 50 (length (filter (\<lambda>t. bt_user t = user) (bv_rows s))) \<and>
    (\<forall>t \<in> set (bv_rows s) - set ts. bt_user t = user \<longrightarrow> (\<forall>u \<in> set ts. bt_created_at t \<le> bt_created_at u))"
proof -
  let ?mine = "filter (\<lambda>t. bt_user t = user) (bv_rows s)"
  let ?ts = "order_desc_limit bt_created_at 50 ?mine"
  have "list_by_user e n user 50 s = Inr ?ts" using assms by (simp add: list_by_user_def)
  moreover have "set ?ts \<subseteq> {t \<in> set (bv_rows s). bt_user t = user}"
    using set_order_desc_limit [of bt_created_at 50 ?mine] by auto
  moreover have "\<forall>t \<in> set (bv_rows s) - set ?ts. bt_user t = user \<longrightarrow>
      (\<forall>u \<in> set ?ts. bt_created_at t \<le> bt_created_at u)"
    using order_desc_limit_newest [of _ ?mine bt_created_at 50] by auto
  ultimately show ?thesis
    by (intro exI [of _ ?ts]) (simp add: length_order_desc_limit sorted_order_desc_limit)
qed

subsection \<open>Witnesses\<close>

definition sample_bill :: request where
  "sample_bill = post_body ''/internal/ocpp/session-stopped''
     (JObj [(''session_id'', JInt 7), (''user_id'', JInt 3), (''energy_kwh'', JInt 12)])"

lemma decode_sample_bill:
  "decode_session_stopped (rq_body sample_bill) = Inr \<lparr>ci_session = 7, ci_user = 3, ci_energy = Fin 12\<rparr>"
  by (simp add: sample_bill_def post_body_def decode_session_stopped_def decode_body_def decode_struct_def
      session_stopped_fields_def field_defs find_field_def in_int64_def number_f64_def of_int64_exact)



end
