(* ===== verification/EndToEnd.thy ===== *)
theory EndToEnd
  imports OcppProps SessionsProps BillingProps Telemetry
begin

section \<open>The services together\<close>

text \<open>
  The OCPP server with the sessions, billing and telemetry services as its world: a call is routed by
  the base URLs of \<open>docker-compose.dev.yml\<close> to the router of the service it names. What one service
  writes as JSON the other reads back, so that the properties of the parts compose: a charge on a
  station becomes a completed session and a billed transaction.
\<close>

record 'c fleet =
  fl_sessions :: "'c sessions_state"
  fl_billing :: billing_state
  fl_telemetry :: telemetry_state

definition sessions_url :: string where "sessions_url = ''http://sessions-service:8082''"
definition billing_url :: string where "billing_url = ''http://billing-service:8083''"
definition telemetry_url :: string where "telemetry_url = ''http://telemetry-service:8084''"

definition strip_base :: "string \<Rightarrow> string \<Rightarrow> string option" where
  "strip_base base url = (if has_prefix url base then Some (drop (length base) url) else None)"

definition received :: "http_call \<Rightarrow> string \<Rightarrow> request" where
  "received c path =
     \<lparr>rq_method = hc_method c, rq_path = path, rq_query = (\<lambda>_. []),
      rq_header = (\<lambda>k. case map_of (hc_headers c) k of None \<Rightarrow> [] | Some v \<Rightarrow> v), rq_body = hc_body c\<rparr>"

definition connect :: "'c store option \<Rightarrow> env \<Rightarrow> 'c fleet transport" where
  "connect store e c w =
     (case strip_base sessions_url (hc_url c) of
        Some path \<Rightarrow>
          (let (resp, s) = sessions_router store e (received c path) (fl_sessions w)
           in (Inr resp, w\<lparr>fl_sessions := s\<rparr>))
      | None \<Rightarrow>
          (case strip_base billing_url (hc_url c) of
             Some path \<Rightarrow>
               (let (resp, s) = billing_app e (received c path) (fl_billing w)
                in (Inr resp, w\<lparr>fl_billing := s\<rparr>))
           | None \<Rightarrow>
               (case strip_base telemetry_url (hc_url c) of
                  Some path \<Rightarrow>
                    (let (resp, s) = telemetry_router e (received c path) (fl_telemetry w)
                     in (Inr resp, w\<lparr>fl_telemetry := s\<rparr>))
                | None \<Rightarrow> (Inl (ErrExt ''dial tcp: lookup: no such host''), w))))"

definition fleet_deps :: "'c store option \<Rightarrow> env \<Rightarrow> 'c fleet deps" where
  "fleet_deps store e =
     \<lparr>dp_sessions = Some sessions_url, dp_billing = Some billing_url, dp_telemetry = Some telemetry_url,
      dp_net = connect store e\<rparr>"

subsection \<open>Routing of calls\<close>

lemma strip_base_append [simp]: "strip_base b (b @ p) = Some p"
  by (auto simp: strip_base_def has_prefix_iff)

lemma strip_sessions [simp]:
  "strip_base sessions_url (billing_url @ p) = None" "strip_base sessions_url (telemetry_url @ p) = None"
  "strip_base billing_url (telemetry_url @ p) = None"
  by (simp_all add: strip_base_def sessions_url_def billing_url_def telemetry_url_def)

lemma connect_start [simp]:
  "connect store e (json_post (sessions_url @ start_path) j) w =
     (Inr (fst (handle_session_start store e (received (json_post (sessions_url @ start_path) j) start_path) (fl_sessions w))),
      w\<lparr>fl_sessions := snd (handle_session_start store e (received (json_post (sessions_url @ start_path) j) start_path) (fl_sessions w))\<rparr>)"
  by (simp add: connect_def case_prod_beta sessions_router_def serve_mux_def method_guard_def received_def json_post_def)

lemma connect_stop [simp]:
  "connect store e (json_post (sessions_url @ stop_path) j) w =
     (Inr (fst (handle_session_stop store e (received (json_post (sessions_url @ stop_path) j) stop_path) (fl_sessions w))),
      w\<lparr>fl_sessions := snd (handle_session_stop store e (received (json_post (sessions_url @ stop_path) j) stop_path) (fl_sessions w))\<rparr>)"
  by (simp add: connect_def case_prod_beta sessions_router_def serve_mux_def method_guard_def received_def json_post_def)

lemma connect_stopped [simp]:
  "connect store e (json_post (billing_url @ stopped_path) j) w =
     (Inr (fst (handle_session_stopped app_tariffs e (received (json_post (billing_url @ stopped_path) j) stopped_path) (fl_billing w))),
      w\<lparr>fl_billing := snd (handle_session_stopped app_tariffs e (received (json_post (billing_url @ stopped_path) j) stopped_path) (fl_billing w))\<rparr>)"
  by (simp add: connect_def case_prod_beta billing_app_def billing_router_def serve_mux_def method_guard_def received_def json_post_def)

lemma connect_meter [simp]:
  "connect store e (json_post (telemetry_url @ meter_path) j) w =
     (Inr (fst (handle_meter_values e (received (json_post (telemetry_url @ meter_path) j) meter_path) (fl_telemetry w))),
      w\<lparr>fl_telemetry := snd (handle_meter_values e (received (json_post (telemetry_url @ meter_path) j) meter_path) (fl_telemetry w))\<rparr>)"
  by (simp add: connect_def case_prod_beta telemetry_router_def serve_mux_def method_guard_def received_def json_post_def)

lemma received_body [simp]: "rq_body (received (json_post url j) path) = Json j"
  by (simp add: received_def json_post_def)

subsection \<open>What is sent is what is received\<close>

lemma start_wire:
  assumes "json_start_session r = Some j" and "in_int64 (ssr_connector r)"
  shows "decode_session_start (Json j) = Inr \<lparr>ssi_user = 0, ssi_station = ssr_station r,
     ssi_connector = ssr_connector r, ssi_transaction = ssr_transaction r, ssi_start = 0\<rparr>"
  using assms
  by (auto simp: json_start_session_def json_object_def decode_session_start_def decode_body_def
      decode_struct_def session_start_fields_def find_field_def field_defs equal_fold_def)

lemma stop_wire:
  assumes "json_stop_session r = Some j" and "valid64 (spr_energy r)"
  shows "decode_session_stop (Json j) = Inr \<lparr>spi_transaction = spr_transaction r, spi_end = spr_end_time r,
     spi_energy = spr_energy r\<rparr>"
proof -
  obtain en ts where en: "json_f64 (spr_energy r) = Some en" and ts: "parse_rfc3339 ts = Some (spr_end_time r)"
    and j: "j = JObj [(''transaction_id'', JStr (spr_transaction r)), (''meter_stop'', JInt (spr_meter_stop r)),
       (''reason'', JStr (spr_reason r)), (''energy_kwh'', en), (''end_time'', JStr ts)]"
    using assms(1) by (auto simp: json_stop_session_def json_object_def json_all_Some dest: json_time_text)
  show ?thesis
    by (simp add: j decode_session_stop_def decode_body_def decode_struct_def session_stop_fields_def
        find_field_def equal_fold_def lower_char_def field_defs ts number_json_f64 [OF assms(2) en] json_f64_not_null [OF en])
qed

lemma billing_wire:
  assumes "json_billing_stop r = Some j" and "valid64 (bsr_energy r)" and "in_int64 (bsr_session r)"
    and "in_int64 (bsr_user r)"
  shows "decode_session_stopped (Json j) = Inr \<lparr>ci_session = bsr_session r, ci_user = bsr_user r,
     ci_energy = bsr_energy r\<rparr>"
proof -
  obtain en where en: "json_f64 (bsr_energy r) = Some en"
    and j: "j = JObj [(''session_id'', JInt (bsr_session r)), (''user_id'', JInt (bsr_user r)), (''energy_kwh'', en)]"
    using assms(1) by (auto simp: json_billing_stop_def json_object_def json_all_Some)
  show ?thesis using assms(3,4)
    by (simp add: j decode_session_stopped_def decode_body_def decode_struct_def session_stopped_fields_def
        find_field_def equal_fold_def lower_char_def field_defs number_json_f64 [OF assms(2) en] json_f64_not_null [OF en])
qed

lemma meter_wire:
  assumes "json_meter_value r = Some j" and "valid64 (mvr_value r)" and "in_int64 (mvr_session r)"
    and "in_int64 (mvr_connector r)"
  shows "decode_meter_value (Json j) = Inr \<lparr>mi_session = mvr_session r, mi_station = mvr_station r,
     mi_connector = mvr_connector r, mi_value = mvr_value r, mi_unit = mvr_unit r,
     mi_timestamp = mvr_timestamp r\<rparr>"
proof -
  obtain v ts where v: "json_f64 (mvr_value r) = Some v" and ts: "parse_rfc3339 ts = Some (mvr_timestamp r)"
    and j: "j = JObj [(''session_id'', JInt (mvr_session r)), (''station_id'', JStr (mvr_station r)),
       (''connector_id'', JInt (mvr_connector r)), (''meter_value'', v), (''unit'', JStr (mvr_unit r)),
       (''timestamp'', JStr ts)]"
    using assms(1) by (auto simp: json_meter_value_def json_object_def json_all_Some dest: json_time_text)
  show ?thesis using assms(3,4)
    by (simp add: j decode_meter_value_def decode_body_def decode_struct_def meter_value_fields_def
        find_field_def equal_fold_def lower_char_def field_defs ts number_json_f64 [OF assms(2) v] json_f64_not_null [OF v])
qed

lemma answer_wire:
  assumes "\<bar>i\<bar> < 2 ^ 53"
  shows "\<exists>m. decode_map (rs_body (start_answer i)) = Inr m \<and> m ''session_id'' = Some (JInt i)"
  by (simp add: start_answer_def write_json_def decode_map_def number_f64_def of_int64_exact [OF assms])

subsection \<open>A start and a stop, across the services\<close>

lemma urls_not_Nil [simp]: "sessions_url \<noteq> []" "billing_url \<noteq> []" "telemetry_url \<noteq> []"
  by (simp_all add: sessions_url_def billing_url_def telemetry_url_def)

lemma stop_energy_finite:
  assumes "in_int64 m" and "in_int64 n" obtains v where "stop_energy m n = Fin v"
  using stop_energy_none [of n m] stop_energy_pos [of m n] stop_energy_neg [OF assms]
  by (metis linorder_not_less)

lemma fleet_start:
  assumes dec: "decode_start p = Inr a" and tx: "st_transaction a \<noteq> []"
    and st: "startable e1 \<lparr>ssi_user = 0, ssi_station = i, ssi_connector = st_connector a,
        ssi_transaction = st_transaction a, ssi_start = 0\<rparr> (fl_sessions (oc_world s))"
    and ok: "sessions_ok (fl_sessions (oc_world s))" and seq: "sv_seq (fl_sessions (oc_world s)) < 2 ^ 53"
    and s1: "s1 = snd (start_transaction (fleet_deps store e1) e i p s)"
  obtains row where "find_tx (st_transaction a) (sv_rows (fl_sessions (oc_world s1))) = Some row"
    and "sr_station row = i" and "sr_user row = 0" and "0 < sr_id row" and "sr_id row < 2 ^ 53"
    and "tx_get (oc_txs s1) (st_transaction a) = Some \<lparr>tc_session_id = sr_id row, tc_meter_start = st_meter_start a\<rparr>"
    and "fl_billing (oc_world s1) = fl_billing (oc_world s)"
    and "oc_stations s1 = (if 0 < st_connector a
           then update_connector i (st_connector a) ConnectorCharging (oc_stations s) else oc_stations s)"
proof -
  let ?w = "oc_world s"
  let ?r = "\<lparr>ssr_station = i, ssr_connector = st_connector a, ssr_transaction = st_transaction a,
      ssr_meter_start = st_meter_start a\<rparr>"
  have t: "transaction_id_of e i a = st_transaction a" using tx by (simp add: transaction_id_of_def)
  obtain j where j: "json_start_session ?r = Some j" using json_start_session_Some by blast
  let ?req = "received (json_post (sessions_url @ start_path) j) start_path"
  let ?S = "snd (handle_session_start store e1 ?req (fl_sessions ?w))"
  have rcv: "decode_session_start (rq_body ?req) = Inr \<lparr>ssi_user = 0, ssi_station = i, ssi_connector = st_connector a,
        ssi_transaction = st_transaction a, ssi_start = 0\<rparr>"
    using start_wire [OF j] decode_start_range [OF dec] by simp
  obtain row where
    ans: "fst (handle_session_start store e1 ?req (fl_sessions ?w)) = start_answer (sr_id row)"
    and find: "find_tx (st_transaction a) (sv_rows ?S) = Some row"
    and row: "sr_station row = i" "sr_user row = 0"
    and id: "case find_tx (st_transaction a) (sv_rows (fl_sessions ?w)) of
           None \<Rightarrow> sr_id row = sv_seq (fl_sessions ?w) | Some q \<Rightarrow> sr_id row = sr_id q"
    by (rule handle_start_effect [OF rcv st, of store], erule that) (simp_all split: option.splits)
  have "1 \<le> sv_seq (fl_sessions ?w)" using ok by (simp add: sessions_ok_def)
  moreover have "1 \<le> sr_id q \<and> sr_id q < sv_seq (fl_sessions ?w)"
    if "find_tx (st_transaction a) (sv_rows (fl_sessions ?w)) = Some q" for q
    using ok find_tx_Some [OF that] by (auto simp: sessions_ok_def row_ok_def)
  ultimately have sid: "0 < sr_id row" "sr_id row < 2 ^ 53"
    using id seq by (auto split: option.splits)
  then obtain m where m: "decode_map (rs_body (start_answer (sr_id row))) = Inr m" "m ''session_id'' = Some (JInt (sr_id row))"
    using answer_wire [of "sr_id row"] by auto
  have "post_start (connect store e1) sessions_url start_path (Some j) ?w = (Inr (sr_id row), ?w\<lparr>fl_sessions := ?S\<rparr>)"
    using sid by (intro post_start_id [where payload = m and resp = "start_answer (sr_id row)"])
      (simp_all add: ans m, simp add: start_answer_def)
  then have "create_from_ocpp (connect store e1) sessions_url ?r ?w = (Inr (sr_id row), ?w\<lparr>fl_sessions := ?S\<rparr>)"
    by (simp add: create_from_ocpp_def j)
  then have "s1 = s\<lparr>oc_world := ?w\<lparr>fl_sessions := ?S\<rparr>,
      oc_stations := (if 0 < st_connector a
         then update_connector i (st_connector a) ConnectorCharging (oc_stations s) else oc_stations s),
      oc_txs := tx_set (st_transaction a) \<lparr>tc_session_id = sr_id row, tc_meter_start = st_meter_start a\<rparr> (oc_txs s)\<rparr>"
    by (simp add: s1 start_transaction_def dec Let_def t fleet_deps_def)
  with find row sid show thesis by (intro that [of row]) simp_all
qed

lemma fleet_stop:
  assumes dec: "decode_stop q = Inr b" and c: "tx_get (oc_txs s) (sp_transaction b) = Some c"
    and sid: "0 < tc_session_id c" "tc_session_id c < 2 ^ 53" and m: "in_int64 (tc_meter_start c)"
    and row: "find_tx (sp_transaction b) (sv_rows (fl_sessions (oc_world s))) = Some row"
    and ne: "sp_transaction b \<noteq> []" and db: "\<And>n. db_fault e2 n = None"
    and seq: "in_int64 (bv_seq (fl_billing (oc_world s)))" and time: "json_time (clock e 0) = Some jt"
    and en: "en = stop_energy (tc_meter_start c) (sp_meter_stop b)"
    and s': "s' = snd (stop_transaction (fleet_deps store e2) e i q s)"
  obtains row' tx where
    "find_tx (sp_transaction b) (sv_rows (fl_sessions (oc_world s'))) = Some row'"
    and "sr_status row' = ''completed''" and "sr_energy row' = en" and "sr_id row' = sr_id row"
    and "sr_station row' = sr_station row" and "sr_user row' = sr_user row"
    and "bv_rows (fl_billing (oc_world s')) = bv_rows (fl_billing (oc_world s)) @ [tx]"
    and "bt_session tx = tc_session_id c" and "bt_energy tx = en" and "bt_user tx = 0"
    and "bt_amount tx = mul64 en (bt_price tx)" and "\<not> le64 (bt_price tx) (Fin 0)"
    and "oc_txs s' = tx_delete (sp_transaction b) (oc_txs s)"
proof -
  let ?w = "oc_world s"
  let ?r = "\<lparr>spr_transaction = sp_transaction b, spr_meter_stop = sp_meter_stop b,
      spr_reason = sp_reason b, spr_energy = en, spr_end_time = clock e 0\<rparr>"
  let ?b = "\<lparr>bsr_session = tc_session_id c, bsr_user = 0, bsr_energy = en\<rparr>"
  obtain v where v: "en = Fin v" using stop_energy_finite [OF m decode_stop_range [OF dec]] en by metis
  have valid: "valid64 en" by (simp add: en stop_energy_valid)
  obtain j2 where j2: "json_stop_session ?r = Some j2"
    by (simp add: json_stop_session_def json_object_def time v json_f64_def)
  obtain j3 where j3: "json_billing_stop ?b = Some j3"
    by (simp add: json_billing_stop_def json_object_def v json_f64_def)
  let ?q2 = "received (json_post (sessions_url @ stop_path) j2) stop_path"
  let ?q3 = "received (json_post (billing_url @ stopped_path) j3) stopped_path"
  let ?S = "snd (handle_session_stop store e2 ?q2 (fl_sessions ?w))"
  let ?B = "snd (handle_session_stopped app_tariffs e2 ?q3 (fl_billing ?w))"
  have w1: "snd (complete_from_ocpp (connect store e2) sessions_url ?r ?w) = ?w\<lparr>fl_sessions := ?S\<rparr>"
    by (simp add: complete_from_ocpp_def j2 post_def)
  have w2: "snd (notify_session_stop (connect store e2) billing_url ?b w') =
      w'\<lparr>fl_billing := snd (handle_session_stopped app_tariffs e2 ?q3 (fl_billing w'))\<rparr>" for w'
    by (simp add: notify_session_stop_def j3 post_def)
  have s'_eq: "oc_world s' = ?w\<lparr>fl_sessions := ?S, fl_billing := ?B\<rparr>"
    "oc_txs s' = tx_delete (sp_transaction b) (oc_txs s)"
    using sid c by (simp_all add: s' stop_transaction_def dec stop_context_def en [symmetric] fleet_deps_def w1 w2)
  have "decode_session_stop (rq_body ?q2) = Inr \<lparr>spi_transaction = sp_transaction b, spi_end = clock e 0,
      spi_energy = en\<rparr>" using stop_wire [OF j2] valid by simp
  from handle_stop_effect(2) [OF this db _ , of "fl_sessions ?w" row "sp_transaction b" store] row ne
  have S: "find_tx (sp_transaction b) (sv_rows ?S) = Some (row\<lparr>sr_end := Some (pg_time (stop_time e2
      \<lparr>spi_transaction = sp_transaction b, spi_end = clock e 0, spi_energy = en\<rparr>)),
      sr_energy := en, sr_status := ''completed'', sr_updated := db_now e2\<rparr>)" by simp
  have dec3: "decode_session_stopped (rq_body ?q3) = Inr \<lparr>ci_session = tc_session_id c, ci_user = 0, ci_energy = en\<rparr>"
    using billing_wire [OF j3] valid sid by (simp add: in_int64_def)
  obtain tx where "?B = (fl_billing ?w)\<lparr>bv_rows := bv_rows (fl_billing ?w) @ [tx], bv_seq := bv_seq (fl_billing ?w) + 1\<rparr>"
    and "bt_session tx = tc_session_id c" "bt_energy tx = en" "bt_user tx = 0"
    "bt_amount tx = mul64 en (bt_price tx)" "\<not> le64 (bt_price tx) (Fin 0)"
  proof (cases rule: handle_stopped_cases [of app_tariffs e2 ?q3 "fl_billing ?w"])
    case 1
    then show ?thesis using dec3 db seq sid
      by (auto simp: handle_session_stopped_def calculate_and_create_def create_transaction_def
          active_tariff_def app_tariffs_def new_tariff_service_def Let_def split: sum.splits if_splits)
  next
    case (2 i' tariff tx)
    then show ?thesis using dec3 price_of_pos by (intro that [of tx]) simp_all
  qed
  with S s'_eq show thesis
    by (intro that [of "row\<lparr>sr_end := Some (pg_time (stop_time e2
      \<lparr>spi_transaction = sp_transaction b, spi_end = clock e 0, spi_energy = en\<rparr>)),
      sr_energy := en, sr_status := ''completed'', sr_updated := db_now e2\<rparr>" tx]) simp_all
qed

text \<open>C1: Across the services: a transaction that a station starts and stops, on a fleet whose
  databases work and whose sessions service knows the station, ends as a completed session of that
  station with the energy of the meter difference, and as exactly one new billing transaction for
  that session's id with the same energy and the amount of its price; both belong to user 0, since
  the OCPP server sends no user.\<close>

theorem charge_end_to_end:
  assumes "decode_start p = Inr a" and "decode_stop q = Inr b" and "sp_transaction b = st_transaction a"
    and "startable e1 \<lparr>ssi_user = 0, ssi_station = i, ssi_connector = st_connector a,
        ssi_transaction = st_transaction a, ssi_start = 0\<rparr> (fl_sessions (oc_world s))"
    and "sessions_ok (fl_sessions (oc_world s))" and "sv_seq (fl_sessions (oc_world s)) < 2 ^ 53"
    and "\<And>n. db_fault e2 n = None" and "in_int64 (bv_seq (fl_billing (oc_world s)))"
    and "json_time (clock e' 0) = Some jt"
    and s1: "s1 = snd (start_transaction (fleet_deps store e1) e i p s)"
    and s2: "s2 = snd (stop_transaction (fleet_deps store e2) e' i q s1)"
  shows "\<exists>row tx. find_tx (st_transaction a) (sv_rows (fl_sessions (oc_world s2))) = Some row \<and>
      sr_status row = ''completed'' \<and> sr_station row = i \<and> sr_user row = 0 \<and>
      sr_energy row = stop_energy (st_meter_start a) (sp_meter_stop b) \<and>
      bv_rows (fl_billing (oc_world s2)) = bv_rows (fl_billing (oc_world s)) @ [tx] \<and>
      bt_session tx = sr_id row \<and> bt_energy tx = sr_energy row \<and> bt_user tx = 0 \<and>
      bt_amount tx = mul64 (bt_energy tx) (bt_price tx) \<and> \<not> le64 (bt_price tx) (Fin 0)"
proof -
  have ne: "st_transaction a \<noteq> []" using assms(4) by (simp add: startable_def)
  obtain row where find: "find_tx (st_transaction a) (sv_rows (fl_sessions (oc_world s1))) = Some row"
    and row: "sr_station row = i" "sr_user row = 0" "0 < sr_id row" "sr_id row < 2 ^ 53"
    and tx: "tx_get (oc_txs s1) (st_transaction a) =
        Some \<lparr>tc_session_id = sr_id row, tc_meter_start = st_meter_start a\<rparr>"
    and bill: "fl_billing (oc_world s1) = fl_billing (oc_world s)"
    using fleet_start [OF assms(1) ne assms(4-6) s1] by metis
  show ?thesis
    by (rule fleet_stop [OF assms(2), of s1 "\<lparr>tc_session_id = sr_id row, tc_meter_start = st_meter_start a\<rparr>"
          row e2 e' jt "stop_energy (st_meter_start a) (sp_meter_stop b)" s2 store i])
      (use assms ne find row tx bill decode_start_range [OF assms(1)] in auto)
qed

text \<open>C38: Across the services: a station that repeats its StopTransaction erases the energy of the
  session it has completed, since the server, which has forgotten the transaction, reports an energy
  of zero, and the sessions service overwrites the completed row; the billing service keeps the
  transaction it made.\<close>

theorem repeated_stop_erases_energy:
  assumes "decode_stop q = Inr b" and "tx_get (oc_txs s) (sp_transaction b) = None"
    and "find_tx (sp_transaction b) (sv_rows (fl_sessions (oc_world s))) = Some row"
    and "sp_transaction b \<noteq> []" and "\<And>n. db_fault e2 n = None" and "json_time (clock e 0) = Some jt"
    and s': "s' = snd (stop_transaction (fleet_deps store e2) e i q s)"
  shows "(\<exists>row'. find_tx (sp_transaction b) (sv_rows (fl_sessions (oc_world s'))) = Some row' \<and>
      sr_status row' = ''completed'' \<and> sr_energy row' = Fin 0 \<and> sr_id row' = sr_id row) \<and>
    fl_billing (oc_world s') = fl_billing (oc_world s)"
proof -
  let ?w = "oc_world s"
  let ?r = "\<lparr>spr_transaction = sp_transaction b, spr_meter_stop = sp_meter_stop b,
      spr_reason = sp_reason b, spr_energy = Fin 0, spr_end_time = clock e 0\<rparr>"
  obtain j where j: "json_stop_session ?r = Some j"
    using assms(6) by (simp add: json_stop_session_def json_object_def json_f64_def)
  let ?q = "received (json_post (sessions_url @ stop_path) j) stop_path"
  have w: "oc_world s' = ?w\<lparr>fl_sessions := snd (handle_session_stop store e2 ?q (fl_sessions ?w))\<rparr>"
    using assms(1,2)
    by (simp add: s' stop_transaction_def stop_context_def fleet_deps_def complete_from_ocpp_def j post_def)
  have "decode_session_stop (rq_body ?q) = Inr \<lparr>spi_transaction = sp_transaction b, spi_end = clock e 0,
      spi_energy = Fin 0\<rparr>" using stop_wire [OF j] by simp
  from handle_stop_effect(2) [OF this assms(5), of "fl_sessions ?w" row "sp_transaction b" store] assms(3,4)
  show ?thesis by (simp add: w)
qed

text \<open>C27: Across the services: a meter reading for an open transaction with a session is stored by the
  telemetry service with exactly the value sent, under the transaction's session and, whatever
  station is connected, under the station id that the payload names.\<close>

theorem meter_end_to_end:
  assumes "decode_meter p = Inr r" and "tx_get (oc_txs s) (mv_transaction r) = Some c"
    and "tc_session_id c \<noteq> 0" and "in_int64 (tc_session_id c)"
    and "in_int32 (mv_connector r)" and "db_fault e2 0 = None"
    and "in_int64 (tl_seq (fl_telemetry (oc_world s)))" and "json_time (mv_timestamp r) = Some jt"
    and s': "s' = snd (meter_values (fleet_deps store e2) e i p s)"
  shows "\<exists>d. tl_rows (fl_telemetry (oc_world s')) = tl_rows (fl_telemetry (oc_world s)) @ [d] \<and>
    td_value d = mv_value r \<and> td_session d = tc_session_id c \<and> td_station d = mv_station r \<and>
    td_connector d = mv_connector r \<and> td_unit d = ''kWh''"
proof -
  have ok: "valid64 (mv_value r) \<and> finite64 (mv_value r)"
  proof -
    let ?P = "\<lambda>r. valid64 (mv_value r) \<and> finite64 (mv_value r)"
    have fin: "number_f64 j = Some x \<Longrightarrow> finite64 x" for j x
      by (auto simp: number_f64_def Let_def split: json.splits if_splits)
    show ?thesis
      by (rule decode_struct_inv [where P = ?P, OF assms(1) [unfolded decode_meter_def]])
        (auto simp: meter_fields_def field_defs number_f64_valid fin
          split: json.splits option.splits if_splits)
  qed
  then obtain v where v: "mv_value r = Fin v" by (metis finite64E)
  let ?m = "\<lparr>mvr_session = tc_session_id c, mvr_station = mv_station r, mvr_connector = mv_connector r,
      mvr_value = mv_value r, mvr_unit = ''kWh'', mvr_timestamp = mv_timestamp r\<rparr>"
  obtain j where j: "json_meter_value ?m = Some j"
    using assms(8) by (simp add: json_meter_value_def json_object_def v json_f64_def)
  let ?q = "received (json_post (telemetry_url @ meter_path) j) meter_path"
  have "decode_meter_value (rq_body ?q) = Inr \<lparr>mi_session = tc_session_id c, mi_station = mv_station r,
      mi_connector = mv_connector r, mi_value = mv_value r, mi_unit = ''kWh'', mi_timestamp = mv_timestamp r\<rparr>"
    using meter_wire [OF j] ok assms(4,5) by (simp add: in_int32_int64)
  then have "\<exists>d. tl_rows (snd (handle_meter_values e2 ?q (fl_telemetry (oc_world s)))) =
      tl_rows (fl_telemetry (oc_world s)) @ [d] \<and> td_value d = mv_value r \<and> td_session d = tc_session_id c \<and>
      td_station d = mv_station r \<and> td_connector d = mv_connector r \<and> td_unit d = ''kWh''"
    using assms(3,5,6,7) by (simp add: handle_meter_values_def store_meter_value_def telemetry_insert_def)
  moreover have "oc_world s' = (oc_world s)\<lparr>fl_telemetry := snd (handle_meter_values e2 ?q (fl_telemetry (oc_world s)))\<rparr>"
    using assms(1,2,3) by (simp add: s' meter_values_def fleet_deps_def notify_meter_value_def j post_def)
  ultimately show ?thesis by simp
qed

subsection \<open>Witnesses\<close>

definition sample_fleet :: "unit fleet" where
  "sample_fleet = \<lparr>fl_sessions = sample_sessions, fl_billing = init_billing [],
     fl_telemetry = init_telemetry Map.empty\<rparr>"

definition after_start :: "unit fleet ocpp" where
  "after_start = snd (start_transaction (fleet_deps None (quiet_env 0)) (quiet_env 0) ''CP1'' example_start
     (init_ocpp sample_fleet))"

definition after_stop :: "unit fleet ocpp" where
  "after_stop = snd (stop_transaction (fleet_deps None (quiet_env 0)) (quiet_env 0) ''CP1'' example_stop after_start)"

lemma sample_fleet_facts:
  "sessions_ok (fl_sessions (oc_world (init_ocpp sample_fleet)))"
  "sv_seq (fl_sessions (oc_world (init_ocpp sample_fleet))) = 1"
  "bv_seq (fl_billing (oc_world (init_ocpp sample_fleet))) = 1"
  "bv_rows (fl_billing (oc_world (init_ocpp sample_fleet))) = []"
  "startable (quiet_env 0) \<lparr>ssi_user = 0, ssi_station = ''CP1'', ssi_connector = 1, ssi_transaction = ''T1'',
     ssi_start = 0\<rparr> (fl_sessions (oc_world (init_ocpp sample_fleet)))"
  by (simp_all add: init_ocpp_def sample_fleet_def sample_sessions_def init_sessions_ok init_billing_def
      sample_startable [unfolded sample_sessions_def])
    (simp_all add: init_sessions_def)

lemma quiet_env_simps [simp]: "db_fault (quiet_env t) n = None" "clock (quiet_env t) n = t" "db_now (quiet_env t) = t"
  by (simp_all add: quiet_env_def)

theorem charge_end_to_end_witness:
  "\<exists>row tx. find_tx ''T1'' (sv_rows (fl_sessions (oc_world after_stop))) = Some row \<and>
     sr_energy row = Fin (25 / 2) \<and> bv_rows (fl_billing (oc_world after_stop)) = [tx] \<and>
     bt_energy tx = Fin (25 / 2) \<and> bt_session tx = sr_id row"
  using charge_end_to_end [where ?e1.0 = "quiet_env 0" and ?e2.0 = "quiet_env 0" and e' = "quiet_env 0"
      and i = "''CP1''" and s = "init_ocpp sample_fleet", OF decode_example_start decode_example_stop _ _ _ _ _ _ _
      after_start_def after_stop_def] sample_fleet_facts
  by (auto simp: json_time_0 in_int64_def stop_energy_example)

definition mid_charge :: "unit fleet ocpp" where
  "mid_charge = (init_ocpp sample_fleet)
     \<lparr>oc_txs := tx_set ''T2'' \<lparr>tc_session_id = 7, tc_meter_start = 0\<rparr> new_transaction_store,
      oc_world := sample_fleet\<lparr>fl_sessions := sample_started\<rparr>\<rparr>"

theorem repeated_stop_erases_energy_witness:
  "\<exists>row. find_tx ''T1'' (sv_rows (fl_sessions (oc_world (snd (stop_transaction (fleet_deps None (quiet_env 0))
      (quiet_env 0) ''CP1'' example_stop mid_charge))))) = Some row \<and> sr_energy row = Fin 0"
  using repeated_stop_erases_energy [OF decode_example_stop, of mid_charge "hd (sv_rows sample_started)"
      "quiet_env 0" "quiet_env 0" "JStr ''0001-01-01T00:00:00Z''" _ None "''CP1''"]
  by (auto simp: mid_charge_def init_ocpp_def json_time_0 tx.get_put new_transaction_store_def tx_get_def
      tx_set_def sample_started_eq find_tx_def)

definition sample_meter :: json where
  "sample_meter = JObj [(''transactionId'', JStr ''T2''), (''connectorId'', JInt 1), (''meterValue'', JInt 5)]"

theorem meter_end_to_end_witness:
  "\<exists>d. tl_rows (fl_telemetry (oc_world (snd (meter_values (fleet_deps None (quiet_env 0)) (quiet_env 0) ''CP1''
     sample_meter mid_charge)))) = [d] \<and> td_value d = Fin 5 \<and> td_session d = 7"
proof -
  have dec: "decode_meter sample_meter = Inr \<lparr>mv_station = [], mv_connector = 1, mv_transaction = ''T2'',
      mv_value = Fin 5, mv_timestamp = 0\<rparr>"
    by (simp add: sample_meter_def decode_meter_def decode_struct_def meter_fields_def find_field_def
        field_defs in_int64_def number_f64_def of_int64_exact)
  show ?thesis
    using meter_end_to_end [OF dec, of mid_charge "\<lparr>tc_session_id = 7, tc_meter_start = 0\<rparr>" "quiet_env 0"
        "JStr ''0001-01-01T00:00:00Z''" _ None "quiet_env 0" "''CP1''"]
    by (auto simp: mid_charge_def init_ocpp_def sample_fleet_def init_telemetry_def json_time_0 in_int64_def
        in_int32_def)
qed

end
