(* ===== verification/GatewayProps.thy ===== *)
theory GatewayProps
  imports Gateway AuthProps EndToEnd
begin

section \<open>Properties of the gateway\<close>

text \<open>
  Who is let in, as whom, and what reaches the services behind the gateway; and the identity of a
  caller from login to the rows that are returned, across the auth service, the gateway, the sessions
  and the billing service.
\<close>

subsection \<open>Admission\<close>

text \<open>A token that the JWT library accepts for the bearer of a request, and the user it names.\<close>

definition bearer :: "jwt \<Rightarrow> string \<Rightarrow> env \<Rightarrow> request \<Rightarrow> int \<Rightarrow> bool" where
  "bearer jw secret e r u \<longleftrightarrow>
     (\<exists>scheme tok c claims. rq_header r ''Authorization'' = scheme @ CHR '' '' # tok \<and>
        CHR '' '' \<notin> set scheme \<and> equal_fold scheme ''Bearer'' \<and>
        jw_parse jw secret (clock e 0) (trim_space tok) = Inr c \<and>
        decode_map (Json c) = Inr claims \<and> extract_user_id claims = Inr u)"

lemma admitted_iff: "admitted jw secret e r = Some u \<longleftrightarrow> bearer jw secret e r u"
proof -
  let ?h = "rq_header r ''Authorization''"
  consider "CHR '' '' \<notin> set ?h" "split2 (CHR '' '') ?h = [?h]"
    | a b where "?h = a @ CHR '' '' # b" "CHR '' '' \<notin> set a" "split2 (CHR '' '') ?h = [a, b]"
    using split2_cases by blast
  then show ?thesis
  proof cases
    case 1
    then show ?thesis by (auto simp: admitted_def bearer_def)
  next
    case (2 a b)
    have eq: "(?h = scheme @ CHR '' '' # tok \<and> CHR '' '' \<notin> set scheme) \<longleftrightarrow> (scheme = a \<and> tok = b)" for scheme tok
      proof
      assume "?h = scheme @ CHR '' '' # tok \<and> CHR '' '' \<notin> set scheme"
      then have "split2 (CHR '' '') ?h = [scheme, tok]" using split2_app by metis
      then show "scheme = a \<and> tok = b" using 2(3) by simp
    next
      assume "scheme = a \<and> tok = b"
      then show "?h = scheme @ CHR '' '' # tok \<and> CHR '' '' \<notin> set scheme" using 2(1,2) by simp
    qed
    have "bearer jw secret e r u \<longleftrightarrow> (\<exists>c claims. equal_fold a ''Bearer'' \<and>
        jw_parse jw secret (clock e 0) (trim_space b) = Inr c \<and>
        decode_map (Json c) = Inr claims \<and> extract_user_id claims = Inr u)"
      using eq unfolding bearer_def by metis
    then show ?thesis using 2(3) by (simp add: admitted_def split: sum.splits)
  qed
qed

text \<open>The two routes behind the middleware.\<close>

definition me_call :: "'w gateway_deps \<Rightarrow> string \<Rightarrow> int \<Rightarrow> 'w \<Rightarrow> response \<times> 'w" where
  "me_call d path u w =
     (if path = ''/api/sessions/me''
      then proxy ''sessions service unavailable'' (sessions_for_user (gd_sessions d) u w)
      else proxy ''billing service unavailable'' (transactions_for_user (gd_billing d) u w))"

definition me_routes :: "string list" where
  "me_routes = [''/api/sessions/me'', ''/api/billing/me/transactions'']"

definition me_next :: "'w gateway_deps \<Rightarrow> 'w chandler" where
  "me_next d user e r w =
     (case user of
        None \<Rightarrow> (write_error 401 ''unauthorized'', w)
      | Some u \<Rightarrow> me_call d (rq_path r) u w)"

lemma auth_middleware_cong:
  assumes "\<And>u. h (Some u) e r w = h' (Some u) e r w"
  shows "auth_middleware jw k h user e r w = auth_middleware jw k h' user e r w"
  using assms by (simp add: auth_middleware_def Let_def split: sum.split)

lemma authenticated_me:
  assumes "rq_path r \<in> set me_routes"
  shows "gateway_router d e r w =
    (if rq_method r \<noteq> ''GET''
     then (\<lparr>rs_status = 405, rs_headers = [(''Allow'', ''GET'')], rs_body = NotJson []\<rparr>, w)
     else auth_middleware (gd_jwt d) (gd_secret d) (me_next d) None e r w)"
proof -
  have "auth_middleware (gd_jwt d) (gd_secret d) (sessions_proxy (gd_sessions d)) None e r w =
      auth_middleware (gd_jwt d) (gd_secret d) (me_next d) None e r w" if "rq_path r = ''/api/sessions/me''"
    by (rule auth_middleware_cong) (simp add: sessions_proxy_def me_next_def me_call_def that)
  moreover have "auth_middleware (gd_jwt d) (gd_secret d) (billing_proxy (gd_billing d)) None e r w =
      auth_middleware (gd_jwt d) (gd_secret d) (me_next d) None e r w"
    if "rq_path r = ''/api/billing/me/transactions''"
    by (rule auth_middleware_cong) (simp add: billing_proxy_def me_next_def me_call_def that)
  ultimately show ?thesis using assms
    by (auto simp: me_routes_def gateway_router_def serve_mux_def method_guard_def authenticated_def chain_def)
qed

lemma me_admitted:
  assumes "rq_path r \<in> set me_routes" and "rq_method r = ''GET''"
  shows "case admitted (gd_jwt d) (gd_secret d) e r of
     None \<Rightarrow> rs_status (fst (gateway_router d e r w)) = 401 \<and> snd (gateway_router d e r w) = w
   | Some u \<Rightarrow> gateway_router d e r w = me_call d (rq_path r) u w"
  using auth_middleware_admitted [of "gd_jwt d" "gd_secret d" "me_next d" None e r w]
  by (simp add: authenticated_me [OF assms(1)] assms(2) me_next_def split: option.splits)

lemma me_refused:
  assumes "rq_path r \<in> set me_routes" and "\<And>u. \<not> bearer (gd_jwt d) (gd_secret d) e r u"
  shows "rs_status (fst (gateway_router d e r w)) \<in> {401, 405} \<and> snd (gateway_router d e r w) = w"
proof (cases "rq_method r = ''GET''")
  case True
  have "admitted (gd_jwt d) (gd_secret d) e r = None"
    using assms(2) admitted_iff by (metis option.exhaust)
  with me_admitted [OF assms(1) True, of d e w] show ?thesis by simp
qed (simp add: authenticated_me [OF assms(1)])

subsection \<open>The services behind the gateway\<close>

definition fleet_gateway :: "jwt \<Rightarrow> string \<Rightarrow> string \<Rightarrow> string \<Rightarrow> 'c store option \<Rightarrow> env \<Rightarrow> 'c fleet gateway_deps" where
  "fleet_gateway jw secret auth_url stations_url store e =
     new_gateway auth_url sessions_url billing_url stations_url jw secret (connect store e)"

definition history_answer :: "env \<Rightarrow> int \<Rightarrow> 'c sessions_state \<Rightarrow> response" where
  "history_answer e u s =
     (case get_sessions_by_user e 0 u 50 s of
        Inl _ \<Rightarrow> write_error 500 ''failed to fetch sessions''
      | Inr sessions \<Rightarrow> write_json 200 (sessions_payload sessions))"

lemma base_urls [simp]:
  "trim_right_char (CHR ''/'') sessions_url = sessions_url"
  "trim_right_char (CHR ''/'') billing_url = billing_url"
  by (simp_all add: trim_right_char_def sessions_url_def billing_url_def)

definition bills_answer :: "env \<Rightarrow> int \<Rightarrow> billing_state \<Rightarrow> response" where
  "bills_answer e u s =
     (case list_by_user e 0 u 50 s of
        Inl _ \<Rightarrow> write_error 500 ''failed to load transactions''
      | Inr ts \<Rightarrow> write_json 200 (json_object [(''transactions'', json_slice json_transaction ts)]))"

text \<open>What a user gets on the two routes: their own rows.\<close>

definition own_data :: "env \<Rightarrow> string \<Rightarrow> int \<Rightarrow> 'c fleet \<Rightarrow> response" where
  "own_data e path u w =
     (if path = ''/api/sessions/me'' then history_answer e u (fl_sessions w)
      else bills_answer e u (fl_billing w))"

lemma write_raw_json [simp]:
  "write_raw (rs_status (write_json n j)) (rs_body (write_json n j)) = write_json n j"
  "write_raw n (rs_body (write_json n j)) = write_json n j"
  by (simp_all add: write_raw_def write_json_def)

lemma me_call_fleet:
  assumes "path \<in> set me_routes" and "in_int64 u"
  shows "me_call (fleet_gateway jw secret a st store e) path u w = (own_data e path u w, w)"
proof -
  from assms(1) consider "path = ''/api/sessions/me''" | "path = ''/api/billing/me/transactions''"
    by (auto simp: me_routes_def)
  then show ?thesis
  proof cases
    case 1
    then show ?thesis
      by (cases "get_sessions_by_user e 0 u 50 (fl_sessions w)")
        (simp_all add: me_call_def own_data_def history_answer_def proxy_def sessions_for_user_def
          client_do_def fleet_gateway_def new_gateway_def build_url_slash new_base_client_def [THEN arg_cong, of gc_net]
          connect_def sessions_router_def serve_mux_def method_guard_def received_def sessions_me_def
          parse_int_format_int [OF assms(2)] write_error_def)
  next
    case 2
    have "strip_base sessions_url (billing_url @ ''/billing/me/transactions'') = None" by simp
    then show ?thesis using 2
      by (cases "list_by_user e 0 u 50 (fl_billing w)")
        (simp_all add: me_call_def own_data_def bills_answer_def proxy_def transactions_for_user_def
          client_do_def fleet_gateway_def new_gateway_def build_url_slash new_base_client_def [THEN arg_cong, of gc_net]
          connect_def billing_app_def billing_router_def serve_mux_def method_guard_def received_def transactions_me_def
          parse_int_format_int [OF assms(2)] write_error_def)
  qed
qed

subsection \<open>Tokens\<close>

definition expiry :: "token_service \<Rightarrow> time \<Rightarrow> time" where
  "expiry ts t = unix_epoch + unix_seconds (t + tk_expires_in ts) * second"

lemma token_user:
  assumes "\<bar>u\<bar> < 2 ^ 53" and "\<bar>unix_seconds t\<bar> < 2 ^ 53" and "\<bar>unix_seconds (t + tk_expires_in ts)\<bar> < 2 ^ 53"
  shows "\<exists>claims. decode_map (Json (token_claims ts t u role)) = Inr claims \<and> extract_user_id claims = Inr u"
  using to_int64_of_int64 [OF assms(1), unfolded of_int64_exact [OF assms(1)]]
  by (simp add: token_claims_def decode_map_def extract_user_id_def number_f64_def assms(1-3) [THEN of_int64_exact])

lemma bearer_token:
  assumes "rq_header r ''Authorization'' = ''Bearer '' @ tok" and "trim_space tok = tok"
    and parse: "jw_parse jw secret (clock e 0) tok =
      (if clock e 0 < expiry ts t then Inr (token_claims ts t u role) else Inl err)"
    and "\<bar>u\<bar> < 2 ^ 53" and "\<bar>unix_seconds t\<bar> < 2 ^ 53"
    and "\<bar>unix_seconds (t + tk_expires_in ts)\<bar> < 2 ^ 53"
  shows "admitted jw secret e r = (if clock e 0 < expiry ts t then Some u else None)"
proof -
  obtain claims where "decode_map (Json (token_claims ts t u role)) = Inr claims" "extract_user_id claims = Inr u"
    using token_user [OF assms(4-6)] by blast
  then show ?thesis
    using assms(1-3) split2_app [of "CHR '' ''" "''Bearer''" tok]
    by (simp add: admitted_def equal_fold_def)
qed

subsection \<open>Properties\<close>


subsection \<open>Witnesses\<close>

definition demo_claims :: json where
  "demo_claims = token_claims (new_token_service ''k'' 0) unix_epoch 1 ''user''"

definition demo_jwt :: jwt where
  "demo_jwt = \<lparr>jw_sign = (\<lambda>k c. Inr ''t''),
     jw_parse = (\<lambda>k t tok. if tok = ''t'' \<and> k = ''k'' \<and> t < expiry (new_token_service ''k'' 0) unix_epoch
                          then Inr demo_claims else Inl (ErrExt ''token is expired''))\<rparr>"

definition demo_auth :: auth_deps where
  "demo_auth = toy_deps\<lparr>ad_jwt := demo_jwt\<rparr>"

definition demo_user :: User where
  "demo_user = \<lparr>us_id = 1, us_email = ''ann@x.io'', us_hash = ''$pw'', us_role = ''user'', us_created_at = 0\<rparr>"

definition demo_users :: auth_state where
  "demo_users = \<lparr>av_users = [demo_user], av_seq = 2\<rparr>"

definition demo_query :: request where
  "demo_query = \<lparr>rq_method = ''GET'', rq_path = ''/api/sessions/me'', rq_query = (\<lambda>_. []),
     rq_header = (\<lambda>k. if k = ''Authorization'' then ''Bearer t'' else []), rq_body = NotJson []\<rparr>"

definition demo_gateway :: "unit fleet gateway_deps" where
  "demo_gateway = fleet_gateway demo_jwt ''k'' [] [] None (quiet_env 0)"

lemma demo_seconds: "unix_seconds unix_epoch = 0" "unix_seconds (unix_epoch + hour) = 3600"
  "expiry (new_token_service ''k'' 0) unix_epoch = unix_epoch + hour"
  by (simp_all add: unix_seconds_def expiry_def new_token_service_def hour_def minute_def second_def)

lemma demo_query_simps: "rq_path demo_query = ''/api/sessions/me''" "rq_method demo_query = ''GET''"
  "rq_header demo_query ''Authorization'' = ''Bearer '' @ ''t''"
  by (simp_all add: demo_query_def)

lemma format_1: "format_int 1 = ''1''"
  by code_simp

lemma trim_t: "trim_space ''t'' = ''t''"
  by code_simp


end
