(* ===== verification/WsConnProps.thy ===== *)
theory WsConnProps
  imports WsConn
begin

section \<open>Properties of the connections\<close>

text \<open>
  The invariant of every reachable state of the connections, the refinement of the whole server to the
  sequential processor, what the write pump delivers, and the manager's behaviour when a station
  reconnects.
\<close>

subsection \<open>The invariant\<close>

definition texts :: "wire list \<Rightarrow> json list" where
  "texts ws = List.map_filter (\<lambda>w. case w of WireText j \<Rightarrow> Some j | _ \<Rightarrow> None) ws"

lemma texts_simps [simp]:
  "texts [] = []" "texts (us @ vs) = texts us @ texts vs" "texts [WireText j] = [j]" "texts [WirePing] = []"
  "texts [WireClose] = []" "texts (map WireText js) = js"
  by (simp_all add: texts_def List.map_filter_def comp_def)

definition conn_ok :: "connection \<Rightarrow> bool" where
  "conn_ok c \<longleftrightarrow> length (co_send c) \<le> send_capacity \<and> subseq (texts (co_wire c) @ co_send c) (co_given c)"

lemma subseq_drop_middle: "subseq (us @ m # vs) ws \<Longrightarrow> subseq (us @ vs) ws"
  by (meson list_emb_Cons subseq_append' subseq_order.order_refl subseq_order.order_trans)

definition registered_ok :: "'w ws \<Rightarrow> string \<Rightarrow> nat \<Rightarrow> bool" where
  "registered_ok s i n \<longleftrightarrow>
     (case ws_conns s n of
        None \<Rightarrow> False
      | Some c \<Rightarrow> co_station c = i \<and> co_phase c \<noteq> Removed) \<and>
     (\<forall>m. n < m \<longrightarrow> (case ws_conns s m of None \<Rightarrow> True | Some c \<Rightarrow> co_station c \<noteq> i))"

definition ws_ok :: "'w ws \<Rightarrow> bool" where
  "ws_ok s \<longleftrightarrow>
     (\<forall>n c. ws_conns s n = Some c \<longrightarrow> n < ws_next s \<and> conn_ok c \<and> co_station c \<noteq> []) \<and>
     (\<forall>i n. ws_manager s i = Some n \<longrightarrow> registered_ok s i n)"

lemma new_connection_ok: "conn_ok (new_connection i)"
  by (simp add: conn_ok_def new_connection_def)

lemma conn_ok_cong:
  "conn_ok c \<Longrightarrow> conn_ok (c\<lparr>co_phase := p\<rparr>)" "conn_ok c \<Longrightarrow> conn_ok (c\<lparr>co_writing := b\<rparr>)"
  by (simp_all add: conn_ok_def)

lemma ping_ok: "conn_ok c \<Longrightarrow> conn_ok (conn_write WirePing c)" "conn_ok c \<Longrightarrow> conn_ok (conn_write WireClose c)"
  by (simp_all add: conn_ok_def conn_write_def)

lemma send_ok:
  assumes "conn_ok c" shows "conn_ok (conn_send m c)"
proof -
  let ?us = "texts (co_wire c) @ co_send c"
  have "subseq ?us (co_given c @ [m])"
    using assms by (auto simp: conn_ok_def intro: subseq_order.order_trans)
  moreover have "subseq (?us @ [m]) (co_given c @ [m])"
    using assms by (auto simp: conn_ok_def simp del: append_assoc)
  ultimately show ?thesis using assms by (simp add: conn_ok_def conn_send_def Let_def)
qed

lemma send_keeps [simp]: "co_station (conn_send m c) = co_station c" "co_phase (conn_send m c) = co_phase c"
  by (simp_all add: conn_send_def Let_def)

lemma pump_ok:
  assumes "conn_ok c" shows "conn_ok (pump_round ok c)"
proof (cases "co_send c")
  case Nil
  then show ?thesis using assms ping_ok(2) [OF assms] by (simp add: pump_round_def conn_ok_def conn_write_def)
next
  case (Cons m ms)
  then show ?thesis using assms subseq_drop_middle [of "texts (co_wire c)" m ms "co_given c"]
    by (simp add: pump_round_def conn_ok_def conn_write_def Let_def)
qed

lemma read_round_facts:
  assumes "read_round lib r e raw c s = (c', s')"
  shows "s' = snd (process lib r e (co_station c) raw s)" and "co_station c' = co_station c"
    and "co_phase c' = co_phase c" and "conn_ok c \<Longrightarrow> conn_ok c'"
  using assms send_ok
  by (auto simp: read_round_def split: prod.splits sum.splits option.splits)

subsection \<open>Steps\<close>

text \<open>A step other than a new connection changes one connection, whose station it keeps.\<close>

lemma ws_step_cases:
  assumes "ws_step lib r s ev s'"
  obtains (skip) i up where "ev = Connect i up" and "s' = s"
  | (new) i where "ev = Connect i True" and "i \<noteq> []"
      and "s' = s\<lparr>ws_conns := (ws_conns s)(ws_next s \<mapsto> new_connection i),
             ws_manager := manager_add i (ws_next s) (ws_manager s), ws_next := ws_next s + 1\<rparr>"
  | (change) n c c' where "ws_conns s n = Some c" and "ws_conns s' = (ws_conns s)(n \<mapsto> c')"
      and "ws_next s' = ws_next s" and "co_station c' = co_station c" and "conn_ok c \<Longrightarrow> conn_ok c'"
      and "ws_manager s' = ws_manager s \<and> (co_phase c' = Removed \<longrightarrow> co_phase c = Removed) \<or>
           ws_manager s' = manager_remove (co_station c) (ws_manager s)"
  using assms
proof (cases rule: ws_step.cases)
  case (connect i up)
  then show thesis using skip new by (cases "i = []"; cases up) (auto simp: handle_ws_def)
next
  case (receive n c e raw c' o')
  note f = read_round_facts [OF receive(5)]
  from receive f show thesis by (intro change [of n c c']) (auto simp: set_conn_def)
next
  case (pump n c ok)
  have "co_station (pump_round ok c) = co_station c" "co_phase (pump_round ok c) = co_phase c"
    by (auto simp: pump_round_def conn_write_def Let_def split: list.split)
  with pump show thesis by (intro change [of n c "pump_round ok c"]) (auto simp: set_conn_def pump_ok)
next
  case (tick n c ok)
  then show thesis
    by (intro change [of n c "ping_round ok c"])
      (auto simp: set_conn_def ping_round_def ping_ok conn_ok_cong conn_write_def [of WirePing, THEN arg_cong, of co_station]
        conn_write_def [of WirePing, THEN arg_cong, of co_phase])
next
  case (manager_ping i n c)
  then show thesis
    by (intro change [of n c "conn_write WirePing c"])
      (auto simp: set_conn_def ping_ok conn_write_def [of WirePing, THEN arg_cong, of co_station]
        conn_write_def [of WirePing, THEN arg_cong, of co_phase])
next
  case (read_fails n c)
  then show thesis
    by (intro change [of n c "c\<lparr>co_phase := QueueClosed\<rparr>"]) (auto simp: set_conn_def conn_ok_cong)
next
  case (pump_cancelled n c)
  then show thesis
    by (intro change [of n c "c\<lparr>co_writing := False\<rparr>"]) (auto simp: set_conn_def conn_ok_cong)
next
  case (close_socket n c)
  then show thesis
    by (intro change [of n c "c\<lparr>co_phase := SocketClosed\<rparr>"]) (auto simp: set_conn_def conn_ok_cong)
next
  case (on_close n c)
  then show thesis
    by (intro change [of n c "c\<lparr>co_phase := Removed\<rparr>"]) (auto simp: set_conn_def conn_ok_cong)
qed

lemma ws_step_ok:
  assumes "ws_step lib r s ev s'" and "ws_ok s" shows "ws_ok s'"
  using assms(1)
proof (cases rule: ws_step_cases)
  case (skip i up)
  then show ?thesis using assms(2) by simp
next
  case (new i)
  have old: "ws_conns s m = None" if "ws_next s \<le> m" for m
    using assms(2) that unfolding ws_ok_def by (metis not_le option.exhaust)
  show ?thesis unfolding ws_ok_def
  proof (intro conjI allI impI)
    fix n c assume "ws_conns s' n = Some c"
    then show "n < ws_next s'" "conn_ok c" "co_station c \<noteq> []"
      using assms(2) new by (auto simp: ws_ok_def new_connection_ok new_connection_def [THEN arg_cong, of co_station]
          split: if_splits dest: less_SucI)
  next
    fix j n assume j: "ws_manager s' j = Some n"
    show "registered_ok s' j n"
    proof (cases "j = i")
      case True
      then have "n = ws_next s" using j new by (simp add: manager_add_def)
      then show ?thesis using True new old
        by (auto simp: registered_ok_def new_connection_def)
    next
      case False
      then have "registered_ok s j n" using j new assms(2) by (auto simp: manager_add_def ws_ok_def)
      moreover have "n \<noteq> ws_next s" using calculation old by (auto simp: registered_ok_def)
      ultimately show ?thesis using False new
        by (auto simp: registered_ok_def new_connection_def)
    qed
  qed
next
  case (change n c c')
  show ?thesis unfolding ws_ok_def
  proof (intro conjI allI impI)
    fix m d assume "ws_conns s' m = Some d"
    then show "m < ws_next s'" "conn_ok d" "co_station d \<noteq> []"
      using assms(2) change by (auto simp: ws_ok_def split: if_splits)
  next
    fix j m assume j: "ws_manager s' j = Some m"
    then have m: "ws_manager s j = Some m" and keep: "m = n \<Longrightarrow> co_phase c' = Removed \<Longrightarrow> co_phase c = Removed"
    proof -
      from change(6) j show "ws_manager s j = Some m" by (auto simp: manager_remove_def split: if_splits)
      then have "registered_ok s j m" using assms(2) by (simp add: ws_ok_def)
      then show "co_phase c = Removed" if "m = n" "co_phase c' = Removed"
        using change(1,6) j that by (auto simp: registered_ok_def manager_remove_def)
    qed
    from m assms(2) have "registered_ok s j m" by (simp add: ws_ok_def)
    then show "registered_ok s' j m"
      using change(1,2,4) keep by (auto simp: registered_ok_def split: option.splits)
  qed
qed

lemma ws_run_ok: "ws_run lib r s es s' \<Longrightarrow> ws_ok s \<Longrightarrow> ws_ok s'"
  by (induction rule: ws_run.induct) (auto intro: ws_step_ok)

lemma init_ws_ok: "ws_ok (init_ws w)"
  by (simp add: ws_ok_def init_ws_def new_manager_def)

subsection \<open>Refinement of the sequential processor\<close>

text \<open>The frames of a run, in the order in which they are processed, with the station of their connection.\<close>

definition frame_of :: "'w ws \<Rightarrow> ws_event \<Rightarrow> event option" where
  "frame_of s ev =
     (case ev of
        Receive n e raw \<Rightarrow> (case ws_conns s n of None \<Rightarrow> None | Some c \<Rightarrow> Some (e, co_station c, raw))
      | _ \<Rightarrow> None)"

definition frames :: "'w ws \<Rightarrow> ws_event list \<Rightarrow> event list" where
  "frames s es = List.map_filter (frame_of s) es"

lemma ws_step_ocpp:
  assumes "ws_step lib r s ev s'"
  shows "ws_ocpp s' = (case frame_of s ev of None \<Rightarrow> ws_ocpp s
     | Some (e, i, raw) \<Rightarrow> snd (process lib r e i raw (ws_ocpp s)))"
  using assms
  by (cases rule: ws_step.cases) (auto simp: frame_of_def set_conn_def handle_ws_def dest: read_round_facts(1))

lemma ws_step_station:
  assumes "ws_step lib r s ev s'" and "ws_ok s" and "ws_conns s n = Some c"
  obtains c' where "ws_conns s' n = Some c'" and "co_station c' = co_station c"
  using assms(1)
proof (cases rule: ws_step_cases)
  case (new i)
  have "n \<noteq> ws_next s" using assms(2,3) by (auto simp: ws_ok_def)
  then show thesis using new assms(3) that by simp
next
  case (change m d d')
  then show thesis using assms(3) that by (cases "n = m") auto
qed (use assms(3) that in simp)

lemma ws_run_station:
  "ws_run lib r s es s' \<Longrightarrow> ws_ok s \<Longrightarrow> ws_conns s n = Some c \<Longrightarrow>
     \<exists>c'. ws_conns s' n = Some c' \<and> co_station c' = co_station c"
proof (induction arbitrary: c rule: ws_run.induct)
  case (step s ev s' evs s'')
  obtain c' where "ws_conns s' n = Some c'" "co_station c' = co_station c"
    using ws_step_station [OF step(1,4,5)] .
  with step.IH [OF ws_step_ok [OF step(1,4)], of c'] show ?case by auto
qed simp

lemma frame_of_later:
  assumes "ws_step lib r s ev s1" and "ws_run lib r s1 es s'" and "ws_ok s"
  shows "frame_of s' ev = frame_of s ev"
proof (cases ev)
  case (Receive n e raw)
  from assms(1) obtain c where c: "ws_conns s n = Some c" by (auto simp: Receive receive_iff)
  obtain c1 where "ws_conns s1 n = Some c1" "co_station c1 = co_station c"
    using ws_step_station [OF assms(1,3) c] .
  with ws_run_station [OF assms(2) ws_step_ok [OF assms(1,3)], of n c1] c
  show ?thesis by (auto simp: frame_of_def Receive)
qed (simp_all add: frame_of_def)

lemma ws_run_ocpp:
  "ws_run lib r s es s' \<Longrightarrow> ws_ok s \<Longrightarrow> ws_ocpp s' = process_all lib r (frames s' es) (ws_ocpp s)"
proof (induction rule: ws_run.induct)
  case (step s ev s' evs s'')
  have "frame_of s'' ev = frame_of s ev" using frame_of_later [OF step(1,2,4)] .
  with ws_step_ocpp [OF step(1)] step.IH [OF ws_step_ok [OF step(1,4)]] show ?case
    by (auto simp: frames_def List.map_filter_simps split: option.splits)
qed (simp add: frames_def List.map_filter_simps)

subsection \<open>Delivery\<close>

lemma drain:
  assumes "ws_conns s n = Some c" and "co_writing c" and "socket_open c"
  shows "\<exists>s' c'. ws_run lib r s (replicate (length (co_send c)) (Pump n True)) s' \<and>
    ws_conns s' n = Some c' \<and> co_send c' = [] \<and> co_wire c' = co_wire c @ map WireText (co_send c) \<and>
    co_given c' = co_given c \<and> ws_ocpp s' = ws_ocpp s"
  using assms
proof (induction "co_send c" arbitrary: s c)
  case Nil
  then show ?case by (intro exI [of _ s] exI [of _ c]) (auto intro: ws_run.finish)
next
  case (Cons m ms)
  let ?c = "pump_round True c"
  let ?s = "set_conn n ?c s"
  have c: "co_send ?c = ms" "co_wire ?c = co_wire c @ [WireText m]" "co_writing ?c" "socket_open ?c"
    "co_given ?c = co_given c"
    using Cons.prems Cons.hyps(2) [symmetric]
    by (simp_all add: pump_round_def conn_write_def Let_def socket_open_def)
  have step: "ws_step lib r s (Pump n True) ?s"
    using Cons.prems Cons.hyps(2) by (intro ws_step.pump) auto
  have "ws_conns ?s n = Some ?c" by (simp add: set_conn_def)
  from Cons.hyps(1) [OF c(1) [symmetric] this c(3,4)] obtain s' c' where
    "ws_run lib r ?s (replicate (length ms) (Pump n True)) s'" "ws_conns s' n = Some c'" "co_send c' = []"
    "co_wire c' = (co_wire c @ [WireText m]) @ map WireText ms" "co_given c' = co_given c" "ws_ocpp s' = ws_ocpp ?s"
    using c by auto
  with step show ?case
    by (intro exI [of _ s'] exI [of _ c'])
      (auto simp: Cons.hyps(2) [symmetric] set_conn_def intro: ws_run.step)
qed

subsection \<open>Properties\<close>

text \<open>C21: In every reachable state of the server at most sixteen responses wait on a connection; what a
  station has been sent, followed by what waits, is a subsequence of its connection's responses in
  their order, so nothing is duplicated, reordered or sent to another connection; and whatever the
  manager lists under a station is that station's newest connection, not yet removed.\<close>

theorem ws_connections_ok:
  assumes "ws_run lib r (init_ws w) es s" and "ws_conns s n = Some c"
  shows "length (co_send c) \<le> 16 \<and> subseq (texts (co_wire c) @ co_send c) (co_given c) \<and>
    (\<forall>i m. ws_manager s i = Some m \<longrightarrow> registered_ok s i m)"
  using ws_run_ok [OF assms(1) init_ws_ok] assms(2) by (auto simp: ws_ok_def conn_ok_def send_capacity_def)


text \<open>C33: As long as a connection's write pump runs and its socket is open, everything that waits on it can
  be delivered: as many successful rounds of the pump empty the queue and put the responses on the
  wire in order, and change nothing else.\<close>

theorem ws_queue_drains:
  assumes "ws_conns s n = Some c" and "co_writing c" and "socket_open c"
  shows "\<exists>s' c'. ws_run lib r s (replicate (length (co_send c)) (Pump n True)) s' \<and>
    ws_conns s' n = Some c' \<and> co_send c' = [] \<and> co_wire c' = co_wire c @ map WireText (co_send c) \<and>
    co_given c' = co_given c \<and> ws_ocpp s' = ws_ocpp s"
  using assms by (rule drain)

text \<open>C40: When a station connects again before its old connection is cleaned up, the clean-up of the old
  connection deregisters the new one: the new connection stays open and reading, but the manager no
  longer lists the station.\<close>

theorem reconnect_unregistered:
  assumes "i \<noteq> []"
  shows "\<exists>s c. ws_run lib r (init_ws w)
      [Connect i True, Connect i True, ReadFails 0, CloseSocket 0, OnClose 0] s \<and>
    ws_conns s 1 = Some c \<and> co_station c = i \<and> co_phase c = Reading \<and> ws_manager s i = None"
proof -
  let ?c = "new_connection i"
  define s1 where "s1 = snd (handle_ws i True (init_ws w))"
  define s2 where "s2 = snd (handle_ws i True s1)"
  define s3 where "s3 = set_conn 0 (?c\<lparr>co_phase := QueueClosed\<rparr>) s2"
  define s4 where "s4 = set_conn 0 (?c\<lparr>co_phase := SocketClosed\<rparr>) s3"
  define s5 where "s5 = set_conn 0 (?c\<lparr>co_phase := Removed\<rparr>) (s4\<lparr>ws_manager := manager_remove i (ws_manager s4)\<rparr>)"
  note defs = s1_def s2_def s3_def s4_def s5_def
  have new: "co_phase ?c = Reading" "co_station ?c = i" by (simp_all add: new_connection_def)
  have conns: "ws_conns s2 0 = Some ?c" "ws_conns s2 1 = Some ?c"
    "ws_conns s3 0 = Some (?c\<lparr>co_phase := QueueClosed\<rparr>)" "ws_conns s4 0 = Some (?c\<lparr>co_phase := SocketClosed\<rparr>)"
    "ws_conns s5 1 = Some ?c" "ws_manager s5 i = None"
    using assms by (simp_all add: defs handle_ws_def init_ws_def set_conn_def registry.get_del)
  have "ws_step lib r s2 (ReadFails 0) s3"
    using ws_step.read_fails [OF conns(1) new(1), of lib r] by (simp add: s3_def)
  moreover have "ws_step lib r s3 (CloseSocket 0) s4" "ws_step lib r s4 (OnClose 0) s5"
    using conns(3,4) new(2) by (simp_all add: close_iff s4_def s5_def)
  moreover have "ws_step lib r (init_ws w) (Connect i True) s1" "ws_step lib r s1 (Connect i True) s2"
    unfolding s1_def s2_def by (rule ws_step.connect)+
  ultimately have "ws_run lib r (init_ws w)
      [Connect i True, Connect i True, ReadFails 0, CloseSocket 0, OnClose 0] s5"
    by (meson ws_run.finish ws_run.step)
  with conns(5,6) new show ?thesis by blast
qed

subsection \<open>Witnesses\<close>

definition one_connection :: "unit ws" where
  "one_connection = snd (handle_ws ''CP1'' True (init_ws ()))"

lemma one_connection_run: "ws_run lib r (init_ws ()) [Connect ''CP1'' True] one_connection"
  unfolding one_connection_def by (rule ws_run.step [OF ws_step.connect ws_run.finish])

lemma one_connection_conn: "ws_conns one_connection 0 = Some (new_connection ''CP1'')"
  by (simp add: one_connection_def handle_ws_def init_ws_def)

theorem ws_connections_ok_witness:
  "registered_ok one_connection ''CP1'' 0"
  using ws_connections_ok [OF one_connection_run one_connection_conn]
  by (auto simp: one_connection_def handle_ws_def init_ws_def manager_add_def)

definition lone_deps :: "unit deps" where
  "lone_deps = \<lparr>dp_sessions = None, dp_billing = None, dp_telemetry = None, dp_net = (\<lambda>c w. (Inl ErrSyntax, w))\<rparr>"


definition two_waiting :: "unit ws" where
  "two_waiting = set_conn 0 ((new_connection ''CP1'')\<lparr>co_send := [JInt 1, JInt 2], co_given := [JInt 1, JInt 2]\<rparr>) one_connection"

theorem ws_queue_drains_witness:
  "\<exists>s' c'. ws_run (\<lambda>_. []) new_router two_waiting [Pump 0 True, Pump 0 True] s' \<and> ws_conns s' 0 = Some c' \<and>
     co_wire c' = [WireText (JInt 1), WireText (JInt 2)]"
proof -
  have "ws_conns two_waiting 0 = Some ((new_connection ''CP1'')\<lparr>co_send := [JInt 1, JInt 2], co_given := [JInt 1, JInt 2]\<rparr>)"
    by (simp add: two_waiting_def set_conn_def)
  from ws_queue_drains [OF this, of "\<lambda>_. []" new_router] show ?thesis
    by (auto simp: new_connection_def socket_open_def numeral_2_eq_2)
qed

theorem reconnect_unregistered_witness:
  "\<exists>s :: unit ws. ws_run (\<lambda>_. []) new_router (init_ws ())
     [Connect ''CP1'' True, Connect ''CP1'' True, ReadFails 0, CloseSocket 0, OnClose 0] s \<and> ws_manager s ''CP1'' = None"
  using reconnect_unregistered [of "''CP1''" "\<lambda>_. []" new_router "()"] by auto

end
