(* ===== verification/DeploymentProps.thy ===== *)
theory DeploymentProps
  imports Deployment
begin

section \<open>Properties of the deployment\<close>

text \<open>
  The configurations fit together; and what a user of the deployed system sees: the stations route leads
  nowhere, and the history of every account stays empty, since the sessions and bills of stations belong
  to user 0. The latter is an invariant over all runs of the system.
\<close>

subsection \<open>Rows belong to nobody\<close>

definition anonymous :: "'c fleet \<Rightarrow> bool" where
  "anonymous w \<longleftrightarrow> (\<forall>r \<in> set (sv_rows (fl_sessions w)). sr_user r = 0) \<and> (\<forall>t \<in> set (bv_rows (fl_billing w)). bt_user t = 0)"

lemma start_session_anonymous:
  assumes "\<forall>r \<in> set (sv_rows s). sr_user r = 0" and "ses_user ses = 0" and "r \<in> set (sv_rows (snd (start_session e n ses s)))"
  shows "sr_user r = 0"
  using assms by (auto simp: start_session_def Let_def update_tx_def split: option.splits if_splits)

lemma complete_session_anonymous:
  assumes "\<forall>r \<in> set (sv_rows s). sr_user r = 0" and "r \<in> set (sv_rows (snd (complete_session e n t en x st s)))"
  shows "sr_user r = 0"
  using assms by (auto simp: complete_session_def update_tx_def split: option.splits if_splits)

lemma start_from_ocpp_rows:
  "sv_rows (snd (start_session_from_ocpp store e input s)) = sv_rows (snd (start_session e 0 (new_session e input) s))"
  by (auto simp: start_session_from_ocpp_def case_prod_beta split: sum.split option.split)

lemma stop_from_ocpp_rows:
  "sv_rows (snd (stop_session_from_ocpp store e input s)) = sv_rows (snd (complete_session e 0 (spi_transaction input)
     (stop_time e input) (spi_energy input) SessionStatusCompleted s))"
  by (auto simp: stop_session_from_ocpp_def case_prod_beta split: sum.split option.split)

lemma handle_start_anonymous:
  assumes "\<forall>r \<in> set (sv_rows s). sr_user r = 0" and "decode_session_start (rq_body q) = Inr input" and "ssi_user input = 0"
  shows "\<forall>r \<in> set (sv_rows (snd (handle_session_start store e q s))). sr_user r = 0"
proof -
  have "sv_rows (snd (handle_session_start store e q s)) =
      (if ssi_transaction input = [] then sv_rows s else sv_rows (snd (start_session e 0 (new_session e input) s)))"
    using start_from_ocpp_rows [of store e input s] by (auto simp: handle_session_start_def assms(2) split: prod.split sum.split)
  then show ?thesis using assms(1,3) start_session_anonymous [OF assms(1), of "new_session e input"]
    by (simp add: new_session_def)
qed

lemma handle_stop_anonymous:
  assumes "\<forall>r \<in> set (sv_rows s). sr_user r = 0"
  shows "\<forall>r \<in> set (sv_rows (snd (handle_session_stop store e q s))). sr_user r = 0"
proof (cases "decode_session_stop (rq_body q)")
  case (Inr input)
  have "sv_rows (snd (handle_session_stop store e q s)) =
      (if spi_transaction input = [] then sv_rows s else sv_rows (snd (complete_session e 0 (spi_transaction input)
         (stop_time e input) (spi_energy input) SessionStatusCompleted s)))"
    using stop_from_ocpp_rows [of store e input s] by (auto simp: handle_session_stop_def Inr split: prod.split sum.split)
  then show ?thesis using assms complete_session_anonymous [OF assms] by simp
qed (use assms in \<open>simp add: handle_session_stop_def\<close>)

lemma handle_stopped_anonymous:
  assumes "\<forall>t \<in> set (bv_rows s). bt_user t = 0" and "decode_session_stopped (rq_body q) = Inr input" and "ci_user input = 0"
  shows "\<forall>t \<in> set (bv_rows (snd (handle_session_stopped ts e q s))). bt_user t = 0"
  using assms by (cases rule: handle_stopped_cases [of ts e q s]) auto

subsection \<open>The OCPP server keeps it so\<close>

lemma create_anonymous:
  assumes "anonymous w" and "in_int64 (ssr_connector r)"
  shows "anonymous (snd (create_from_ocpp (connect store e) sessions_url r w))"
proof (cases "json_start_session r")
  case None
  then show ?thesis using assms(1) by (simp add: create_from_ocpp_def post_start_def)
next
  case (Some j)
  let ?q = "received (json_post (sessions_url @ start_path) j) start_path"
  have dec: "decode_session_start (rq_body ?q) = Inr \<lparr>ssi_user = 0, ssi_station = ssr_station r,
      ssi_connector = ssr_connector r, ssi_transaction = ssr_transaction r, ssi_start = 0\<rparr>"
    using start_wire [OF Some assms(2)] by simp
  show ?thesis using assms(1) handle_start_anonymous [OF _ dec, of "fl_sessions w" store e] Some
    by (auto simp: create_from_ocpp_def anonymous_def)
qed

lemma complete_anonymous:
  assumes "anonymous w" shows "anonymous (snd (complete_from_ocpp (connect store e) sessions_url r w))"
proof (cases "json_stop_session r")
  case None
  then show ?thesis using assms(1) by (simp add: complete_from_ocpp_def post_def)
next
  case (Some j)
  then show ?thesis using assms handle_stop_anonymous [of "fl_sessions w"]
    by (auto simp: complete_from_ocpp_def anonymous_def)
qed

lemma bill_anonymous:
  assumes "anonymous w" and "in_int64 (bsr_session r)" and "bsr_user r = 0" and "valid64 (bsr_energy r)"
  shows "anonymous (snd (notify_session_stop (connect store e) billing_url r w))"
proof (cases "json_billing_stop r")
  case None
  then show ?thesis using assms(1) by (simp add: notify_session_stop_def post_def)
next
  case (Some j)
  let ?q = "received (json_post (billing_url @ stopped_path) j) stopped_path"
  have dec: "decode_session_stopped (rq_body ?q) = Inr \<lparr>ci_session = bsr_session r, ci_user = bsr_user r,
      ci_energy = bsr_energy r\<rparr>"
    using billing_wire [OF Some assms(4,2)] assms(3) by simp
  show ?thesis using assms(1,3) handle_stopped_anonymous [OF _ dec, of "fl_billing w" app_tariffs e] Some
    by (auto simp: notify_session_stop_def anonymous_def)
qed

lemma meter_anonymous:
  assumes "anonymous w" shows "anonymous (snd (notify_meter_value (connect store e) telemetry_url r w))"
proof (cases "json_meter_value r")
  case None
  then show ?thesis using assms(1) by (simp add: notify_meter_value_def post_def)
next
  case (Some j)
  then show ?thesis using assms by (auto simp: notify_meter_value_def anonymous_def)
qed

lemma stop_context_range:
  assumes "tx_ok txs" and "stop_context txs req = (en, sid, txs')"
  shows "valid64 en" "in_int64 sid"
  using assms by (auto simp: stop_context_def tx_ok_def stop_energy_valid split: option.splits)

lemma start_anonymous:
  assumes "anonymous (oc_world s)"
  shows "anonymous (oc_world (snd (start_transaction (fleet_deps store e2) e i p s)))"
proof (cases "decode_start p")
  case (Inr req)
  let ?r = "\<lparr>ssr_station = i, ssr_connector = st_connector req, ssr_transaction = transaction_id_of e i req,
      ssr_meter_start = st_meter_start req\<rparr>"
  obtain res w where c: "create_from_ocpp (connect store e2) sessions_url ?r (oc_world s) = (res, w)" by (rule prod.exhaust)
  have "anonymous w" using create_anonymous [OF assms, of ?r store e2] decode_start_range [OF Inr] c by simp
  then show ?thesis
    by (cases res) (simp_all add: start_transaction_def Inr Let_def fleet_deps_def c)
qed (use assms in \<open>simp add: start_transaction_def\<close>)

lemma stop_anonymous:
  assumes "anonymous (oc_world s)" and "tx_ok (oc_txs s)"
  shows "anonymous (oc_world (snd (stop_transaction (fleet_deps store e2) e i p s)))"
proof (cases "decode_stop p")
  case (Inr req)
  obtain en sid txs where c: "stop_context (oc_txs s) req = (en, sid, txs)" by (rule prod_cases3)
  note range = stop_context_range [OF assms(2) c]
  show ?thesis using complete_anonymous [OF assms(1)]
    by (simp add: stop_transaction_def Inr Let_def fleet_deps_def c bill_anonymous range)
qed (use assms in \<open>simp add: stop_transaction_def\<close>)

lemma meter_values_anonymous:
  assumes "anonymous (oc_world s)"
  shows "anonymous (oc_world (snd (meter_values (fleet_deps store e2) e i p s)))"
  using assms meter_anonymous
  by (auto simp: meter_values_def fleet_deps_def split: sum.split option.split)

definition anonymous_ok :: "'c fleet ocpp \<Rightarrow> bool" where
  "anonymous_ok s \<longleftrightarrow> ocpp_ok s \<and> anonymous (oc_world s)"

lemma anonymous_handlers:
  assumes "app_router (fleet_deps store e2) a = Some h" and "anonymous_ok s"
  shows "anonymous_ok (snd (h e i p s))"
proof -
  have "tx_ok (oc_txs s)" using assms(2) by (simp add: anonymous_ok_def ocpp_ok_def)
  from assms(1) this show ?thesis using assms(2)
    by (cases rule: app_router_SomeE)
      (simp_all add: anonymous_ok_def boot_ok status_ok start_ok stop_ok meter_ok start_anonymous stop_anonymous
        meter_values_anonymous)
qed

interpretation anonymous: ocpp_invariant "app_router (fleet_deps store e2)" anonymous_ok
  for store :: "'c store option" and e2
proof
  fix e n i dir a p and s :: "'c fleet ocpp"
  assume "anonymous_ok s"
  then show "anonymous_ok (s\<lparr>oc_log := log_save e n i dir a p (oc_log s)\<rparr>)"
    by (auto simp: anonymous_ok_def ocpp_ok_def intro: inv_intros)
qed (rule anonymous_handlers)

subsection \<open>The gateway's calls\<close>

lemma site_mux_404:
  "ocpp_mux up e (received c ''/stations'') w = (http_error ''404 page not found'' 404, w)"
  by (simp add: ocpp_mux_def serve_mux_def received_def)

lemma site_call_stations:
  "hc_url c = stations_url @ ''/stations'' \<Longrightarrow> site_net x e c s = (Inr (http_error ''404 page not found'' 404), s)"
  by (simp add: site_net_def site_mux_404)

lemma site_call_auth: "hc_url c = auth_url @ p \<Longrightarrow> si_ws (snd (site_net x e c s)) = si_ws s"
  by (simp add: site_net_def case_prod_beta)

lemma world_same [simp]: "s\<lparr>si_ws := (si_ws s)\<lparr>ws_ocpp := (ws_ocpp (si_ws s))\<lparr>oc_world := site_fleet s\<rparr>\<rparr>\<rparr> = s"
  by simp

text \<open>On the guarded routes the gateway of the deployment answers as the fleet's does.\<close>

lemma site_own_data:
  assumes "path \<in> set me_routes" and "in_int64 u"
  shows "me_call (site_gateway x e) path u s = (own_data e path u (site_fleet s), s)"
proof -
  from assms(1) consider "path = ''/api/sessions/me''" | "path = ''/api/billing/me/transactions''"
    by (auto simp: me_routes_def)
  then show ?thesis
  proof cases
    case 1
    then show ?thesis
      by (cases "get_sessions_by_user e 0 u 50 (fl_sessions (site_fleet s))")
        (simp_all add: me_call_def own_data_def history_answer_def proxy_def sessions_for_user_def
          client_do_def site_gateway_eq new_gateway_def build_url_slash new_base_client_def [THEN arg_cong, of gc_net]
          site_net_def connect_def sessions_router_def serve_mux_def method_guard_def received_def sessions_me_def
          parse_int_format_int [OF assms(2)] write_error_def)
  next
    case 2
    then show ?thesis
      by (cases "list_by_user e 0 u 50 (fl_billing (site_fleet s))")
        (simp_all add: me_call_def own_data_def bills_answer_def proxy_def transactions_for_user_def
          client_do_def site_gateway_eq new_gateway_def build_url_slash new_base_client_def [THEN arg_cong, of gc_net]
          site_net_def connect_def billing_app_def billing_router_def serve_mux_def method_guard_def received_def
          transactions_me_def parse_int_format_int [OF assms(2)] write_error_def)
  qed
qed

lemma extract_range: "extract_user_id claims = Inr u \<Longrightarrow> in_int64 u"
  by (auto simp: extract_user_id_def parse_int_range to_int64_range split: option.splits json.splits)

lemma admitted_range: "admitted jw secret e r = Some u \<Longrightarrow> in_int64 u"
  by (auto simp: admitted_def Let_def split: if_splits sum.splits dest: extract_range)

lemma site_me:
  assumes "rq_path r \<in> set me_routes" and "rq_method r = ''GET''" and "admitted (os_jwt x) ''dev-secret'' e r = Some u"
  shows "gateway_router (site_gateway x e2) e r s = (own_data e2 (rq_path r) u (site_fleet s), s)"
  using me_admitted [OF assms(1,2), of "site_gateway x e2" e s] assms(3)
    site_own_data [OF assms(1) admitted_range [OF assms(3)], of x e2 s] by simp

lemma proxy_state: "snd (proxy m q) = snd q"
  by (cases q rule: prod.exhaust) (auto simp: proxy_def split: sum.split)

lemma site_stations:
  "list_stations (gd_stations (site_gateway x e2)) s = (Inr (404, NotJson (''404 page not found'' @ [CHR 0x0A])), s)"
  by (simp add: list_stations_def client_do_def Let_def site_gateway_eq new_gateway_def build_url_slash
      new_base_client_def [THEN arg_cong, of gc_net] site_call_stations) (simp add: http_error_def)

lemma client_do_world: "snd (client_do c m p b hs s) = snd (gc_net c
    \<lparr>hc_method = m, hc_url = build_url c p,
     hc_headers = (if b \<noteq> None \<and> map_of hs ''Content-Type'' = None
       then hs @ [(''Content-Type'', ''application/json'')] else hs),
     hc_body = (case b of None \<Rightarrow> NotJson [] | Some d \<Rightarrow> d)\<rparr> s)"
  by (simp add: client_do_def Let_def split: prod.split sum.split)

lemma site_auth_ws:
  "si_ws (snd (client_do (gd_auth (site_gateway x e2)) m (CHR ''/'' # p) b hs s)) = si_ws s"
  by (simp add: client_do_world site_gateway_eq new_gateway_def build_url_slash
      new_base_client_def [THEN arg_cong, of gc_net]) (simp add: site_call_auth)

text \<open>No request at the gateway changes anything but the accounts.\<close>

lemma gateway_keeps_ws: "si_ws (snd (gateway_router (site_gateway x e2) e r s)) = si_ws s"
proof (cases "rq_path r \<in> set me_routes")
  case True
  show ?thesis
  proof (cases "rq_method r = ''GET''")
    case get: True
    show ?thesis
    proof (cases "admitted (os_jwt x) ''dev-secret'' e r")
      case None
      then show ?thesis using me_admitted [OF True get, of "site_gateway x e2" e s] by simp
    qed (simp add: site_me [OF True get])
  qed (simp add: authenticated_me [OF True])
next
  case False
  then show ?thesis
    by (auto simp: me_routes_def gateway_router_def serve_mux_def method_guard_def proxy_state signup_proxy_def
        login_proxy_def stations_proxy_def client_signup_def client_login_def site_auth_ws site_stations split: option.split)
qed

subsection \<open>Runs of the deployment\<close>

definition site_inv :: "'c site \<Rightarrow> bool" where
  "site_inv s \<longleftrightarrow> anonymous_ok (ws_ocpp (si_ws s))"

lemma site_step_inv: "site_step x lib s ev s' \<Longrightarrow> site_inv s \<Longrightarrow> site_inv s'"
proof (induction rule: site_step.induct)
  case (user s e e2 r)
  then show ?case by (simp add: site_inv_def site_handler_eq gateway_program_state gateway_keeps_ws)
next
  case (station e2 s ev w)
  then show ?case using ws_step_ocpp [OF station(1)]
    by (auto simp: site_inv_def site_router_eq split: option.splits intro: anonymous.process_inv)
qed

lemma site_run_inv: "site_run x lib s evs s' \<Longrightarrow> site_inv s \<Longrightarrow> site_inv s'"
  by (induction rule: site_run.induct) (auto intro: site_step_inv)

subsection \<open>The containers start\<close>

definition platform_ready :: "platform \<Rightarrow> bool" where
  "platform_ready p \<longleftrightarrow> (\<forall>c. pf_build_logger p c = None) \<and>
     (\<forall>dsn. pf_open p dsn = None \<and> pf_ping_db p dsn = None) \<and> (\<forall>opts. pf_ping_redis p opts = None)"

text \<open>The platform of a container.\<close>

definition inside :: "platform \<Rightarrow> (string \<times> string) list \<Rightarrow> platform" where
  "inside p vars = p\<lparr>pf_sys := container vars (pf_sys p)\<rparr>"

lemma ready_simps:
  assumes "platform_ready p"
  shows "logger_ok (inside p vars)" "db_ok (inside p vars) dsn \<longleftrightarrow> \<not> blank dsn"
    "redis_ok (inside p vars) addr pw \<longleftrightarrow> \<not> blank addr"
  using assms by (auto simp: platform_ready_def inside_def logger_ok_def new_logger_def Let_def db_ok_def redis_ok_def)

lemma cfg_dsn:
  "conf_string (auth_cfg y) [''Database'', ''DSN''] = compose_dsn" "conf_string (sessions_cfg y) [''Database'', ''DSN''] = compose_dsn"
  "conf_string (billing_cfg y) [''Database'', ''DSN''] = compose_dsn" "conf_string (telemetry_cfg y) [''Database'', ''DSN''] = compose_dsn"
  "conf_string (ocpp_cfg y) [''Database'', ''DSN''] = compose_dsn"
  "conf_string (sessions_cfg y) [''Redis'', ''Addr''] = ''redis:6379''" "conf_string (sessions_cfg y) [''Redis'', ''Password''] = []"
  by (simp_all add: cfg_defs ocpp_config_simps text_of_def container_def env_defs)

lemma cfg_durations:
  "jwt_expiration (auth_cfg y) = hour" "active_session_ttl (sessions_cfg y) = 24 * hour"
  "http_timeout (gateway_cfg y) = 5 * second" "write_timeout (ocpp_cfg y) = 15 * second"
  "ping_interval (ocpp_cfg y) = 30 * second"
  by (simp_all add: jwt_expiration_def active_session_ttl_def http_timeout_def write_timeout_def ping_interval_def cfg_defs
      ocpp_config_simps Let_def minutes_exact seconds_exact)
    (simp_all add: hour_def minute_def)

lemma inside_sys [simp]: "pf_sys (inside p vars) = container vars (pf_sys p)"
  by (simp add: inside_def)

lemma container_uni [simp]: "sy_uni (container vars y) = sy_uni y"
  by (simp add: container_def)

lemmas compose_starts = started_iff process_defs load_compose ready_simps cfg_dsn compose_not_blank
  new_auth_app_iff new_sessions_app_iff new_db_app_iff new_ocpp_app_iff new_billing_app_def new_telemetry_app_def
  new_gateway_app_def new_gateway_server_def new_server_def cfg_addresses Let_def

lemma auth_starts:
  assumes "platform_ready p"
  shows "\<exists>a. started (auth_process bc jw) (inside p auth_env) = Some a \<and>
    auth_url = ''http://auth-service'' @ se_addr (ap_server a) \<and>
    se_handler (ap_server a) = auth_router \<lparr>ad_uni = sy_uni (pf_sys p), ad_hasher = bc, ad_jwt = jw,
      ad_tokens = new_token_service ''dev-secret'' hour\<rparr>"
  by (simp add: compose_starts assms auth_app_def cfg_text cfg_durations) (simp add: auth_url_def)

lemma sessions_starts:
  assumes "platform_ready p"
  shows "\<exists>a. started (sessions_process client) (inside p sessions_env) = Some a \<and>
    sessions_url = ''http://sessions-service'' @ se_addr (ap_server a) \<and>
    se_handler (ap_server a) =
      sessions_router (Some \<lparr>st_client = client (redis_options_of ''redis:6379'' []), st_ttl = 24 * hour\<rparr>)"
  by (simp add: compose_starts assms sessions_app_def cfg_durations) (simp add: sessions_url_def)

lemma billing_starts:
  assumes "platform_ready p"
  shows "\<exists>a. started billing_process (inside p billing_env) = Some a \<and>
    billing_url = ''http://billing-service'' @ se_addr (ap_server a) \<and> se_handler (ap_server a) = billing_app"
  by (simp add: compose_starts assms) (simp add: billing_url_def)

lemma telemetry_starts:
  assumes "platform_ready p"
  shows "\<exists>a. started telemetry_process (inside p telemetry_env) = Some a \<and>
    telemetry_url = ''http://telemetry-service'' @ se_addr (ap_server a) \<and> se_handler (ap_server a) = telemetry_router"
  by (simp add: compose_starts assms) (simp add: telemetry_url_def)

lemma ocpp_starts:
  assumes "platform_ready p"
  shows "\<exists>a. started (ocpp_process upgrade net) (inside p ocpp_env) = Some a \<and>
    stations_url = ''http://ocpp-server'' @ se_addr (ap_server a) \<and>
    op_router (se_handler (ap_server a)) = app_router \<lparr>dp_sessions = Some sessions_url, dp_billing = Some billing_url,
      dp_telemetry = Some telemetry_url, dp_net = net\<rparr>"
  by (simp add: compose_starts assms deps_of_def cfg_text) (simp add: stations_url_def)

lemma gateway_starts:
  assumes "platform_ready p"
  shows "\<exists>a. started (gateway_process jw gnet) (inside p gateway_env) = Some a \<and> se_addr (ap_server a) = '':8080'' \<and>
    se_handler (ap_server a) = gateway_program
      (new_gateway auth_url sessions_url billing_url stations_url jw ''dev-secret'' (gnet (5 * second)))"
  by (simp add: compose_starts assms gateway_of_def cfg_text cfg_durations gateway_program_def)

subsection \<open>Logging in through the gateway\<close>

text \<open>The auth service of the deployment.\<close>

definition site_auth :: "'c outside \<Rightarrow> auth_deps" where
  "site_auth x = \<lparr>ad_uni = sy_uni (os_sys x), ad_hasher = os_bcrypt x, ad_jwt = os_jwt x,
     ad_tokens = new_token_service ''dev-secret'' hour\<rparr>"

lemma site_auth_app: "auth_app (sy_uni (os_sys x)) (os_bcrypt x) (os_jwt x) (auth_cfg (os_sys x)) = auth_router (site_auth x)"
  by (simp add: auth_app_def site_auth_def cfg_text cfg_durations)

text \<open>The gateway hands a login to the auth service and its answer back.\<close>

lemma site_login:
  assumes "rq_path r = ''/api/auth/login''" and "rq_method r = ''POST''"
    and "\<And>q. rq_body q = rq_body r \<Longrightarrow> login_handler (site_auth x) e2 q (si_auth s) = (write_json n j, a)"
  shows "gateway_router (site_gateway x e2) e r s = (write_json n j, s\<lparr>si_auth := a\<rparr>)"
  using assms
  by (simp add: gateway_router_def serve_mux_def method_guard_def login_proxy_def client_login_def client_do_def Let_def
      site_gateway_eq new_gateway_def build_url_slash new_base_client_def [THEN arg_cong, of gc_net])
    (simp add: site_net_def site_auth_app auth_router_def serve_mux_def method_guard_def received_def proxy_def)

lemma served_json:
  assumes "fst (gateway_router d e r w) = write_json n (Some j)" and "200 \<le> n" "n \<le> 999" "body_allowed n"
  shows "served (fst (gateway_program d e r w)) = (Some (n, [(''Content-Type'', ''application/json'')], [Json j]),
    [RequestLogged (rq_method r) (rq_path r) n])"
  using assms by (simp add: gateway_program_served Let_def written_def write_json_def)

lemma served_status:
  assumes "200 \<le> rs_status (fst (gateway_router d e r w))" and "rs_status (fst (gateway_router d e r w)) \<le> 999"
  shows "served (fst (gateway_program d e r w)) =
    (Some (rs_status (fst (gateway_router d e r w)), rs_headers (fst (gateway_router d e r w)), written (fst (gateway_router d e r w))),
     [RequestLogged (rq_method r) (rq_path r) (rs_status (fst (gateway_router d e r w)))])"
  using assms by (simp add: gateway_program_served Let_def)

text \<open>An answer as the client gets it and as it is logged.\<close>

definition shown :: "request \<Rightarrow> response \<Rightarrow> (nat \<times> (string \<times> string) list \<times> body list) option \<times> entry list" where
  "shown r resp =
     (Some (rs_status resp, rs_headers resp, written resp), [RequestLogged (rq_method r) (rq_path r) (rs_status resp)])"

lemma own_status: "rs_status (own_data e path u w) \<in> {200, 500}"
  by (auto simp: own_data_def history_answer_def bills_answer_def split: sum.split)

lemma site_answer:
  assumes "rq_path r \<in> set me_routes" and "rq_method r = ''GET''"
  shows "case admitted (os_jwt x) ''dev-secret'' e r of
      None \<Rightarrow> (\<exists>resp. rs_status resp = 401 \<and> served (fst (site_handler x e2 e r s)) = shown r resp)
    | Some u \<Rightarrow> served (fst (site_handler x e2 e r s)) = shown r (own_data e2 (rq_path r) u (site_fleet s))"
    and "snd (site_handler x e2 e r s) = s"
proof -
  note adm = me_admitted [OF assms, of "site_gateway x e2" e s]
  show "case admitted (os_jwt x) ''dev-secret'' e r of
      None \<Rightarrow> (\<exists>resp. rs_status resp = 401 \<and> served (fst (site_handler x e2 e r s)) = shown r resp)
    | Some u \<Rightarrow> served (fst (site_handler x e2 e r s)) = shown r (own_data e2 (rq_path r) u (site_fleet s))"
  proof (cases "admitted (os_jwt x) ''dev-secret'' e r")
    case None
    then show ?thesis using adm served_status [of "site_gateway x e2" e r s]
      by (auto simp: site_handler_eq shown_def)
  next
    case (Some u)
    then show ?thesis using site_me [OF assms Some, of e2 s] served_status [of "site_gateway x e2" e r s]
        own_status [of e2 "rq_path r" u "site_fleet s"]
      by (auto simp: site_handler_eq shown_def)
  qed
  show "snd (site_handler x e2 e r s) = s"
  proof (cases "admitted (os_jwt x) ''dev-secret'' e r")
    case None
    then show ?thesis using adm by (simp add: site_handler_eq gateway_program_state)
  next
    case (Some u)
    then show ?thesis using site_me [OF assms Some, of e2 s] by (simp add: site_handler_eq gateway_program_state)
  qed
qed

subsection \<open>What a user is shown\<close>

definition empty_history :: "string \<Rightarrow> json" where
  "empty_history path = JObj [(if path = ''/api/sessions/me'' then ''sessions'' else ''transactions'', JNull)]"

lemma own_data_empty:
  assumes "anonymous w" and "u \<noteq> 0" and "db_fault e 0 = None" and "path \<in> set me_routes"
  shows "own_data e path u w = write_json 200 (Some (empty_history path))"
proof -
  have "filter (\<lambda>r. sr_user r = u) (sv_rows (fl_sessions w)) = []" "filter (\<lambda>t. bt_user t = u) (bv_rows (fl_billing w)) = []"
    using assms(1,2) by (auto simp: anonymous_def filter_empty_conv)
  then have "get_sessions_by_user e 0 u 50 (fl_sessions w) = Inr []" "list_by_user e 0 u 50 (fl_billing w) = Inr []"
    using assms(3) by (simp_all add: get_sessions_by_user_def list_by_user_def order_desc_limit_def)
  then show ?thesis using assms(4)
    by (auto simp: own_data_def history_answer_def bills_answer_def empty_history_def sessions_payload_def json_slice_def
        json_object_def me_routes_def)
qed

subsection \<open>Properties\<close>

text \<open>C16: With the environments of the compose file and working databases and Redis, all six programs start.
  The address each listens at is the one that the URLs of its callers name; the gateway checks tokens
  with the secret that the auth service signs them with, for one hour; the OCPP server and the gateway
  call the services by exactly these URLs, and each program serves the handler of its model.\<close>

theorem deployment_consistent:
  assumes "platform_ready p"
  shows "(\<exists>a. started (auth_process bc jw) (inside p auth_env) = Some a \<and>
      auth_url = ''http://auth-service'' @ se_addr (ap_server a) \<and>
      se_handler (ap_server a) = auth_router \<lparr>ad_uni = sy_uni (pf_sys p), ad_hasher = bc, ad_jwt = jw,
        ad_tokens = new_token_service ''dev-secret'' hour\<rparr>) \<and>
    (\<exists>a. started (sessions_process client) (inside p sessions_env) = Some a \<and>
      sessions_url = ''http://sessions-service'' @ se_addr (ap_server a) \<and>
      se_handler (ap_server a) =
        sessions_router (Some \<lparr>st_client = client (redis_options_of ''redis:6379'' []), st_ttl = 24 * hour\<rparr>)) \<and>
    (\<exists>a. started billing_process (inside p billing_env) = Some a \<and>
      billing_url = ''http://billing-service'' @ se_addr (ap_server a) \<and> se_handler (ap_server a) = billing_app) \<and>
    (\<exists>a. started telemetry_process (inside p telemetry_env) = Some a \<and>
      telemetry_url = ''http://telemetry-service'' @ se_addr (ap_server a) \<and>
      se_handler (ap_server a) = telemetry_router) \<and>
    (\<exists>a. started (ocpp_process upgrade net) (inside p ocpp_env) = Some a \<and>
      stations_url = ''http://ocpp-server'' @ se_addr (ap_server a) \<and>
      op_router (se_handler (ap_server a)) = app_router \<lparr>dp_sessions = Some sessions_url,
        dp_billing = Some billing_url, dp_telemetry = Some telemetry_url, dp_net = net\<rparr>) \<and>
    (\<exists>a. started (gateway_process jw gnet) (inside p gateway_env) = Some a \<and> se_addr (ap_server a) = '':8080'' \<and>
      se_handler (ap_server a) = gateway_program
        (new_gateway auth_url sessions_url billing_url stations_url jw ''dev-secret'' (gnet (5 * second))))"
  by (intro conjI auth_starts sessions_starts billing_starts telemetry_starts ocpp_starts gateway_starts assms)

text \<open>C4: In the deployed system no account ever sees a session or a bill. Whatever users send to the gateway
  and stations to the OCPP server, starting from empty tables, a user other than 0 whose token is accepted
  gets null as the list of their sessions and of their transactions: what stations record belongs to
  user 0, which is no account, and no request at the gateway records anything else.\<close>

theorem users_see_nothing:
  assumes "site_run x lib s0 evs s"
    and "ocpp_ok (ws_ocpp (si_ws s0))" and "sv_rows (fl_sessions (site_fleet s0)) = []" and "bv_rows (fl_billing (site_fleet s0)) = []"
    and "rq_path r \<in> set me_routes" and "rq_method r = ''GET''" and "bearer (os_jwt x) ''dev-secret'' e r u" and "u \<noteq> 0"
    and "db_fault e2 0 = None"
  shows "served (fst (site_handler x e2 e r s)) =
    (Some (200, [(''Content-Type'', ''application/json'')], [Json (empty_history (rq_path r))]),
     [RequestLogged ''GET'' (rq_path r) 200])"
proof -
  have "site_inv s0" using assms(2-4) by (simp add: site_inv_def anonymous_ok_def anonymous_def)
  with assms(1) have "site_inv s" by (rule site_run_inv)
  then have "anonymous (site_fleet s)" by (simp add: site_inv_def anonymous_ok_def)
  from own_data_empty [OF this assms(8,9,5)] site_me [OF assms(5,6), of x e u e2 s] assms(7)
  have "fst (gateway_router (site_gateway x e2) e r s) = write_json 200 (Some (empty_history (rq_path r)))"
    by (simp add: admitted_iff)
  then show ?thesis
    by (simp add: site_handler_eq gateway_program_served Let_def assms(6) written_def body_allowed_def write_json_def)
qed

text \<open>C5: In the deployed system, who logs in through the gateway with the password of their account gets a
  token; sent back to the gateway within an hour of whole seconds it yields exactly their own sessions or
  transactions at that time, and from then on a 401, and neither request changes anything.\<close>

theorem deployed_login:
  assumes "rq_path r = ''/api/auth/login''" and "rq_method r = ''POST''"
    and "decode_body login_fields empty_login (rq_body r) = Inr req"
    and "trim_space (lr_email req) \<noteq> []" and "trim_space (lr_password req) \<noteq> []"
    and "m = normalize_email (sy_uni (os_sys x)) (normalize_email (sy_uni (os_sys x)) (trim_space (lr_email req)))"
    and "normalize_email (sy_uni (os_sys x)) (trim_space (lr_email req)) \<noteq> []"
    and "db_fault e2 0 = None" and ok: "users_ok (si_auth s)"
    and "\<And>c. jw_sign (os_jwt x) ''dev-secret'' c = Inr (tok c)"
    and u: "find_email m (av_users (si_auth s)) = Some u"
    and pw: "bc_compare (os_bcrypt x) (us_hash u) (trim_space (lr_password req)) = Inr ()"
    and ts: "ts = new_token_service ''dev-secret'' hour" and c: "c = token_claims ts (clock e2 0) (us_id u) (us_role u)"
    and parse: "\<And>t. jw_parse (os_jwt x) ''dev-secret'' t (tok c) =
      (if t < expiry ts (clock e2 0) then Inr c else Inl err)"
    and range: "us_id u < 2 ^ 53" "\<bar>unix_seconds (clock e2 0)\<bar> < 2 ^ 53" "\<bar>unix_seconds (clock e2 0 + hour)\<bar> < 2 ^ 53"
    and hdr: "rq_header q ''Authorization'' = ''Bearer '' @ tok c" "trim_space (tok c) = tok c"
    and get: "rq_method q = ''GET''" "rq_path q \<in> set me_routes"
  shows "served (fst (site_handler x e2 e r s)) =
      (Some (200, [(''Content-Type'', ''application/json'')],
         [Json (JObj [(''token'', JStr (tok c)), (''token_type'', JStr ''Bearer'')])]),
       [RequestLogged ''POST'' ''/api/auth/login'' 200]) \<and>
    snd (site_handler x e2 e r s) = s \<and> snd (site_handler x e3 e1 q s') = s' \<and>
    (if clock e1 0 < expiry ts (clock e2 0)
     then served (fst (site_handler x e3 e1 q s')) = shown q (own_data e3 (rq_path q) (us_id u) (site_fleet s'))
     else \<exists>resp. rs_status resp = 401 \<and> served (fst (site_handler x e3 e1 q s')) = shown q resp)"
proof (intro conjI)
  have d: "ad_uni (site_auth x) = sy_uni (os_sys x)" "ad_hasher (site_auth x) = os_bcrypt x" "ad_jwt (site_auth x) = os_jwt x"
    "ad_tokens (site_auth x) = ts" "tk_secret ts = ''dev-secret''" "tk_expires_in ts = hour"
    by (simp_all add: site_auth_def ts new_token_service_def hour_def minute_def second_def)
  have "login_handler (site_auth x) e2 p (si_auth s) =
      (write_json 200 (Some (JObj [(''token'', JStr (tok c)), (''token_type'', JStr ''Bearer'')])), si_auth s)"
    if "rq_body p = rq_body r" for p
  proof -
    have "fst (login_handler (site_auth x) e2 p (si_auth s)) =
        write_json 200 (Some (JObj [(''token'', JStr (tok c)), (''token_type'', JStr ''Bearer'')]))"
      using login_answer [of p req m "site_auth x" e2 "si_auth s" tok] assms(3-10) u pw that by (simp add: d c)
    moreover have "snd (login_handler (site_auth x) e2 p (si_auth s)) = si_auth s"
      by (simp add: login_handler_def Let_def split: sum.split)
    ultimately show ?thesis by (simp add: prod_eq_iff)
  qed
  from site_login [OF assms(1,2) this] have login: "gateway_router (site_gateway x e2) e r s =
      (write_json 200 (Some (JObj [(''token'', JStr (tok c)), (''token_type'', JStr ''Bearer'')])), s)" by simp
  show "served (fst (site_handler x e2 e r s)) =
      (Some (200, [(''Content-Type'', ''application/json'')],
         [Json (JObj [(''token'', JStr (tok c)), (''token_type'', JStr ''Bearer'')])]),
       [RequestLogged ''POST'' ''/api/auth/login'' 200])"
    using served_json [of "site_gateway x e2" e r s 200] login assms(1,2) by (simp add: site_handler_eq body_allowed_def)
  show "snd (site_handler x e2 e r s) = s" by (simp add: site_handler_eq gateway_program_state login)
  have id: "1 \<le> us_id u" using find_email_Some [OF u] ok by (auto simp: users_ok_def user_ok_def)
  then have "\<bar>us_id u\<bar> < 2 ^ 53" using range(1) by simp
  from bearer_token [OF hdr [unfolded c] parse [of "clock e1 0", unfolded c] this range(2)] range(3)
  have adm: "admitted (os_jwt x) ''dev-secret'' e1 q = (if clock e1 0 < expiry ts (clock e2 0) then Some (us_id u) else None)"
    by (simp add: d)
  show "snd (site_handler x e3 e1 q s') = s'" by (rule site_answer(2) [OF get(2,1)])
  show "if clock e1 0 < expiry ts (clock e2 0)
     then served (fst (site_handler x e3 e1 q s')) = shown q (own_data e3 (rq_path q) (us_id u) (site_fleet s'))
     else \<exists>resp. rs_status resp = 401 \<and> served (fst (site_handler x e3 e1 q s')) = shown q resp"
    using site_answer(1) [OF get(2,1), where x = x and e = e1 and ?e2.0 = e3 and s = s'] adm by (simp split: if_splits)
qed

text \<open>In the deployed system \<open>GET /api/stations\<close> always answers 404, whatever state the OCPP server is in:
  the gateway passes it on to a server that has no such route.\<close>

theorem stations_unavailable:
  assumes "rq_path r = ''/api/stations''" and "rq_method r = ''GET''"
  shows "served (fst (site_handler x e2 e r s)) =
    (Some (404, [(''Content-Type'', ''application/json'')], [NotJson (''404 page not found'' @ [CHR 0x0A])]),
     [RequestLogged ''GET'' ''/api/stations'' 404]) \<and> snd (site_handler x e2 e r s) = s"
proof -
  have "gateway_router (site_gateway x e2) e r s = (write_raw 404 (NotJson (''404 page not found'' @ [CHR 0x0A])), s)"
    using assms by (simp add: gateway_router_def serve_mux_def method_guard_def stations_proxy_def site_stations proxy_def)
  then show ?thesis
    by (simp add: site_handler_eq gateway_program_served gateway_program_state assms Let_def written_def body_allowed_def
        write_raw_def)
qed

subsection \<open>Witnesses\<close>

theorem deployment_consistent_witness:
  "started billing_process (inside demo_platform billing_env) \<noteq> None \<and>
   started telemetry_process (inside demo_platform telemetry_env) \<noteq> None"
proof -
  have "platform_ready demo_platform" by (simp add: platform_ready_def demo_platform_def)
  note all = deployment_consistent [OF this]
  show ?thesis
    using all [THEN conjunct2, THEN conjunct2, THEN conjunct1] all [THEN conjunct2, THEN conjunct2, THEN conjunct2, THEN conjunct1]
    by auto
qed

definition demo_outside :: "unit outside" where
  "demo_outside = \<lparr>os_sys = demo_sys, os_bcrypt = toy_bcrypt,
     os_jwt = \<lparr>jw_sign = (\<lambda>k c. Inr ''t''),
       jw_parse = (\<lambda>k t tok. if tok = ''t'' \<and> k = ''dev-secret'' then Inr (JObj [(''user_id'', JInt 1)]) else Inl ErrSyntax)\<rparr>,
     os_redis = (\<lambda>_. \<lparr>rd_set = (\<lambda>_ _ _ c. (Inr (), c)), rd_get = (\<lambda>_ c. (Inl ErrSyntax, c)), rd_del = (\<lambda>_ c. (Inr (), c))\<rparr>),
     os_upgrade = (\<lambda>_. (http_error [] 101, True))\<rparr>"

definition demo_site :: "unit site" where
  "demo_site = \<lparr>si_auth = demo_users, si_ws = init_ws sample_fleet\<rparr>"

text \<open>A station connects; the user with the token \<open>t\<close> is number 1.\<close>

definition connected_site :: "unit site" where
  "connected_site = demo_site\<lparr>si_ws := snd (handle_ws ''CP1'' True (si_ws demo_site))\<rparr>"

lemma demo_site_run:
  "site_run demo_outside lib demo_site [StationEvent (quiet_env 0) (Connect ''CP1'' True)] connected_site"
  unfolding connected_site_def
  by (rule site_run.step [OF site_step.station [OF ws_step.connect] site_run.finish])

lemma demo_bearer: "bearer (os_jwt demo_outside) ''dev-secret'' e demo_query 1"
proof -
  have map: "decode_map (Json (JObj [(''user_id'', JInt 1)])) = Inr [''user_id'' \<mapsto> JInt 1]"
    by (simp add: decode_map_def number_f64_def of_int64_exact)
  have user: "extract_user_id [''user_id'' \<mapsto> JInt 1] = Inr 1"
    using to_int64_of_int64 [of 1] by (simp add: extract_user_id_def number_f64_def of_int64_exact)
  show ?thesis
    unfolding bearer_def
    by (rule exI [of _ "''Bearer''"], rule exI [of _ "''t''"], rule exI [of _ "JObj [(''user_id'', JInt 1)]"],
        rule exI [of _ "[''user_id'' \<mapsto> JInt 1]"])
      (simp add: demo_query_simps trim_t demo_outside_def map user equal_fold_def)
qed

theorem users_see_nothing_witness:
  "served (fst (site_handler demo_outside (quiet_env 0) (quiet_env 0) demo_query connected_site)) =
     (Some (200, [(''Content-Type'', ''application/json'')], [Json (JObj [(''sessions'', JNull)])]),
      [RequestLogged ''GET'' ''/api/sessions/me'' 200])"
proof -
  have w: "ws_ocpp (si_ws demo_site) = init_ocpp sample_fleet" by (simp add: demo_site_def init_ws_def)
  have rows: "sv_rows (fl_sessions sample_fleet) = []" "bv_rows (fl_billing sample_fleet) = []"
    by (simp_all add: sample_fleet_def sample_sessions_def init_sessions_def init_billing_def)
  show ?thesis
    using users_see_nothing [OF demo_site_run [of "\<lambda>_. []"], of demo_query "quiet_env 0" 1 "quiet_env 0"] demo_bearer
    by (simp add: w init_ocpp_ok rows demo_query_simps me_routes_def empty_history_def) (simp add: init_ocpp_def rows)
qed

text \<open>The user of \<open>demo_users\<close> logs in at the epoch; the token is accepted for an hour.\<close>

definition login_outside :: "unit outside" where
  "login_outside = demo_outside\<lparr>os_jwt := \<lparr>jw_sign = (\<lambda>k c. Inr ''t''),
     jw_parse = (\<lambda>k t tok. if tok = ''t'' \<and> k = ''dev-secret'' \<and> t < expiry (new_token_service ''dev-secret'' hour) unix_epoch
       then Inr (token_claims (new_token_service ''dev-secret'' hour) unix_epoch 1 ''user'') else Inl ErrSyntax)\<rparr>\<rparr>"

definition gateway_login :: request where
  "gateway_login = sample_login\<lparr>rq_path := ''/api/auth/login''\<rparr>"

lemma login_outside_simps:
  "sy_uni (os_sys login_outside) = id" "os_bcrypt login_outside = toy_bcrypt"
  "jw_sign (os_jwt login_outside) k c = Inr ''t''"
  "jw_parse (os_jwt login_outside) ''dev-secret'' t ''t'' =
     (if t < expiry (new_token_service ''dev-secret'' hour) unix_epoch
      then Inr (token_claims (new_token_service ''dev-secret'' hour) unix_epoch 1 ''user'') else Inl ErrSyntax)"
  by (simp_all add: login_outside_def demo_outside_def demo_sys_def)

lemma dev_expiry: "expiry (new_token_service ''dev-secret'' hour) unix_epoch = unix_epoch + hour"
  by (simp add: unix_seconds_def expiry_def new_token_service_def hour_def minute_def second_def)

theorem deployed_login_witness:
  "map_option fst (fst (served (fst (site_handler login_outside (quiet_env 0) (quiet_env unix_epoch) demo_query demo_site)))) = Some 200 \<and>
   map_option fst (fst (served (fst (site_handler login_outside (quiet_env 0) (quiet_env (unix_epoch + hour)) demo_query demo_site)))) = Some 401"
proof -
  let ?ts = "new_token_service ''dev-secret'' hour"
  have req: "rq_path gateway_login = ''/api/auth/login''" "rq_method gateway_login = ''POST''"
    "decode_body login_fields empty_login (rq_body gateway_login) = Inr \<lparr>lr_email = '' ann@X.io'', lr_password = ''pw'', lr_role = []\<rparr>"
    using decode_samples(2) by (simp_all add: gateway_login_def sample_login_def post_body_def)
  have users: "users_ok (si_auth demo_site)" "find_email ''ann@x.io'' (av_users (si_auth demo_site)) = Some demo_user"
    by (simp_all add: demo_site_def users_ok_def user_ok_def demo_users_def demo_user_def find_email_def)
  have user: "us_id demo_user = 1" "us_role demo_user = ''user''" "us_hash demo_user = ''$pw''"
    by (simp_all add: demo_user_def)
  have h: "0 < hour" by (simp add: hour_def minute_def second_def)
  note login = deployed_login [OF req(1-3), where m = "''ann@x.io''" and x = login_outside and ?e2.0 = "quiet_env unix_epoch"
      and s = demo_site and tok = "\<lambda>_. ''t''" and u = demo_user and ts = ?ts
      and c = "token_claims ?ts unix_epoch 1 ''user''" and err = ErrSyntax and q = demo_query and ?e3.0 = "quiet_env 0"
      and s' = demo_site]
  have "if t < unix_epoch + hour
     then served (fst (site_handler login_outside (quiet_env 0) (quiet_env t) demo_query demo_site)) =
       shown demo_query (own_data (quiet_env 0) ''/api/sessions/me'' 1 (site_fleet demo_site))
     else \<exists>resp. rs_status resp = 401 \<and>
       served (fst (site_handler login_outside (quiet_env 0) (quiet_env t) demo_query demo_site)) = shown demo_query resp" for t
    using login [where ?e1.0 = "quiet_env t"] users user
    by (simp add: trim_samples trim_t normalize_email_def login_outside_simps lower_samples demo_seconds
        demo_query_simps me_routes_def toy_bcrypt_def dev_expiry)
  from this [of unix_epoch] this [of "unix_epoch + hour"] h show ?thesis
    by (auto simp: shown_def own_data_def history_answer_def get_sessions_by_user_def sample_fleet_def sample_sessions_def
        init_sessions_def order_desc_limit_def demo_site_def init_ws_def init_ocpp_def)
qed

end
