(* ===== verification/ManagerLoop.thy ===== *)
theory ManagerLoop
  imports WsConnProps
begin

section \<open>The ping loop of the connection manager\<close>

text \<open>
  \<open>Manager.Start\<close> of \<open>ocpp-server/internal/ws/manager.go\<close>: on every tick it pings all registered
  connections while it holds the lock, so that none is added or removed meanwhile. A tick is shown to be
  a run of the ping steps of \<open>WsConn\<close>, one for each registered connection.
\<close>

text \<open>\<open>ok n\<close> tells whether the write on connection \<open>n\<close> succeeds; its error is ignored.\<close>

definition manager_tick :: "(nat \<Rightarrow> bool) \<Rightarrow> 'w ws \<Rightarrow> 'w ws" where
  "manager_tick ok s =
     s\<lparr>ws_conns := (\<lambda>n. case ws_conns s n of
          None \<Rightarrow> None
        | Some c \<Rightarrow> Some (if ws_manager s (co_station c) = Some n \<and> socket_open c \<and> ok n
                           then conn_write WirePing c else c))\<rparr>"

text \<open>The loop over its own events, \<open>None\<close> being the end of the context.\<close>

fun manager_start :: "(nat \<Rightarrow> bool) option list \<Rightarrow> 'w ws \<Rightarrow> 'w ws" where
  "manager_start [] s = s"
| "manager_start (None # es) s = s"
| "manager_start (Some ok # es) s = manager_start es (manager_tick ok s)"

subsection \<open>A tick as steps\<close>

definition ping_on :: "string set \<Rightarrow> 'w ws \<Rightarrow> 'w ws" where
  "ping_on I s =
     s\<lparr>ws_conns := (\<lambda>n. case ws_conns s n of
          None \<Rightarrow> None
        | Some c \<Rightarrow> Some (if co_station c \<in> I \<and> ws_manager s (co_station c) = Some n
                           then conn_write WirePing c else c))\<rparr>"

lemma ping_on_empty [simp]: "ping_on {} s = s"
proof -
  have "ws_conns (ping_on {} s) = ws_conns s"
    by (rule ext) (simp add: ping_on_def split: option.split)
  then show ?thesis by (cases s) (simp add: ping_on_def)
qed

lemma ping_on_step:
  assumes "ws_manager s i = Some n" and "ws_conns s n = Some c" and "co_station c = i" and "socket_open c" and "i \<notin> I"
  shows "ws_step lib r (ping_on I s) (ManagerPing i) (ping_on (insert i I) s)"
proof -
  have "ws_step lib r (ping_on I s) (ManagerPing i) (set_conn n (conn_write WirePing c) (ping_on I s))"
    by (rule ws_step.manager_ping) (use assms in \<open>simp_all add: ping_on_def\<close>)
  moreover have "ws_conns (set_conn n (conn_write WirePing c) (ping_on I s)) = ws_conns (ping_on (insert i I) s)"
    using assms by (auto simp: set_conn_def ping_on_def fun_eq_iff split: option.split)
  then have "set_conn n (conn_write WirePing c) (ping_on I s) = ping_on (insert i I) s"
    by (simp add: set_conn_def ping_on_def)
  ultimately show ?thesis by simp
qed

definition pinged :: "(nat \<Rightarrow> bool) \<Rightarrow> 'w ws \<Rightarrow> string \<Rightarrow> bool" where
  "pinged ok s i \<longleftrightarrow> (\<exists>n c. ws_manager s i = Some n \<and> ws_conns s n = Some c \<and> socket_open c \<and> ok n)"

lemma registered_station:
  "ws_ok s \<Longrightarrow> ws_manager s i = Some n \<Longrightarrow> ws_conns s n = Some c \<Longrightarrow> co_station c = i"
  by (fastforce simp: ws_ok_def registered_ok_def)

lemma ping_on_run:
  assumes "ws_ok s" and "distinct is" and "\<And>i. i \<in> set is \<Longrightarrow> pinged ok s i" and "I \<inter> set is = {}"
  shows "ws_run lib r (ping_on I s) (map ManagerPing is) (ping_on (I \<union> set is) s)"
  using assms(2-4)
proof (induction "is" arbitrary: I)
  case Nil
  then show ?case by (simp add: ws_run.finish)
next
  case (Cons i rest)
  obtain n c where c: "ws_manager s i = Some n" "ws_conns s n = Some c" "socket_open c"
    using Cons.prems(2) [of i] by (auto simp: pinged_def)
  have "ws_step lib r (ping_on I s) (ManagerPing i) (ping_on (insert i I) s)"
    by (rule ping_on_step [OF c(1,2) registered_station [OF assms(1) c(1,2)] c(3)]) (use Cons.prems in auto)
  moreover have "ws_run lib r (ping_on (insert i I) s) (map ManagerPing rest) (ping_on (insert i I \<union> set rest) s)"
    by (rule Cons.IH) (use Cons.prems in auto)
  ultimately show ?case by (auto intro: ws_run.step)
qed

lemma tick_ping_on:
  assumes "ws_ok s" shows "manager_tick ok s = ping_on {i. pinged ok s i} s"
proof -
  have "(ws_manager s (co_station c) = Some n \<and> socket_open c \<and> ok n) =
      (pinged ok s (co_station c) \<and> ws_manager s (co_station c) = Some n)" if "ws_conns s n = Some c" for n c
    using that by (auto simp: pinged_def)
  then have "ws_conns (manager_tick ok s) = ws_conns (ping_on {i. pinged ok s i} s)"
    by (auto simp: manager_tick_def ping_on_def fun_eq_iff split: option.split)
  then show ?thesis by (simp add: manager_tick_def ping_on_def)
qed

lemma manager_tick_keeps:
  "ws_manager (manager_tick ok s) = ws_manager s" "ws_ocpp (manager_tick ok s) = ws_ocpp s"
  "dom (ws_conns (manager_tick ok s)) = dom (ws_conns s)"
  by (auto simp: manager_tick_def dom_def split: option.splits)

subsection \<open>A tick is a run\<close>

text \<open>A tick of the manager's loop is a run of single pings, in any order of the stations: one for every
  registered connection with an open socket on which the write succeeds. So it keeps what the steps
  keep, and it neither adds nor removes a connection.\<close>

theorem manager_tick_refines:
  assumes "ws_ok s" and "distinct is" and "set is = {i. pinged ok s i}"
  shows "ws_run lib r s (map ManagerPing is) (manager_tick ok s) \<and> ws_manager (manager_tick ok s) = ws_manager s \<and>
    ws_ocpp (manager_tick ok s) = ws_ocpp s \<and> dom (ws_conns (manager_tick ok s)) = dom (ws_conns s)"
  using ping_on_run [OF assms(1,2), of ok "{}" lib r] assms(3)
  by (intro conjI manager_tick_keeps) (simp add: tick_ping_on [OF assms(1)])

end
