(* ===== verification/SessionsLedger.thy ===== *)
theory SessionsLedger
  imports SessionsProps
begin

section \<open>The sessions service as a ledger of charges\<close>

text \<open>
  What the sessions service promises, without tables, ids and caches: a ledger that maps a transaction
  to its charge. A start opens or reopens the charge of its transaction, a stop completes it; a request
  counts exactly when it is acknowledged by 202. The service refines this ledger.
\<close>

record charge =
  ch_station :: string
  ch_connector :: int
  ch_user :: int
  ch_status :: string
  ch_start :: time
  ch_end :: "time option"
  ch_energy :: f64

type_synonym ledger = "string \<rightharpoonup> charge"

definition open_charge :: "time \<Rightarrow> StartSessionInput \<Rightarrow> charge option \<Rightarrow> charge" where
  "open_charge t i before =
     \<lparr>ch_station = ssi_station i, ch_connector = ssi_connector i, ch_user = ssi_user i,
      ch_status = ''active'', ch_start = pg_time t,
      ch_end = (case before of None \<Rightarrow> None | Some c \<Rightarrow> ch_end c),
      ch_energy = (case before of None \<Rightarrow> Fin 0 | Some c \<Rightarrow> ch_energy c)\<rparr>"

definition complete_charge :: "time \<Rightarrow> f64 \<Rightarrow> charge \<Rightarrow> charge" where
  "complete_charge t energy c =
     c\<lparr>ch_status := ''completed'', ch_end := Some (pg_time t), ch_energy := energy\<rparr>"

definition ledger_start :: "env \<Rightarrow> StartSessionInput \<Rightarrow> ledger \<Rightarrow> ledger" where
  "ledger_start e i L =
     L(ssi_transaction i \<mapsto>
         open_charge (if is_zero (ssi_start i) then clock e 0 else ssi_start i) i (L (ssi_transaction i)))"

definition ledger_stop :: "env \<Rightarrow> StopSessionInput \<Rightarrow> ledger \<Rightarrow> ledger" where
  "ledger_stop e i L =
     L(spi_transaction i := map_option (complete_charge (stop_time e i) (spi_energy i)) (L (spi_transaction i)))"

text \<open>An acknowledged request takes effect, any other does not.\<close>

definition ledger_step :: "env \<Rightarrow> request \<Rightarrow> response \<Rightarrow> ledger \<Rightarrow> ledger" where
  "ledger_step e r resp L =
     (if rs_status resp \<noteq> 202 then L
      else if rq_path r = ''/internal/ocpp/session-start''
      then (case decode_session_start (rq_body r) of Inl _ \<Rightarrow> L | Inr i \<Rightarrow> ledger_start e i L)
      else (case decode_session_stop (rq_body r) of Inl _ \<Rightarrow> L | Inr i \<Rightarrow> ledger_stop e i L))"

definition charge_of :: "session_row \<Rightarrow> charge" where
  "charge_of r =
     \<lparr>ch_station = sr_station r, ch_connector = sr_connector r, ch_user = sr_user r, ch_status = sr_status r,
      ch_start = sr_start r, ch_end = sr_end r, ch_energy = sr_energy r\<rparr>"

definition ledger_of :: "'c sessions_state \<Rightarrow> ledger" where
  "ledger_of s t = map_option charge_of (find_tx t (sv_rows s))"

subsection \<open>Simulation of the repository\<close>

lemma start_session_ledger:
  "case start_session e 0 (new_session e i) s of
     (Inl _, s1) \<Rightarrow> ledger_of s1 = ledger_of s
   | (Inr _, s1) \<Rightarrow> ledger_of s1 = ledger_start e i (ledger_of s)"
proof -
  let ?ses = "new_session e i"
  let ?start = "if is_zero (ssi_start i) then clock e 0 else ssi_start i"
  have fields: "ses_start ?ses = ?start" by (simp add: new_session_def)
  consider (fail) err s1 where "start_session e 0 ?ses s = (Inl err, s1)" and "sv_rows s1 = sv_rows s"
    | (fresh) ses row s1 where "start_session e 0 ?ses s = (Inr ses, s1)" "sv_rows s1 = sv_rows s @ [row]"
        "find_tx (ssi_transaction i) (sv_rows s) = None" "sr_tx row = ssi_transaction i"
        "charge_of row = open_charge ?start i None"
    | (known) ses q f s1 where "start_session e 0 ?ses s = (Inr ses, s1)"
        "sv_rows s1 = update_tx (ssi_transaction i) f (sv_rows s)"
        "find_tx (ssi_transaction i) (sv_rows s) = Some q" "\<And>r. sr_tx (f r) = sr_tx r"
        "charge_of (f q) = open_charge ?start i (Some (charge_of q))"
    by (cases "db_fault e 0"; cases "in_int32 (ses_connector ?ses)"; cases "in_int64 (sv_seq s)";
        cases "sv_stations s (ses_station ?ses)"; cases "find_tx (ses_transaction ?ses) (sv_rows s)")
      (force simp: start_session_def Let_def new_session_fields fields charge_of_def open_charge_def)+
  then show ?thesis
  proof cases
    case fail
    then show ?thesis by (simp add: ledger_of_def fun_eq_iff)
  next
    case fresh
    then show ?thesis
      by (auto simp: ledger_of_def ledger_start_def fun_eq_iff find_tx_append split: option.split)
  next
    case known
    then show ?thesis
      by (auto simp: ledger_of_def ledger_start_def fun_eq_iff find_update_tx)
  qed
qed

lemma complete_session_ledger:
  "case complete_session e 0 (spi_transaction i) (stop_time e i) (spi_energy i) SessionStatusCompleted s of
     (Inl _, s1) \<Rightarrow> ledger_of s1 = ledger_of s
   | (Inr _, s1) \<Rightarrow> ledger_of s1 = ledger_stop e i (ledger_of s)"
proof (cases "db_fault e 0")
  case None
  then show ?thesis
    by (cases "find_tx (spi_transaction i) (sv_rows s)")
      (auto simp: complete_session_def ledger_of_def ledger_stop_def fun_eq_iff find_update_tx charge_of_def
        complete_charge_def SessionStatusCompleted_def)
qed (simp add: complete_session_def)

lemma ledger_of_cache [simp]: "ledger_of (s\<lparr>sv_cache := c\<rparr>) = ledger_of s"
  by (simp add: ledger_of_def fun_eq_iff)

subsection \<open>Simulation of the service\<close>

lemma handle_start_ledger:
  "ledger_of (snd (handle_session_start store e r s)) =
     (if rs_status (fst (handle_session_start store e r s)) \<noteq> 202 then ledger_of s
      else case decode_session_start (rq_body r) of
          Inl _ \<Rightarrow> ledger_of s | Inr i \<Rightarrow> ledger_start e i (ledger_of s))"
proof (cases "decode_session_start (rq_body r)")
  case (Inr i)
  then show ?thesis using start_session_ledger [where e = e and i = i and s = s]
    by (cases "start_session e 0 (new_session e i) s"; cases "ssi_transaction i = []")
      (auto simp: handle_session_start_def start_session_from_ocpp_def split: sum.splits option.split)
qed (simp add: handle_session_start_def)

lemma handle_stop_ledger:
  "ledger_of (snd (handle_session_stop store e r s)) =
     (if rs_status (fst (handle_session_stop store e r s)) \<noteq> 202 then ledger_of s
      else case decode_session_stop (rq_body r) of
          Inl _ \<Rightarrow> ledger_of s | Inr i \<Rightarrow> ledger_stop e i (ledger_of s))"
proof (cases "decode_session_stop (rq_body r)")
  case (Inr i)
  then show ?thesis using complete_session_ledger [where e = e and i = i and s = s]
    by (cases "complete_session e 0 (spi_transaction i) (stop_time e i) (spi_energy i) SessionStatusCompleted s";
        cases "spi_transaction i = []")
      (auto simp: handle_session_stop_def stop_session_from_ocpp_def split: sum.splits option.split)
qed (simp add: handle_session_stop_def)

lemma other_status:
  "rs_status (fst (sessions_me e r s)) \<noteq> 202" "rs_status (fst (active_sessions e r s)) \<noteq> 202"
  by (auto simp: sessions_me_def active_sessions_def split: option.split sum.split)

lemma router_ledger:
  "ledger_of (snd (sessions_router store e r s)) =
     ledger_step e r (fst (sessions_router store e r s)) (ledger_of s)"
  by (simp add: sessions_router_def serve_mux_def method_guard_def ledger_step_def handle_start_ledger
      handle_stop_ledger other_status)

interpretation ledger: service_refinement "sessions_router store" ledger_of ledger_step for store
  by unfold_locales (rule router_ledger)

lemma ledger_init: "ledger_of (init_sessions stations c) = Map.empty"
  by (simp add: ledger_of_def init_sessions_def find_tx_def fun_eq_iff)

subsection \<open>Properties\<close>

text \<open>C18: Over any sequence of requests the sessions service behaves as a ledger of charges: a request takes
  effect on it exactly when it is acknowledged by 202, a start opens the charge of its transaction, or
  reopens it with the end and the energy it had, a stop completes the charge of its transaction, and
  nothing else changes a charge.\<close>

theorem sessions_refine_ledger:
  "ledger_of (snd (serve_all (sessions_router store) es (init_sessions stations c))) =
     spec_run ledger_step es (fst (serve_all (sessions_router store) es (init_sessions stations c))) Map.empty"
  using ledger.run_refines [of store es "init_sessions stations c"] by (simp add: ledger_init)

end
