(* ===== verification/BillingLedger.thy ===== *)
theory BillingLedger
  imports BillingProps
begin

section \<open>The billing service as a ledger of bills\<close>

text \<open>
  What the billing service promises, apart from ids, times and statuses: a list of bills that only a
  notification acknowledged by 201 extends, at the price of the moment. The service refines it.
\<close>

record bill =
  bl_session :: int
  bl_user :: int
  bl_energy :: f64
  bl_price :: f64
  bl_amount :: f64

definition bill_of :: "Transaction \<Rightarrow> bill" where
  "bill_of t = \<lparr>bl_session = bt_session t, bl_user = bt_user t, bl_energy = bt_energy t, bl_price = bt_price t,
     bl_amount = bt_amount t\<rparr>"

definition bills_of :: "billing_state \<Rightarrow> Tariff list \<times> bill list" where
  "bills_of s = (bv_tariffs s, map bill_of (bv_rows s))"

text \<open>The price of the newest active tariff, 1 when it is not positive, 7 when none can be read.\<close>

definition price_now :: "env \<Rightarrow> Tariff list \<Rightarrow> f64" where
  "price_now e tariffs =
     (case order_desc_limit tf_updated_at 1 (filter tf_active tariffs) of
        [] \<Rightarrow> Fin 7
      | f # _ \<Rightarrow> if db_fault e 0 \<noteq> None then Fin 7 else if le64 (tf_price f) (Fin 0) then Fin 1 else tf_price f)"

definition billing_step :: "env \<Rightarrow> request \<Rightarrow> response \<Rightarrow> Tariff list \<times> bill list \<Rightarrow> Tariff list \<times> bill list" where
  "billing_step e r resp a =
     (if rq_path r \<noteq> ''/internal/ocpp/session-stopped'' \<or> rs_status resp \<noteq> 201 then a
      else (case decode_session_stopped (rq_body r) of
          Inl _ \<Rightarrow> a
        | Inr i \<Rightarrow>
            let p = price_now e (fst a)
            in (fst a, snd a @ [\<lparr>bl_session = ci_session i, bl_user = ci_user i, bl_energy = ci_energy i,
                                bl_price = p, bl_amount = mul64 (ci_energy i) p\<rparr>])))"

lemma active_tariff_price:
  assumes "active_tariff app_tariffs e s = Inr t" shows "price_of t = price_now e (bv_tariffs s)"
  using assms
  by (auto simp: active_tariff_def app_tariffs_def new_tariff_service_def get_active_tariff_def price_of_def price_now_def
      split: option.splits list.splits sum.splits)

lemma stopped_step:
  assumes "rq_path r = ''/internal/ocpp/session-stopped''"
  shows "bills_of (snd (handle_session_stopped app_tariffs e r s)) =
    billing_step e r (fst (handle_session_stopped app_tariffs e r s)) (bills_of s)"
proof (cases rule: handle_stopped_cases [of app_tariffs e r s])
  case 1
  then show ?thesis by (simp add: billing_step_def)
next
  case (2 i tariff t)
  then show ?thesis using active_tariff_price [OF 2(2)] assms
    by (simp add: billing_step_def bills_of_def bill_of_def Let_def)
qed

lemma router_step:
  "bills_of (snd (billing_app e r s)) = billing_step e r (fst (billing_app e r s)) (bills_of s)"
  using stopped_step [of r e s] transactions_me_status [of e r s]
  by (simp add: billing_app_def billing_router_def serve_mux_def method_guard_def billing_step_def)

interpretation bills: service_refinement billing_app bills_of billing_step
  by unfold_locales (rule router_step)

text \<open>C17: Over any sequence of requests the billing service behaves as a ledger: a notification adds a bill
  exactly when it is answered by 201, for the session, user and energy it names, at the price of the
  newest active tariff at that moment and with the rounded product as amount; no request changes or
  removes a bill.\<close>

theorem billing_refines_ledger:
  "bills_of (snd (serve_all billing_app es (init_billing tariffs))) =
     spec_run billing_step es (fst (serve_all billing_app es (init_billing tariffs))) (tariffs, [])"
proof -
  have "bills_of (init_billing tariffs) = (tariffs, [])" by (simp add: bills_of_def init_billing_def)
  with bills.run_refines [of es "init_billing tariffs"] show ?thesis by simp
qed

end
