(* ===== verification/Concurrent.thy ===== *)
theory Concurrent
  imports Http
begin

section \<open>Requests that interleave\<close>

text \<open>
  A handler at the grain of what is atomic in the code: a statement of the database, a call of a store
  under its lock, a call of another service. A program of such steps is a datatype, \<open>prog\<close>; run without
  interruption it must be the handler of the component's model (\<open>alone\<close>). A schedule says which of the
  requests in flight takes the next step. Two results hold for every schedule: what each step keeps, an
  interleaved run keeps (\<open>interleaved_keeps\<close>), and a service in which every request takes effect in a
  single step answers as if the requests had come one after the other, in the order of these steps
  (locale \<open>linearizable\<close>).
\<close>

subsection \<open>Programs of atomic steps\<close>

datatype ('s, 'r) prog = Return 'r | Atom "'s \<Rightarrow> ('s, 'r) prog \<times> 's"

primrec alone :: "('s, 'r) prog \<Rightarrow> 's \<Rightarrow> 'r \<times> 's" where
  "alone (Return r) = (\<lambda>s. (r, s))"
| "alone (Atom f) = (\<lambda>s. case map_prod alone id (f s) of (g, s') \<Rightarrow> g s')"

primrec bind_prog :: "('s, 'a) prog \<Rightarrow> ('a \<Rightarrow> ('s, 'b) prog) \<Rightarrow> ('s, 'b) prog" where
  "bind_prog (Return a) = (\<lambda>k. k a)"
| "bind_prog (Atom f) = (\<lambda>k. Atom (\<lambda>s. case map_prod bind_prog id (f s) of (b, s') \<Rightarrow> (b k, s')))"

text \<open>One step that reads and writes, only reads, or only writes, and what follows it.\<close>

definition step_do :: "('s \<Rightarrow> 'a \<times> 's) \<Rightarrow> ('a \<Rightarrow> ('s, 'r) prog) \<Rightarrow> ('s, 'r) prog" where
  "step_do f k = Atom (\<lambda>s. case f s of (a, s') \<Rightarrow> (k a, s'))"

definition step_read :: "('s \<Rightarrow> 'a) \<Rightarrow> ('a \<Rightarrow> ('s, 'r) prog) \<Rightarrow> ('s, 'r) prog" where
  "step_read f k = Atom (\<lambda>s. (k (f s), s))"

definition step_write :: "('s \<Rightarrow> 's) \<Rightarrow> ('s, 'r) prog \<Rightarrow> ('s, 'r) prog" where
  "step_write f p = Atom (\<lambda>s. (p, f s))"

lemmas step_defs = step_do_def step_read_def step_write_def

lemma alone_Atom [simp]: "alone (Atom f) s = alone (fst (f s)) (snd (f s))"
  by (simp add: case_prod_beta)

declare alone.simps(2) [simp del]

lemma alone_steps [simp]:
  "alone (step_do f k) s = (case f s of (a, s') \<Rightarrow> alone (k a) s')"
  "alone (step_read g k) s = alone (k (g s)) s"
  "alone (step_write h p) s = alone p (h s)"
  by (simp_all add: step_defs split: prod.split)

lemma bind_Atom [simp]: "bind_prog (Atom f) k = Atom (\<lambda>s. (bind_prog (fst (f s)) k, snd (f s)))"
  by (simp add: case_prod_beta)

declare bind_prog.simps(2) [simp del]

lemma bind_steps [simp]:
  "bind_prog (step_do f k) k' = step_do f (\<lambda>a. bind_prog (k a) k')"
  "bind_prog (step_read g k) k' = step_read g (\<lambda>a. bind_prog (k a) k')"
  "bind_prog (step_write h p) k' = step_write h (bind_prog p k')"
  by (simp_all add: step_defs case_prod_beta)

lemma alone_bind [simp]: "alone (bind_prog p k) s = (case alone p s of (a, s') \<Rightarrow> alone (k a) s')"
proof (induction p arbitrary: s)
  case (Atom f)
  have "f s \<in> range f" "fst (f s) \<in> Basic_BNFs.fsts (f s)" by (simp_all add: prod_set_defs)
  from Atom.IH [OF this] show ?case by simp
qed simp

subsection \<open>Schedules\<close>

text \<open>The requests in flight by number; a number that has finished or does not exist does nothing.\<close>

definition run_thread :: "nat \<Rightarrow> ('s, 'r) prog list \<times> 's \<Rightarrow> ('s, 'r) prog list \<times> 's" where
  "run_thread i c =
     (case c of (ps, s) \<Rightarrow>
        if i < length ps
        then (case ps ! i of Return r \<Rightarrow> (ps, s) | Atom f \<Rightarrow> (case f s of (p, s') \<Rightarrow> (ps[i := p], s')))
        else (ps, s))"

definition interleaved :: "nat list \<Rightarrow> ('s, 'r) prog list \<times> 's \<Rightarrow> ('s, 'r) prog list \<times> 's" where
  "interleaved sch c = fold run_thread sch c"

lemma interleaved_simps [simp]:
  "interleaved [] c = c" "interleaved (i # sch) c = interleaved sch (run_thread i c)"
  "interleaved (sch @ sch') c = interleaved sch' (interleaved sch c)"
  by (simp_all add: interleaved_def)

lemma run_thread_cases:
  obtains "run_thread i (ps, s) = (ps, s)" and "i < length ps \<longrightarrow> (\<exists>r. ps ! i = Return r)"
  | f where "i < length ps" and "ps ! i = Atom f" and "run_thread i (ps, s) = (ps[i := fst (f s)], snd (f s))"
proof (cases "i < length ps")
  case True
  then show thesis by (cases "ps ! i") (auto simp: run_thread_def case_prod_beta intro: that)
qed (auto simp: run_thread_def intro: that(1))

lemma run_thread_length [simp]: "length (fst (run_thread i c)) = length (fst c)"
  by (cases c) (auto simp: run_thread_def split: prog.split prod.split)

lemma interleaved_length [simp]: "length (fst (interleaved sch c)) = length (fst c)"
  by (induction sch arbitrary: c) simp_all

subsection \<open>What every step keeps\<close>

inductive keeps :: "('s \<Rightarrow> bool) \<Rightarrow> ('s, 'r) prog \<Rightarrow> bool" for I :: "'s \<Rightarrow> bool" where
  ret: "keeps I (Return r)"
| atom: "(\<And>s. I s \<Longrightarrow> I (snd (f s)) \<and> keeps I (fst (f s))) \<Longrightarrow> keeps I (Atom f)"

inductive_simps keeps_Atom: "keeps I (Atom f)"

lemma keeps_steps [intro]:
  "(\<And>s. I s \<Longrightarrow> I (snd (f s)) \<and> keeps I (k (fst (f s)))) \<Longrightarrow> keeps I (step_do f k)"
  "(\<And>s. I s \<Longrightarrow> keeps I (k (g s))) \<Longrightarrow> keeps I (step_read g k)"
  "(\<And>s. I s \<Longrightarrow> I (h s)) \<Longrightarrow> keeps I p \<Longrightarrow> keeps I (step_write h p)"
  by (auto simp: step_defs case_prod_beta intro: keeps.atom)

lemma keeps_bind [intro]:
  assumes "keeps I p" and "\<And>a. keeps I (k a)"
  shows "keeps I (bind_prog p k)"
  using assms(1)
proof induction
  case (atom f)
  then show ?case unfolding bind_Atom by (intro keeps.atom) simp
qed (simp add: assms(2))

lemma run_thread_keeps:
  assumes "\<forall>p \<in> set (fst c). keeps I p" and "I (snd c)"
  shows "(\<forall>p \<in> set (fst (run_thread i c)). keeps I p) \<and> I (snd (run_thread i c))"
proof (cases c)
  case (Pair ps s)
  show ?thesis
  proof (cases rule: run_thread_cases [of i ps s])
    case (2 f)
    then have "keeps I (Atom f)" using assms(1) nth_mem [of i ps] by (auto simp: Pair)
    then have "I (snd (f s)) \<and> keeps I (fst (f s))" using assms(2) by (simp add: keeps_Atom Pair)
    then show ?thesis using 2 assms(1) set_update_subset_insert [of ps i "fst (f s)"] by (auto simp: Pair)
  qed (use assms Pair in auto)
qed

lemma interleaved_keeps:
  assumes "\<And>p. p \<in> set ps \<Longrightarrow> keeps I p" and "I s"
  shows "I (snd (interleaved sch (ps, s)))"
proof -
  have "\<forall>p \<in> set (fst c). keeps I p \<Longrightarrow> I (snd c) \<Longrightarrow> I (snd (interleaved sch c))" for c :: "('a, 'b) prog list \<times> 'a"
  proof (induction sch arbitrary: c)
    case (Cons i sch)
    with run_thread_keeps [of c I i] show ?case by simp
  qed simp
  then show ?thesis using assms by simp
qed

subsection \<open>What every answer satisfies\<close>

inductive yields :: "('r \<Rightarrow> bool) \<Rightarrow> ('s, 'r) prog \<Rightarrow> bool" for P :: "'r \<Rightarrow> bool" where
  ret: "P r \<Longrightarrow> yields P (Return r)"
| atom: "(\<And>s. yields P (fst (f s))) \<Longrightarrow> yields P (Atom f)"

inductive_simps yields_iff: "yields P (Return r)" "yields P (Atom f)"

lemma yields_steps [simp]:
  "yields P (step_do f k) \<longleftrightarrow> (\<forall>s. yields P (k (fst (f s))))" "yields P (step_read g k) \<longleftrightarrow> (\<forall>s. yields P (k (g s)))"
  "yields P (step_write h p) \<longleftrightarrow> yields P p"
  by (simp_all add: step_defs yields_iff case_prod_beta)

lemma yields_bind: "(\<And>a. yields P (k a)) \<Longrightarrow> yields P (bind_prog p k)"
proof (induction p)
  case (Atom f)
  have "f s \<in> range f" "fst (f s) \<in> Basic_BNFs.fsts (f s)" for s by (simp_all add: prod_set_defs)
  from Atom.IH [OF this Atom.prems] show ?case by (simp add: yields_iff)
qed simp

lemma run_thread_yields:
  "\<forall>i < length (fst c). yields (P i) (fst c ! i) \<Longrightarrow> \<forall>i < length (fst c). yields (P i) (fst (run_thread j c) ! i)"
  by (cases c) (auto simp: run_thread_def nth_list_update yields_iff case_prod_beta split: prog.split)

lemma interleaved_yields:
  assumes "\<And>i. i < length ps \<Longrightarrow> yields (P i) (ps ! i)" and "i < length ps"
    and "fst (interleaved sch (ps, s)) ! i = Return r"
  shows "P i r"
proof -
  have "\<forall>i < length (fst c). yields (P i) (fst c ! i) \<Longrightarrow> \<forall>i < length (fst c). yields (P i) (fst (interleaved sch c) ! i)" for c :: "('a, 'b) prog list \<times> 'a"
  proof (induction sch arbitrary: c)
    case (Cons j sch)
    from Cons.IH [of "run_thread j c"] run_thread_yields [OF Cons.prems, of j] show ?case by simp
  qed simp
  from this [of "(ps, s)"] have "yields (P i) (fst (interleaved sch (ps, s)) ! i)" using assms(1,2) by simp
  then show ?thesis using assms(3) by (simp add: yields_iff)
qed

subsection \<open>Requests come to an end\<close>

text \<open>After \<open>n\<close> steps of its own a request is answered, whatever the others do.\<close>

primrec answers_within :: "nat \<Rightarrow> ('s, 'r) prog \<Rightarrow> bool" where
  "answers_within 0 p \<longleftrightarrow> (\<exists>r. p = Return r)"
| "answers_within (Suc n) p \<longleftrightarrow> (\<forall>f. p = Atom f \<longrightarrow> (\<forall>s. answers_within n (fst (f s))))"

lemma answers_steps [simp]:
  "answers_within n (Return r)"
  "answers_within (Suc n) (step_do f k) \<longleftrightarrow> (\<forall>s. answers_within n (k (fst (f s))))"
  "answers_within (Suc n) (step_read g k) \<longleftrightarrow> (\<forall>s. answers_within n (k (g s)))"
  "answers_within (Suc n) (step_write h p) \<longleftrightarrow> answers_within n p"
  by (cases n; simp add: step_defs case_prod_beta)+

lemma answers_mono: "answers_within m p \<Longrightarrow> m \<le> n \<Longrightarrow> answers_within n p"
proof (induction m arbitrary: n p)
  case (Suc m)
  then obtain n' where "n = Suc n'" "m \<le> n'" by (cases n) auto
  then show ?case using Suc by auto
qed auto

lemma answers_bind:
  "answers_within m p \<Longrightarrow> (\<And>a. answers_within n (k a)) \<Longrightarrow> answers_within (m + n) (bind_prog p k)"
proof (induction m arbitrary: p)
  case (Suc m)
  have "answers_within (Suc (m + n)) (k a)" for a by (rule answers_mono [OF Suc.prems(2)]) simp
  with Suc show ?case by (cases p) (simp_all del: answers_within.simps(2), auto)
qed auto

lemma interleaved_answers:
  "answers_within n (ps ! i) \<Longrightarrow> i < length ps \<Longrightarrow> n \<le> count_list sch i \<Longrightarrow>
     \<exists>r. fst (interleaved sch (ps, s)) ! i = Return r"
proof (induction sch arbitrary: ps s n)
  case (Cons j sch)
  show ?case
  proof (cases rule: run_thread_cases [of j ps s])
    case 1
    have "\<exists>m. m \<le> count_list sch i \<and> answers_within m (ps ! i)"
    proof (cases "j = i")
      case True
      then have "answers_within 0 (ps ! i)" using 1(2) Cons.prems(2) by simp
      then show ?thesis by blast
    qed (use Cons.prems in auto)
    then show ?thesis using Cons.IH [of _ ps s] Cons.prems(2) by (auto simp: 1(1))
  next
    case (2 f)
    have "\<exists>m. m \<le> count_list sch i \<and> answers_within m (ps[j := fst (f s)] ! i)"
    proof (cases "j = i")
      case True
      then show ?thesis using Cons.prems 2
        by (cases n) (auto intro!: exI [of _ "n - 1"])
    qed (use Cons.prems in auto)
    then show ?thesis using Cons.IH [of _ "ps[j := fst (f s)]" "snd (f s)"] Cons.prems(2) by (auto simp: 2(3))
  qed
qed simp

subsection \<open>What is counted\<close>

text \<open>\<open>counted I n good p\<close>: the step in which the request gets a good answer increases \<open>n\<close> by one, and no other
  step changes it.\<close>

inductive counted :: "('s \<Rightarrow> bool) \<Rightarrow> ('s \<Rightarrow> nat) \<Rightarrow> ('r \<Rightarrow> bool) \<Rightarrow> ('s, 'r) prog \<Rightarrow> bool"
  for I :: "'s \<Rightarrow> bool" and n :: "'s \<Rightarrow> nat" and good :: "'r \<Rightarrow> bool" where
  ret: "\<not> good r \<Longrightarrow> counted I n good (Return r)"
| atom: "(\<And>s. I s \<Longrightarrow> I (snd (f s)) \<and>
       (n (snd (f s)) = n s \<and> counted I n good (fst (f s)) \<or>
        n (snd (f s)) = n s + 1 \<and> (\<exists>r. good r \<and> fst (f s) = Return r))) \<Longrightarrow> counted I n good (Atom f)"

inductive_simps counted_iff: "counted I n good (Return r)" "counted I n good (Atom f)"

definition answered :: "('r \<Rightarrow> bool) \<Rightarrow> ('s, 'r) prog \<Rightarrow> bool" where
  "answered good p \<longleftrightarrow> (case p of Return r \<Rightarrow> good r | Atom _ \<Rightarrow> False)"

lemma answered_simps [simp]: "answered good (Return r) = good r" "\<not> answered good (Atom f)"
  by (simp_all add: answered_def)

lemma counted_not_answered: "counted I n good p \<Longrightarrow> \<not> answered good p"
  by (cases p) (simp_all add: counted_iff)

lemma counted_keeps: "counted I n good p \<Longrightarrow> keeps I p"
proof (induction rule: counted.induct)
  case (atom f)
  show ?case by (rule keeps.atom, drule atom.IH) (auto intro: keeps.ret)
qed (rule keeps.ret)

lemma counted_read: "(\<And>s. I s \<Longrightarrow> counted I n good (k (g s))) \<Longrightarrow> counted I n good (step_read g k)"
  unfolding step_defs by (rule counted.atom) simp

lemma counted_do:
  assumes "\<And>s. I s \<Longrightarrow> I (snd (f s)) \<and> (if good (h (fst (f s))) then n (snd (f s)) = n s + 1 else n (snd (f s)) = n s)"
  shows "counted I n good (step_do f (\<lambda>a. Return (h a)))"
  unfolding step_defs
  by (rule counted.atom, drule assms) (auto simp: case_prod_beta counted_iff split: if_splits)

lemma length_filter_update:
  assumes "i < length xs"
  shows "length (filter P (xs[i := x])) + (if P (xs ! i) then 1 else 0) = length (filter P xs) + (if P x then 1 else 0)"
proof -
  obtain us v vs where "xs = us @ v # vs" "length us = i" using assms id_take_nth_drop [of i xs] by fastforce
  then show ?thesis by auto
qed

lemma interleaved_counts:
  assumes "\<And>p. p \<in> set ps \<Longrightarrow> counted I n good p" and "I s"
  shows "n (snd (interleaved sch (ps, s))) = n s + length (filter (answered good) (fst (interleaved sch (ps, s))))"
proof -
  let ?ok = "\<lambda>c. I (snd c) \<and> n (snd c) = n s + length (filter (answered good) (fst c)) \<and>
      (\<forall>p \<in> set (fst c). counted I n good p \<or> answered good p)"
  have step: "?ok (run_thread i c)" if "?ok c" for i c
  proof (cases c)
    case (Pair qs u)
    show ?thesis
    proof (cases rule: run_thread_cases [of i qs u])
      case (2 f)
      from that have ok: "I u" "n u = n s + length (filter (answered good) qs)"
        "\<forall>p \<in> set qs. counted I n good p \<or> answered good p" by (simp_all add: Pair)
      then have "counted I n good (Atom f)" using 2(1,2) nth_mem [of i qs] by fastforce
      then consider "I (snd (f u))" "n (snd (f u)) = n u" "counted I n good (fst (f u))"
        | "I (snd (f u))" "n (snd (f u)) = n u + 1" "answered good (fst (f u))"
        using ok(1) by (auto simp: counted_iff)
      then have "I (snd (f u))" "counted I n good (fst (f u)) \<or> answered good (fst (f u))"
        "n (snd (f u)) = n u + (if answered good (fst (f u)) then 1 else 0)"
        using counted_not_answered by (cases, auto)+
      moreover have "length (filter (answered good) (qs[i := fst (f u)])) =
          length (filter (answered good) qs) + (if answered good (fst (f u)) then 1 else 0)"
        using length_filter_update [OF 2(1), of "answered good" "fst (f u)"] 2(2) by simp
      ultimately show ?thesis using ok set_update_subset_insert [of qs i "fst (f u)"] by (auto simp: Pair 2(3))
    qed (use that Pair in simp)
  qed
  have "?ok c \<Longrightarrow> ?ok (interleaved sch c)" for c
  proof (induction sch arbitrary: c)
    case (Cons i sch)
    from Cons.IH [OF step [OF Cons.prems]] show ?case by simp
  qed simp
  moreover have "filter (answered good) ps = []" using assms(1) counted_not_answered by (fastforce simp: filter_empty_conv)
  ultimately show ?thesis using assms by simp
qed

declare answers_within.simps(2) [simp del]

subsection \<open>Taking effect in one step\<close>

text \<open>
  \<open>settled I view r p\<close>: what is left of a request that has taken effect; it keeps the invariant and the
  view of the state and answers \<open>r\<close>. \<open>pends I view h p\<close>: a request that has not yet taken effect; it goes on
  without changing the view until the step in which it does to the view what \<open>h\<close> does, and then answers
  what \<open>h\<close> answers.
\<close>

inductive settled :: "('s \<Rightarrow> bool) \<Rightarrow> ('s \<Rightarrow> 'v) \<Rightarrow> 'r \<Rightarrow> ('s, 'r) prog \<Rightarrow> bool"
  for I :: "'s \<Rightarrow> bool" and view :: "'s \<Rightarrow> 'v" and r :: 'r where
  ret: "settled I view r (Return r)"
| atom: "(\<And>s. I s \<Longrightarrow> I (snd (f s)) \<and> view (snd (f s)) = view s \<and> settled I view r (fst (f s))) \<Longrightarrow>
     settled I view r (Atom f)"

inductive pends :: "('s \<Rightarrow> bool) \<Rightarrow> ('s \<Rightarrow> 'v) \<Rightarrow> ('s \<Rightarrow> 'r \<times> 's) \<Rightarrow> ('s, 'r) prog \<Rightarrow> bool"
  for I :: "'s \<Rightarrow> bool" and view :: "'s \<Rightarrow> 'v" and h :: "'s \<Rightarrow> 'r \<times> 's" where
  atom: "(\<And>s. I s \<Longrightarrow> I (snd (f s)) \<and>
       (view (snd (f s)) = view s \<and> pends I view h (fst (f s)) \<or>
        view (snd (f s)) = view (snd (h s)) \<and> settled I view (fst (h s)) (fst (f s)))) \<Longrightarrow> pends I view h (Atom f)"

inductive_simps settled_iff: "settled I view r (Return r')" "settled I view r (Atom f)"
inductive_simps pends_iff: "pends I view h (Return r)" "pends I view h (Atom f)"

text \<open>A request that answers without looking at the state may take effect at once.\<close>

definition ready :: "('s \<Rightarrow> bool) \<Rightarrow> ('s \<Rightarrow> 'v) \<Rightarrow> ('s \<Rightarrow> 'r \<times> 's) \<Rightarrow> ('s, 'r) prog \<Rightarrow> bool" where
  "ready I view h p \<longleftrightarrow> pends I view h p \<or>
     (\<exists>r. settled I view r p \<and> (\<forall>s. I s \<longrightarrow> fst (h s) = r \<and> view (snd (h s)) = view s))"

lemma settled_steps:
  "settled I view r (Return r') \<longleftrightarrow> r' = r"
  "(\<And>s. I s \<Longrightarrow> I (w s) \<and> view (w s) = view s) \<Longrightarrow> settled I view r p \<Longrightarrow> settled I view r (step_write w p)"
  by (auto simp: settled_iff step_defs)

text \<open>The step that takes effect, and a step that only reads.\<close>

lemma ready_do:
  assumes "\<And>s. I s \<Longrightarrow> I (snd (f s)) \<and> view (snd (f s)) = view (snd (h s)) \<and> settled I view (fst (h s)) (k (fst (f s)))"
  shows "ready I view h (step_do f k)"
  unfolding ready_def step_defs by (rule disjI1, rule pends.atom) (simp add: case_prod_beta assms)

lemma ready_read:
  assumes "\<And>s. I s \<Longrightarrow> pends I view h (k (g s)) \<or> view s = view (snd (h s)) \<and> settled I view (fst (h s)) (k (g s))"
  shows "ready I view h (step_read g k)"
  unfolding ready_def step_defs by (rule disjI1, rule pends.atom) (use assms in auto)

lemma ready_return: "(\<And>s. I s \<Longrightarrow> fst (h s) = r \<and> view (snd (h s)) = view s) \<Longrightarrow> ready I view h (Return r)"
  by (auto simp: ready_def settled_iff)

lemma settled_map: "settled I view r p \<Longrightarrow> settled I view (g r) (bind_prog p (\<lambda>a. Return (g a)))"
proof (induction rule: settled.induct)
  case (atom f)
  then show ?case unfolding bind_Atom by (intro settled.atom) simp
qed (simp add: settled_iff)

lemma pends_map:
  "pends I view h p \<Longrightarrow> pends I view (\<lambda>s. (g (fst (h s)), snd (h s))) (bind_prog p (\<lambda>a. Return (g a)))"
proof (induction rule: pends.induct)
  case (atom f)
  show ?case unfolding bind_Atom
  proof (rule pends.atom, simp)
    fix s assume "I s"
    from atom.IH [OF this] settled_map [of I view "fst (h s)" "fst (f s)" g]
    show "I (snd (f s)) \<and>
        (view (snd (f s)) = view s \<and> pends I view (\<lambda>s. (g (fst (h s)), snd (h s))) (bind_prog (fst (f s)) (\<lambda>a. Return (g a))) \<or>
         view (snd (f s)) = view (snd (h s)) \<and> settled I view (g (fst (h s))) (bind_prog (fst (f s)) (\<lambda>a. Return (g a))))"
      by auto
  qed
qed

lemma ready_map:
  assumes "ready I view h p" and "\<And>s. h' s = (g (fst (h s)), snd (h s))"
  shows "ready I view h' (bind_prog p (\<lambda>a. Return (g a)))"
proof -
  have "h' = (\<lambda>s. (g (fst (h s)), snd (h s)))" by (rule ext) (rule assms(2))
  with assms(1) show ?thesis using settled_map pends_map unfolding ready_def by fastforce
qed

subsection \<open>Routing\<close>

text \<open>The server reads a request, in a step of its own, and hands it to the handler of its path.\<close>

type_synonym 's code = "env \<Rightarrow> request \<Rightarrow> ('s, response) prog"

definition code_mux :: "(string \<times> 's code) list \<Rightarrow> 's code" where
  "code_mux routes e r =
     step_read (\<lambda>_. ())
       (\<lambda>_. case map_of routes (rq_path r) of
          None \<Rightarrow> Return (http_error ''404 page not found'' 404)
        | Some c \<Rightarrow> c e r)"

definition code_guard :: "string \<Rightarrow> 's code \<Rightarrow> 's code" where
  "code_guard expected c e r =
     (if rq_method r \<noteq> expected
      then Return \<lparr>rs_status = 405, rs_headers = [(''Allow'', expected)], rs_body = NotJson []\<rparr>
      else c e r)"

definition code_health :: "'s code" where
  "code_health e r = Return (write_json 200 (Some (JObj [(''status'', JStr ''ok'')])))"

lemma alone_guard:
  "(\<And>s. alone (c e r) s = h e r s) \<Longrightarrow> alone (code_guard m c e r) s = method_guard m h e r s"
  by (simp add: code_guard_def method_guard_def)

lemma alone_health: "alone (code_health e r) s = health e r s"
  by (simp add: code_health_def health_def)

lemma alone_mux:
  assumes "list_all2 (\<lambda>(p, c) (q, h). p = q \<and> (\<forall>s. alone (c e r) s = h e r s)) codes handlers"
  shows "alone (code_mux codes e r) s = serve_mux handlers e r s"
proof -
  from assms have "rel_option (\<lambda>c h. \<forall>s. alone (c e r) s = h e r s) (map_of codes (rq_path r)) (map_of handlers (rq_path r))"
    by (induction rule: list_all2_induct) auto
  then show ?thesis by (auto simp: code_mux_def serve_mux_def split: option.splits)
qed

lemma ready_guard:
  assumes "ready I view (h e r) (c e r)"
  shows "ready I view (method_guard m h e r) (code_guard m c e r)"
proof (cases "rq_method r = m")
  case True
  then have "method_guard m h e r = h e r" by (simp add: method_guard_def fun_eq_iff)
  with True assms show ?thesis by (simp add: code_guard_def)
qed (auto simp: code_guard_def method_guard_def intro: ready_return)

lemma ready_health: "ready I view (health e r) (code_health e r)"
  by (auto simp: code_health_def health_def intro: ready_return)

lemma pends_mux:
  assumes "list_all2 (\<lambda>(p, c) (q, h). p = q \<and> ready I view (h e r) (c e r)) codes handlers"
  shows "pends I view (serve_mux handlers e r) (code_mux codes e r)"
proof -
  let ?p = "case map_of codes (rq_path r) of None \<Rightarrow> Return (http_error ''404 page not found'' 404) | Some c \<Rightarrow> c e r"
  from assms have "rel_option (\<lambda>c h. ready I view (h e r) (c e r)) (map_of codes (rq_path r)) (map_of handlers (rq_path r))"
    by (induction rule: list_all2_induct) auto
  then have "ready I view (serve_mux handlers e r) ?p"
  proof cases
    case None
    then show ?thesis by (auto simp: serve_mux_def intro: ready_return)
  next
    case (Some c h)
    then have "serve_mux handlers e r = h e r" by (simp add: serve_mux_def fun_eq_iff)
    with Some show ?thesis by simp
  qed
  then show ?thesis
    unfolding code_mux_def step_defs ready_def by (intro pends.atom) auto
qed

lemma answers_mux:
  assumes "list_all (\<lambda>(p, c). answers_within n (c e r)) codes"
  shows "answers_within (Suc n) (code_mux codes e r)"
  using assms by (auto simp: code_mux_def list_all_iff split: option.split dest: map_of_SomeD)

lemma answers_guard: "answers_within n (c e r) \<Longrightarrow> answers_within n (code_guard m c e r)"
  by (simp add: code_guard_def)

lemma answers_health: "answers_within n (code_health e r)"
  by (simp add: code_health_def)

lemma keeps_mux: "list_all (\<lambda>(p, c). keeps I (c e r)) codes \<Longrightarrow> keeps I (code_mux codes e r)"
  unfolding code_mux_def
  by (rule keeps_steps(2)) (auto simp: list_all_iff intro: keeps.ret split: option.split dest: map_of_SomeD)

lemma keeps_guard: "keeps I (c e r) \<Longrightarrow> keeps I (code_guard m c e r)"
  by (simp add: code_guard_def keeps.ret)

lemma keeps_health: "keeps I (code_health e r)"
  by (simp add: code_health_def keeps.ret)

subsection \<open>Linearizability\<close>

text \<open>
  A mark for each step of the schedule says whether the request that moves takes effect in it. The requests
  in the order of their marked steps, handled one after the other by \<open>serve_all\<close>, leave the same view of the
  state; and whatever request has been answered has the answer it gets there. Since its marked step is one of
  its own, a request that was answered before another began comes before it in that order.
\<close>

definition effect_order :: "nat list \<Rightarrow> bool list \<Rightarrow> nat list" where
  "effect_order sch marks = map fst (filter snd (zip sch marks))"

definition linearized :: "'s handler \<Rightarrow> ('s \<Rightarrow> 'v) \<Rightarrow> (env \<times> request) list \<Rightarrow> nat list \<Rightarrow> 's \<Rightarrow>
    ('s, response) prog list \<times> 's \<Rightarrow> bool" where
  "linearized h view qs sch s0 c \<longleftrightarrow>
     (\<exists>marks. length marks = length sch \<and>
        (let order = effect_order sch marks; (answers, t) = serve_all h (map ((!) qs) order) s0
         in distinct order \<and> set order \<subseteq> {..<length qs} \<and> view (snd c) = view t \<and>
            (\<forall>i < length qs. \<forall>resp. fst c ! i = Return resp \<longrightarrow> (i, resp) \<in> set (zip order answers))))"

lemma effect_order_snoc:
  "length marks = length sch \<Longrightarrow>
     effect_order (sch @ [i]) (marks @ [b]) = effect_order sch marks @ (if b then [i] else [])"
  by (simp add: effect_order_def)

lemma serve_all_snoc:
  "serve_all h (es @ [q]) s =
     (case serve_all h es s of (answers, t) \<Rightarrow> (case h (fst q) (snd q) t of (a, t') \<Rightarrow> (answers @ [a], t')))"
proof (induction es arbitrary: s)
  case Nil
  then show ?case by (cases q) (simp split: prod.split)
next
  case (Cons p es)
  then show ?case by (cases p) (simp split: prod.split)
qed

lemma serve_all_length: "length (fst (serve_all h es s)) = length es"
proof (induction es arbitrary: s)
  case (Cons p es)
  then show ?case by (cases p) (simp add: case_prod_beta)
qed simp

lemma all_update:
  assumes "\<And>i. i < length ps \<Longrightarrow> P i (ps ! i)" and "\<And>i. i < length ps \<Longrightarrow> i \<noteq> j \<Longrightarrow> P i (ps ! i) \<Longrightarrow> Q i (ps ! i)" and "Q j p" and "j < length ps"
  shows "\<forall>i < length ps. Q i (ps[j := p] ! i)"
  using assms by (auto simp: nth_list_update)

locale linearizable =
  fixes handle :: "'s handler" and code :: "'s code" and view :: "'s \<Rightarrow> 'v" and I :: "'s \<Rightarrow> bool"
  assumes takes_effect: "pends I view (handle e r) (code e r)"
    and handle_keeps: "I s \<Longrightarrow> I (snd (handle e r s))"
    and handle_view: "I s \<Longrightarrow> I t \<Longrightarrow> view s = view t \<Longrightarrow>
      fst (handle e r s) = fst (handle e r t) \<and> view (snd (handle e r s)) = view (snd (handle e r t))"
begin

abbreviation start :: "(env \<times> request) list \<Rightarrow> ('s, response) prog list" where
  "start qs \<equiv> map (\<lambda>(e, r). code e r) qs"

definition stands :: "(env \<times> request) list \<Rightarrow> nat list \<Rightarrow> response list \<Rightarrow> nat \<Rightarrow> ('s, response) prog \<Rightarrow> bool" where
  "stands qs order answers i p \<longleftrightarrow>
     (i \<notin> set order \<and> pends I view (handle (fst (qs ! i)) (snd (qs ! i))) p) \<or>
     (\<exists>a. (i, a) \<in> set (zip order answers) \<and> settled I view a p)"

definition explained :: "(env \<times> request) list \<Rightarrow> 's \<Rightarrow> nat list \<Rightarrow> ('s, response) prog list \<times> 's \<Rightarrow> bool" where
  "explained qs s0 order c \<longleftrightarrow>
     (case serve_all handle (map ((!) qs) order) s0 of (answers, t) \<Rightarrow>
        distinct order \<and> set order \<subseteq> {..<length qs} \<and> length (fst c) = length qs \<and>
        I (snd c) \<and> I t \<and> view (snd c) = view t \<and> (\<forall>i < length (fst c). stands qs order answers i (fst c ! i)))"

lemma explained_start: "I s0 \<Longrightarrow> explained qs s0 [] (start qs, s0)"
  by (auto simp: explained_def stands_def takes_effect case_prod_beta)

lemma explained_step:
  assumes "explained qs s0 order c"
  shows "\<exists>b. explained qs s0 (order @ (if b then [i] else [])) (run_thread i c)"
proof -
  obtain ps s where c: "c = (ps, s)" by (cases c)
  obtain answers t where t: "serve_all handle (map ((!) qs) order) s0 = (answers, t)" by (meson surj_pair)
  have len: "length answers = length order" using serve_all_length [of handle "map ((!) qs) order" s0] by (simp add: t)
  note ex = assms [unfolded explained_def t c, simplified]
  show ?thesis
  proof (cases rule: run_thread_cases [of i ps s])
    case 1
    then show ?thesis using assms c by (intro exI [of _ False]) simp
  next
    case (2 f)
    let ?h = "handle (fst (qs ! i)) (snd (qs ! i))" and ?p = "fst (f s)" and ?s = "snd (f s)"
    have i: "i < length qs" using 2(1) ex by simp
    have quiet: "\<exists>b. explained qs s0 (order @ (if b then [i] else [])) (run_thread i c)"
      if "I ?s" "view ?s = view s" "stands qs order answers i ?p"
    proof -
      have "\<forall>j < length ps. stands qs order answers j (ps[i := ?p] ! j)"
        by (rule all_update [where P = "stands qs order answers"]) (use ex that 2(1) in auto)
      then have "explained qs s0 (order @ []) (run_thread i c)" using ex that by (simp add: explained_def t c 2(3))
      then show ?thesis by (intro exI [of _ False]) simp
    qed
    have "stands qs order answers i (Atom f)" using ex 2(1,2) by metis
    then consider "i \<notin> set order" "pends I view ?h (Atom f)"
      | a where "(i, a) \<in> set (zip order answers)" "settled I view a (Atom f)"
      unfolding stands_def by blast
    then show ?thesis
    proof cases
      case 1
      then have step: "I ?s" "view ?s = view s \<and> pends I view ?h ?p \<or> view ?s = view (snd (?h s)) \<and> settled I view (fst (?h s)) ?p"
        using ex by (auto simp: pends_iff)
      from step(2) show ?thesis
      proof
        assume "view ?s = view s \<and> pends I view ?h ?p"
        then show ?thesis using quiet step(1) 1(1) by (simp add: stands_def)
      next
        assume w: "view ?s = view (snd (?h s)) \<and> settled I view (fst (?h s)) ?p"
        have h: "fst (?h s) = fst (?h t)" "view (snd (?h s)) = view (snd (?h t))" "I (snd (?h t))"
          using ex handle_view [of s t] handle_keeps [of t] by auto
        have "stands qs (order @ [i]) (answers @ [fst (?h t)]) j p"
          if "j \<noteq> i" "stands qs order answers j p" for j p
          using that by (auto simp: stands_def len)
        moreover have "stands qs (order @ [i]) (answers @ [fst (?h t)]) i ?p" using w h by (auto simp: stands_def len)
        ultimately have "\<forall>j < length ps. stands qs (order @ [i]) (answers @ [fst (?h t)]) j (ps[i := ?p] ! j)"
          using ex 2(1) by (intro all_update [where P = "stands qs order answers"]) blast+
        then have "explained qs s0 (order @ [i]) (run_thread i c)"
          using ex step(1) w 1(1) i h by (simp add: explained_def t c 2(3) serve_all_snoc case_prod_beta)
        then show ?thesis by (intro exI [of _ True]) simp
      qed
    next
      case (2 a)
      from ex have "I s" by simp
      with 2(2) have "I ?s" "view ?s = view s" "settled I view a ?p" by (simp_all add: settled_iff)
      with 2(1) show ?thesis by (intro quiet) (auto simp: stands_def)
    qed
  qed
qed

lemma explained_run:
  assumes "I s0"
  shows "\<exists>marks. length marks = length sch \<and> explained qs s0 (effect_order sch marks) (interleaved sch (start qs, s0))"
proof (induction sch rule: rev_induct)
  case Nil
  then show ?case using explained_start [OF assms] by (simp add: effect_order_def)
next
  case (snoc i sch)
  then obtain marks where m: "length marks = length sch"
      "explained qs s0 (effect_order sch marks) (interleaved sch (start qs, s0))" by blast
  from explained_step [OF m(2), of i] obtain b where
    "explained qs s0 (effect_order (sch @ [i]) (marks @ [b])) (interleaved (sch @ [i]) (start qs, s0))"
    by (auto simp: effect_order_snoc [OF m(1)])
  with m(1) show ?case by (intro exI [of _ "marks @ [b]"]) simp
qed

lemma linearizes:
  assumes "I s0"
  shows "linearized handle view qs sch s0 (interleaved sch (start qs, s0))"
proof -
  obtain marks where m: "length marks = length sch"
      "explained qs s0 (effect_order sch marks) (interleaved sch (start qs, s0))"
    using explained_run [OF assms] by blast
  then show ?thesis unfolding linearized_def
    by (intro exI [of _ marks]) (fastforce simp: explained_def stands_def Let_def pends_iff settled_iff split: prod.splits)
qed

lemma keeps_I: "I s0 \<Longrightarrow> I (snd (interleaved sch (start qs, s0)))"
  using explained_run [of s0 sch qs] by (auto simp: explained_def case_prod_beta)

end

end
