(* ===== verification/SessionsSteps.thy ===== *)
theory SessionsSteps
  imports SessionsProps SessionsLedger Concurrent
begin

section \<open>The sessions service, step by step\<close>

text \<open>
  The handlers of the sessions service with their statements and Redis calls as steps, and what concurrent
  requests do. Each request changes the tables in a single statement, and no answer depends on the cache:
  the service is linearizable with respect to its tables.
\<close>

subsection \<open>Handlers\<close>

definition cache_do :: "('c \<Rightarrow> unit res \<times> 'c) \<Rightarrow> 'c sessions_state \<Rightarrow> 'c sessions_state" where
  "cache_do f s = s\<lparr>sv_cache := snd (f (sv_cache s))\<rparr>"

definition start_session_steps ::
  "'c store option \<Rightarrow> env \<Rightarrow> StartSessionInput \<Rightarrow> ('c sessions_state, session res) prog" where
  "start_session_steps store e input =
     step_do (start_session e 0 (new_session e input))
       (\<lambda>res. case res of
          Inl err \<Rightarrow> Return (Inl err)
        | Inr ses1 \<Rightarrow>
            (case store of
               None \<Rightarrow> Return (Inr ses1)
             | Some st \<Rightarrow>
                 step_write (cache_do (store_save st
                     \<lparr>as_session = ses_id ses1, as_transaction = ssi_transaction input,
                      as_station = ssi_station input, as_connector = ssi_connector input,
                      as_user = ssi_user input\<rparr>))
                   (Return (Inr ses1))))"

definition stop_session_steps ::
  "'c store option \<Rightarrow> env \<Rightarrow> StopSessionInput \<Rightarrow> ('c sessions_state, unit res) prog" where
  "stop_session_steps store e input =
     step_do (complete_session e 0 (spi_transaction input) (stop_time e input) (spi_energy input)
         SessionStatusCompleted)
       (\<lambda>res. case res of
          Inl err \<Rightarrow> Return (Inl err)
        | Inr _ \<Rightarrow>
            (case store of
               None \<Rightarrow> Return (Inr ())
             | Some st \<Rightarrow> step_write (cache_do (store_delete st (spi_transaction input))) (Return (Inr ()))))"

definition session_start_steps :: "'c store option \<Rightarrow> 'c sessions_state code" where
  "session_start_steps store e r =
     (case decode_session_start (rq_body r) of
        Inl _ \<Rightarrow> Return (write_error 400 ''invalid json'')
      | Inr req \<Rightarrow>
          if ssi_transaction req = [] then Return (write_error 400 ''transaction_id is required'')
          else bind_prog (start_session_steps store e req)
            (\<lambda>res. Return (case res of
               Inl _ \<Rightarrow> write_error 500 ''failed to start session''
             | Inr ses \<Rightarrow>
                 write_json 202 (Some (JObj [(''session_id'', JInt (ses_id ses)), (''status'', JStr ''ok'')])))))"

definition session_stop_steps :: "'c store option \<Rightarrow> 'c sessions_state code" where
  "session_stop_steps store e r =
     (case decode_session_stop (rq_body r) of
        Inl _ \<Rightarrow> Return (write_error 400 ''invalid json'')
      | Inr req \<Rightarrow>
          if spi_transaction req = [] then Return (write_error 400 ''transaction_id is required'')
          else bind_prog (stop_session_steps store e req)
            (\<lambda>res. Return (case res of
               Inl _ \<Rightarrow> write_error 500 ''failed to stop session''
             | Inr _ \<Rightarrow> write_json 202 (Some (JObj [(''status'', JStr ''ok'')])))))"

definition sessions_me_steps :: "'c sessions_state code" where
  "sessions_me_steps e r =
     (if rq_header r ''X-User-ID'' = [] then Return (write_error 401 ''missing user id header'')
      else case parse_int (rq_header r ''X-User-ID'') of
          None \<Rightarrow> Return (write_error 400 ''invalid user id'')
        | Some user \<Rightarrow>
            step_read (get_sessions_by_user e 0 user 50)
              (\<lambda>res. Return (case res of
                 Inl _ \<Rightarrow> write_error 500 ''failed to fetch sessions''
               | Inr sessions \<Rightarrow> write_json 200 (sessions_payload sessions))))"

definition active_sessions_steps :: "'c sessions_state code" where
  "active_sessions_steps e r =
     step_read (get_active_sessions e 0 50)
       (\<lambda>res. Return (case res of
          Inl _ \<Rightarrow> write_error 500 ''failed to fetch active sessions''
        | Inr sessions \<Rightarrow> write_json 200 (sessions_payload sessions)))"

definition sessions_steps :: "'c store option \<Rightarrow> 'c sessions_state code" where
  "sessions_steps store =
     code_mux
       [(''/sessions/me'', code_guard ''GET'' sessions_me_steps),
        (''/sessions/active'', code_guard ''GET'' active_sessions_steps),
        (''/internal/ocpp/session-start'', code_guard ''POST'' (session_start_steps store)),
        (''/internal/ocpp/session-stop'', code_guard ''POST'' (session_stop_steps store)),
        (''/health'', code_guard ''GET'' code_health)]"

subsection \<open>The steps make up the handlers\<close>

lemma session_alone_start: "alone (start_session_steps store e i) s = start_session_from_ocpp store e i s"
  by (auto simp: start_session_steps_def start_session_from_ocpp_def cache_do_def split: prod.split sum.split option.split)

lemma session_alone_stop: "alone (stop_session_steps store e i) s = stop_session_from_ocpp store e i s"
  by (auto simp: stop_session_steps_def stop_session_from_ocpp_def cache_do_def split: prod.split sum.split option.split)

lemma sessions_alone_handlers:
  "alone (session_start_steps store e r) s = handle_session_start store e r s"
  "alone (session_stop_steps store e r) s = handle_session_stop store e r s"
  "alone (sessions_me_steps e r) s = sessions_me e r s"
  "alone (active_sessions_steps e r) s = active_sessions e r s"
  by (auto simp: session_start_steps_def handle_session_start_def session_stop_steps_def handle_session_stop_def
      sessions_me_steps_def sessions_me_def active_sessions_steps_def active_sessions_def session_alone_start session_alone_stop
      split: prod.split sum.split option.split)

lemma alone_sessions: "alone (sessions_steps store e r) s = sessions_router store e r s"
  unfolding sessions_steps_def sessions_router_def
  by (rule alone_mux) (simp add: alone_guard sessions_alone_handlers alone_health)

subsection \<open>Every request takes effect in its statement\<close>

definition session_tables :: "'c sessions_state \<Rightarrow> (string \<rightharpoonup> station_meta) \<times> session_row list \<times> int" where
  "session_tables s = (sv_stations s, sv_rows s, sv_seq s)"

lemma cache_do_tables [simp]: "session_tables (cache_do f s) = session_tables s"
  by (simp add: cache_do_def session_tables_def)

lemma cache_tables: "session_tables (s\<lparr>sv_cache := c\<rparr>) = session_tables s"
  by (simp add: session_tables_def)

lemma same_tables: "session_tables s = session_tables t \<Longrightarrow> s = t\<lparr>sv_cache := sv_cache s\<rparr>"
  by (cases s, cases t) (simp add: session_tables_def)

lemma session_start_effect:
  "fst (start_session_from_ocpp store e i s) = fst (start_session e 0 (new_session e i) s)"
  "session_tables (snd (start_session_from_ocpp store e i s)) = session_tables (snd (start_session e 0 (new_session e i) s))"
  by (auto simp: start_session_from_ocpp_def cache_tables split: prod.split sum.split option.split)

lemma session_stop_effect:
  "fst (stop_session_from_ocpp store e i s) =
     fst (complete_session e 0 (spi_transaction i) (stop_time e i) (spi_energy i) SessionStatusCompleted s)"
  "session_tables (snd (stop_session_from_ocpp store e i s)) =
     session_tables (snd (complete_session e 0 (spi_transaction i) (stop_time e i) (spi_energy i) SessionStatusCompleted s))"
  by (auto simp: stop_session_from_ocpp_def cache_tables split: prod.split sum.split option.split)

lemma session_ready_start: "ready (\<lambda>_. True) session_tables (start_session_from_ocpp store e i) (start_session_steps store e i)"
  unfolding start_session_steps_def
  by (rule ready_do) (auto simp: session_start_effect settled_steps intro: settled_steps(2) split: sum.split option.split)

lemma session_ready_stop: "ready (\<lambda>_. True) session_tables (stop_session_from_ocpp store e i) (stop_session_steps store e i)"
  unfolding stop_session_steps_def
  by (rule ready_do) (auto simp: session_stop_effect settled_steps intro: settled_steps(2) split: sum.split option.split)

lemma sessions_ready_handlers:
  "ready (\<lambda>_. True) session_tables (handle_session_start store e r) (session_start_steps store e r)"
  "ready (\<lambda>_. True) session_tables (handle_session_stop store e r) (session_stop_steps store e r)"
  "ready (\<lambda>_. True) session_tables (sessions_me e r) (sessions_me_steps e r)"
  "ready (\<lambda>_. True) session_tables (active_sessions e r) (active_sessions_steps e r)"
proof -
  show "ready (\<lambda>_. True) session_tables (handle_session_start store e r) (session_start_steps store e r)"
  proof (cases "decode_session_start (rq_body r)")
    case (Inr i)
    show ?thesis
    proof (cases "ssi_transaction i = []")
      case False
      with Inr show ?thesis
        by (simp add: session_start_steps_def)
          (rule ready_map [OF session_ready_start], simp add: handle_session_start_def case_prod_beta split: sum.split)
    qed (simp add: session_start_steps_def handle_session_start_def Inr ready_return)
  qed (simp add: session_start_steps_def handle_session_start_def ready_return)
  show "ready (\<lambda>_. True) session_tables (handle_session_stop store e r) (session_stop_steps store e r)"
  proof (cases "decode_session_stop (rq_body r)")
    case (Inr i)
    show ?thesis
    proof (cases "spi_transaction i = []")
      case False
      with Inr show ?thesis
        by (simp add: session_stop_steps_def)
          (rule ready_map [OF session_ready_stop], simp add: handle_session_stop_def case_prod_beta split: sum.split)
    qed (simp add: session_stop_steps_def handle_session_stop_def Inr ready_return)
  qed (simp add: session_stop_steps_def handle_session_stop_def ready_return)
  show "ready (\<lambda>_. True) session_tables (sessions_me e r) (sessions_me_steps e r)"
    by (auto simp: sessions_me_steps_def sessions_me_def settled_steps split: option.split sum.split
        intro: ready_return intro!: ready_read)
  show "ready (\<lambda>_. True) session_tables (active_sessions e r) (active_sessions_steps e r)"
    unfolding active_sessions_steps_def
    by (rule ready_read) (auto simp: active_sessions_def settled_steps split: sum.split)
qed

lemma pends_sessions: "pends (\<lambda>_. True) session_tables (sessions_router store e r) (sessions_steps store e r)"
  unfolding sessions_steps_def sessions_router_def
  by (rule pends_mux) (simp add: ready_guard sessions_ready_handlers ready_health)

subsection \<open>No answer depends on the cache\<close>

lemma statements_cache:
  "start_session e n ses (s\<lparr>sv_cache := c\<rparr>) = map_prod id (sv_cache_update (\<lambda>_. c)) (start_session e n ses s)"
  "complete_session e n tx et en st (s\<lparr>sv_cache := c\<rparr>) =
     map_prod id (sv_cache_update (\<lambda>_. c)) (complete_session e n tx et en st s)"
  "get_sessions_by_user e n u l (s\<lparr>sv_cache := c\<rparr>) = get_sessions_by_user e n u l s"
  "get_active_sessions e n l (s\<lparr>sv_cache := c\<rparr>) = get_active_sessions e n l s"
  by (auto simp: start_session_def complete_session_def get_sessions_by_user_def get_active_sessions_def Let_def
      split: option.split)

lemma service_cache:
  "fst (start_session_from_ocpp store e i (s\<lparr>sv_cache := c\<rparr>)) = fst (start_session_from_ocpp store e i s)"
  "session_tables (snd (start_session_from_ocpp store e i (s\<lparr>sv_cache := c\<rparr>))) =
     session_tables (snd (start_session_from_ocpp store e i s))"
  "fst (stop_session_from_ocpp store e j (s\<lparr>sv_cache := c\<rparr>)) = fst (stop_session_from_ocpp store e j s)"
  "session_tables (snd (stop_session_from_ocpp store e j (s\<lparr>sv_cache := c\<rparr>))) =
     session_tables (snd (stop_session_from_ocpp store e j s))"
  by (simp_all add: session_start_effect session_stop_effect statements_cache cache_tables)

lemma session_router_cache:
  "fst (sessions_router store e r (s\<lparr>sv_cache := c\<rparr>)) = fst (sessions_router store e r s) \<and>
   session_tables (snd (sessions_router store e r (s\<lparr>sv_cache := c\<rparr>))) = session_tables (snd (sessions_router store e r s))"
proof -
  note defs = handle_session_start_def handle_session_stop_def sessions_me_def active_sessions_def case_prod_beta
  have h: "fst (handle_session_start store e r (s\<lparr>sv_cache := c\<rparr>)) = fst (handle_session_start store e r s)"
    "session_tables (snd (handle_session_start store e r (s\<lparr>sv_cache := c\<rparr>))) = session_tables (snd (handle_session_start store e r s))"
    "fst (handle_session_stop store e r (s\<lparr>sv_cache := c\<rparr>)) = fst (handle_session_stop store e r s)"
    "session_tables (snd (handle_session_stop store e r (s\<lparr>sv_cache := c\<rparr>))) = session_tables (snd (handle_session_stop store e r s))"
    "fst (sessions_me e r (s\<lparr>sv_cache := c\<rparr>)) = fst (sessions_me e r s)"
    "session_tables (snd (sessions_me e r (s\<lparr>sv_cache := c\<rparr>))) = session_tables (snd (sessions_me e r s))"
    "fst (active_sessions e r (s\<lparr>sv_cache := c\<rparr>)) = fst (active_sessions e r s)"
    "session_tables (snd (active_sessions e r (s\<lparr>sv_cache := c\<rparr>))) = session_tables (snd (active_sessions e r s))"
    by (simp_all add: defs service_cache statements_cache cache_tables split: sum.split option.split)
  show ?thesis
    by (simp add: sessions_router_def serve_mux_def method_guard_def h cache_tables health_def)
qed

lemma session_router_view:
  "session_tables s = session_tables t \<Longrightarrow>
     fst (sessions_router store e r s) = fst (sessions_router store e r t) \<and>
     session_tables (snd (sessions_router store e r s)) = session_tables (snd (sessions_router store e r t))"
  using session_router_cache [where s = t and c = "sv_cache s"] same_tables [of s t] by metis

interpretation sessions_steps: linearizable "sessions_router store" "sessions_steps store" session_tables "\<lambda>_. True" for store
  by unfold_locales (rule pends_sessions, rule TrueI, rule session_router_view)

lemma sessions_handlers_answered:
  "answers_within (Suc (Suc 0)) (session_start_steps store e r)"
  "answers_within (Suc (Suc 0)) (session_stop_steps store e r)"
  "answers_within (Suc (Suc 0)) (sessions_me_steps e r)"
  "answers_within (Suc (Suc 0)) (active_sessions_steps e r)"
  by (simp_all add: session_start_steps_def start_session_steps_def session_stop_steps_def stop_session_steps_def
      sessions_me_steps_def active_sessions_steps_def split: sum.split option.split)

lemma sessions_answered: "answers_within 3 (sessions_steps store e r)"
  unfolding sessions_steps_def numeral_3_eq_3
  by (rule answers_mux) (simp add: answers_guard answers_health sessions_handlers_answered)

subsection \<open>Property\<close>

text \<open>C9: Concurrent requests to the sessions service behave as if they came one at a time: whatever the order of
  their statements and Redis calls, the tables and the answers given so far are those of the requests handled
  one after the other, in the order in which each took effect in one of its own steps. A request is answered
  after at most three steps of its own.\<close>

theorem sessions_linearizable:
  "linearized (sessions_router store) session_tables qs sch s0
     (interleaved sch (map (\<lambda>(e, r). sessions_steps store e r) qs, s0)) \<and>
   (\<forall>i < length qs. 3 \<le> count_list sch i \<longrightarrow>
      (\<exists>resp. fst (interleaved sch (map (\<lambda>(e, r). sessions_steps store e r) qs, s0)) ! i = Return resp))"
proof (intro conjI allI impI)
  show "linearized (sessions_router store) session_tables qs sch s0
      (interleaved sch (map (\<lambda>(e, r). sessions_steps store e r) qs, s0))"
    by (rule sessions_steps.linearizes) simp
  fix i assume "i < length qs" "3 \<le> count_list sch i"
  then show "\<exists>resp. fst (interleaved sch (map (\<lambda>(e, r). sessions_steps store e r) qs, s0)) ! i = Return resp"
    by (intro interleaved_answers [of 3]) (simp_all add: sessions_answered case_prod_beta)
qed

text \<open>C10: Over any interleaving of requests from the empty table the sessions service is a ledger of charges: its
  table is well formed, and its charges are those of the requests that have taken effect, in the order in which
  they did, each with the answer it has been given: a request changes a charge exactly when that answer is 202.\<close>

theorem sessions_interleaved_ledger:
  assumes "c = interleaved sch (map (\<lambda>(e, r). sessions_steps store e r) qs, init_sessions stations cache)"
  shows "sessions_ok (snd c) \<and>
    (\<exists>order answers. distinct order \<and> set order \<subseteq> {..<length qs} \<and> length answers = length order \<and>
       ledger_of (snd c) = spec_run ledger_step (map ((!) qs) order) answers Map.empty \<and>
       (\<forall>i < length qs. \<forall>resp. fst c ! i = Return resp \<longrightarrow> (i, resp) \<in> set (zip order answers)))"
proof -
  have "linearized (sessions_router store) session_tables qs sch (init_sessions stations cache) c"
    unfolding assms by (rule sessions_steps.linearizes) simp
  then obtain order answers t where t: "serve_all (sessions_router store) (map ((!) qs) order) (init_sessions stations cache) = (answers, t)"
    and order: "distinct order" "set order \<subseteq> {..<length qs}" "session_tables (snd c) = session_tables t"
      "\<forall>i < length qs. \<forall>resp. fst c ! i = Return resp \<longrightarrow> (i, resp) \<in> set (zip order answers)"
    unfolding linearized_def Let_def by (metis (mono_tags, lifting) case_prod_beta prod.collapse)
  have "sessions_ok t"
    using sessions.run [OF init_sessions_ok, of store "map ((!) qs) order" stations cache] by (simp add: t)
  moreover have "ledger_of t = spec_run ledger_step (map ((!) qs) order) answers Map.empty"
    using ledger.run_refines [of store "map ((!) qs) order" "init_sessions stations cache"] by (simp add: t ledger_init)
  moreover have "length answers = length order"
    using serve_all_length [of "sessions_router store" "map ((!) qs) order" "init_sessions stations cache"] by (simp add: t)
  moreover have "sessions_ok (snd c) = sessions_ok t" using order(3) by (simp add: session_tables_def sessions_ok_def)
  moreover have "ledger_of (snd c) = ledger_of t" using order(3) by (simp add: session_tables_def ledger_of_def fun_eq_iff)
  ultimately show ?thesis using order by (intro conjI exI [of _ order] exI [of _ answers]) simp_all
qed

theorem sessions_linearizable_witness:
  "let c = interleaved [0, 1, 0, 1, 0, 1] (map (\<lambda>(e, r). sessions_steps None e r)
       [(quiet_env 0, sample_start), (quiet_env 5, sample_stop)], sample_sessions)
   in linearized (sessions_router None) session_tables [(quiet_env 0, sample_start), (quiet_env 5, sample_stop)]
        [0, 1, 0, 1, 0, 1] sample_sessions c \<and>
      (\<exists>resp. fst c ! 0 = Return resp) \<and> (\<exists>resp. fst c ! 1 = Return resp)"
proof -
  note run = sessions_linearizable [of None "[(quiet_env 0, sample_start), (quiet_env 5, sample_stop)]"
      "[0, 1, 0, 1, 0, 1]" sample_sessions]
  from run [THEN conjunct2, rule_format, of 0] run [THEN conjunct2, rule_format, of 1] run [THEN conjunct1]
  show ?thesis unfolding Let_def by (intro conjI) (simp_all del: list.map)
qed

theorem sessions_interleaved_ledger_witness:
  "let qs = [(quiet_env 0, sample_start), (quiet_env 5, sample_stop)];
       c = interleaved [0, 1, 0, 1, 0, 1] (map (\<lambda>(e, r). sessions_steps None e r) qs, init_sessions Map.empty ())
   in sessions_ok (snd c) \<and>
      (\<exists>order answers resp. ledger_of (snd c) = spec_run ledger_step (map ((!) qs) order) answers Map.empty \<and>
         (0, resp) \<in> set (zip order answers))"
proof -
  let ?qs = "[(quiet_env 0, sample_start), (quiet_env 5, sample_stop)]"
  let ?c = "interleaved [0, 1, 0, 1, 0, 1] (map (\<lambda>(e, r). sessions_steps None e r) ?qs, init_sessions Map.empty ())"
  have "\<exists>resp. fst ?c ! 0 = Return resp"
    by (rule interleaved_answers [of 3]) (simp_all add: sessions_answered)
  moreover have "0 < length ?qs" by simp
  ultimately show ?thesis
    unfolding Let_def using sessions_interleaved_ledger [OF refl, of "[0, 1, 0, 1, 0, 1]" None ?qs Map.empty "()"] by blast
qed

end
