(* ===== verification/BillingSteps.thy ===== *)
theory BillingSteps
  imports BillingProps Concurrent
begin

section \<open>The billing service, step by step\<close>

text \<open>
  A notification reads the tariff in one statement and inserts the transaction in another. The service never
  changes the tariffs, so that the insertion decides: the service is linearizable.
\<close>

subsection \<open>Handlers\<close>

definition active_tariff_steps :: "tariff_service \<Rightarrow> env \<Rightarrow> (Tariff res \<Rightarrow> (billing_state, 'r) prog) \<Rightarrow> (billing_state, 'r) prog" where
  "active_tariff_steps ts e k =
     (if \<not> ts_repo ts
      then k (if le64 (tf_price (ts_default ts)) (Fin 0) then Inl (ErrText ''tariff: no tariff configured'')
              else Inr (ts_default ts))
      else step_read (get_active_tariff e 0)
        (\<lambda>res. k (case res of
           Inl err \<Rightarrow> if le64 (tf_price (ts_default ts)) (Fin 0) then Inl err else Inr (ts_default ts)
         | Inr t \<Rightarrow> Inr t)))"

definition calculate_steps ::
  "tariff_service \<Rightarrow> env \<Rightarrow> CreateTransactionInput \<Rightarrow> (billing_state, Transaction res) prog" where
  "calculate_steps ts e input =
     (if ci_session input = 0 then Return (Inl (ErrText ''billing: session id required''))
      else active_tariff_steps ts e
        (\<lambda>res. case res of
           Inl err \<Rightarrow> Return (Inl err)
         | Inr tariff \<Rightarrow>
             let price = (if le64 (tf_price tariff) (Fin 0) then Fin 1 else tf_price tariff);
                 amount = mul64 (ci_energy input) price
             in step_do (create_transaction e 1
                  \<lparr>bt_id = 0, bt_session = ci_session input, bt_user = ci_user input,
                   bt_energy = ci_energy input, bt_price = price, bt_amount = amount,
                   bt_status = ''completed'', bt_created_at = 0\<rparr>) Return))"

definition session_stopped_steps :: "tariff_service \<Rightarrow> billing_state code" where
  "session_stopped_steps ts e r =
     (case decode_session_stopped (rq_body r) of
        Inl _ \<Rightarrow> Return (write_error 400 ''invalid json'')
      | Inr req \<Rightarrow>
          if ci_session req = 0 then Return (write_error 400 ''session_id required'')
          else bind_prog (calculate_steps ts e req)
            (\<lambda>res. Return (case res of
               Inl _ \<Rightarrow> write_error 500 ''billing calculation failed''
             | Inr t \<Rightarrow> write_json 201 (json_transaction t))))"

definition transactions_me_steps :: "billing_state code" where
  "transactions_me_steps e r =
     (if rq_header r ''X-User-ID'' = [] then Return (write_error 401 ''missing user id header'')
      else case parse_int (rq_header r ''X-User-ID'') of
          None \<Rightarrow> Return (write_error 400 ''invalid user id header'')
        | Some user \<Rightarrow>
            step_read (list_by_user e 0 user 50)
              (\<lambda>res. Return (case res of
                 Inl _ \<Rightarrow> write_error 500 ''failed to load transactions''
               | Inr ts \<Rightarrow> write_json 200 (json_object [(''transactions'', json_slice json_transaction ts)]))))"

definition billing_steps :: "tariff_service \<Rightarrow> billing_state code" where
  "billing_steps ts =
     code_mux
       [(''/internal/ocpp/session-stopped'', code_guard ''POST'' (session_stopped_steps ts)),
        (''/billing/me/transactions'', code_guard ''GET'' transactions_me_steps),
        (''/health'', code_guard ''GET'' code_health)]"

subsection \<open>The steps make up the handlers\<close>

lemma alone_tariff: "alone (active_tariff_steps ts e k) s = alone (k (active_tariff ts e s)) s"
  by (simp add: active_tariff_steps_def active_tariff_def)

lemma alone_calculate: "alone (calculate_steps ts e i) s = calculate_and_create ts e i s"
  by (auto simp: calculate_steps_def calculate_and_create_def alone_tariff Let_def split: sum.split prod.split)

lemma billing_alone_handlers:
  "alone (session_stopped_steps ts e r) s = handle_session_stopped ts e r s"
  "alone (transactions_me_steps e r) s = transactions_me e r s"
  by (auto simp: session_stopped_steps_def handle_session_stopped_def transactions_me_steps_def transactions_me_def
      alone_calculate split: sum.split prod.split option.split)

lemma alone_billing: "alone (billing_steps ts e r) s = billing_router ts e r s"
  unfolding billing_steps_def billing_router_def
  by (rule alone_mux) (simp add: alone_guard billing_alone_handlers alone_health)

subsection \<open>Every request takes effect in one statement\<close>

lemma create_keeps_tariffs [simp]: "bv_tariffs (snd (create_transaction e n t s)) = bv_tariffs s"
  by (simp add: create_transaction_def Let_def split: option.split)

lemma same_tariff: "bv_tariffs s = bv_tariffs s' \<Longrightarrow> get_active_tariff e n s = get_active_tariff e n s'"
  by (simp only: get_active_tariff_def)

lemma ready_calculate:
  "ready (\<lambda>s. bv_tariffs s = T) (\<lambda>s. s) (calculate_and_create ts e i) (calculate_steps ts e i)"
proof (cases "ci_session i = 0")
  case False
  let ?I = "\<lambda>s. bv_tariffs s = T"
  let ?new = "\<lambda>tariff. let price = (if le64 (tf_price tariff) (Fin 0) then Fin 1 else tf_price tariff);
                 amount = mul64 (ci_energy i) price
             in \<lparr>bt_id = 0, bt_session = ci_session i, bt_user = ci_user i, bt_energy = ci_energy i, bt_price = price,
                 bt_amount = amount, bt_status = ''completed'', bt_created_at = 0\<rparr>"
  let ?rest = "\<lambda>res. case res of Inl err \<Rightarrow> Return (Inl err)
      | Inr tariff \<Rightarrow> step_do (create_transaction e 1 (?new tariff)) Return"
  have steps: "calculate_steps ts e i = active_tariff_steps ts e ?rest"
    using False by (simp add: calculate_steps_def Let_def cong: sum.case_cong)
  have calc: "calculate_and_create ts e i s =
      (case active_tariff ts e s of Inl err \<Rightarrow> (Inl err, s) | Inr tariff \<Rightarrow> create_transaction e 1 (?new tariff) s)" for s
    using False by (simp add: calculate_and_create_def Let_def cong: sum.case_cong)
  have tariff: "active_tariff ts e s = active_tariff ts e t" if "?I s" "?I t" for s t
    using that same_tariff [of s t e 0] by (simp add: active_tariff_def)
  have rest: "ready ?I (\<lambda>s. s) (calculate_and_create ts e i) (?rest (active_tariff ts e s))" if "?I s" for s
  proof (cases "active_tariff ts e s")
    case (Inl err)
    have "active_tariff ts e t = Inl err" if "?I t" for t using tariff [OF \<open>?I s\<close> that] Inl by simp
    then show ?thesis by (simp add: Inl calc ready_return)
  next
    case (Inr t)
    have "active_tariff ts e u = Inr t" if "?I u" for u using tariff [OF \<open>?I s\<close> that] Inr by simp
    then show ?thesis by (simp add: Inr calc ready_do settled_steps)
  qed
  show ?thesis
  proof (cases "ts_repo ts")
    case True
    have pend: "pends ?I (\<lambda>s. s) (calculate_and_create ts e i) (?rest (active_tariff ts e s)) \<or>
        s = snd (calculate_and_create ts e i s) \<and>
        settled ?I (\<lambda>s. s) (fst (calculate_and_create ts e i s)) (?rest (active_tariff ts e s))" if "?I s" for s
      using rest [OF that] that unfolding ready_def by auto
    have read: "active_tariff_steps ts e ?rest = step_read (active_tariff ts e) ?rest"
      using True by (simp add: active_tariff_steps_def active_tariff_def step_read_def fun_eq_iff)
    show ?thesis unfolding steps read by (rule ready_read) (rule pend)
  next
    case False
    then have "active_tariff_steps ts e ?rest = ?rest (active_tariff ts e s)" for s
      by (simp add: active_tariff_steps_def active_tariff_def)
    then show ?thesis unfolding steps using rest [of "\<lparr>bv_tariffs = T, bv_rows = [], bv_seq = 0\<rparr>"] by simp
  qed
qed (auto simp: calculate_steps_def calculate_and_create_def intro: ready_return)

lemma billing_ready_handlers:
  "ready (\<lambda>s. bv_tariffs s = T) (\<lambda>s. s) (handle_session_stopped ts e r) (session_stopped_steps ts e r)"
  "ready (\<lambda>s. bv_tariffs s = T) (\<lambda>s. s) (transactions_me e r) (transactions_me_steps e r)"
proof -
  show "ready (\<lambda>s. bv_tariffs s = T) (\<lambda>s. s) (handle_session_stopped ts e r) (session_stopped_steps ts e r)"
  proof (cases "decode_session_stopped (rq_body r)")
    case (Inr i)
    show ?thesis
    proof (cases "ci_session i = 0")
      case False
      with Inr show ?thesis
        by (simp add: session_stopped_steps_def)
          (rule ready_map [OF ready_calculate], simp add: handle_session_stopped_def case_prod_beta split: sum.split)
    qed (simp add: session_stopped_steps_def handle_session_stopped_def Inr ready_return)
  qed (simp add: session_stopped_steps_def handle_session_stopped_def ready_return)
  show "ready (\<lambda>s. bv_tariffs s = T) (\<lambda>s. s) (transactions_me e r) (transactions_me_steps e r)"
    by (auto simp: transactions_me_steps_def transactions_me_def settled_steps split: option.split sum.split
        intro: ready_return intro!: ready_read)
qed

lemma pends_billing: "pends (\<lambda>s. bv_tariffs s = T) (\<lambda>s. s) (billing_router ts e r) (billing_steps ts e r)"
  unfolding billing_steps_def billing_router_def
  by (rule pends_mux) (simp add: ready_guard billing_ready_handlers ready_health)

lemma router_tariffs: "bv_tariffs (snd (billing_router ts e r s)) = bv_tariffs s"
proof -
  have "bv_tariffs (snd (calculate_and_create ts e i s)) = bv_tariffs s" for i
    by (cases rule: calculate_cases [of ts e i s]) simp_all
  then show ?thesis
    by (simp add: billing_router_def serve_mux_def method_guard_def handle_session_stopped_def case_prod_beta
        split: sum.split)
qed

interpretation billing_steps: linearizable "billing_router ts" "billing_steps ts" "\<lambda>s. s" "\<lambda>s. bv_tariffs s = T" for ts T
  by unfold_locales (rule pends_billing, simp add: router_tariffs, simp)

lemma billing_handlers_answered:
  "answers_within 2 (session_stopped_steps ts e r)" "answers_within 2 (transactions_me_steps e r)"
  by (simp_all add: numeral_2_eq_2 session_stopped_steps_def calculate_steps_def active_tariff_steps_def Let_def
      transactions_me_steps_def split: sum.split option.split)

lemma billing_answered: "answers_within 3 (billing_steps ts e r)"
  unfolding billing_steps_def numeral_3_eq_3
  by (rule answers_mux) (use billing_handlers_answered [unfolded numeral_2_eq_2] in \<open>simp add: answers_guard answers_health\<close>)

subsection \<open>Property\<close>

text \<open>C12: Concurrent requests to the billing service behave as if they came one at a time: whatever the order of
  their statements, the tables and the answers given so far are those of the requests handled one after the
  other, in the order in which each took effect in one of its own steps; that a notification reads the tariff
  and inserts its transaction in two statements does not show. A request is answered after at most three steps
  of its own.\<close>

theorem billing_linearizable:
  "linearized billing_app (\<lambda>s. s) qs sch s0 (interleaved sch (map (\<lambda>(e, r). billing_steps app_tariffs e r) qs, s0)) \<and>
   (\<forall>i < length qs. 3 \<le> count_list sch i \<longrightarrow>
      (\<exists>resp. fst (interleaved sch (map (\<lambda>(e, r). billing_steps app_tariffs e r) qs, s0)) ! i = Return resp))"
proof (intro conjI allI impI)
  show "linearized billing_app (\<lambda>s. s) qs sch s0
      (interleaved sch (map (\<lambda>(e, r). billing_steps app_tariffs e r) qs, s0))"
    unfolding billing_app_def by (rule billing_steps.linearizes [OF refl])
  fix i assume "i < length qs" "3 \<le> count_list sch i"
  then show "\<exists>resp. fst (interleaved sch (map (\<lambda>(e, r). billing_steps app_tariffs e r) qs, s0)) ! i = Return resp"
    by (intro interleaved_answers [of 3]) (simp_all add: billing_answered case_prod_beta)
qed

theorem billing_linearizable_witness:
  "let c = interleaved [0, 1, 0, 1, 0, 1] (map (\<lambda>(e, r). billing_steps app_tariffs e r)
       [(quiet_env 0, sample_bill), (quiet_env 5, sample_bill)], init_billing [])
   in linearized billing_app (\<lambda>s. s) [(quiet_env 0, sample_bill), (quiet_env 5, sample_bill)]
        [0, 1, 0, 1, 0, 1] (init_billing []) c \<and>
      (\<exists>resp. fst c ! 0 = Return resp) \<and> (\<exists>resp. fst c ! 1 = Return resp)"
proof -
  note run = billing_linearizable [of "[(quiet_env 0, sample_bill), (quiet_env 5, sample_bill)]"
      "[0, 1, 0, 1, 0, 1]" "init_billing []"]
  from run [THEN conjunct2, rule_format, of 0] run [THEN conjunct2, rule_format, of 1] run [THEN conjunct1]
  show ?thesis unfolding Let_def by (intro conjI) (simp_all del: list.map)
qed

end
