(* ===== verification/TelemetrySteps.thy ===== *)
theory TelemetrySteps
  imports Telemetry Concurrent
begin

section \<open>The telemetry service, step by step\<close>

text \<open>A reading is one insertion, so the service is linearizable.\<close>

definition meter_values_steps :: "telemetry_state code" where
  "meter_values_steps e r =
     (case decode_meter_value (rq_body r) of
        Inl _ \<Rightarrow> Return (http_error ''invalid json'' 400)
      | Inr input \<Rightarrow>
          if mi_session input = 0 then Return (http_error ''session_id is required'' 400)
          else step_do (store_meter_value e input)
            (\<lambda>res. Return (case res of
               Inl _ \<Rightarrow> http_error ''failed to store meter value'' 500
             | Inr _ \<Rightarrow>
                 \<lparr>rs_status = 202, rs_headers = [(''Content-Type'', ''text/plain; charset=utf-8'')],
                  rs_body = Json (JObj [(''status'', JStr ''ok'')])\<rparr>)))"

definition telemetry_steps :: "telemetry_state code" where
  "telemetry_steps =
     code_mux
       [(''/internal/ocpp/meter-values'', code_guard ''POST'' meter_values_steps),
        (''/health'', code_guard ''GET'' code_health)]"

lemma alone_meter_values: "alone (meter_values_steps e r) s = handle_meter_values e r s"
  by (auto simp: meter_values_steps_def handle_meter_values_def split: sum.split prod.split)

lemma alone_telemetry: "alone (telemetry_steps e r) s = telemetry_router e r s"
  unfolding telemetry_steps_def telemetry_router_def
  by (rule alone_mux) (simp add: alone_guard alone_meter_values alone_health)

lemma ready_meter_values: "ready (\<lambda>_. True) (\<lambda>s. s) (handle_meter_values e r) (meter_values_steps e r)"
  by (auto simp: meter_values_steps_def handle_meter_values_def settled_steps case_prod_beta split: sum.split
      intro: ready_return intro!: ready_do)

lemma pends_telemetry: "pends (\<lambda>_. True) (\<lambda>s. s) (telemetry_router e r) (telemetry_steps e r)"
  unfolding telemetry_steps_def telemetry_router_def
  by (rule pends_mux) (simp add: ready_guard ready_meter_values ready_health)

interpretation telemetry_steps: linearizable telemetry_router telemetry_steps "\<lambda>s. s" "\<lambda>_. True"
  by unfold_locales (rule pends_telemetry, simp, simp)

theorem telemetry_linearizable:
  "linearized telemetry_router (\<lambda>s. s) qs sch s0 (interleaved sch (map (\<lambda>(e, r). telemetry_steps e r) qs, s0))"
  by (rule telemetry_steps.linearizes) simp

end
