(* ===== verification/AuthSteps.thy ===== *)
theory AuthSteps
  imports AuthProps Concurrent
begin

section \<open>The auth service, step by step\<close>

text \<open>
  A signup looks the email up in one statement and inserts the user in another, with the hashing of the
  password between them. The unique constraint keeps the table right whatever happens between the two; but a
  signup that finds the email free and loses the race answers 500 where it would have answered 409.
\<close>

subsection \<open>Handlers\<close>

definition signup_steps ::
  "auth_deps \<Rightarrow> env \<Rightarrow> string \<Rightarrow> string \<Rightarrow> string \<Rightarrow> (auth_state, User res) prog" where
  "signup_steps d e email0 password role0 =
     (let email = normalize_email (ad_uni d) email0
      in if email = [] then Return (Inl (ErrText ''auth: email required''))
         else if password = [] then Return (Inl (ErrText ''auth: password required''))
         else
           let role = (if role0 = [] then ''user'' else role0)
           in step_read (get_by_email (ad_uni d) e 0 email)
             (\<lambda>found. case found of
                Inr _ \<Rightarrow> Return (Inl err_email_in_use)
              | Inl err \<Rightarrow>
                  if err \<noteq> err_user_not_found then Return (Inl err)
                  else (case hash_password (ad_hasher d) e password of
                      Inl err' \<Rightarrow> Return (Inl err')
                    | Inr hash \<Rightarrow>
                        step_do (create_user (ad_uni d) e 1
                          \<lparr>us_id = 0, us_email = email, us_hash = hash, us_role = role, us_created_at = 0\<rparr>) Return)))"

definition login_steps ::
  "auth_deps \<Rightarrow> env \<Rightarrow> string \<Rightarrow> string \<Rightarrow> (auth_state, (string \<times> User) res) prog" where
  "login_steps d e email0 password =
     (let email = normalize_email (ad_uni d) email0
      in if email = [] \<or> password = [] then Return (Inl err_invalid_credentials)
         else step_read (get_by_email (ad_uni d) e 0 email)
           (\<lambda>found. Return (case found of
              Inl err \<Rightarrow> Inl (if err = err_user_not_found then err_invalid_credentials else err)
            | Inr user \<Rightarrow>
                (case compare_password (ad_hasher d) (us_hash user) password of
                   Inl _ \<Rightarrow> Inl err_invalid_credentials
                 | Inr _ \<Rightarrow>
                     (case generate_token (ad_jwt d) (ad_tokens d) (clock e 0) (us_id user) (us_role user) of
                        Inl err \<Rightarrow> Inl err
                      | Inr token \<Rightarrow> Inr (token, user))))))"

definition signup_handler_steps :: "auth_deps \<Rightarrow> auth_state code" where
  "signup_handler_steps d e r =
     (case decode_body signup_fields empty_login (rq_body r) of
        Inl _ \<Rightarrow> Return (write_error 400 ''invalid JSON body'')
      | Inr req \<Rightarrow>
          let email = trim_space (lr_email req); password = trim_space (lr_password req)
          in if email = [] \<or> password = []
             then Return (write_error 400 ''email and password are required'')
             else bind_prog (signup_steps d e email password (lr_role req))
               (\<lambda>res. Return (case res of
                  Inl err \<Rightarrow>
                    if err = err_email_in_use then write_error 409 ''email already registered''
                    else write_error 500 ''failed to create user''
                | Inr u \<Rightarrow>
                    write_json 201 (Some (JObj [(''id'', JInt (us_id u)), (''email'', JStr (us_email u)),
                                                (''role'', JStr (us_role u))])))))"

definition login_handler_steps :: "auth_deps \<Rightarrow> auth_state code" where
  "login_handler_steps d e r =
     (case decode_body login_fields empty_login (rq_body r) of
        Inl _ \<Rightarrow> Return (write_error 400 ''invalid JSON body'')
      | Inr req \<Rightarrow>
          let email = trim_space (lr_email req); password = trim_space (lr_password req)
          in if email = [] \<or> password = []
             then Return (write_error 400 ''email and password are required'')
             else bind_prog (login_steps d e email password)
               (\<lambda>res. Return (case res of
                  Inl err \<Rightarrow>
                    if err = err_invalid_credentials then write_error 401 ''invalid credentials''
                    else write_error 500 ''failed to login''
                | Inr (token, _) \<Rightarrow>
                    write_json 200 (Some (JObj [(''token'', JStr token), (''token_type'', JStr ''Bearer'')])))))"

definition auth_steps :: "auth_deps \<Rightarrow> auth_state code" where
  "auth_steps d =
     code_mux
       [(''/auth/signup'', code_guard ''POST'' (signup_handler_steps d)),
        (''/auth/login'', code_guard ''POST'' (login_handler_steps d)),
        (''/health'', code_guard ''GET'' code_health)]"

subsection \<open>The steps make up the handlers\<close>

lemma alone_signup: "alone (signup_steps d e m pw role) s = signup d e m pw role s"
  by (auto simp: signup_steps_def signup_def Let_def split: sum.split prod.split)

lemma alone_login: "alone (login_steps d e m pw) s = (login d e m pw s, s)"
  by (auto simp: login_steps_def login_def Let_def split: sum.split)

lemma auth_alone_handlers:
  "alone (signup_handler_steps d e r) s = signup_handler d e r s"
  "alone (login_handler_steps d e r) s = login_handler d e r s"
  by (auto simp: signup_handler_steps_def signup_handler_def login_handler_steps_def login_handler_def Let_def
      alone_signup alone_login split: sum.split prod.split)

lemma alone_auth: "alone (auth_steps d e r) s = auth_router d e r s"
  unfolding auth_steps_def auth_router_def
  by (rule alone_mux) (simp add: alone_guard auth_alone_handlers alone_health)

subsection \<open>What every step keeps\<close>

text \<open>The table grows by the user of each signup that is answered by 201, and by nothing else.\<close>

definition grown :: "User list \<Rightarrow> auth_state \<Rightarrow> bool" where
  "grown us s \<longleftrightarrow> users_ok s \<and> take (length us) (av_users s) = us"

definition created :: "response \<Rightarrow> bool" where
  "created resp \<longleftrightarrow> rs_status resp = 201"

lemma grown_create:
  assumes "grown us s" and "us_role u \<noteq> []"
  shows "grown us (snd (create_user uni e n u s))"
  by (cases rule: create_user_cases [of uni e n u s])
    (use assms in \<open>auto simp: grown_def take_Cons' intro: users_ok_seq users_ok_append dest: arg_cong [where f = length]\<close>)

lemma create_counts:
  "length (av_users (snd (create_user uni e n u s))) =
     length (av_users s) + (case fst (create_user uni e n u s) of Inl _ \<Rightarrow> 0 | Inr _ \<Rightarrow> 1)"
  by (cases rule: create_user_cases [of uni e n u s]) simp_all

definition signup_answer :: "User res \<Rightarrow> response" where
  "signup_answer res =
     (case res of
        Inl err \<Rightarrow>
          if err = err_email_in_use then write_error 409 ''email already registered''
          else write_error 500 ''failed to create user''
      | Inr u \<Rightarrow>
          write_json 201 (Some (JObj [(''id'', JInt (us_id u)), (''email'', JStr (us_email u)), (''role'', JStr (us_role u))])))"

lemma signup_answer_created: "created (signup_answer res) \<longleftrightarrow> (case res of Inl _ \<Rightarrow> False | Inr _ \<Rightarrow> True)"
  by (simp add: created_def signup_answer_def split: sum.split)

lemma counted_signup:
  "counted (grown us) (\<lambda>s. length (av_users s)) created
     (bind_prog (signup_steps d e m pw role) (\<lambda>res. Return (signup_answer res)))"
proof -
  let ?u = "\<lambda>h. \<lparr>us_id = 0, us_email = normalize_email (ad_uni d) m, us_hash = h,
      us_role = (if role = [] then ''user'' else role), us_created_at = 0\<rparr>"
  have create: "counted (grown us) (\<lambda>s. length (av_users s)) created
      (step_do (create_user (ad_uni d) e 1 (?u h)) (\<lambda>res. Return (signup_answer res)))" for h
    by (rule counted_do) (simp add: grown_create create_counts signup_answer_created split: sum.split)
  have refuse: "counted (grown us) (\<lambda>s. length (av_users s)) created (Return (signup_answer (Inl err)))" for err
    by (simp add: counted_iff signup_answer_created)
  show ?thesis
    unfolding signup_steps_def Let_def using create refuse
    by (auto intro!: counted_read split: sum.split)
qed

lemma counted_return: "rs_status resp \<noteq> 201 \<Longrightarrow> counted I n created (Return resp)"
  by (simp add: counted_iff created_def)

lemma counted_auth: "counted (grown us) (\<lambda>s. length (av_users s)) created (auth_steps d e r)"
proof -
  have signup: "counted (grown us) (\<lambda>s. length (av_users s)) created (signup_handler_steps d e r)"
    using counted_signup unfolding signup_answer_def
    by (auto simp: signup_handler_steps_def Let_def intro: counted_return split: sum.split)
  have answer: "rs_status (case x of Inl err \<Rightarrow> if err = err_invalid_credentials then write_error 401 ''invalid credentials''
          else write_error 500 ''failed to login''
      | Inr (token, _) \<Rightarrow> write_json 200 (Some (JObj [(''token'', JStr token), (''token_type'', JStr ''Bearer'')]))) \<noteq> 201"
    for x :: "(string \<times> User) res"
    by (auto split: sum.split)
  have login: "counted (grown us) (\<lambda>s. length (av_users s)) created (login_handler_steps d e r)"
    by (auto simp: login_handler_steps_def login_steps_def Let_def answer intro!: counted_read counted_return
        split: sum.split)
  show ?thesis
    unfolding auth_steps_def code_mux_def
    by (rule counted_read) (use signup login in \<open>auto simp: code_guard_def code_health_def intro: counted_return\<close>)
qed

lemma grown_start: "users_ok s \<Longrightarrow> grown (av_users s) s"
  by (simp add: grown_def)

lemma auth_answered: "answers_within 3 (auth_steps d e r)"
proof -
  have signup: "answers_within (Suc (Suc 0)) (signup_handler_steps d e r)"
    by (auto simp: signup_handler_steps_def signup_steps_def Let_def split: sum.split)
  have login: "answers_within (Suc (Suc 0)) (login_handler_steps d e r)"
    by (auto simp: login_handler_steps_def login_steps_def Let_def split: sum.split)
  show ?thesis
    unfolding auth_steps_def numeral_3_eq_3
    by (rule answers_mux) (simp add: signup login answers_guard answers_health)
qed

subsection \<open>Properties\<close>

text \<open>C13: Whatever the order of the statements of concurrent requests to the auth service, no two users share an id or
  an email, the users there were remain, and there is exactly one new user for each signup that has been
  answered by 201.\<close>

theorem signups_interleaved:
  assumes "users_ok s0" and "c = interleaved sch (map (\<lambda>(e, r). auth_steps d e r) qs, s0)"
  shows "users_ok (snd c) \<and> take (length (av_users s0)) (av_users (snd c)) = av_users s0 \<and>
    length (av_users (snd c)) = length (av_users s0) + length (filter (answered created) (fst c))"
proof -
  have counted: "counted (grown (av_users s0)) (\<lambda>s. length (av_users s)) created p"
    if "p \<in> set (map (\<lambda>(e, r). auth_steps d e r) qs)" for p
    using that by (auto simp: counted_auth)
  have "grown (av_users s0) (snd c)"
    unfolding assms(2) by (rule interleaved_keeps) (use counted counted_keeps grown_start [OF assms(1)] in blast)+
  moreover have "length (av_users (snd c)) = length (av_users s0) + length (filter (answered created) (fst c))"
    unfolding assms(2) by (rule interleaved_counts) (use counted grown_start [OF assms(1)] in blast)+
  ultimately show ?thesis by (simp add: grown_def)
qed

text \<open>Two signups for one free email: one after the other, the second is refused by 409; when both look the
  email up before either inserts its user, the second fails with 500. Either way there is one new user.\<close>

theorem signup_race:
  assumes "\<And>e. e \<in> {e0, e1} \<Longrightarrow> db_fault e 0 = None \<and> db_fault e 1 = None"
    and "\<And>e pw. pw \<noteq> [] \<Longrightarrow> bc_generate (ad_hasher d) e pw = Inr (hash pw)"
    and "normalize_email (ad_uni d) m = m" "m \<noteq> []" "p0 \<noteq> []" "p1 \<noteq> []"
    and "find_email m (av_users s) = None" "1 \<le> av_seq s" "av_seq s < 2 ^ 62"
    and ps: "ps = [bind_prog (signup_steps d e0 m p0 r0) (\<lambda>res. Return (signup_answer res)),
      bind_prog (signup_steps d e1 m p1 r1) (\<lambda>res. Return (signup_answer res))]"
  shows "map (\<lambda>p. case p of Return resp \<Rightarrow> rs_status resp | Atom _ \<Rightarrow> 0) (fst (interleaved [0, 0, 1, 1] (ps, s))) = [201, 409] \<and>
    map (\<lambda>p. case p of Return resp \<Rightarrow> rs_status resp | Atom _ \<Rightarrow> 0) (fst (interleaved [0, 1, 0, 1] (ps, s))) = [201, 500] \<and>
    map us_email (av_users (snd (interleaved [0, 1, 0, 1] (ps, s)))) = map us_email (av_users s) @ [m]"
proof -
  have seq: "in_int64 (av_seq s)" "in_int64 (av_seq s + 1)" using assms(8,9) by (simp_all add: in_int64_def)
  have fault: "db_fault e0 0 = None" "db_fault e0 (Suc 0) = None" "db_fault e1 0 = None" "db_fault e1 (Suc 0) = None"
    using assms(1) by auto
  show ?thesis
    using assms(2-7) seq fault
    by (simp add: ps signup_steps_def Let_def get_by_email_def create_user_def hash_password_def step_defs run_thread_def
        find_email_append signup_answer_def)
qed

subsection \<open>Witness\<close>

theorem signups_interleaved_witness:
  "let c = interleaved [0, 1, 0, 1, 0, 1] (map (\<lambda>(e, r). auth_steps toy_deps e r)
       [(quiet_env 0, sample_signup), (quiet_env 5, sample_signup)], init_auth)
   in users_ok (snd c) \<and> length (av_users (snd c)) = length (filter (answered created) (fst c))"
  using signups_interleaved [OF init_auth_ok refl, of "[0, 1, 0, 1, 0, 1]" toy_deps
      "[(quiet_env 0, sample_signup), (quiet_env 5, sample_signup)]"]
  unfolding Let_def by (simp del: list.map interleaved_simps add: init_auth_def)

end
