(* ===== verification/OcppSteps.thy ===== *)
theory OcppSteps
  imports OcppProps Concurrent
begin

section \<open>The OCPP server, step by step\<close>

text \<open>
  \<open>Processor.Process\<close> and the six handlers with each statement, each call of a store under its lock and each
  call of a service as a step of its own: the frames of different connections interleave at this grain.
\<close>

subsection \<open>Handlers\<close>

type_synonym 'w hsteps = "env \<Rightarrow> string \<Rightarrow> json \<Rightarrow> ('w ocpp, reply res) prog"

definition set_stations :: "(station_state \<Rightarrow> station_state) \<Rightarrow> 'w ocpp \<Rightarrow> 'w ocpp" where
  "set_stations f s = s\<lparr>oc_stations := f (oc_stations s)\<rparr>"

definition set_txs :: "(transaction_store \<Rightarrow> transaction_store) \<Rightarrow> 'w ocpp \<Rightarrow> 'w ocpp" where
  "set_txs f s = s\<lparr>oc_txs := f (oc_txs s)\<rparr>"

definition set_rows :: "(station_table \<Rightarrow> station_table) \<Rightarrow> 'w ocpp \<Rightarrow> 'w ocpp" where
  "set_rows f s = s\<lparr>oc_rows := f (oc_rows s)\<rparr>"

definition set_log :: "(log_table \<Rightarrow> log_table) \<Rightarrow> 'w ocpp \<Rightarrow> 'w ocpp" where
  "set_log f s = s\<lparr>oc_log := f (oc_log s)\<rparr>"

definition call_world :: "('w \<Rightarrow> 'a \<times> 'w) \<Rightarrow> 'w ocpp \<Rightarrow> 'a \<times> 'w ocpp" where
  "call_world f s = (case f (oc_world s) of (a, w) \<Rightarrow> (a, s\<lparr>oc_world := w\<rparr>))"

lemmas set_defs = set_stations_def set_txs_def set_rows_def set_log_def call_world_def

definition boot_steps :: "'w hsteps" where
  "boot_steps e station_id payload =
     (case decode_boot payload of
        Inl err \<Rightarrow> Return (Inl err)
      | Inr req \<Rightarrow>
          (case db_fault e 1 of
             Some err \<Rightarrow> Return (Inl err)
           | None \<Rightarrow>
               let st = \<lparr>cp_id = station_id, cp_vendor = bn_vendor req, cp_model = bn_model req,
                         cp_firmware = bn_firmware req, cp_last_heartbeat = clock e 0,
                         cp_status = ConnectorAvailable, cp_created_at = 0, cp_updated_at = 0\<rparr>
               in step_write (set_rows (station_upsert e (clock e 1) st))
                 (step_write (set_stations (update_station station_id ConnectorAvailable))
                   (Return (Inr (BootReply
                      \<lparr>br_current_time = clock e (if is_zero (clock e 0) then 2 else 1),
                       br_interval = 30, br_status = RegistrationAccepted\<rparr>))))))"

definition status_steps :: "'w hsteps" where
  "status_steps e station_id payload =
     (case decode_status payload of
        Inl err \<Rightarrow> Return (Inl err)
      | Inr req \<Rightarrow>
          let status = (if sn_status req = [] then ConnectorAvailable else sn_status req)
          in step_write
               (set_rows (case db_fault e 1 of
                  Some _ \<Rightarrow> (\<lambda>rows. rows)
                | None \<Rightarrow> station_update_status e station_id status))
               (step_write (set_stations (update_station station_id status))
                 (if 0 < sn_connector req
                  then step_write (set_stations (update_connector station_id (sn_connector req) status))
                    (Return (Inr StatusReply))
                  else Return (Inr StatusReply))))"

definition heartbeat_steps :: "'w hsteps" where
  "heartbeat_steps e station_id payload = Return (Inr (HeartbeatReply (clock e 0)))"

definition start_steps :: "'w deps \<Rightarrow> 'w hsteps" where
  "start_steps d e station_id payload =
     (case decode_start payload of
        Inl err \<Rightarrow> Return (Inl err)
      | Inr req \<Rightarrow>
          let transaction_id = transaction_id_of e station_id req;
              store = (\<lambda>session_id. step_write (set_txs (tx_set transaction_id
                  \<lparr>tc_session_id = session_id, tc_meter_start = st_meter_start req\<rparr>))
                (Return (Inr (StartReply transaction_id ''Accepted''))));
              connector = (\<lambda>session_id.
                if 0 < st_connector req
                then step_write (set_stations (update_connector station_id (st_connector req) ConnectorCharging))
                  (store session_id)
                else store session_id)
          in (case dp_sessions d of
                None \<Rightarrow> connector 0
              | Some base \<Rightarrow>
                  step_do (call_world (create_from_ocpp (dp_net d) base
                      \<lparr>ssr_station = station_id, ssr_connector = st_connector req,
                       ssr_transaction = transaction_id, ssr_meter_start = st_meter_start req\<rparr>))
                    (\<lambda>res. connector (case res of Inl _ \<Rightarrow> 0 | Inr i \<Rightarrow> i))))"

definition stop_steps :: "'w deps \<Rightarrow> 'w hsteps" where
  "stop_steps d e station_id payload =
     (case decode_stop payload of
        Inl err \<Rightarrow> Return (Inl err)
      | Inr req \<Rightarrow>
          let state = step_write (set_stations (update_station station_id ConnectorAvailable)) (Return (Inr StopReply));
              billing = (\<lambda>energy session_id.
                case dp_billing d of
                  None \<Rightarrow> state
                | Some base \<Rightarrow>
                    if 0 < session_id
                    then step_do (call_world (notify_session_stop (dp_net d) base
                        \<lparr>bsr_session = session_id, bsr_user = 0, bsr_energy = energy\<rparr>)) (\<lambda>_. state)
                    else state);
              sessions = (\<lambda>energy session_id.
                case dp_sessions d of
                  None \<Rightarrow> billing energy session_id
                | Some base \<Rightarrow>
                    step_do (call_world (complete_from_ocpp (dp_net d) base
                        \<lparr>spr_transaction = sp_transaction req, spr_meter_stop = sp_meter_stop req,
                         spr_reason = sp_reason req, spr_energy = energy, spr_end_time = clock e 0\<rparr>))
                      (\<lambda>_. billing energy session_id))
          in step_read (\<lambda>s. tx_get (oc_txs s) (sp_transaction req))
               (\<lambda>found. case found of
                  None \<Rightarrow> sessions (Fin 0) 0
                | Some c \<Rightarrow>
                    step_write (set_txs (tx_delete (sp_transaction req)))
                      (sessions (stop_energy (tc_meter_start c) (sp_meter_stop req)) (tc_session_id c))))"

definition meter_steps :: "'w deps \<Rightarrow> 'w hsteps" where
  "meter_steps d e station_id payload =
     (case decode_meter payload of
        Inl err \<Rightarrow> Return (Inl err)
      | Inr req \<Rightarrow>
          step_read (\<lambda>s. tx_get (oc_txs s) (mv_transaction req))
            (\<lambda>found. case found of
               None \<Rightarrow> Return (Inr NilReply)
             | Some c \<Rightarrow>
                 if tc_session_id c = 0 then Return (Inr NilReply)
                 else (case dp_telemetry d of
                     None \<Rightarrow> Return (Inr NilReply)
                   | Some base \<Rightarrow>
                       step_do (call_world (notify_meter_value (dp_net d) base
                           \<lparr>mvr_session = tc_session_id c, mvr_station = mv_station req,
                            mvr_connector = mv_connector req, mvr_value = mv_value req,
                            mvr_unit = ''kWh'', mvr_timestamp = mv_timestamp req\<rparr>))
                         (\<lambda>_. Return (Inr NilReply)))))"

definition handler_steps :: "'w deps \<Rightarrow> string \<rightharpoonup> 'w hsteps" where
  "handler_steps d =
     [ActionBootNotification \<mapsto> boot_steps, ActionStatusNotification \<mapsto> status_steps,
      ActionStartTransaction \<mapsto> start_steps d, ActionStopTransaction \<mapsto> stop_steps d,
      ActionHeartbeat \<mapsto> heartbeat_steps, ActionMeterValues \<mapsto> meter_steps d]"

definition process_steps ::
  "(go_error \<Rightarrow> string) \<Rightarrow> 'w deps \<Rightarrow> env \<Rightarrow> string \<Rightarrow> body \<Rightarrow> ('w ocpp, json option res) prog" where
  "process_steps lib d e station_id raw =
     (case parse_frame raw of
        Inl err \<Rightarrow> Return (Inl err)
      | Inr msg \<Rightarrow>
          let raw_json = (case raw of Json j \<Rightarrow> j | NotJson _ \<Rightarrow> JNull);
              handle = (case handler_steps d (msg_action msg) of
                  None \<Rightarrow> Return (Inl (ErrText (''ocpp: unsupported action '' @ msg_action msg)))
                | Some h \<Rightarrow> h e station_id (msg_payload msg))
          in step_write (set_log (log_save e 0 station_id ''incoming'' (msg_action msg) raw_json))
               (bind_prog handle
                 (\<lambda>res. case res of
                    Inl err \<Rightarrow>
                      Return (map_sum id Some (build_call_error (msg_unique_id msg) ''InternalError'' (error_text lib err)))
                  | Inr payload \<Rightarrow>
                      if payload = NilReply then Return (Inr None)
                      else (case build_call_result (msg_unique_id msg) payload of
                          Inl err \<Rightarrow> Return (Inl err)
                        | Inr bytes \<Rightarrow>
                            step_write (set_log (log_save e 2 station_id ''outgoing'' (msg_action msg) bytes))
                              (Return (Inr (Some bytes)))))))"

subsection \<open>The steps make up the handlers\<close>

lemma alone_boot: "alone (boot_steps e i p) s = boot_notification e i p s"
  by (simp add: boot_steps_def boot_notification_def Let_def set_defs split: sum.split option.split)

lemma alone_status: "alone (status_steps e i p) s = status_notification e i p s"
  by (simp add: status_steps_def status_notification_def Let_def set_defs split: sum.split option.split)

lemma alone_heartbeat: "alone (heartbeat_steps e i p) s = heartbeat e i p s"
  by (simp add: heartbeat_steps_def heartbeat_def)

lemma alone_start: "alone (start_steps d e i p) s = start_transaction d e i p s"
  by (auto simp: start_steps_def start_transaction_def Let_def set_defs case_prod_beta split: sum.split option.split)

lemma alone_stop: "alone (stop_steps d e i p) s = stop_transaction d e i p s"
  by (auto simp: stop_steps_def stop_transaction_def stop_context_def Let_def set_defs case_prod_beta
      split: sum.split option.split)

lemma alone_meter: "alone (meter_steps d e i p) s = meter_values d e i p s"
  by (auto simp: meter_steps_def meter_values_def set_defs case_prod_beta split: sum.split option.split)

lemma handler_steps_router:
  "handler_steps d a = None \<longleftrightarrow> app_router d a = None"
  "handler_steps d a = Some h' \<Longrightarrow> app_router d a = Some h \<Longrightarrow> alone (h' e i p) s = h e i p s"
  by (auto simp: handler_steps_def app_router_def register_def new_router_def action_defs alone_boot alone_status
      alone_heartbeat alone_start alone_stop alone_meter split: if_splits)

lemma alone_process: "alone (process_steps lib d e i raw) s = process lib (app_router d) e i raw s"
proof (cases "parse_frame raw")
  case (Inr m)
  let ?h = "case handler_steps d (msg_action m) of None \<Rightarrow> Return (Inl (ErrText (''ocpp: unsupported action '' @ msg_action m)))
    | Some h \<Rightarrow> h e i (msg_payload m)"
  have "alone ?h t = route (app_router d) e i m t" for t
    using handler_steps_router [of d "msg_action m"] by (auto simp: route_def split: option.split)
  then show ?thesis
    by (simp add: process_steps_def process_def Inr Let_def set_log_def case_prod_beta split: sum.split)
qed (simp add: process_steps_def process_def)

subsection \<open>What every step keeps\<close>

text \<open>The contract between the steps of a frame of station \<open>i\<close> and a condition on the state.\<close>

locale steps_invariant =
  fixes I :: "'w ocpp \<Rightarrow> bool" and i :: string
  assumes log: "I s \<Longrightarrow> I (set_log (log_save e n i dir a p) s)"
    and upsert: "I s \<Longrightarrow> cp_id st = i \<Longrightarrow> I (set_rows (station_upsert e now st) s)"
    and update_row: "I s \<Longrightarrow> I (set_rows (station_update_status e i st') s)"
    and station: "I s \<Longrightarrow> I (set_stations (update_station i st') s)"
    and connector: "I s \<Longrightarrow> I (set_stations (update_connector i c st') s)"
    and tx_set: "I s \<Longrightarrow> in_int64 (tc_session_id ctx) \<Longrightarrow> in_int64 (tc_meter_start ctx) \<Longrightarrow> I (set_txs (tx_set t ctx) s)"
    and tx_delete: "I s \<Longrightarrow> I (set_txs (tx_delete t) s)"
    and world: "I s \<Longrightarrow> I (s\<lparr>oc_world := w\<rparr>)"
begin

lemma call: "I s \<Longrightarrow> I (snd (call_world f s))"
  by (simp add: call_world_def case_prod_beta world)

lemma same_rows: "I s \<Longrightarrow> I (set_rows (\<lambda>rows. rows) s)"
  by (simp add: set_rows_def)

lemma keeps_boot: "keeps I (boot_steps e i p)"
  by (auto simp: boot_steps_def Let_def intro!: keeps_steps keeps.ret upsert station split: sum.split option.split)

lemma keeps_status: "keeps I (status_steps e i p)"
  by (auto simp: status_steps_def Let_def intro!: keeps_steps keeps.ret update_row same_rows station connector
      split: sum.split option.split)

lemma keeps_start: "keeps I (start_steps d e i p)"
proof (cases "decode_start p")
  case (Inr req)
  have m: "in_int64 (st_meter_start req)" using decode_start_range [OF Inr] by simp
  let ?t = "transaction_id_of e i req"
  let ?store = "\<lambda>n. step_write (set_txs (tx_set ?t \<lparr>tc_session_id = n, tc_meter_start = st_meter_start req\<rparr>))
      (Return (Inr (StartReply ?t ''Accepted'')))"
  let ?connector = "\<lambda>n. if 0 < st_connector req
      then step_write (set_stations (update_connector i (st_connector req) ConnectorCharging)) (?store n) else ?store n"
  have c: "keeps I (?connector n)" if "in_int64 n" for n
    using that m by (auto intro!: keeps_steps keeps.ret tx_set connector)
  have n: "in_int64 (case fst (call_world (create_from_ocpp net base q) s) of Inl _ \<Rightarrow> 0 | Inr n \<Rightarrow> n)" for net base q and s :: "'w ocpp"
    using create_range [of net base q "oc_world s"]
    by (cases "create_from_ocpp net base q (oc_world s)") (auto simp: call_world_def split: sum.split)
  show ?thesis
  proof (cases "dp_sessions d")
    case None
    then show ?thesis using c [of 0] by (simp add: start_steps_def Inr Let_def)
  next
    case (Some base)
    then have "start_steps d e i p = step_do (call_world (create_from_ocpp (dp_net d) base
          \<lparr>ssr_station = i, ssr_connector = st_connector req, ssr_transaction = ?t, ssr_meter_start = st_meter_start req\<rparr>))
        (\<lambda>res. ?connector (case res of Inl _ \<Rightarrow> 0 | Inr n \<Rightarrow> n))"
      by (simp add: start_steps_def Inr Let_def)
    then show ?thesis by (simp only:) (intro keeps_steps(1) conjI call c n, assumption)
  qed
qed (simp add: start_steps_def keeps.ret)

lemma keeps_stop: "keeps I (stop_steps d e i p)"
  by (auto simp: stop_steps_def Let_def intro!: keeps_steps keeps.ret tx_delete call station split: sum.split option.split)

lemma keeps_meter: "keeps I (meter_steps d e i p)"
  by (auto simp: meter_steps_def intro!: keeps_steps keeps.ret call split: sum.split option.split)

lemma keeps_handler: "handler_steps d a = Some h \<Longrightarrow> keeps I (h e i p)"
  by (auto simp: handler_steps_def heartbeat_steps_def keeps_boot keeps_status keeps_start keeps_stop keeps_meter
      keeps.ret split: if_splits)

lemma keeps_process: "keeps I (process_steps lib d e i raw)"
  by (auto simp: process_steps_def Let_def intro!: keeps_steps keeps.ret log keeps_bind keeps_handler
      split: sum.split option.split)

end

text \<open>The stores and tables are well formed between any two steps. (That a station in the table has a runtime
  state is not kept: a BootNotification inserts the row one step earlier.)\<close>

definition records_ok :: "'w ocpp \<Rightarrow> bool" where
  "records_ok s \<longleftrightarrow> tx_ok (oc_txs s) \<and> station_table_ok (oc_rows s) \<and> log_table_ok (oc_log s)"

lemma ocpp_ok_records: "ocpp_ok s \<Longrightarrow> records_ok s"
  by (simp add: ocpp_ok_def records_ok_def)

interpretation records: steps_invariant records_ok i for i
  by unfold_locales (auto simp: records_ok_def set_defs intro: inv_intros)

interpretation view: steps_invariant "\<lambda>s. j = i \<or> station_view s j = v" i for i j v
  by unfold_locales
    (auto simp: station_view_def set_defs station_views fun_eq_iff upsert_other update_status_other)

definition log_extends :: "ocpp_message list \<Rightarrow> 'w ocpp \<Rightarrow> bool" where
  "log_extends rows s \<longleftrightarrow> (\<exists>more. log_rows (oc_log s) = rows @ more)"

interpretation history: steps_invariant "log_extends rows" i for rows i
proof unfold_locales
  fix e n dir a p and s :: "'a ocpp" assume "log_extends rows s"
  then show "log_extends rows (set_log (log_save e n i dir a p) s)"
    using log_save_prefix [of e n i dir a p "oc_log s"] by (auto simp: log_extends_def set_log_def)
qed (simp_all add: log_extends_def set_defs)

subsection \<open>Answers\<close>

text \<open>An answer to a frame is a CALLRESULT or a CALLERROR under the id of the frame.\<close>

definition own_answer :: "body \<Rightarrow> json option res \<Rightarrow> bool" where
  "own_answer raw res \<longleftrightarrow>
     (case res of
        Inr (Some j) \<Rightarrow> \<exists>m t rest. parse_frame raw = Inr m \<and> t \<in> {MessageTypeCallResult, MessageTypeCallError} \<and>
            j = JArr (JInt t # JStr (msg_unique_id m) # rest)
      | _ \<Rightarrow> True)"

lemma process_own_answer: "yields (own_answer raw) (process_steps lib d e i raw)"
proof (cases "parse_frame raw")
  case (Inr m)
  have error: "own_answer raw (map_sum id Some (build_call_error (msg_unique_id m) code desc))" for code desc
    by (simp add: own_answer_def build_call_error_def Inr MessageTypeCallError_def)
  have result: "own_answer raw (Inr (Some bytes))" if "build_call_result (msg_unique_id m) payload = Inr bytes" for payload bytes
    using that by (auto simp: own_answer_def build_call_result_def Inr MessageTypeCallResult_def split: option.splits)
  have none: "own_answer raw (Inl err)" "own_answer raw (Inr None)" for err by (simp_all add: own_answer_def)
  show ?thesis
    by (auto simp: process_steps_def Inr Let_def yields_iff error none result intro!: yields_bind
        split: sum.split)
qed (simp add: process_steps_def yields_iff own_answer_def)

lemma handler_answered:
  assumes "handler_steps d a = Some h" shows "answers_within 5 (h e i p)"
proof -
  have five: "(5 :: nat) = Suc (Suc (Suc (Suc (Suc 0))))" by simp
  show ?thesis
    using assms unfolding five
    by (auto simp: handler_steps_def boot_steps_def status_steps_def start_steps_def stop_steps_def heartbeat_steps_def
        meter_steps_def Let_def split: if_splits sum.split option.split)
qed

lemma process_answered: "answers_within 7 (process_steps lib d e i raw)"
proof (cases "parse_frame raw")
  case (Inr m)
  let ?h = "case handler_steps d (msg_action m) of None \<Rightarrow> Return (Inl (ErrText (''ocpp: unsupported action '' @ msg_action m)))
    | Some h \<Rightarrow> h e i (msg_payload m)"
  have h: "answers_within 5 ?h" by (simp add: handler_answered split: option.split)
  let ?k = "\<lambda>res. case res of
      Inl err \<Rightarrow> Return (map_sum id Some (build_call_error (msg_unique_id m) ''InternalError'' (error_text lib err)))
    | Inr payload \<Rightarrow>
        if payload = NilReply then Return (Inr None)
        else (case build_call_result (msg_unique_id m) payload of
            Inl err \<Rightarrow> Return (Inl err)
          | Inr bytes \<Rightarrow> step_write (set_log (log_save e 2 i ''outgoing'' (msg_action m) bytes)) (Return (Inr (Some bytes))))"
  have "answers_within (Suc 0) (?k res)" for res by (simp split: sum.split)
  from answers_bind [OF h this] have six: "answers_within 6 (bind_prog ?h ?k)" by simp
  have seven: "(7 :: nat) = Suc 6" by simp
  show ?thesis unfolding seven process_steps_def Inr Let_def sum.case answers_steps(4) by (rule six)
qed (simp add: process_steps_def)

subsection \<open>Property\<close>


subsection \<open>Witness\<close>


end
