(* ===== verification/StopRace.thy ===== *)
theory StopRace
  imports EndToEnd OcppSteps
begin

section \<open>Concurrent StopTransactions\<close>

text \<open>
  The store locks each call on its own, so that the steps of two StopTransaction handlers (\<open>stop_steps\<close>)
  on two connections interleave freely: two stops of one transaction can bill it twice.
\<close>

subsection \<open>Bills sent\<close>

lemma session_calls:
  "calls stopped_path (snd (complete_from_ocpp (recording answer) base r w)) = calls stopped_path w"
  using complete_recording [of answer base r w] by (auto simp: calls_snoc)

lemma bill_calls:
  assumes "base \<noteq> []" and "stop_energy m n = en" and "in_int64 m" and "in_int64 n"
  shows "calls stopped_path (snd (notify_session_stop (recording answer) base
      \<lparr>bsr_session = i, bsr_user = 0, bsr_energy = en\<rparr> w)) = calls stopped_path w + 1"
proof -
  obtain v where "en = Fin v" using stop_energy_finite [OF assms(3,4)] assms(2) by metis
  then obtain j where "json_billing_stop \<lparr>bsr_session = i, bsr_user = 0, bsr_energy = en\<rparr> = Some j"
    by (auto simp: json_billing_stop_def json_object_def json_f64_def)
  then show ?thesis using assms(1)
    by (simp add: notify_session_stop_def recording_def calls_snoc)
qed

subsection \<open>Two handlers\<close>

lemma run_two:
  "run_thread 0 ([step_do f k, q], s) = ([k (fst (f s)), q], snd (f s))"
  "run_thread 0 ([step_read g k, q], s) = ([k (g s), q], s)"
  "run_thread 0 ([step_write h p, q], s) = ([p, q], h s)"
  "run_thread 0 ([Return r, q], s) = ([Return r, q], s)"
  "run_thread 1 ([q, step_do f k], s) = ([q, k (fst (f s))], snd (f s))"
  "run_thread 1 ([q, step_read g k], s) = ([q, k (g s)], s)"
  "run_thread 1 ([q, step_write h p], s) = ([q, p], h s)"
  "run_thread 1 ([q, Return r], s) = ([q, Return r], s)"
  by (simp_all add: run_thread_def step_defs case_prod_beta)

text \<open>C36: Two StopTransactions for one open transaction, handled on two connections, bill it once when one
  handler runs after the other, and twice when both read the transaction store before either deletes
  from it.\<close>

theorem stop_race_bills_twice:
  assumes d: "dp_net d = recording answer" "dp_billing d = Some bb" "bb \<noteq> []"
    and req: "decode_stop p0 = Inr b0" "decode_stop p1 = Inr b1"
    and same: "sp_transaction b0 = t" "sp_transaction b1 = t"
    and c: "tx_get (oc_txs s) t = Some c" "0 < tc_session_id c" "in_int64 (tc_meter_start c)"
    and ps: "ps = [stop_steps d e0 i0 p0, stop_steps d e1 i1 p1]"
  shows "calls stopped_path (oc_world (snd (interleaved [0, 0, 0, 0, 0, 1, 1, 1, 1, 1] (ps, s)))) =
      calls stopped_path (oc_world s) + 1 \<and>
    calls stopped_path (oc_world (snd (interleaved [0, 1, 0, 1, 0, 0, 0, 1, 1, 1] (ps, s)))) =
      calls stopped_path (oc_world s) + 2"
proof
  have range: "in_int64 (sp_meter_stop b0)" "in_int64 (sp_meter_stop b1)"
    using decode_stop_range [OF req(1)] decode_stop_range [OF req(2)] by simp_all
  note bill = bill_calls [OF d(3) refl c(3) range(1), of answer] bill_calls [OF d(3) refl c(3) range(2), of answer]
  note steps = stop_steps_def set_txs_def set_stations_def call_world_def Let_def case_prod_beta
  note run = interleaved_simps run_two
  show "calls stopped_path (oc_world (snd (interleaved [0, 0, 0, 0, 0, 1, 1, 1, 1, 1] (ps, s)))) =
      calls stopped_path (oc_world s) + 1"
  proof (cases "dp_sessions d")
    case None
    with assms show ?thesis by (simp add: steps run tx.get_del bill del: One_nat_def)
  next
    case (Some base)
    with assms show ?thesis by (simp add: steps run tx.get_del session_calls bill del: One_nat_def)
  qed
  show "calls stopped_path (oc_world (snd (interleaved [0, 1, 0, 1, 0, 0, 0, 1, 1, 1] (ps, s)))) =
      calls stopped_path (oc_world s) + 2"
  proof (cases "dp_sessions d")
    case None
    with assms show ?thesis by (simp add: steps run bill del: One_nat_def)
  next
    case (Some base)
    with assms show ?thesis by (simp add: steps run session_calls bill del: One_nat_def)
  qed
qed

subsection \<open>Witness\<close>

definition race_deps :: "trace deps" where
  "race_deps = recording_deps (Some sessions_url) (Some billing_url) None (\<lambda>c w. Inl ErrSyntax)"

definition race_state :: "trace ocpp" where
  "race_state = (init_ocpp [])\<lparr>oc_txs := tx_set ''T1'' \<lparr>tc_session_id = 7, tc_meter_start = 0\<rparr> new_transaction_store\<rparr>"

theorem stop_race_bills_twice_witness:
  "calls stopped_path (oc_world (snd (interleaved [0, 1, 0, 1, 0, 0, 0, 1, 1, 1]
     ([stop_steps race_deps (quiet_env 0) ''CP1'' example_stop, stop_steps race_deps (quiet_env 0) ''CP2'' example_stop],
      race_state)))) = 2"
proof -
  have "tx_get (oc_txs race_state) ''T1'' = Some \<lparr>tc_session_id = 7, tc_meter_start = 0\<rparr>"
    by (simp add: race_state_def tx.get_put)
  from stop_race_bills_twice [of race_deps "\<lambda>c w. Inl ErrSyntax" billing_url, OF _ _ _ decode_example_stop decode_example_stop
      _ _ this _ _ refl, of "quiet_env 0" "''CP1''" "quiet_env 0" "''CP2''"]
  show ?thesis
    by (simp add: race_deps_def recording_deps_def in_int64_def race_state_def init_ocpp_def del: interleaved_simps)
qed

end
