(* ===== verification/CsmsWs.thy ===== *)
theory CsmsWs
  imports GoCrypto
begin

section \<open>The WebSocket framing of the CSMS\<close>

text \<open>
  \<open>csms/internal/ws/simple.go\<close>: the handshake, reading and writing of frames. A connection is the
  bytes that arrive on it before the stream ends, the bytes written to it, and the errors its writes
  and its write deadline report. A failing write is modelled without the prefix it may have sent.
\<close>

record conn =
  cn_in :: "byte list"
  cn_out :: "byte list"
  cn_write_err :: "go_error option"
  cn_deadline_err :: "go_error option"
  cn_subprotocol :: string

definition TextMessage :: nat where "TextMessage = 1"
definition BinaryMessage :: nat where "BinaryMessage = 2"
definition CloseMessage :: nat where "CloseMessage = 8"
definition PingMessage :: nat where "PingMessage = 9"
definition PongMessage :: nat where "PongMessage = 10"

lemmas message_types = TextMessage_def BinaryMessage_def CloseMessage_def PingMessage_def PongMessage_def

subsection \<open>Writing\<close>

abbreviation io_eof :: go_error where "io_eof \<equiv> ErrText ''EOF''"
abbreviation io_unexpected_eof :: go_error where "io_unexpected_eof \<equiv> ErrText ''unexpected EOF''"

definition frame_header :: "nat \<Rightarrow> nat \<Rightarrow> byte list" where
  "frame_header opcode len =
     (0x80 OR word_of_nat opcode) #
     (if len < 126 then [word_of_nat len]
      else if len < 65536 then 126 # put_be 2 len
      else 127 # put_be 8 len)"

definition write_message :: "nat \<Rightarrow> byte list \<Rightarrow> conn \<Rightarrow> unit res \<times> conn" where
  "write_message message_type data c =
     (if message_type \<notin> {TextMessage, BinaryMessage, CloseMessage}
      then (Inl (ErrText (''websocket: unsupported message type '' @ format_int (int message_type))), c)
      else (case cn_write_err c of
          Some err \<Rightarrow> (Inl err, c)
        | None \<Rightarrow> (Inr (), c\<lparr>cn_out := cn_out c @ frame_header message_type (length data) @ data\<rparr>)))"

definition write_control :: "nat \<Rightarrow> byte list \<Rightarrow> conn \<Rightarrow> unit res \<times> conn" where
  "write_control message_type data c =
     (case cn_deadline_err c of Some err \<Rightarrow> (Inl err, c) | None \<Rightarrow> write_message message_type data c)"

definition format_close_message :: "nat \<Rightarrow> byte list \<Rightarrow> byte list" where
  "format_close_message code text = put_be 2 code @ text"

subsection \<open>Reading\<close>

definition read_byte :: "conn \<Rightarrow> byte res \<times> conn" where
  "read_byte c = (case cn_in c of [] \<Rightarrow> (Inl io_eof, c) | b # r \<Rightarrow> (Inr b, c\<lparr>cn_in := r\<rparr>))"

definition read_full :: "nat \<Rightarrow> conn \<Rightarrow> byte list res \<times> conn" where
  "read_full n c =
     (if n \<le> length (cn_in c) then (Inr (take n (cn_in c)), c\<lparr>cn_in := drop n (cn_in c)\<rparr>)
      else (Inl (if cn_in c = [] then io_eof else io_unexpected_eof), c\<lparr>cn_in := []\<rparr>))"

definition and_then :: "'a res \<times> conn \<Rightarrow> ('a \<Rightarrow> conn \<Rightarrow> 'b res \<times> conn) \<Rightarrow> 'b res \<times> conn" where
  "and_then r k = (case r of (Inl err, c) \<Rightarrow> (Inl err, c) | (Inr x, c) \<Rightarrow> k x c)"

definition payload_length :: "nat \<Rightarrow> conn \<Rightarrow> nat res \<times> conn" where
  "payload_length n c =
     (if n = 126 then and_then (read_full 2 c) (\<lambda>b c. (Inr (get_be b), c))
      else if n = 127 then and_then (read_full 8 c) (\<lambda>b c.
        if get_be b > 2 ^ 63 - 1 then (Inl (ErrText ''websocket: payload too large''), c) else (Inr (get_be b), c))
      else (Inr n, c))"

definition apply_mask :: "byte list \<Rightarrow> byte list \<Rightarrow> byte list" where
  "apply_mask key payload = map (\<lambda>i. payload ! i XOR key ! (i mod 4)) [0..<length payload]"

text \<open>The most bytes \<open>make\<close> allocates on a 64-bit Linux; it panics beyond. The panic is the error.\<close>

definition max_alloc :: nat where "max_alloc = 2 ^ 48"

text \<open>The bits of the first byte, the opcode and the unmasked payload of one frame.\<close>

definition read_frame :: "conn \<Rightarrow> (bool \<times> nat \<times> byte list) res \<times> conn" where
  "read_frame c =
     and_then (read_byte c) (\<lambda>first c.
     and_then (read_byte c) (\<lambda>second c.
       if second AND 0x80 = 0
       then (Inl (ErrText ''websocket: received unmasked frame from client''), c)
       else and_then (payload_length (unat (second AND 0x7F)) c) (\<lambda>len c.
            and_then (read_full 4 c) (\<lambda>key c.
              if len > max_alloc then (Inl (ErrExt ''panic: runtime error: makeslice: len out of range''), c)
              else and_then (read_full len c) (\<lambda>payload c.
                (Inr (first AND 0x80 \<noteq> 0, unat (first AND 0x0F), apply_mask key payload), c))))))"

subsection \<open>Facts about reading\<close>

lemma and_then_Inr:
  "and_then r k = (Inr y, c') \<longleftrightarrow> (\<exists>x c. r = (Inr x, c) \<and> k x c = (Inr y, c'))"
  by (auto simp: and_then_def split: prod.split sum.split)

lemma and_then_simps [simp]: "and_then (Inl err, c) k = (Inl err, c)" "and_then (Inr x, c) k = k x c"
  by (simp_all add: and_then_def)

lemma read_byte_Inr: "read_byte c = (Inr b, c') \<longleftrightarrow> cn_in c = b # cn_in c' \<and> c' = c\<lparr>cn_in := cn_in c'\<rparr>"
  by (cases "cn_in c") (auto simp: read_byte_def)

lemma read_full_Inr:
  "read_full n c = (Inr bs, c') \<longleftrightarrow> cn_in c = bs @ cn_in c' \<and> length bs = n \<and> c' = c\<lparr>cn_in := cn_in c'\<rparr>"
  by (auto simp: read_full_def)

lemma payload_length_shrinks:
  "payload_length n c = (Inr k, c') \<Longrightarrow> length (cn_in c') \<le> length (cn_in c)"
  by (auto simp: payload_length_def and_then_Inr read_full_Inr split: if_splits)

text \<open>A frame has at least six bytes: two of header, four of mask.\<close>

lemma read_frame_shrinks:
  assumes "read_frame c = (Inr f, c')" shows "length (cn_in c') + 6 \<le> length (cn_in c)"
proof -
  from assms obtain a b k m p c1 c2 c3 c4 where
    "read_byte c = (Inr a, c1)" "read_byte c1 = (Inr b, c2)" "payload_length (unat (b AND 0x7F)) c2 = (Inr k, c3)"
    "read_full 4 c3 = (Inr m, c4)" "read_full k c4 = (Inr p, c')"
    by (auto simp: read_frame_def and_then_Inr split: if_splits)
  moreover from this payload_length_shrinks have "length (cn_in c3) \<le> length (cn_in c2)" by blast
  ultimately show ?thesis by (auto simp: read_byte_Inr read_full_Inr)
qed

lemma write_control_in:
  "write_control t d c = (r, c') \<Longrightarrow> cn_in c' = cn_in c"
  by (auto simp: write_control_def write_message_def split: if_splits option.splits)

lemma read_frame_less: "(Inr f, c') = read_frame c \<Longrightarrow> length (cn_in c') < length (cn_in c)"
  using read_frame_shrinks [of c f c'] by simp

lemma write_control_less: "(r, c') = write_control t d c \<Longrightarrow> length (cn_in c') = length (cn_in c)"
  using write_control_in [of t d c r c'] by simp

subsection \<open>Messages\<close>

function read_message :: "conn \<Rightarrow> (nat \<times> byte list \<times> go_error option) \<times> conn" where
  "read_message c =
     (case read_frame c of
        (Inl err, c1) \<Rightarrow> ((0, [], Some err), c1)
      | (Inr (fin, opcode, payload), c1) \<Rightarrow>
          if \<not> fin then ((0, [], Some (ErrText ''websocket: fragmented frames not supported'')), c1)
          else if opcode = TextMessage \<or> opcode = BinaryMessage then ((opcode, payload, None), c1)
          else if opcode = CloseMessage then ((opcode, payload, Some io_eof), c1)
          else if opcode = PingMessage then
            (case write_control PongMessage payload c1 of
               (Inl err, c2) \<Rightarrow> ((0, [], Some err), c2)
             | (Inr _, c2) \<Rightarrow> read_message c2)
          else if opcode = PongMessage then read_message c1
          else ((0, [], Some (ErrText (''websocket: unsupported opcode '' @ format_int (int opcode)))), c1))"
  by pat_completeness auto

termination
  by (relation "measure (\<lambda>c. length (cn_in c))") (auto dest!: read_frame_less write_control_less)

declare read_message.simps [simp del]

text \<open>Reading until an error: the messages, and the error that ends the connection.\<close>

definition next_message :: "conn \<Rightarrow> (nat \<times> byte list) res \<times> conn" where
  "next_message c =
     (case read_message c of
        ((t, p, None), c1) \<Rightarrow> (Inr (t, p), c1)
      | ((t, p, Some err), c1) \<Rightarrow> (Inl err, c1))"

subsection \<open>The handshake\<close>

text \<open>
  Headers are a map from canonical keys to lists of values. \<open>hijack\<close> is what the response writer
  offers: nothing, an error, or the connection. Go ranges over the response headers in an order it
  leaves open, the parameter \<open>iter\<close>.
\<close>

type_synonym headers = "string \<Rightarrow> string list"

record upgrader =
  up_subprotocols :: "string list"
  up_check_origin :: "(headers \<Rightarrow> bool) option"

definition header_get :: "headers \<Rightarrow> string \<Rightarrow> string" where
  "header_get h key = (case h key of [] \<Rightarrow> [] | v # _ \<Rightarrow> v)"

definition header_contains_token :: "headers \<Rightarrow> string \<Rightarrow> string \<Rightarrow> bool" where
  "header_contains_token h key token =
     list_ex (\<lambda>v. list_ex (\<lambda>part. equal_fold (trim_space part) token) (split_all (CHR '','') v))
       (if h key = [] then [header_get h key] else h key)"

definition parse_subprotocols :: "string \<Rightarrow> string list" where
  "parse_subprotocols header =
     (if header = [] then [] else filter (\<lambda>v. v \<noteq> []) (map trim_space (split_all (CHR '','') header)))"

definition choose_subprotocol :: "string list \<Rightarrow> string list \<Rightarrow> string option" where
  "choose_subprotocol supported offered = find (\<lambda>sp. sp \<in> set offered) supported"

definition compute_accept_key :: "string \<Rightarrow> string" where
  "compute_accept_key key = base64 (sha1 (bytes_of (key @ ''258EAFA5-E914-47DA-95CA-C5AB0DC85B11'')))"

definition set_header :: "string \<Rightarrow> string \<Rightarrow> (string \<times> string list) list \<Rightarrow> (string \<times> string list) list" where
  "set_header k v hs = (k, [v]) # filter (\<lambda>h. fst h \<noteq> k) hs"

definition crlf :: string where "crlf = [CHR 0x0D, CHR 0x0A]"

definition handshake_text :: "(string \<times> string list) list \<Rightarrow> string" where
  "handshake_text hs =
     ''HTTP/1.1 101 Switching Protocols'' @ crlf @
     concat (map (\<lambda>h. concat (map (\<lambda>v. fst h @ '': '' @ v @ crlf) (snd h))) hs) @ crlf"

definition write_handshake :: "(string \<times> string list) list \<Rightarrow> conn \<Rightarrow> conn res" where
  "write_handshake hs c =
     (case cn_write_err c of
        Some err \<Rightarrow> Inl err
      | None \<Rightarrow> Inr (c\<lparr>cn_out := cn_out c @ bytes_of (handshake_text hs)\<rparr>))"

definition response_headers :: "string \<Rightarrow> string \<Rightarrow> (string \<times> string list) list \<Rightarrow> (string \<times> string list) list" where
  "response_headers key protocol hs =
     (let hs' = set_header ''Sec-Websocket-Accept'' (compute_accept_key key)
                  (set_header ''Connection'' ''Upgrade'' (set_header ''Upgrade'' ''websocket'' hs))
      in if protocol \<noteq> [] then set_header ''Sec-Websocket-Protocol'' protocol hs' else hs')"

definition upgrade ::
  "upgrader \<Rightarrow> headers \<Rightarrow> conn res option \<Rightarrow> (string \<times> string list) list \<Rightarrow>
   ((string \<times> string list) list \<Rightarrow> (string \<times> string list) list) \<Rightarrow> conn res" where
  "upgrade u h hijack response_header iter =
     (if (case up_check_origin u of None \<Rightarrow> False | Some check \<Rightarrow> \<not> check h)
      then Inl (ErrText ''websocket: origin not allowed'')
      else if \<not> header_contains_token h ''Connection'' ''Upgrade'' \<or> \<not> header_contains_token h ''Upgrade'' ''websocket''
      then Inl (ErrText ''websocket: not a websocket handshake'')
      else
        let key = trim_space (header_get h ''Sec-Websocket-Key'');
            chosen = choose_subprotocol (up_subprotocols u)
              (parse_subprotocols (header_get h ''Sec-Websocket-Protocol''))
        in if key = [] then Inl (ErrText ''websocket: missing Sec-WebSocket-Key'')
           else if up_subprotocols u \<noteq> [] \<and> chosen = None
           then Inl (ErrText ''websocket: required subprotocol not offered'')
           else
             let protocol = (case chosen of None \<Rightarrow> [] | Some sp \<Rightarrow> sp)
             in (case hijack of
                   None \<Rightarrow> Inl (ErrText ''websocket: response writer does not support hijacking'')
                 | Some (Inl err) \<Rightarrow> Inl (ErrWrap ''websocket: hijack failed: '' err)
                 | Some (Inr c) \<Rightarrow>
                     (case write_handshake (iter (response_headers key protocol response_header)) c of
                        Inl err \<Rightarrow> Inl err
                      | Inr c' \<Rightarrow> Inr (c'\<lparr>cn_subprotocol := protocol\<rparr>))))"

end
