(* ===== verification/CsmsWsProps.thy ===== *)
theory CsmsWsProps
  imports CsmsWs
begin

section \<open>Properties of the WebSocket framing\<close>

text \<open>
  Frames as RFC 6455 lays them out: a client's frames are masked, a server's are not. What a client
  sends is what is read, what is written is what a client decodes, and reading comes to an end.
\<close>

subsection \<open>Bytes of the header\<close>

lemma mask_7: "(0x7F :: byte) = mask 7" and mask_4: "(0x0F :: byte) = mask 4"
  by (simp_all add: mask_eq_exp_minus_1)

lemma low_bits:
  assumes "n < 128" shows "unat ((0x80 OR word_of_nat n :: byte) AND 0x7F) = n"
proof -
  have "(0x80 OR word_of_nat n :: byte) AND 0x7F = word_of_nat n AND 0x7F"
    by (simp add: bit.conj_disj_distrib2)
  also have "\<dots> = take_bit 7 (word_of_nat n)" by (simp only: mask_7 take_bit_eq_mask)
  finally show ?thesis
    using assms by (simp add: unsigned_take_bit_eq unsigned_of_nat take_bit_nat_eq_self)
qed

lemma low_nibble:
  assumes "n < 16" shows "unat ((0x80 OR word_of_nat n :: byte) AND 0x0F) = n"
proof -
  have "(0x80 OR word_of_nat n :: byte) AND 0x0F = word_of_nat n AND 0x0F"
    by (simp add: bit.conj_disj_distrib2)
  also have "\<dots> = take_bit 4 (word_of_nat n)" by (simp only: mask_4 take_bit_eq_mask)
  finally show ?thesis
    using assms by (simp add: unsigned_take_bit_eq unsigned_of_nat take_bit_nat_eq_self)
qed

lemma high_bit: "(0x80 OR w :: byte) AND 0x80 \<noteq> 0"
proof -
  have "bit ((0x80 OR w :: byte) AND 0x80) 7" by (simp add: bit_simps)
  then show ?thesis by auto
qed

lemma length_apply_mask [simp]: "length (apply_mask key p) = length p"
  by (simp add: apply_mask_def)

text \<open>Masking twice with the same key gives the payload back.\<close>

lemma apply_mask_twice: "apply_mask key (apply_mask key p) = p"
  by (rule nth_equalityI) (simp_all add: apply_mask_def xor.assoc)

subsection \<open>Frames of a client\<close>

definition client_frame :: "nat \<Rightarrow> byte list \<Rightarrow> byte list \<Rightarrow> byte list" where
  "client_frame opcode key payload =
     (let n = length payload
      in [0x80 OR word_of_nat opcode] @
         (if n < 126 then [0x80 OR word_of_nat n]
          else if n < 65536 then (0x80 OR word_of_nat 126) # put_be 2 n
          else (0x80 OR word_of_nat 127) # put_be 8 n) @
         key @ apply_mask key payload)"

lemma read_full_append [simp]:
  "cn_in c = bs @ rest \<Longrightarrow> length bs = n \<Longrightarrow> read_full n c = (Inr bs, c\<lparr>cn_in := rest\<rparr>)"
  by (simp add: read_full_def)

lemma read_byte_Cons [simp]: "cn_in c = b # rest \<Longrightarrow> read_byte c = (Inr b, c\<lparr>cn_in := rest\<rparr>)"
  by (simp add: read_byte_def)

lemma payload_length_small: "n < 126 \<Longrightarrow> payload_length n c = (Inr n, c)"
  by (simp add: payload_length_def)

lemma payload_length_16:
  assumes "n < 65536" and "cn_in c = put_be 2 n @ rest"
  shows "payload_length 126 c = (Inr n, c\<lparr>cn_in := rest\<rparr>)"
  using assms get_put_be [of n 2] by (simp add: payload_length_def)

lemma payload_length_64:
  assumes "n < 2 ^ 63" and "cn_in c = put_be 8 n @ rest"
  shows "payload_length 127 c = (Inr n, c\<lparr>cn_in := rest\<rparr>)"
proof -
  have "get_be (put_be 8 n) = n" using assms(1) by (intro get_put_be) simp
  then show ?thesis using assms by (simp add: payload_length_def)
qed

lemma read_client_frame:
  assumes "opcode < 16" and "length key = 4" and "length payload \<le> max_alloc"
    and "cn_in c = client_frame opcode key payload @ rest"
  shows "read_frame c = (Inr (True, opcode, payload), c\<lparr>cn_in := rest\<rparr>)"
proof -
  let ?n = "length payload"
  define code ext where "code = (if ?n < 126 then ?n else if ?n < 65536 then 126 else 127)"
    and "ext = (if ?n < 126 then [] else if ?n < 65536 then put_be 2 ?n else put_be 8 ?n)"
  have "cn_in c = (0x80 OR word_of_nat opcode) # (0x80 OR word_of_nat code) # ext @ key @ apply_mask key payload @ rest"
    using assms(4) by (simp add: client_frame_def code_def ext_def Let_def)
  moreover have "payload_length (unat ((0x80 OR word_of_nat code :: byte) AND 0x7F)) d =
      (Inr ?n, d\<lparr>cn_in := r\<rparr>)" if "cn_in d = ext @ r" for d r
  proof -
    have "code < 128" by (simp add: code_def)
    then have "unat ((0x80 OR word_of_nat code :: byte) AND 0x7F) = code" by (rule low_bits)
    moreover have "?n < 2 ^ 63" using assms(3) by (simp add: max_alloc_def)
    ultimately show ?thesis
      using that payload_length_small [of ?n d] payload_length_16 [of ?n d r] payload_length_64 [of ?n d r]
      by (auto simp: code_def ext_def split: if_splits)
  qed
  ultimately show ?thesis
    using assms(1-3) high_bit low_nibble [OF assms(1)]
    by (simp add: read_frame_def apply_mask_twice not_less)
qed

subsection \<open>Reading until the stream ends\<close>

lemma read_lengths:
  "read_byte c = (Inr b, c') \<Longrightarrow> length (cn_in c) = length (cn_in c') + 1"
  "read_full n c = (Inr bs, c') \<Longrightarrow> length (cn_in c) = length (cn_in c') + n \<and> length bs = n"
  by (auto simp: read_byte_Inr read_full_Inr)

lemma read_frame_shrinks_payload:
  "read_frame c = (Inr (fin, t, p), c') \<Longrightarrow> length (cn_in c') + 6 + length p \<le> length (cn_in c)"
  unfolding read_frame_def
  by (auto simp: and_then_Inr split: if_splits dest!: read_lengths payload_length_shrinks)

lemma next_message_shrinks:
  "next_message c = (Inr (t, p), c') \<Longrightarrow> length (cn_in c') + 6 + length p \<le> length (cn_in c)"
proof (induction c rule: read_message.induct)
  case (1 c)
  show ?case
  proof (cases "read_frame c")
    case (Pair r c1)
    show ?thesis
    proof (cases r)
      case (Inl err)
      with 1 Pair show ?thesis by (simp add: next_message_def read_message.simps [of c])
    next
      case (Inr f)
      obtain fin opcode payload where f: "f = (fin, opcode, payload)" by (cases f)
      note len = read_frame_shrinks_payload [OF Pair [unfolded Inr f]]
      have nm: "next_message c =
         (if \<not> fin then (Inl (ErrText ''websocket: fragmented frames not supported''), c1)
          else if opcode = TextMessage \<or> opcode = BinaryMessage then (Inr (opcode, payload), c1)
          else if opcode = CloseMessage then (Inl io_eof, c1)
          else if opcode = PingMessage then
            (case write_control PongMessage payload c1 of
               (Inl err, c2) \<Rightarrow> (Inl err, c2)
             | (Inr _, c2) \<Rightarrow> next_message c2)
          else if opcode = PongMessage then next_message c1
          else (Inl (ErrText (''websocket: unsupported opcode '' @ format_int (int opcode))), c1))"
        by (simp add: next_message_def read_message.simps [of c] Pair Inr f split: prod.split sum.split)
      obtain wr c2 where wc: "write_control PongMessage payload c1 = (wr, c2)" by fastforce
      have c2: "cn_in c2 = cn_in c1" using write_control_in [OF wc] .
      note IH1 = "1.IH"(1) [OF Pair [symmetric] Inr f [symmetric] refl] and IH2 = "1.IH"(2) [OF Pair [symmetric] Inr f [symmetric] refl]
      show ?thesis using "1.prems" len c2 IH1 [OF _ _ _ _ wc [symmetric]] IH2
        unfolding nm by (auto simp: wc split: if_splits sum.splits)
    qed
  qed
qed

lemma next_message_less: "(Inr m, c') = next_message c \<Longrightarrow> length (cn_in c') < length (cn_in c)"
  using next_message_shrinks [of c "fst m" "snd m" c'] by simp

function read_all :: "conn \<Rightarrow> (nat \<times> byte list) list \<times> go_error \<times> conn" where
  "read_all c =
     (case next_message c of
        (Inl err, c1) \<Rightarrow> ([], err, c1)
      | (Inr m, c1) \<Rightarrow> (case read_all c1 of (ms, err, c2) \<Rightarrow> (m # ms, err, c2)))"
  by pat_completeness auto

termination
  by (relation "measure (\<lambda>c. length (cn_in c))") (auto dest: next_message_less)

declare read_all.simps [simp del]

subsection \<open>What the peer decodes\<close>

text \<open>A server's frame as a client reads it: opcode, payload and the rest of the stream.\<close>

definition decode_frame :: "byte list \<Rightarrow> (nat \<times> byte list \<times> byte list) option" where
  "decode_frame bs =
     (case bs of
        first # second # r \<Rightarrow>
          let n = unat (second AND 0x7F); k = (if n = 126 then 2 else if n = 127 then 8 else 0);
              len = (if k = 0 then n else get_be (take k r))
          in if first AND 0x80 \<noteq> 0 \<and> second AND 0x80 = 0 \<and> k + len \<le> length r
             then Some (unat (first AND 0x0F), take len (drop k r), drop (k + len) r)
             else None
      | _ \<Rightarrow> None)"

fun decode_frames :: "nat \<Rightarrow> byte list \<Rightarrow> (nat \<times> byte list) list option" where
  "decode_frames 0 bs = None"
| "decode_frames (Suc n) bs =
     (if bs = [] then Some []
      else (case decode_frame bs of
          None \<Rightarrow> None
        | Some (t, p, r) \<Rightarrow> map_option ((#) (t, p)) (decode_frames n r)))"

lemma plain_bits:
  assumes "n < 128" shows "unat (word_of_nat n AND 0x7F :: byte) = n" and "(word_of_nat n AND 0x80 :: byte) = 0"
proof -
  have "(word_of_nat n AND 0x7F :: byte) = take_bit 7 (word_of_nat n)" by (simp only: mask_7 take_bit_eq_mask)
  then show "unat (word_of_nat n AND 0x7F :: byte) = n"
    using assms by (simp add: unsigned_take_bit_eq unsigned_of_nat take_bit_nat_eq_self)
  have "take_bit 7 (word_of_nat n :: byte) = word_of_nat n"
    using assms by (simp add: take_bit_of_nat take_bit_nat_eq_self)
  then have "(word_of_nat n :: byte) = word_of_nat n AND 0x7F" by (simp only: mask_7 take_bit_eq_mask)
  then have "(word_of_nat n AND 0x80 :: byte) = (word_of_nat n AND 0x7F) AND 0x80" by simp
  then show "(word_of_nat n AND 0x80 :: byte) = 0" by (simp add: and.assoc)
qed

lemma decode_written:
  assumes "t < 16" and "length data < 2 ^ 63"
  shows "decode_frame (frame_header t (length data) @ data @ r) = Some (t, data, r)"
proof -
  let ?n = "length data"
  have "unat (word_of_nat 126 AND 0x7F :: byte) = 126" "unat (word_of_nat 127 AND 0x7F :: byte) = 127"
    by (simp_all only: plain_bits)
  consider "?n < 126" | "126 \<le> ?n" "?n < 65536" | "65536 \<le> ?n" by linarith
  then show ?thesis
  proof cases
    case 1
    then show ?thesis using plain_bits [of ?n] low_nibble [OF assms(1)] high_bit
      by (simp add: decode_frame_def frame_header_def Let_def)
  next
    case 2
    then show ?thesis using get_put_be [of ?n 2] low_nibble [OF assms(1)] high_bit
      by (simp add: decode_frame_def frame_header_def Let_def)
  next
    case 3
    have "get_be (put_be 8 ?n) = ?n" using assms(2) by (intro get_put_be) simp
    then show ?thesis using 3 low_nibble [OF assms(1)] high_bit
      by (simp add: decode_frame_def frame_header_def Let_def)
  qed
qed

fun write_all :: "(nat \<times> byte list) list \<Rightarrow> conn \<Rightarrow> conn" where
  "write_all [] c = c"
| "write_all ((t, p) # ms) c = write_all ms (snd (write_message t p c))"

definition sendable :: "nat \<times> byte list \<Rightarrow> bool" where
  "sendable m \<longleftrightarrow> fst m \<in> {TextMessage, BinaryMessage, CloseMessage} \<and> length (snd m) < 2 ^ 63"

lemma write_all_out:
  "list_all sendable ms \<Longrightarrow> cn_write_err c = None \<Longrightarrow>
     cn_out (write_all ms c) = cn_out c @ concat (map (\<lambda>m. frame_header (fst m) (length (snd m)) @ snd m) ms)"
  by (induction ms c rule: write_all.induct) (auto simp: sendable_def write_message_def)

lemma decode_frames_all:
  "list_all sendable ms \<Longrightarrow> length ms < n \<Longrightarrow>
     decode_frames n (concat (map (\<lambda>m. frame_header (fst m) (length (snd m)) @ snd m) ms)) = Some ms"
proof (induction ms arbitrary: n)
  case Nil
  then show ?case by (cases n) simp_all
next
  case (Cons m ms)
  obtain k where k: "n = Suc k" using Cons.prems(2) by (cases n) auto
  obtain t p where m: "m = (t, p)" by (cases m)
  have "t < 16" "length p < 2 ^ 63" using Cons.prems(1) by (auto simp: sendable_def m message_types)
  from decode_written [OF this] show ?case
    using Cons by (simp add: k m frame_header_def [THEN arg_cong, of "\<lambda>x. x = []"])
qed

lemma next_client_frame:
  assumes "length key = 4" and "length p \<le> max_alloc" and "t < 16"
    and "cn_in c = client_frame t key p @ rest"
  shows "t = TextMessage \<or> t = BinaryMessage \<Longrightarrow> next_message c = (Inr (t, p), c\<lparr>cn_in := rest\<rparr>)"
    and "t = PongMessage \<Longrightarrow> next_message c = next_message (c\<lparr>cn_in := rest\<rparr>)"
    and "t = CloseMessage \<Longrightarrow> next_message c = (Inl io_eof, c\<lparr>cn_in := rest\<rparr>)"
    and "t = PingMessage \<Longrightarrow> cn_deadline_err c = None \<Longrightarrow> next_message c =
      (Inl (ErrText ''websocket: unsupported message type 10''), c\<lparr>cn_in := rest\<rparr>)"
proof -
  note frame = read_client_frame [OF assms(3,1,2,4)]
  show "t = TextMessage \<or> t = BinaryMessage \<Longrightarrow> next_message c = (Inr (t, p), c\<lparr>cn_in := rest\<rparr>)"
    and "t = PongMessage \<Longrightarrow> next_message c = next_message (c\<lparr>cn_in := rest\<rparr>)"
    and "t = CloseMessage \<Longrightarrow> next_message c = (Inl io_eof, c\<lparr>cn_in := rest\<rparr>)"
    by (auto simp: next_message_def read_message.simps [of c] frame message_types)
  have "format_int 10 = ''10''" by code_simp
  then show "t = PingMessage \<Longrightarrow> cn_deadline_err c = None \<Longrightarrow> next_message c =
      (Inl (ErrText ''websocket: unsupported message type 10''), c\<lparr>cn_in := rest\<rparr>)"
    by (simp add: next_message_def read_message.simps [of c] frame write_control_def write_message_def message_types)
qed

definition client_ok :: "nat \<times> byte list \<times> byte list \<Rightarrow> bool" where
  "client_ok f \<longleftrightarrow> fst f \<in> {TextMessage, BinaryMessage, PongMessage} \<and> length (fst (snd f)) = 4 \<and>
     length (snd (snd f)) \<le> max_alloc"

definition client_stream :: "(nat \<times> byte list \<times> byte list) list \<Rightarrow> byte list" where
  "client_stream fs = concat (map (\<lambda>f. client_frame (fst f) (fst (snd f)) (snd (snd f))) fs)"

definition data_messages :: "(nat \<times> byte list \<times> byte list) list \<Rightarrow> (nat \<times> byte list) list" where
  "data_messages fs = map (\<lambda>f. (fst f, snd (snd f))) (filter (\<lambda>f. fst f \<noteq> PongMessage) fs)"

lemma read_all_stream:
  "list_all client_ok fs \<Longrightarrow> cn_in c = client_stream fs \<Longrightarrow>
     read_all c = (data_messages fs, io_eof, c\<lparr>cn_in := []\<rparr>)"
proof (induction fs arbitrary: c)
  case Nil
  then have "next_message c = (Inl io_eof, c)"
    by (simp add: client_stream_def next_message_def read_message.simps [of c] read_frame_def read_byte_def)
  moreover have "c\<lparr>cn_in := []\<rparr> = c" using Nil.prems(2) by (simp add: client_stream_def)
  ultimately show ?case by (simp add: read_all.simps [of c] data_messages_def)
next
  case (Cons f fs)
  obtain t key p where f: "f = (t, key, p)" by (cases f)
  have ok: "length key = 4" "length p \<le> max_alloc" "t < 16"
      "t = TextMessage \<or> t = BinaryMessage \<or> t = PongMessage"
    using Cons.prems(1) by (auto simp: f client_ok_def message_types)
  have "cn_in c = client_frame t key p @ client_stream fs"
    using Cons.prems(2) by (simp add: f client_stream_def)
  note frame = next_client_frame [OF ok(1-3) this]
  have IH: "read_all (c\<lparr>cn_in := client_stream fs\<rparr>) = (data_messages fs, io_eof, c\<lparr>cn_in := []\<rparr>)"
    using Cons.IH [of "c\<lparr>cn_in := client_stream fs\<rparr>"] Cons.prems(1) by simp
  show ?case
  proof (cases "t = PongMessage")
    case True
    have "read_all c = read_all (c\<lparr>cn_in := client_stream fs\<rparr>)"
      by (simp add: read_all.simps [of c] read_all.simps [of "c\<lparr>cn_in := client_stream fs\<rparr>"] frame(2) [OF True])
    then show ?thesis using IH True by (simp add: data_messages_def f)
  next
    case False
    with ok(4) have "t = TextMessage \<or> t = BinaryMessage" by blast
    from frame(1) [OF this] show ?thesis using IH False
      by (simp add: read_all.simps [of c] data_messages_def f)
  qed
qed

lemma read_all_bound:
  "read_all c = (ms, err, c') \<Longrightarrow> 6 * length ms + sum_list (map (\<lambda>m. length (snd m)) ms) \<le> length (cn_in c)"
proof (induction c arbitrary: ms err c' rule: read_all.induct)
  case (1 c)
  show ?case
  proof (cases "next_message c")
    case (Pair r c1)
    show ?thesis
    proof (cases r)
      case (Inl e)
      then show ?thesis using "1.prems" Pair by (simp add: read_all.simps [of c])
    next
      case (Inr m)
      obtain ms' where ms: "read_all c1 = (ms', err, c')" "ms = m # ms'"
        using "1.prems" Pair Inr by (auto simp: read_all.simps [of c] split: prod.splits)
      from "1.IH" [OF Pair [symmetric] Inr ms(1)] next_message_shrinks [of c "fst m" "snd m" c1] Pair Inr ms(2)
      show ?thesis by simp
    qed
  qed
qed

subsection \<open>Properties\<close>

text \<open>C28: Whatever text and binary messages and pongs a client sends, masked with any keys, the server reads
  exactly the messages, in order and unchanged, for all three encodings of the length, and then the
  end of the stream.\<close>

theorem ws_reads_what_is_sent:
  assumes "list_all client_ok fs" and "cn_in c = client_stream fs"
  shows "read_all c = (data_messages fs, io_eof, c\<lparr>cn_in := []\<rparr>)"
  using assms by (rule read_all_stream)

text \<open>C29: Whatever messages the server writes, a client that reads the stream decodes exactly these
  messages, in order.\<close>

theorem ws_writes_are_decoded:
  assumes "list_all sendable ms" and "cn_write_err c = None" and "cn_out c = []"
  shows "decode_frames (Suc (length ms)) (cn_out (write_all ms c)) = Some ms"
  using decode_frames_all [OF assms(1), of "Suc (length ms)"] write_all_out [OF assms(1,2)] assms(3) by simp

text \<open>C34: Reading ends on every stream of bytes, valid or not: after finitely many messages, each of which
  has used up its payload and six bytes, an error is reported.\<close>

theorem ws_reading_ends:
  "\<exists>ms err c'. read_all c = (ms, err, c') \<and>
     6 * length ms + sum_list (map (\<lambda>m. length (snd m)) ms) \<le> length (cn_in c)"
  using read_all_bound [of c] by (metis prod_cases3)

text \<open>A ping from the client ends the connection with an error instead of being answered by a pong:
  the pong is sent through \<open>WriteMessage\<close>, which does not know its type.\<close>

theorem ws_ping_ends_reading:
  assumes "list_all client_ok fs" and "length key = 4" and "length p \<le> max_alloc" and "cn_deadline_err c = None"
    and "cn_in c = client_frame PingMessage key p @ client_stream fs"
  shows "read_all c = ([], ErrText ''websocket: unsupported message type 10'', c\<lparr>cn_in := client_stream fs\<rparr>)"
  using next_client_frame(4) [OF assms(2,3) _ assms(5)] assms(4)
  by (simp add: read_all.simps [of c] message_types)

subsection \<open>Witnesses\<close>

definition demo_conn :: "byte list \<Rightarrow> conn" where
  "demo_conn bs = \<lparr>cn_in = bs, cn_out = [], cn_write_err = None, cn_deadline_err = None, cn_subprotocol = []\<rparr>"

definition demo_frames :: "(nat \<times> byte list \<times> byte list) list" where
  "demo_frames = [(1, [1, 2, 3, 4], [72, 105]), (10, [9, 9, 9, 9], []), (2, [5, 6, 7, 8], replicate 200 7)]"

lemma demo_frames_ok: "list_all client_ok demo_frames"
  by (simp add: demo_frames_def client_ok_def message_types max_alloc_def)

theorem ws_reads_what_is_sent_witness:
  "fst (read_all (demo_conn (client_stream demo_frames))) = [(1, [72, 105]), (2, replicate 200 7)]"
proof -
  have "cn_in (demo_conn (client_stream demo_frames)) = client_stream demo_frames" by (simp add: demo_conn_def)
  from ws_reads_what_is_sent [OF demo_frames_ok this] show ?thesis
    by (simp add: data_messages_def demo_frames_def message_types)
qed

theorem ws_writes_are_decoded_witness:
  "decode_frames 3 (cn_out (write_all [(1, [72, 105]), (8, replicate 300 0)] (demo_conn []))) =
     Some [(1, [72, 105]), (8, replicate 300 0)]"
proof -
  have "list_all sendable [(1, [72, 105]), (8, replicate 300 0)]" by (simp add: sendable_def message_types)
  from ws_writes_are_decoded [OF this, of "demo_conn []"] show ?thesis
    by (simp add: demo_conn_def numeral_3_eq_3 del: write_all.simps)
qed

end
