(* ===== verification/Csms.thy ===== *)
theory Csms
  imports Http
begin

section \<open>The CSMS stub\<close>

text \<open>
  \<open>csms/main.go\<close>: one connection of \<open>ocppHandler\<close>. The WebSocket library is a parameter: the
  subprotocol it agreed on (or the failed upgrade), the messages it reads, each with the time at which
  it is handled, and the errors of the \<open>n\<close>-th write. What is written to the log is left out.
\<close>

definition ocpp_subprotocol :: string where "ocpp_subprotocol = ''ocpp2.0''"
definition heartbeat_interval :: int where "heartbeat_interval = 10"

datatype sent = SentText json | SentClose nat string

text \<open>A value of Go type \<open>any\<close>, seen as \<open>float64\<close>, \<open>string\<close> or map; the zero value otherwise.\<close>

definition as_float :: "json \<Rightarrow> f64" where
  "as_float j = (case number_f64 j of Some x \<Rightarrow> x | None \<Rightarrow> Fin 0)"

definition as_string :: "json \<Rightarrow> string" where
  "as_string j = (case j of JStr s \<Rightarrow> s | _ \<Rightarrow> [])"

definition member :: "string \<Rightarrow> json \<Rightarrow> json option" where
  "member k j = (case j of JObj ms \<Rightarrow> map_of (rev ms) k | _ \<Rightarrow> None)"

definition string_member :: "string \<Rightarrow> json \<Rightarrow> string option" where
  "string_member k j = (case member k j of Some (JStr s) \<Rightarrow> Some s | _ \<Rightarrow> None)"

text \<open>\<open>json.Unmarshal\<close> into \<open>[]any\<close>\<close>

definition decode_slice :: "body \<Rightarrow> json list res" where
  "decode_slice b =
     (case b of
        NotJson _ \<Rightarrow> Inl ErrSyntax
      | Json (JArr js) \<Rightarrow> if list_all numbers_fit js then Inr js else Inl (ErrType [])
      | Json JNull \<Rightarrow> Inr []
      | Json _ \<Rightarrow> Inl (ErrType []))"

definition parse_boot_notification :: "json list \<Rightarrow> string \<times> string \<times> string" where
  "parse_boot_notification frame =
     (if length frame < 4 then ([], [], [])
      else
        let payload = frame ! 3;
            or_empty = (\<lambda>s. case s of None \<Rightarrow> [] | Some t \<Rightarrow> t);
            reason = or_empty (string_member ''reason'' payload)
        in (case member ''chargingStation'' payload of
              Some (JObj ms) \<Rightarrow>
                let cs = JObj ms; vendor = or_empty (string_member ''vendorName'' cs);
                    model = or_empty (string_member ''model'' cs);
                    serial = or_empty (string_member ''serialNumber'' cs)
                in (vendor, if serial \<noteq> [] then model @ '' (S/N '' @ serial @ '')'' else model, reason)
            | _ \<Rightarrow> ([], [], reason)))"

text \<open>\<open>time.Now().UTC().Format(time.RFC3339)\<close>, for years of four digits.\<close>

definition format_seconds :: "time \<Rightarrow> string" where
  "format_seconds t = (case format_rfc3339 (t div second * second) of None \<Rightarrow> [] | Some s \<Rightarrow> s)"

definition boot_response :: "time \<Rightarrow> string \<Rightarrow> json" where
  "boot_response now uid =
     JArr [JInt 3, JStr uid, JObj [(''currentTime'', JStr (format_seconds now)),
       (''interval'', JInt heartbeat_interval), (''status'', JStr ''Accepted'')]]"

definition heartbeat_response :: "time \<Rightarrow> string \<Rightarrow> json" where
  "heartbeat_response now uid = JArr [JInt 3, JStr uid, JObj [(''currentTime'', JStr (format_seconds now))]]"

fun ocpp_loop :: "(nat \<Rightarrow> go_error option) \<Rightarrow> nat \<Rightarrow> (time \<times> (nat \<times> body) res) list \<Rightarrow> sent list" where
  "ocpp_loop werr n [] = []"
| "ocpp_loop werr n ((now, Inl err) # rest) = []"
| "ocpp_loop werr n ((now, Inr (msg_type, msg)) # rest) =
     (if msg_type \<noteq> 1 then ocpp_loop werr n rest
      else (case decode_slice msg of
          Inl err \<Rightarrow> ocpp_loop werr n rest
        | Inr frame \<Rightarrow>
            if length frame < 3 then ocpp_loop werr n rest
            else
              let typ = as_float (frame ! 0); uid = as_string (frame ! 1); action = as_string (frame ! 2)
              in if to_int64 typ = 2 then
                   if action = ''BootNotification'' then
                     (case werr n of
                        Some err \<Rightarrow> []
                      | None \<Rightarrow> SentText (boot_response now uid) # ocpp_loop werr (n + 1) rest)
                   else if action = ''Heartbeat'' then
                     (case werr n of
                        Some err \<Rightarrow> []
                      | None \<Rightarrow> SentText (heartbeat_response now uid) #
                          (case werr (n + 1) of
                             Some err \<Rightarrow> []
                           | None \<Rightarrow> [SentClose 1000 ''Heartbeat test complete'']))
                   else ocpp_loop werr n rest
                 else ocpp_loop werr n rest))"

definition station_of_path :: "string \<Rightarrow> string" where
  "station_of_path path =
     (let s = trim_char (CHR ''/'') (if has_prefix path ''/ocpp/'' then drop 6 path else path)
      in if s = [] then ''unknown'' else s)"

definition ocpp_handler ::
  "string res \<Rightarrow> (nat \<Rightarrow> go_error option) \<Rightarrow> (time \<times> (nat \<times> body) res) list \<Rightarrow> sent list" where
  "ocpp_handler upgraded werr msgs =
     (case upgraded of
        Inl err \<Rightarrow> []
      | Inr subprotocol \<Rightarrow> if subprotocol \<noteq> ocpp_subprotocol then [] else ocpp_loop werr 0 msgs)"

text \<open>
  The default mux of \<open>main\<close>: \<open>/ocpp/\<close> is a subtree, to whose root \<open>ServeMux\<close> redirects the path without the
  slash; a connection is handed its station's name.
\<close>

datatype csms_target = CsmsHealth response | CsmsOcpp string | CsmsRedirect string | CsmsNotFound response

definition csms_health :: response where
  "csms_health =
     \<lparr>rs_status = 200, rs_headers = [(''Content-Type'', ''text/plain; charset=utf-8'')], rs_body = NotJson ''ok''\<rparr>"

definition csms_mux :: "string \<Rightarrow> csms_target" where
  "csms_mux path =
     (if path = ''/health'' then CsmsHealth csms_health
      else if has_prefix path ''/ocpp/'' then CsmsOcpp (station_of_path path)
      else if path = ''/ocpp'' then CsmsRedirect ''/ocpp/''
      else CsmsNotFound (http_error ''404 page not found'' 404))"

subsection \<open>The reference\<close>

text \<open>A call as the stub sees it: its time, unique id and action.\<close>

definition call_of :: "time \<times> (nat \<times> body) res \<Rightarrow> (time \<times> string \<times> string) option" where
  "call_of m =
     (case m of
        (now, Inr (msg_type, msg)) \<Rightarrow>
          (case decode_slice msg of
             Inr frame \<Rightarrow>
               if msg_type = 1 \<and> 3 \<le> length frame \<and> to_int64 (as_float (frame ! 0)) = 2
               then Some (now, as_string (frame ! 1), as_string (frame ! 2)) else None
           | Inl _ \<Rightarrow> None)
      | _ \<Rightarrow> None)"

definition stub_calls :: "(time \<times> (nat \<times> body) res) list \<Rightarrow> (time \<times> string \<times> string) list" where
  "stub_calls msgs = List.map_filter call_of (takeWhile (\<lambda>m. is_ok (snd m)) msgs)"

definition is_heartbeat :: "time \<times> string \<times> string \<Rightarrow> bool" where
  "is_heartbeat c \<longleftrightarrow> snd (snd c) = ''Heartbeat''"

definition boot_answers :: "(time \<times> string \<times> string) list \<Rightarrow> sent list" where
  "boot_answers cs = map (\<lambda>c. SentText (boot_response (fst c) (fst (snd c))))
     (filter (\<lambda>c. snd (snd c) = ''BootNotification'') cs)"

definition heartbeat_answers :: "(time \<times> string \<times> string) list \<Rightarrow> sent list" where
  "heartbeat_answers cs =
     (case cs of
        [] \<Rightarrow> []
      | c # _ \<Rightarrow> [SentText (heartbeat_response (fst c) (fst (snd c))), SentClose 1000 ''Heartbeat test complete''])"

lemma loop_answers:
  "ocpp_loop (\<lambda>_. None) n msgs =
     boot_answers (takeWhile (\<lambda>c. \<not> is_heartbeat c) (stub_calls msgs)) @
     heartbeat_answers (dropWhile (\<lambda>c. \<not> is_heartbeat c) (stub_calls msgs))"
proof (induction "\<lambda>_ :: nat. None :: go_error option" n msgs rule: ocpp_loop.induct)
  case (1 n)
  then show ?case by (simp add: stub_calls_def boot_answers_def heartbeat_answers_def)
next
  case (2 n now err rest)
  then show ?case by (simp add: stub_calls_def boot_answers_def heartbeat_answers_def)
next
  case (3 n now msg_type msg rest)
  have calls: "stub_calls ((now, Inr (msg_type, msg)) # rest) =
      (case call_of (now, Inr (msg_type, msg)) of None \<Rightarrow> stub_calls rest | Some c \<Rightarrow> c # stub_calls rest)"
    by (simp add: stub_calls_def List.map_filter_simps split: option.split)
  show ?case
  proof (cases "call_of (now, Inr (msg_type, msg))")
    case None
    then show ?thesis using 3 calls
      by (auto simp: call_of_def Let_def split: sum.splits if_splits)
  next
    case (Some c)
    then obtain frame where "decode_slice msg = Inr frame" "msg_type = 1" "3 \<le> length frame"
        "to_int64 (as_float (frame ! 0)) = 2" "c = (now, as_string (frame ! 1), as_string (frame ! 2))"
      by (auto simp: call_of_def split: sum.splits if_splits)
    then show ?thesis using 3 calls Some
      by (auto simp: Let_def boot_answers_def heartbeat_answers_def is_heartbeat_def)
  qed
qed

subsection \<open>Properties\<close>

text \<open>C32: Over a connection whose writes succeed the stub answers every BootNotification before the first
  Heartbeat under its own id, in order, with status Accepted, then answers that Heartbeat and closes;
  it sends nothing else, whatever is received, and nothing at all under another subprotocol.\<close>

theorem csms_answers:
  "ocpp_handler upgraded (\<lambda>_. None) msgs =
     (if upgraded = Inr ''ocpp2.0''
      then boot_answers (takeWhile (\<lambda>c. \<not> is_heartbeat c) (stub_calls msgs)) @
           heartbeat_answers (dropWhile (\<lambda>c. \<not> is_heartbeat c) (stub_calls msgs))
      else [])"
  by (auto simp: ocpp_handler_def ocpp_subprotocol_def loop_answers split: sum.split)

end
